(* ===== verification/Prelude.thy ===== *)
theory Prelude
  imports Complex_Main "HOL-Library.Word" "HOL-Library.AList" "HOL-Library.Char_ord"
    "HOL-Library.List_Lexorder" "HOL-Library.Multiset"
begin

text \<open>
  Shared vocabulary of the development: Go's dynamically typed values (\<open>any\<close>), Go maps
  as association lists, error results, the interfaces (locales) that several components
  satisfy, and the lemma collections the component theories extend.

  A Go map is an association list; only the lookup function \<open>map_of\<close> of it is observable.
  Reading a nil map and reading an empty map are the same in Go, so both are \<open>[]\<close>.
  Iteration order over a Go map is unspecified; where the source ranges over a map the
  model ranges over the list, so a lemma about all lists is a lemma about all orders.
\<close>

named_theorems defs \<open>definitions a component unfolds together\<close>
named_theorems preserves \<open>operations keep the component invariant\<close>

section \<open>Dynamically typed values\<close>

text \<open>
  float64 values: the finite ones are exact rationals (rounding is not modelled), and the
  three special values that \<open>strconv.ParseFloat\<close> can produce are kept apart, because the
  code's range checks and \<open>json.Marshal\<close> treat them specially.
\<close>

datatype gfloat = Fin rat | PosInf | NegInf | NotANumber

datatype gval =
    GNil
  | GBool bool
  | GInt int
  | GInt32 int
  | GInt64 int
  | GUint32 "32 word"
  | GUint64 "64 word"
  | GFloat gfloat
  | GFloat32 gfloat
  | GNumber string
  | GStr string
  | GStrs "string list"
  | GList "gval list"
  | GMap "(string \<times> gval) list"

type_synonym gmap = "(string \<times> gval) list"

text \<open>An \<open>error\<close> value: its text, and the slots when it is a \<open>MissingSlotError\<close>.\<close>

record gerr =
  err_text :: string
  err_slots :: "string list option"

definition plain_err :: "string \<Rightarrow> gerr" where
  "plain_err t = \<lparr>err_text = t, err_slots = None\<rparr>"

type_synonym 'a res = "gerr + 'a"

fun is_err :: "'e + 'a \<Rightarrow> bool" where
  "is_err (Inl _) = True"
| "is_err (Inr _) = False"

section \<open>Go maps\<close>

abbreviation mget :: "('k \<times> 'v) list \<Rightarrow> 'k \<Rightarrow> 'v option" where
  "mget \<equiv> map_of"

abbreviation mput :: "'k \<Rightarrow> 'v \<Rightarrow> ('k \<times> 'v) list \<Rightarrow> ('k \<times> 'v) list" where
  "mput \<equiv> AList.update"

abbreviation mdel :: "'k \<Rightarrow> ('k \<times> 'v) list \<Rightarrow> ('k \<times> 'v) list" where
  "mdel \<equiv> AList.delete"

abbreviation mkeys :: "('k \<times> 'v) list \<Rightarrow> 'k set" where
  "mkeys m \<equiv> fst ` set m"

text \<open>\<open>m[k]\<close> of a \<open>map[string]any\<close>: the zero value (nil) when the key is absent.\<close>

definition mval :: "gmap \<Rightarrow> string \<Rightarrow> gval" where
  "mval m k = (case mget m k of None \<Rightarrow> GNil | Some v \<Rightarrow> v)"

definition mhas :: "('k \<times> 'v) list \<Rightarrow> 'k \<Rightarrow> bool" where
  "mhas m k = (mget m k \<noteq> None)"

lemma mget_mput: "mget (mput k v m) k' = (if k = k' then Some v else mget m k')"
  by (simp add: update_conv')

lemma mget_mdel: "mget (mdel k m) k' = (if k = k' then None else mget m k')"
  by (simp add: delete_conv')

lemma mhas_iff: "mhas m k \<longleftrightarrow> k \<in> mkeys m"
  by (simp add: mhas_def map_of_eq_None_iff)

lemma mkeys_mput [simp]: "mkeys (mput k v m) = insert k (mkeys m)"
  by (induction m) auto

lemma mval_mput: "mval (mput k v m) k' = (if k = k' then v else mval m k')"
  by (simp add: mval_def mget_mput)

lemma mval_mdel: "mval (mdel k m) k' = (if k = k' then GNil else mval m k')"
  by (simp add: mval_def mget_mdel)

lemma mhas_mput: "mhas (mput k v m) k' \<longleftrightarrow> k = k' \<or> mhas m k'"
  by (simp add: mhas_def mget_mput)

lemma mhas_mdel: "mhas (mdel k m) k' \<longleftrightarrow> k \<noteq> k' \<and> mhas m k'"
  by (simp add: mhas_def mget_mdel)

lemmas map_laws = mget_mput mget_mdel mval_mput mval_mdel mhas_mput mhas_mdel

section \<open>The map interface\<close>

text \<open>
  What every client of a Go map relies on. The client operation proved here once is the
  loop ``for each allowed key, copy it over when present'', which the argument filters of
  the tool executor and the summary builders of the workflows share.
\<close>

locale go_map =
  fixes emp :: "'m"
    and get :: "'m \<Rightarrow> 'k \<Rightarrow> 'v option"
    and put :: "'k \<Rightarrow> 'v \<Rightarrow> 'm \<Rightarrow> 'm"
    and del :: "'k \<Rightarrow> 'm \<Rightarrow> 'm"
  assumes get_emp: "get emp k = None"
    and get_put: "get (put k v m) k' = (if k = k' then Some v else get m k')"
    and get_del: "get (del k m) k' = (if k = k' then None else get m k')"
begin

definition copy_keys :: "'k list \<Rightarrow> 'm \<Rightarrow> 'm \<Rightarrow> 'm" where
  "copy_keys ks src dst =
     fold (\<lambda>k out. case get src k of None \<Rightarrow> out | Some v \<Rightarrow> put k v out) ks dst"

lemma get_copy_keys:
  "get (copy_keys ks src dst) k =
     (if k \<in> set ks \<and> get src k \<noteq> None then get src k else get dst k)"
  unfolding copy_keys_def
  by (induction ks arbitrary: dst) (auto simp: get_put split: option.splits)

lemma get_del_keys:
  "get (fold del ks m) k = (if k \<in> set ks then None else get m k)"
  by (induction ks arbitrary: m) (auto simp: get_del)

lemma put_commute_get:
  "k \<noteq> k' \<Longrightarrow> get (put k v (put k' v' m)) x = get (put k' v' (put k v m)) x"
  by (auto simp: get_put)

end

interpretation gm: go_map "[] :: ('k \<times> 'v) list" mget mput mdel
  by unfold_locales (auto simp: mget_mput mget_mdel)

section \<open>Components as guarded state machines\<close>

text \<open>
  The contract a stateful component offers its callers: every operation keeps the
  component's invariant, so the invariant holds after any sequence of operations.
  Each component that owns state interprets this locale with its own step function.
\<close>

locale component =
  fixes init :: "'s"
    and step :: "'s \<Rightarrow> 'op \<Rightarrow> 's"
    and inv :: "'s \<Rightarrow> bool"
  assumes inv_init: "inv init"
    and inv_step: "inv s \<Longrightarrow> inv (step s x)"
begin

lemma inv_run_from: "inv s \<Longrightarrow> inv (foldl step s xs)"
  by (induction xs arbitrary: s) (auto intro: inv_step)

lemma inv_run: "inv (foldl step init xs)"
  by (rule inv_run_from) (rule inv_init)

lemma run_append: "foldl step s (xs @ ys) = foldl step (foldl step s xs) ys"
  by simp

end

text \<open>
  A component whose operations each touch one key only: what is stored under any other
  key is framed. The per-tenant and per-confirmation isolation results are instances.
\<close>

locale keyed_component = component init step inv
  for init :: "'s" and step :: "'s \<Rightarrow> 'op \<Rightarrow> 's" and inv :: "'s \<Rightarrow> bool" +
  fixes key_of :: "'op \<Rightarrow> 'k"
    and view :: "'s \<Rightarrow> 'k \<Rightarrow> 'v"
  assumes view_frame: "inv s \<Longrightarrow> key_of x \<noteq> k \<Longrightarrow> view (step s x) k = view s k"
    and view_local: "\<lbrakk>inv s; inv s'; view s (key_of x) = view s' (key_of x)\<rbrakk>
      \<Longrightarrow> view (step s x) (key_of x) = view (step s' x) (key_of x)"
begin

lemma view_run_frame:
  "inv s \<Longrightarrow> \<forall>x \<in> set xs. key_of x \<noteq> k \<Longrightarrow> view (foldl step s xs) k = view s k"
  by (induction xs arbitrary: s) (auto simp: view_frame inv_step)

text \<open>Non-interference: what a key observes depends on its own operations alone.\<close>

lemma view_run_filter:
  assumes "inv s" and "inv s'" and "view s k = view s' k"
  shows "view (foldl step s xs) k = view (foldl step s' (filter (\<lambda>x. key_of x = k) xs)) k"
  using assms
proof (induction xs arbitrary: s s')
  case Nil
  then show ?case by simp
next
  case (Cons x xs)
  show ?case
  proof (cases "key_of x = k")
    case True
    with Cons.prems have "view (step s x) k = view (step s' x) k"
      using view_local by blast
    with Cons.prems have
      "view (foldl step (step s x) xs) k
        = view (foldl step (step s' x) (filter (\<lambda>x. key_of x = k) xs)) k"
      by (intro Cons.IH) (auto intro: inv_step)
    with True show ?thesis by simp
  next
    case False
    with Cons.prems have "view (step s x) k = view s' k"
      by (simp add: view_frame)
    with Cons.prems have
      "view (foldl step (step s x) xs) k
        = view (foldl step s' (filter (\<lambda>x. key_of x = k) xs)) k"
      by (intro Cons.IH) (auto intro: inv_step)
    with False show ?thesis by simp
  qed
qed

end

section \<open>Lists\<close>

lemma count_list_remove1: "count_list (remove1 x xs) y = count_list xs y - (if x = y then 1 else 0)"
  by (induction xs) auto

lemma find_Some_iff_first: "find P xs = Some x \<Longrightarrow> P x \<and> x \<in> set xs"
  by (auto simp: find_Some_iff)

text \<open>Keep the first occurrence of each element, as the \<open>seen\<close> loops of the source do.\<close>

fun uniq_by :: "('a \<Rightarrow> 'b) \<Rightarrow> 'b list \<Rightarrow> 'a list \<Rightarrow> 'a list" where
  "uniq_by f seen [] = []"
| "uniq_by f seen (x # xs) =
     (if f x \<in> set seen then uniq_by f seen xs else x # uniq_by f (f x # seen) xs)"

lemma uniq_by_fresh: "x \<in> set (uniq_by f seen xs) \<Longrightarrow> f x \<notin> set seen"
  by (induction xs arbitrary: seen) (fastforce split: if_splits)+

lemma uniq_by_subset: "set (uniq_by f seen xs) \<subseteq> set xs"
  by (induction xs arbitrary: seen) (auto split: if_splits)

lemma distinct_uniq_by: "distinct (map f (uniq_by f seen xs))"
  by (induction xs arbitrary: seen) (auto dest: uniq_by_fresh)

lemma uniq_by_image: "f ` set (uniq_by f seen xs) = f ` set xs - set seen"
  by (induction xs arbitrary: seen) auto

section \<open>Stable sorting\<close>

text \<open>
  \<open>sort.SliceStable(xs, less)\<close> as the insertion sort it starts from: a new element moves left
  while it is less than its neighbour. On up to twenty elements this is the algorithm of the
  library; beyond that it is its result whenever \<open>lt\<close> is a strict weak order.
\<close>

fun sift :: "('a \<Rightarrow> 'a \<Rightarrow> bool) \<Rightarrow> 'a \<Rightarrow> 'a list \<Rightarrow> 'a list" where
  "sift lt x [] = [x]"
| "sift lt x (y # ys) = (if lt x y then y # sift lt x ys else x # y # ys)"

definition slice_stable :: "('a \<Rightarrow> 'a \<Rightarrow> bool) \<Rightarrow> 'a list \<Rightarrow> 'a list" where
  "slice_stable lt xs = rev (fold (sift lt) xs [])"

lemma mset_sift [simp]: "mset (sift lt x ys) = add_mset x (mset ys)"
  by (induction ys) auto

lemma mset_slice_stable [simp]: "mset (slice_stable lt xs) = mset xs"
proof -
  have "mset (fold (sift lt) xs ys) = mset xs + mset ys" for ys
    by (induction xs arbitrary: ys) auto
  then show ?thesis by (simp add: slice_stable_def)
qed

lemma set_slice_stable [simp]: "set (slice_stable lt xs) = set xs"
  by (metis mset_slice_stable set_mset_mset)

lemma length_slice_stable [simp]: "length (slice_stable lt xs) = length xs"
  by (metis mset_slice_stable size_mset)

lemma set_sift [simp]: "set (sift lt x ys) = insert x (set ys)"
  by (metis mset_sift set_mset_add_mset_insert set_mset_mset)

text \<open>An order that never contradicts a key sorts by that key, whatever it does among equals.\<close>

lemma sift_sorted:
  fixes k :: "'a \<Rightarrow> 'b::linorder"
  assumes "\<And>a b. k a < k b \<Longrightarrow> lt a b" and "\<And>a b. lt a b \<Longrightarrow> k a \<le> k b"
  shows "sorted_wrt (\<lambda>a b. k b \<le> k a) ys \<Longrightarrow> sorted_wrt (\<lambda>a b. k b \<le> k a) (sift lt x ys)"
proof (induction ys)
  case (Cons y ys)
  show ?case
  proof (cases "lt x y")
    case True
    with Cons assms(2) show ?thesis by auto
  next
    case False
    with assms(1) have "k y \<le> k x" by (meson not_le)
    with False Cons.prems show ?thesis by fastforce
  qed
qed simp

lemma slice_stable_sorted:
  fixes k :: "'a \<Rightarrow> 'b::linorder"
  assumes "\<And>a b. k a < k b \<Longrightarrow> lt a b" and "\<And>a b. lt a b \<Longrightarrow> k a \<le> k b"
  shows "sorted_wrt (\<lambda>a b. k a \<le> k b) (slice_stable lt xs)"
proof -
  have "sorted_wrt (\<lambda>a b. k b \<le> k a) (fold (sift lt) xs ys)"
    if "sorted_wrt (\<lambda>a b. k b \<le> k a) ys" for ys
    using that
  proof (induction xs arbitrary: ys)
    case (Cons x xs)
    have "sorted_wrt (\<lambda>a b. k b \<le> k a) (sift lt x ys)"
      using assms Cons.prems by (rule sift_sorted)
    then have "sorted_wrt (\<lambda>a b. k b \<le> k a) (fold (sift lt) xs (sift lt x ys))" by (rule Cons.IH)
    then show ?case by (simp only: fold_simps)
  qed simp
  from this [of "[]"] show ?thesis unfolding slice_stable_def sorted_wrt_rev by simp
qed

lemma sift_cong: "(\<And>y. y \<in> set ys \<Longrightarrow> lt x y = lt' x y) \<Longrightarrow> sift lt x ys = sift lt' x ys"
  by (induction ys) auto

text \<open>Only comparisons of a later element with an earlier one are made.\<close>

lemma slice_stable_cong:
  assumes "sorted_wrt (\<lambda>y x. lt x y = lt' x y) xs"
  shows "slice_stable lt xs = slice_stable lt' xs"
proof -
  have "fold (sift lt) xs ys = fold (sift lt') xs ys"
    if "\<forall>y \<in> set ys. \<forall>x \<in> set xs. lt x y = lt' x y" for ys
    using assms that
  proof (induction xs arbitrary: ys)
    case (Cons x xs)
    have "sift lt x ys = sift lt' x ys" using Cons.prems(2) by (intro sift_cong) simp
    moreover have "fold (sift lt) xs (sift lt' x ys) = fold (sift lt') xs (sift lt' x ys)"
      using Cons.prems by (intro Cons.IH) auto
    ultimately show ?case by simp
  qed simp
  then show ?thesis by (simp add: slice_stable_def)
qed

text \<open>Sorting by a key alone is the library's stable sort.\<close>

lemma filter_sift_equal:
  fixes f :: "'a \<Rightarrow> 'b::linorder"
  assumes "sorted_wrt (\<lambda>a b. f b \<le> f a) ys"
  shows "filter (\<lambda>y. f y = v) (sift (\<lambda>a b. f a < f b) x ys)
    = (if f x = v then x # filter (\<lambda>y. f y = v) ys else filter (\<lambda>y. f y = v) ys)"
  using assms
proof (induction ys)
  case (Cons y ys)
  then show ?case by (cases "f x < f y") (auto simp: filter_empty_conv)
qed simp

lemma slice_stable_sort_key:
  fixes f :: "'a \<Rightarrow> 'b::linorder"
  shows "slice_stable (\<lambda>a b. f a < f b) xs = sort_key f xs"
proof (rule properties_for_sort_key [symmetric])
  let ?lt = "\<lambda>a b. f a < f b"
  have s: "sorted_wrt (\<lambda>a b. f a \<le> f b) (slice_stable ?lt xs)"
    by (rule slice_stable_sorted) auto
  then show "sorted (map f (slice_stable ?lt xs))" by (simp add: sorted_map)
  show "filter (\<lambda>y. f k = f y) (slice_stable ?lt xs) = filter (\<lambda>y. f k = f y) xs" for k
  proof -
    have "filter (\<lambda>y. f y = f k) (fold (sift ?lt) xs ys)
        = rev (filter (\<lambda>y. f y = f k) xs) @ filter (\<lambda>y. f y = f k) ys"
      if "sorted_wrt (\<lambda>a b. f b \<le> f a) ys" for ys
      using that
    proof (induction xs arbitrary: ys)
      case (Cons x xs)
      have "sorted_wrt (\<lambda>a b. f b \<le> f a) (sift ?lt x ys)"
        by (rule sift_sorted [OF _ _ Cons.prems]) auto
      from Cons.IH [OF this] Cons.prems show ?case by (simp add: filter_sift_equal)
    qed simp
    from this [of "[]"] show ?thesis
      by (simp add: slice_stable_def eq_commute [of "f k"] flip: rev_filter)
  qed
qed simp

end
