(* ===== verification/GoText.thy ===== *)
theory GoText
  imports Prelude
begin

text \<open>
  The part of Go's \<open>strings\<close> and \<open>strconv\<close> packages the modelled code calls. A Go string
  is a sequence of bytes, so it is a \<open>char list\<close> here (one \<open>char\<close> is one byte of the UTF-8
  text). Case mapping and space trimming act on the ASCII bytes; on ASCII text, which is
  what identifiers, zones, states and numbers are, they are Go's functions. Numbers are
  parsed from decimal literals: hexadecimal and underscore-separated literals are outside
  the modelled syntax.
\<close>

section \<open>strings\<close>

definition is_space :: "char \<Rightarrow> bool" where
  "is_space c = (let n = (of_char c :: nat) in n = 32 \<or> (9 \<le> n \<and> n \<le> 13))"

definition trim_left :: "string \<Rightarrow> string" where
  "trim_left s = dropWhile is_space s"

definition trim_space :: "string \<Rightarrow> string" where
  "trim_space s = rev (trim_left (rev (trim_left s)))"

definition lower_char :: "char \<Rightarrow> char" where
  "lower_char c = (let n = (of_char c :: nat) in if 65 \<le> n \<and> n \<le> 90 then char_of (n + 32) else c)"

definition upper_char :: "char \<Rightarrow> char" where
  "upper_char c = (let n = (of_char c :: nat) in if 97 \<le> n \<and> n \<le> 122 then char_of (n - 32) else c)"

definition to_lower :: "string \<Rightarrow> string" where
  "to_lower s = map lower_char s"

definition to_upper :: "string \<Rightarrow> string" where
  "to_upper s = map upper_char s"

definition equal_fold :: "string \<Rightarrow> string \<Rightarrow> bool" where
  "equal_fold a b = (to_lower a = to_lower b)"

fun has_prefix :: "string \<Rightarrow> string \<Rightarrow> bool" where
  "has_prefix s [] = True"
| "has_prefix [] (p # ps) = False"
| "has_prefix (c # s) (p # ps) = (c = p \<and> has_prefix s ps)"

definition has_suffix :: "string \<Rightarrow> string \<Rightarrow> bool" where
  "has_suffix s p = has_prefix (rev s) (rev p)"

fun contains_text :: "string \<Rightarrow> string \<Rightarrow> bool" where
  "contains_text [] p = (p = [])"
| "contains_text (c # s) p = (has_prefix (c # s) p \<or> contains_text s p)"

definition cut_suffix :: "string \<Rightarrow> string \<Rightarrow> string option" where
  "cut_suffix s p = (if has_suffix s p then Some (take (length s - length p) s) else None)"

text \<open>\<open>strings.Cut(s, sep)\<close> for a one-byte separator.\<close>

fun cut_at :: "char \<Rightarrow> string \<Rightarrow> (string \<times> string) option" where
  "cut_at sep [] = None"
| "cut_at sep (c # s) =
     (if c = sep then Some ([], s)
      else case cut_at sep s of None \<Rightarrow> None | Some (a, b) \<Rightarrow> Some (c # a, b))"

fun split_on :: "char \<Rightarrow> string \<Rightarrow> string list" where
  "split_on sep [] = [[]]"
| "split_on sep (c # s) =
     (if c = sep then [] # split_on sep s
      else case split_on sep s of [] \<Rightarrow> [[c]] | p # ps \<Rightarrow> (c # p) # ps)"

fun join_with :: "string \<Rightarrow> string list \<Rightarrow> string" where
  "join_with sep [] = []"
| "join_with sep [s] = s"
| "join_with sep (s # t # ss) = s @ sep @ join_with sep (t # ss)"

text \<open>\<open>utf8.RuneCountInString\<close> on valid UTF-8: bytes that do not continue a code point.\<close>

definition rune_count :: "string \<Rightarrow> nat" where
  "rune_count s = length (filter (\<lambda>c. (of_char c :: nat) div 64 \<noteq> 2) s)"

section \<open>Code points\<close>

text \<open>
  Ranging over a string decodes UTF-8. \<open>runes\<close> cuts a string into the byte sequences of its
  code points; a byte that starts no valid sequence stands alone (Go reads U+FFFD there). The
  ranges of the second byte exclude overlong forms, surrogates and code points beyond U+10FFFF.
\<close>

definition byte_in :: "nat \<Rightarrow> nat \<Rightarrow> char \<Rightarrow> bool" where
  "byte_in lo hi c = (let n = (of_char c :: nat) in lo \<le> n \<and> n \<le> hi)"

definition rune_length :: "string \<Rightarrow> nat" where
  "rune_length s = (case s of
       a # b # t \<Rightarrow>
         (let cont = byte_in 0x80 0xBF; n = (of_char a :: nat) in
          if byte_in 0xC2 0xDF a \<and> cont b then 2
          else case t of
            c # u \<Rightarrow>
              (if \<not> cont c then 1
               else if (n = 0xE0 \<and> byte_in 0xA0 0xBF b) \<or> (byte_in 0xE1 0xEF a \<and> n \<noteq> 0xED \<and> cont b) \<or>
                       (n = 0xED \<and> byte_in 0x80 0x9F b) then 3
               else case u of
                 d # v \<Rightarrow>
                   if cont d \<and> ((n = 0xF0 \<and> byte_in 0x90 0xBF b) \<or> (byte_in 0xF1 0xF3 a \<and> cont b) \<or>
                        (n = 0xF4 \<and> byte_in 0x80 0x8F b)) then 4 else 1
               | [] \<Rightarrow> 1)
          | [] \<Rightarrow> 1)
     | _ \<Rightarrow> 1)"

lemma rune_length_pos [simp]: "0 < rune_length s"
  by (simp add: rune_length_def Let_def split: list.split)

function runes :: "string \<Rightarrow> string list" where
  "runes [] = []"
| "runes (c # s) = take (rune_length (c # s)) (c # s) # runes (drop (rune_length (c # s)) (c # s))"
  by pat_completeness auto
termination by (relation "measure length") (simp_all add: less_eq_Suc_le [symmetric] diff_less_Suc)

declare runes.simps(2) [simp del]

lemma concat_runes: "concat (runes s) = s"
proof (induction s rule: runes.induct)
  case (2 c s)
  then show ?case by (subst runes.simps(2)) simp
qed simp

section \<open>strconv\<close>

definition is_digit :: "char \<Rightarrow> bool" where
  "is_digit c = (let n = (of_char c :: nat) in 48 \<le> n \<and> n \<le> 57)"

definition digit_val :: "char \<Rightarrow> nat" where
  "digit_val c = (of_char c :: nat) - 48"

fun digits_val :: "nat \<Rightarrow> string \<Rightarrow> nat option" where
  "digits_val acc [] = Some acc"
| "digits_val acc (c # s) = (if is_digit c then digits_val (10 * acc + digit_val c) s else None)"

definition parse_uint :: "nat \<Rightarrow> string \<Rightarrow> nat option" where
  "parse_uint bits s =
     (if s = [] then None
      else case digits_val 0 s of
        None \<Rightarrow> None
      | Some n \<Rightarrow> if n < 2 ^ bits then Some n else None)"

definition split_sign :: "string \<Rightarrow> bool \<times> string" where
  "split_sign s = (case s of
       [] \<Rightarrow> (False, [])
     | c # r \<Rightarrow> if c = CHR ''-'' then (True, r) else if c = CHR ''+'' then (False, r) else (False, s))"

definition max_int64 :: int where
  "max_int64 = 9223372036854775807"

definition min_int64 :: int where
  "min_int64 = - 9223372036854775808"

text \<open>\<open>strconv.ParseInt(s, 10, 64)\<close>: the value when it parses and fits.\<close>

definition parse_int64 :: "string \<Rightarrow> int option" where
  "parse_int64 s =
     (let (neg, r) = split_sign s in
      if r = [] then None
      else case digits_val 0 r of
        None \<Rightarrow> None
      | Some n \<Rightarrow>
          (let v = (if neg then - int n else int n) in
           if min_int64 \<le> v \<and> v \<le> max_int64 then Some v else None))"

text \<open>The literal \<open>m.f\<close> as the natural number \<open>mf\<close> and the number of fraction digits.\<close>

definition split_exp :: "string \<Rightarrow> string \<times> string option" where
  "split_exp s = (case cut_at (CHR ''e'') (to_lower s) of
       None \<Rightarrow> (s, None) | Some (m, e) \<Rightarrow> (m, Some e))"

definition parse_mantissa :: "string \<Rightarrow> (nat \<times> nat) option" where
  "parse_mantissa s =
     (let (ip, fp) = (case cut_at (CHR ''.'') s of None \<Rightarrow> (s, []) | Some p \<Rightarrow> p) in
      if ip = [] \<and> fp = [] then None
      else case digits_val 0 (ip @ fp) of None \<Rightarrow> None | Some n \<Rightarrow> Some (n, length fp))"

definition parse_exponent :: "string option \<Rightarrow> int option" where
  "parse_exponent e = (case e of
       None \<Rightarrow> Some 0
     | Some t \<Rightarrow>
         (let (neg, r) = split_sign t in
          if r = [] then None
          else case digits_val 0 r of None \<Rightarrow> None | Some n \<Rightarrow> Some (if neg then - int n else int n)))"

definition scale10 :: "rat \<Rightarrow> int \<Rightarrow> rat" where
  "scale10 r e = (if 0 \<le> e then r * 10 ^ nat e else r / 10 ^ nat (- e))"

text \<open>The least magnitude that rounds to infinity in float64.\<close>

definition float64_overflow :: rat where
  "float64_overflow = 2 ^ 1024 - 2 ^ 970"

definition parse_decimal :: "bool \<Rightarrow> string \<Rightarrow> gfloat option" where
  "parse_decimal neg s =
     (let (m, e) = split_exp s in
      case parse_mantissa m of
        None \<Rightarrow> None
      | Some (n, places) \<Rightarrow>
          (case parse_exponent e of
             None \<Rightarrow> None
           | Some x \<Rightarrow>
               (let r = scale10 (of_nat n) (x - int places) in
                if r \<ge> float64_overflow then None
                else Some (Fin (if neg then - r else r)))))"

text \<open>
  \<open>strconv.ParseFloat(s, 64)\<close>. Besides decimal literals it accepts the words \<open>inf\<close> and
  \<open>infinity\<close> with an optional sign, and \<open>nan\<close> without one, in any case.
\<close>

definition parse_float :: "string \<Rightarrow> gfloat option" where
  "parse_float s =
     (let (neg, r) = split_sign s; w = to_lower r in
      if w = ''inf'' \<or> w = ''infinity'' then Some (if neg then NegInf else PosInf)
      else if to_lower s = ''nan'' then Some NotANumber
      else parse_decimal neg r)"

section \<open>float64 comparisons\<close>

text \<open>Go's comparisons: every comparison with NaN is false.\<close>

fun flt_less :: "gfloat \<Rightarrow> gfloat \<Rightarrow> bool" where
  "flt_less NotANumber _ = False"
| "flt_less _ NotANumber = False"
| "flt_less PosInf _ = False"
| "flt_less _ NegInf = False"
| "flt_less NegInf _ = True"
| "flt_less _ PosInf = True"
| "flt_less (Fin a) (Fin b) = (a < b)"

fun flt_eq :: "gfloat \<Rightarrow> gfloat \<Rightarrow> bool" where
  "flt_eq NotANumber _ = False"
| "flt_eq _ NotANumber = False"
| "flt_eq a b = (a = b)"

definition flt_le :: "gfloat \<Rightarrow> gfloat \<Rightarrow> bool" where
  "flt_le a b = (flt_less a b \<or> flt_eq a b)"

text \<open>\<open>math.Trunc\<close>: towards zero; infinities and NaN are returned unchanged.\<close>

definition rat_trunc :: "rat \<Rightarrow> int" where
  "rat_trunc r = (if 0 \<le> r then floor r else - floor (- r))"

fun flt_trunc :: "gfloat \<Rightarrow> gfloat" where
  "flt_trunc (Fin r) = Fin (of_int (rat_trunc r))"
| "flt_trunc x = x"

definition flt_integral :: "gfloat \<Rightarrow> bool" where
  "flt_integral x = flt_eq (flt_trunc x) x"

text \<open>\<open>int64\<close> of a float64 truncates; outside the range it is the least int64, as on amd64.\<close>

definition int64_of_float :: "gfloat \<Rightarrow> int" where
  "int64_of_float x = (case x of
       Fin r \<Rightarrow> if min_int64 \<le> rat_trunc r \<and> rat_trunc r \<le> max_int64 then rat_trunc r else min_int64
     | _ \<Rightarrow> min_int64)"

section \<open>Facts about text\<close>

lemma trim_left_idem [simp]: "trim_left (trim_left s) = trim_left s"
  by (simp add: trim_left_def dropWhile_idem)

lemma hd_trim_left: "trim_left s \<noteq> [] \<Longrightarrow> \<not> is_space (hd (trim_left s))"
  unfolding trim_left_def by (rule hd_dropWhile)

lemma trim_left_id: "s = [] \<or> \<not> is_space (hd s) \<Longrightarrow> trim_left s = s"
  unfolding trim_left_def by (cases s) auto

lemma trim_left_suffix: "\<exists>p. s = p @ trim_left s"
  unfolding trim_left_def by (metis takeWhile_dropWhile_id)

lemma trim_space_idem [simp]: "trim_space (trim_space s) = trim_space s"
proof -
  let ?t = "trim_left s"
  let ?u = "trim_left (rev ?t)"
  obtain p where p: "rev ?t = p @ ?u" using trim_left_suffix by blast
  then have t: "?t = rev ?u @ rev p" by (metis rev_append rev_rev_ident)
  have "trim_left (rev ?u) = rev ?u"
  proof (cases "rev ?u = []")
    case False
    then have "hd (rev ?u) = hd ?t" using t by (metis hd_append2)
    moreover have "?t \<noteq> []" using t False by auto
    ultimately show ?thesis using hd_trim_left [of s] by (intro trim_left_id) auto
  next
    case True
    then show ?thesis by (metis dropWhile.simps(1) trim_left_def)
  qed
  then show ?thesis by (simp add: trim_space_def)
qed

lemma trim_space_Nil [simp]: "trim_space [] = []"
  by (simp add: trim_space_def trim_left_def)

lemma has_prefix_iff: "has_prefix s p \<longleftrightarrow> (\<exists>r. s = p @ r)"
  by (induction s p rule: has_prefix.induct) auto

lemma has_suffix_iff: "has_suffix s p \<longleftrightarrow> (\<exists>r. s = r @ p)"
  unfolding has_suffix_def has_prefix_iff by (metis rev_append rev_rev_ident)

lemma has_prefix_append [simp]: "has_prefix (p @ r) p"
  by (auto simp: has_prefix_iff)

lemma has_suffix_append [simp]: "has_suffix (r @ p) p"
  by (auto simp: has_suffix_iff)

lemma contains_text_iff: "contains_text s p \<longleftrightarrow> (\<exists>a b. s = a @ p @ b)"
proof (induction s)
  case Nil
  then show ?case by auto
next
  case (Cons c s)
  have "(\<exists>a b. c # s = a @ p @ b) \<longleftrightarrow> (\<exists>b. c # s = p @ b) \<or> (\<exists>a b. s = a @ p @ b)"
    by (metis append_Cons append_Nil list.sel(3) tl_append2)
  then show ?case using Cons by (auto simp: has_prefix_iff)
qed

lemma join_split [simp]: "join_with [sep] (split_on sep s) = s"
proof (induction s)
  case Nil
  then show ?case by simp
next
  case (Cons c s)
  have "split_on sep s \<noteq> []"
    by (cases s) (simp_all split: list.split)
  then obtain p ps where ps: "split_on sep s = p # ps"
    by (cases "split_on sep s") auto
  show ?case using Cons ps by (cases ps) auto
qed

lemma equal_fold_refl [simp]: "equal_fold a a"
  by (simp add: equal_fold_def)

lemma equal_fold_sym: "equal_fold a b \<longleftrightarrow> equal_fold b a"
  by (auto simp: equal_fold_def)

lemma equal_fold_trans: "equal_fold a b \<Longrightarrow> equal_fold b c \<Longrightarrow> equal_fold a c"
  by (simp add: equal_fold_def)

lemma digits_val_append:
  "digits_val acc (s @ t) = (case digits_val acc s of None \<Rightarrow> None | Some n \<Rightarrow> digits_val n t)"
  by (induction s arbitrary: acc) auto

lemma digits_val_Some_digits: "digits_val acc s = Some n \<Longrightarrow> \<forall>c \<in> set s. is_digit c"
  by (induction s arbitrary: acc) (auto split: if_splits)

lemma parse_uint_bound: "parse_uint bits s = Some n \<Longrightarrow> n < 2 ^ bits"
  by (auto simp: parse_uint_def split: if_splits option.splits)

lemma parse_int64_range: "parse_int64 s = Some v \<Longrightarrow> min_int64 \<le> v \<and> v \<le> max_int64"
  by (auto simp: parse_int64_def Let_def split: if_splits option.splits prod.splits)

lemma flt_eq_refl: "x \<noteq> NotANumber \<Longrightarrow> flt_eq x x"
  by (cases x) auto

lemma flt_eq_imp: "flt_eq x y \<Longrightarrow> x = y"
  by (cases "(x, y)" rule: flt_eq.cases) auto

lemma rat_trunc_of_int [simp]: "rat_trunc (of_int n) = n"
  by (auto simp: rat_trunc_def floor_minus)

lemma flt_integral_Fin: "flt_integral (Fin r) \<longleftrightarrow> r \<in> \<int>"
proof
  assume "flt_integral (Fin r)"
  then have "r = of_int (rat_trunc r)" by (simp add: flt_integral_def)
  then show "r \<in> \<int>" by (metis Ints_of_int)
next
  assume "r \<in> \<int>"
  then obtain n where "r = of_int n" by (auto elim: Ints_cases)
  then show "flt_integral (Fin r)" by (simp add: flt_integral_def)
qed

end
