(* ===== verification/Seal.thy ===== *)
theory Seal
  imports GoText
begin

text \<open>
  The execution seal (\<open>internal/workflow/execution_seal.go\<close>): what a user confirmed is
  frozen into a contract, and a digest of the business parameters is compared before every
  later call.

  The digest is \<open>hex(sha256(json.Marshal(params)))\<close>. The JSON document is modelled up to
  its text: \<open>jcanon\<close> sorts object keys as \<open>json.Marshal\<close> does, renders an integral
  float64 like the integer of the same value, and marks what \<open>json.Marshal\<close> rejects. The
  map from documents to digest text is a parameter \<open>dig\<close> of every definition that hashes;
  the theorems hold for every such function.
\<close>

section \<open>JSON documents\<close>

datatype jval =
    JNull
  | JBool bool
  | JInt int
  | JFlt rat
  | JStr string
  | JRaw string
  | JArr "jval list"
  | JObj "(string \<times> jval) list"
  | JBad

definition all_digits :: "string \<Rightarrow> bool" where
  "all_digits s = (s \<noteq> [] \<and> list_all is_digit s)"

definition json_int_part :: "string \<Rightarrow> bool" where
  "json_int_part s = (all_digits s \<and> (s = ''0'' \<or> hd s \<noteq> CHR ''0''))"

text \<open>The JSON number grammar, which \<open>json.Marshal\<close> checks for a \<open>json.Number\<close>.\<close>

definition json_number_ok :: "string \<Rightarrow> bool" where
  "json_number_ok s =
     (let t = (if has_prefix s ''-'' then tl s else s); (m, e) = split_exp t in
      (case cut_at (CHR ''.'') m of
         None \<Rightarrow> json_int_part m
       | Some (ip, fp) \<Rightarrow> json_int_part ip \<and> all_digits fp) \<and>
      (case e of
         None \<Rightarrow> True
       | Some x \<Rightarrow> all_digits (snd (split_sign x))))"

definition float_json :: "gfloat \<Rightarrow> jval" where
  "float_json x = (case x of
       Fin r \<Rightarrow> if r = of_int \<lfloor>r\<rfloor> \<and> \<bar>r\<bar> \<le> 2 ^ 53 then JInt \<lfloor>r\<rfloor> else JFlt r
     | _ \<Rightarrow> JBad)"

primrec jcanon :: "gval \<Rightarrow> jval" where
  "jcanon GNil = JNull"
| "jcanon (GBool b) = JBool b"
| "jcanon (GInt n) = JInt n"
| "jcanon (GInt32 n) = JInt n"
| "jcanon (GInt64 n) = JInt n"
| "jcanon (GUint32 w) = JInt (uint w)"
| "jcanon (GUint64 w) = JInt (uint w)"
| "jcanon (GFloat x) = float_json x"
| "jcanon (GFloat32 x) = float_json x"
| "jcanon (GNumber s) =
     (if s = [] then JInt 0 else if json_number_ok s then JRaw s else JBad)"
| "jcanon (GStr s) = JStr s"
| "jcanon (GStrs ss) = JArr (map JStr ss)"
| "jcanon (GList vs) = JArr (map jcanon vs)"
| "jcanon (GMap kvs) = JObj (sort_key fst (map (map_prod id jcanon) kvs))"

primrec jbad :: "jval \<Rightarrow> bool" where
  "jbad JNull = False"
| "jbad (JBool b) = False"
| "jbad (JInt n) = False"
| "jbad (JFlt r) = False"
| "jbad (JStr s) = False"
| "jbad (JRaw s) = False"
| "jbad (JArr vs) = list_ex id (map jbad vs)"
| "jbad (JObj kvs) = list_ex snd (map (map_prod id jbad) kvs)"
| "jbad JBad = True"

text \<open>\<open>json.Marshal(params)\<close>: \<open>None\<close> is the marshal error.\<close>

definition json_marshal :: "gmap \<Rightarrow> jval option" where
  "json_marshal m = (let j = jcanon (GMap m) in if jbad j then None else Some j)"

section \<open>The sealed contract\<close>

record runtime_metadata =
  rt_top_org :: "32 word"
  rt_org :: "32 word"
  rt_trace_id :: string

definition runtime_metadata_keys :: "string list" where
  "runtime_metadata_keys = [''top_organization_id'', ''organization_id'']"

record execution_draft =
  ed_operation :: string
  ed_business_params :: gmap
  ed_runtime :: runtime_metadata

record sealed_contract =
  sc_operation :: string
  sc_business_params :: gmap
  sc_runtime :: runtime_metadata
  sc_version :: nat
  sc_digest :: string

definition current_contract_version :: nat where
  "current_contract_version = 1"

definition params_digest :: "(jval \<Rightarrow> string) \<Rightarrow> gmap \<Rightarrow> string" where
  "params_digest dig params = (case json_marshal params of
       None \<Rightarrow> ''digest-error''
     | Some payload \<Rightarrow> dig payload)"

text \<open>
  HOL values are immutable, so the deep copy of the business parameters is the value itself.
\<close>

definition seal_draft :: "(jval \<Rightarrow> string) \<Rightarrow> execution_draft \<Rightarrow> sealed_contract" where
  "seal_draft dig d =
     \<lparr>sc_operation = ed_operation d,
      sc_business_params = ed_business_params d,
      sc_runtime = ed_runtime d,
      sc_version = current_contract_version,
      sc_digest = params_digest dig (ed_business_params d)\<rparr>"

definition verify_digest :: "(jval \<Rightarrow> string) \<Rightarrow> sealed_contract \<Rightarrow> gmap \<Rightarrow> bool" where
  "verify_digest dig c params = (params_digest dig params = sc_digest c)"

text \<open>
  \<open>uint32Value\<close>: integers are truncated to 32 bits; a float64 is truncated towards zero
  first (the conversion of a value outside the target range is left to the platform by Go:
  here it wraps, and a non-finite value gives 0).
\<close>

definition uint32_value :: "gval \<Rightarrow> 32 word" where
  "uint32_value v = (case v of
       GUint32 n \<Rightarrow> n
     | GFloat (Fin r) \<Rightarrow> word_of_int (rat_trunc r)
     | GInt n \<Rightarrow> word_of_int n
     | GInt64 n \<Rightarrow> word_of_int n
     | GUint64 n \<Rightarrow> ucast n
     | _ \<Rightarrow> 0)"

definition split_runtime_metadata :: "gmap \<Rightarrow> gmap \<times> runtime_metadata" where
  "split_runtime_metadata m =
     (fold mdel runtime_metadata_keys m,
      \<lparr>rt_top_org = uint32_value (mval m ''top_organization_id''),
       rt_org = uint32_value (mval m ''organization_id''),
       rt_trace_id = []\<rparr>)"

section \<open>Facts about the digest\<close>

lemma seal_draft_fields [simp]:
  "sc_operation (seal_draft dig d) = ed_operation d"
  "sc_business_params (seal_draft dig d) = ed_business_params d"
  "sc_runtime (seal_draft dig d) = ed_runtime d"
  "sc_digest (seal_draft dig d) = params_digest dig (ed_business_params d)"
  by (simp_all add: seal_draft_def)

lemma verify_seal [simp]: "verify_digest dig (seal_draft dig d) (ed_business_params d)"
  by (simp add: verify_digest_def)

lemma sort_key_unique:
  fixes f :: "'a \<Rightarrow> 'b::linorder"
  assumes "distinct (map f xs)" and "distinct (map f ys)" and "set xs = set ys"
  shows "sort_key f xs = sort_key f ys"
proof (rule map_sorted_distinct_set_unique [of f])
  have "inj_on f (set ys)" using assms(2) by (simp add: distinct_map)
  then show "inj_on f (set (sort_key f xs) \<union> set (sort_key f ys))" using assms(3) by simp
qed (use assms in \<open>auto simp: distinct_map\<close>)

lemma map_of_eq_imp_set_eq:
  assumes "distinct (map fst p)" and "distinct (map fst q)" and "map_of p = map_of q"
  shows "set p = set q"
proof -
  have "(k, v) \<in> set p \<longleftrightarrow> (k, v) \<in> set q" for k v
    using assms map_of_eq_Some_iff by metis
  then show ?thesis by auto
qed

lemma map_fst_map_prod [simp]: "map fst (map (map_prod id f) xs) = map fst xs"
  by (induction xs) auto

lemma jcanon_map_ext:
  assumes "distinct (map fst p)" and "distinct (map fst q)" and "map_of p = map_of q"
  shows "jcanon (GMap p) = jcanon (GMap q)"
proof -
  have "set p = set q" using assms by (rule map_of_eq_imp_set_eq)
  then have "set (map (map_prod id jcanon) p) = set (map (map_prod id jcanon) q)" by simp
  then show ?thesis using assms by (simp del: set_map add: sort_key_unique)
qed

lemma params_digest_map_ext:
  assumes "distinct (map fst p)" and "distinct (map fst q)" and "map_of p = map_of q"
  shows "params_digest dig p = params_digest dig q"
  using jcanon_map_ext [OF assms] by (simp add: params_digest_def json_marshal_def)

lemma jbad_obj: "jbad (JObj kvs) \<longleftrightarrow> (\<exists>(k, j) \<in> set kvs. jbad j)"
  by (force simp: list_ex_iff)

lemma json_marshal_None:
  "json_marshal m = None \<longleftrightarrow> (\<exists>(k, v) \<in> set m. jbad (jcanon v))"
  unfolding json_marshal_def Let_def
  by (simp add: jbad_obj del: jbad.simps) (force)

lemma nonfinite_not_marshalled:
  "(k, GFloat x) \<in> set m \<Longrightarrow> x \<in> {PosInf, NegInf, NotANumber} \<Longrightarrow> json_marshal m = None"
  unfolding json_marshal_None by (force simp: float_json_def)

end
