(* ===== verification/ConfirmForm.thy ===== *)
theory ConfirmForm
  imports GoText
begin

text \<open>
  The editable confirmation form (\<open>internal/workflow/types.go\<close>): select-only fields with
  server-generated options, and the whitelist check every user override passes before it
  reaches the workflow parameters. Error texts are modelled by a constructor per sentence.
\<close>

record form_option =
  fo_value :: string
  fo_label :: string
  fo_note :: string
  fo_reason :: string
  fo_disabled :: bool
  fo_meta :: "(string \<times> string) list"

record form_field =
  ff_key :: string
  ff_label :: string
  ff_type :: string
  ff_value :: string
  ff_render :: string
  ff_editable :: bool
  ff_options :: "form_option list"

record form_step =
  fs_index :: int
  fs_total :: int
  fs_title :: string
  fs_description :: string
  fs_primary_label :: string
  fs_secondary_label :: string
  fs_skippable :: bool
  fs_final :: bool

record confirm_form =
  cf_version :: int
  cf_step :: "form_step option"
  cf_fields :: "form_field list"

type_synonym overrides = "(string \<times> string) list"

datatype override_error =
    FieldNotEditable string
  | ValueNotOffered string

text \<open>\<open>ConfirmForm.Field\<close>: the first field with the key; a nil form has none.\<close>

definition form_field_of :: "confirm_form option \<Rightarrow> string \<Rightarrow> form_field option" where
  "form_field_of f key = (case f of
       None \<Rightarrow> None
     | Some form \<Rightarrow> find (\<lambda>fd. ff_key fd = key) (cf_fields form))"

definition option_offered :: "form_field \<Rightarrow> string \<Rightarrow> bool" where
  "option_offered fd v = list_ex (\<lambda>opt. fo_value opt = v \<and> \<not> fo_disabled opt) (ff_options fd)"

definition check_override :: "confirm_form option \<Rightarrow> string \<Rightarrow> string \<Rightarrow> override_error option" where
  "check_override f k v = (case form_field_of f k of
       None \<Rightarrow> Some (FieldNotEditable k)
     | Some fd \<Rightarrow>
         if \<not> ff_editable fd then Some (FieldNotEditable k)
         else if option_offered fd v then None
         else Some (ValueNotOffered k))"

text \<open>\<open>ValidateOverrides\<close>: the first violation met, in the order the map is ranged over.\<close>

fun validate_overrides :: "confirm_form option \<Rightarrow> overrides \<Rightarrow> override_error option" where
  "validate_overrides f [] = None"
| "validate_overrides f ((k, v) # rest) = (case check_override f k v of
       Some e \<Rightarrow> Some e
     | None \<Rightarrow> validate_overrides f rest)"

definition form_default_overrides :: "confirm_form option \<Rightarrow> overrides" where
  "form_default_overrides f = (case f of
       None \<Rightarrow> []
     | Some form \<Rightarrow>
         fold (\<lambda>fd out. if ff_editable fd \<and> ff_value fd \<noteq> [] then mput (ff_key fd) (ff_value fd) out
                        else out)
           (cf_fields form) [])"

text \<open>\<open>ConfirmSubmitMode\<close>: empty revalidates and asks again, \<open>continue\<close> advances.\<close>

datatype submit_mode = SubmitRevalidate | SubmitContinue

record confirm_resolution =
  cr_confirmed :: bool
  cr_overrides :: overrides
  cr_terminal_reason :: string

section \<open>Specification: what an accepted override is\<close>

text \<open>
  The abstract contract: an override is admissible when it names an editable field (the
  first with that key) and one of its enabled options.
\<close>

definition admissible :: "confirm_form option \<Rightarrow> string \<Rightarrow> string \<Rightarrow> bool" where
  "admissible f k v \<longleftrightarrow>
     (\<exists>fd opt. form_field_of f k = Some fd \<and> ff_editable fd \<and>
        opt \<in> set (ff_options fd) \<and> fo_value opt = v \<and> \<not> fo_disabled opt)"

lemma check_override_None: "check_override f k v = None \<longleftrightarrow> admissible f k v"
  by (auto simp: check_override_def admissible_def option_offered_def list_ex_iff
      split: option.splits)

lemma validate_overrides_None:
  "validate_overrides f os = None \<longleftrightarrow> (\<forall>(k, v) \<in> set os. admissible f k v)"
  by (induction f os rule: validate_overrides.induct)
    (auto simp: check_override_None [symmetric] split: option.splits)

text \<open>Whether a set of overrides is accepted does not depend on the iteration order.\<close>

lemma validate_overrides_order:
  "set os = set os' \<Longrightarrow> validate_overrides f os = None \<longleftrightarrow> validate_overrides f os' = None"
  by (simp add: validate_overrides_None)

lemma validate_no_form: "validate_overrides None os = None \<longleftrightarrow> os = []"
  by (cases os) (auto simp: check_override_def form_field_of_def)

lemma form_field_of_key: "form_field_of f k = Some fd \<Longrightarrow> ff_key fd = k"
  by (auto simp: form_field_of_def find_Some_iff split: option.splits)

lemma default_overrides_keys:
  "\<lbrakk>mget (form_default_overrides (Some form)) k = Some v\<rbrakk>
   \<Longrightarrow> \<exists>fd \<in> set (cf_fields form). ff_key fd = k \<and> ff_editable fd \<and> ff_value fd = v \<and> v \<noteq> []"
proof -
  have "mget (fold (\<lambda>fd out. if ff_editable fd \<and> ff_value fd \<noteq> []
            then mput (ff_key fd) (ff_value fd) out else out) fds acc) k = Some v
        \<Longrightarrow> mget acc k = Some v \<or>
          (\<exists>fd \<in> set fds. ff_key fd = k \<and> ff_editable fd \<and> ff_value fd = v \<and> v \<noteq> [])" for fds acc
    by (induction fds arbitrary: acc) (fastforce simp: mget_mput split: if_splits)+
  moreover assume "mget (form_default_overrides (Some form)) k = Some v"
  ultimately show ?thesis by (fastforce simp: form_default_overrides_def)
qed

end
