(* ===== verification/WorkflowTypes.thy ===== *)
theory WorkflowTypes
  imports Seal ConfirmForm
begin

text \<open>
  The data model of a workflow (\<open>internal/workflow/types.go\<close>, \<open>batch_call.go\<close>,
  \<open>missing_slot_error.go\<close>): steps and their hooks, definitions, the run context, check
  outcomes, results and failure records.

  A hook of a step receives the live context. It may read everything, the seal included,
  and may write the public part (parameters, step results, runtime); only the engine
  writes the seal. So a hook is a function from the whole context to its result and the
  new public part. The reference data of a run (\<open>'r\<close>) is opaque to the engine.

  User-facing sentences carry no information the engine branches on, except whether a
  check's message is empty: they are a datatype with one constructor per sentence.
\<close>

section \<open>Missing slots\<close>

definition unique_slot_names :: "string list \<Rightarrow> string list" where
  "unique_slot_names slots = uniq_by id [] (filter (\<lambda>s. s \<noteq> []) (map trim_space slots))"

definition new_missing_slot_error :: "string \<Rightarrow> string list \<Rightarrow> gerr" where
  "new_missing_slot_error m slots =
     \<lparr>err_text = trim_space m, err_slots = Some (unique_slot_names slots)\<rparr>"

definition missing_slots_from_error :: "gerr \<Rightarrow> string list" where
  "missing_slots_from_error e = (case err_slots e of
       None \<Rightarrow> [] | Some ss \<Rightarrow> unique_slot_names ss)"

section \<open>Context\<close>

record 'r wpub =
  wp_params :: gmap
  wp_initial_params :: gmap
  wp_step_results :: "(string \<times> gmap) list"
  wp_runtime :: runtime_metadata
  wp_reference_data :: 'r

record 'r wctx =
  wc_pub :: "'r wpub"
  wc_sealed :: "sealed_contract option"

definition new_context :: "'r \<Rightarrow> gmap \<Rightarrow> 'r wctx" where
  "new_context ref ps =
     (let (business, rt) = split_runtime_metadata ps in
      \<lparr>wc_pub = \<lparr>wp_params = business, wp_initial_params = business, wp_step_results = [],
                 wp_runtime = rt, wp_reference_data = ref\<rparr>,
       wc_sealed = None\<rparr>)"

text \<open>\<open>Context.Result\<close>: the stored result, or nil, which reads like an empty map.\<close>

definition ctx_result :: "'r wctx \<Rightarrow> string \<Rightarrow> gmap" where
  "ctx_result c name = (case mget (wp_step_results (wc_pub c)) name of
       None \<Rightarrow> [] | Some r \<Rightarrow> r)"

definition ctx_params :: "'r wctx \<Rightarrow> gmap" where
  "ctx_params c = wp_params (wc_pub c)"

definition unseal :: "'r wctx \<Rightarrow> 'r wctx" where
  "unseal c = c\<lparr>wc_sealed := None\<rparr>"

definition seal_ctx :: "(jval \<Rightarrow> string) \<Rightarrow> string \<Rightarrow> 'r wctx \<Rightarrow> 'r wctx" where
  "seal_ctx dig operation c =
     c\<lparr>wc_sealed := Some (seal_draft dig
         \<lparr>ed_operation = operation,
          ed_business_params = wp_params (wc_pub c),
          ed_runtime = wp_runtime (wc_pub c)\<rparr>)\<rparr>"

section \<open>Check outcomes and batches\<close>

type_synonym failure_reason = string

definition reason_capacity_sold_out :: failure_reason where
  "reason_capacity_sold_out = ''capacity_sold_out''"

record check_outcome =
  co_ok :: bool
  co_message :: string
  co_pending :: bool
  co_reason :: failure_reason

definition check_passed :: check_outcome where
  "check_passed = \<lparr>co_ok = True, co_message = [], co_pending = False, co_reason = []\<rparr>"

definition check_failed :: "string \<Rightarrow> check_outcome" where
  "check_failed m = \<lparr>co_ok = False, co_message = m, co_pending = False, co_reason = []\<rparr>"

definition check_pending :: "string \<Rightarrow> check_outcome" where
  "check_pending m = \<lparr>co_ok = False, co_message = m, co_pending = True, co_reason = []\<rparr>"

definition check_failed_because :: "failure_reason \<Rightarrow> string \<Rightarrow> check_outcome" where
  "check_failed_because r m = \<lparr>co_ok = False, co_message = m, co_pending = False, co_reason = r\<rparr>"

definition max_batch_calls :: nat where
  "max_batch_calls = 40"

definition batch_results_key :: string where
  "batch_results_key = ''BatchResults''"

record batch_call =
  bc_key :: string
  bc_args :: gmap

record batch_outcome =
  bo_key :: string
  bo_ok :: bool
  bo_result :: "gmap option"
  bo_err :: string

text \<open>\<open>entry["Key"].(string)\<close> and its kin: the zero value when the assertion fails.\<close>

definition as_str :: "gval \<Rightarrow> string" where
  "as_str v = (case v of GStr s \<Rightarrow> s | _ \<Rightarrow> [])"

definition as_bool :: "gval \<Rightarrow> bool" where
  "as_bool v = (case v of GBool b \<Rightarrow> b | _ \<Rightarrow> False)"

definition as_map :: "gval \<Rightarrow> gmap option" where
  "as_map v = (case v of GMap m \<Rightarrow> Some m | _ \<Rightarrow> None)"

definition as_list :: "gval \<Rightarrow> gval list option" where
  "as_list v = (case v of GList xs \<Rightarrow> Some xs | _ \<Rightarrow> None)"

definition decode_outcome :: "gmap \<Rightarrow> batch_outcome" where
  "decode_outcome m =
     \<lparr>bo_key = as_str (mval m ''Key''), bo_ok = as_bool (mval m ''OK''),
      bo_result = as_map (mval m ''Result''), bo_err = as_str (mval m ''Err'')\<rparr>"

definition batch_results :: "gmap \<Rightarrow> batch_outcome list" where
  "batch_results result = (case as_list (mval result batch_results_key) of
       None \<Rightarrow> []
     | Some raw \<Rightarrow> map decode_outcome (List.map_filter as_map raw))"

definition encode_outcome :: "batch_outcome \<Rightarrow> gmap" where
  "encode_outcome b =
     (let e1 = [(''Key'', GStr (bo_key b)), (''OK'', GBool (bo_ok b))];
          e2 = (case bo_result b of None \<Rightarrow> e1 | Some r \<Rightarrow> mput ''Result'' (GMap r) e1)
      in if bo_err b \<noteq> [] then mput ''Err'' (GStr (bo_err b)) e2 else e2)"

definition encode_batch_outcomes :: "batch_outcome list \<Rightarrow> gmap" where
  "encode_batch_outcomes bs =
     [(batch_results_key, GList (map (\<lambda>b. GMap (encode_outcome b)) bs))]"

text \<open>The sentence is a gloss of the source's; it states that the call was never made.\<close>

definition batch_not_attempted :: string where
  "batch_not_attempted = ''not attempted: over the per-step batch bound''"

section \<open>Steps and definitions\<close>

datatype step_type = StepToolCall | StepConfirm | StepResolve | StepUnknown int

record poll_policy =
  pp_interval :: int
  pp_timeout :: int

type_synonym ('r, 'a) hook = "'r wctx \<Rightarrow> 'a \<times> 'r wpub"

text \<open>A check is handed the result map itself and may edit it: it returns the edited map.\<close>

type_synonym 'r check = "gmap \<Rightarrow> ('r, check_outcome \<times> gmap) hook"

record 'r wstep =
  st_name :: string
  st_type :: step_type
  st_tool :: string
  st_tool_func :: "('r, string) hook option"
  st_build_args :: "('r, gmap res) hook"
  st_build_args_batch :: "('r, batch_call list res) hook option"
  st_check_result :: "'r check option"
  st_resolve :: "('r, gmap res) hook option"
  st_skip_if :: "('r, bool res) hook option"
  st_optional :: bool
  st_poll :: "poll_policy option"
  st_build_form :: "('r, confirm_form res) hook option"
  st_apply_overrides :: "(overrides \<Rightarrow> ('r, gerr option) hook) option"
  st_revalidate_from :: string
  st_promote :: "('r, gerr option) hook option"
  st_submit_mode :: submit_mode

record 'r definition_ =
  def_name :: string
  def_steps :: "'r wstep list"
  def_result_data :: "('r wctx \<Rightarrow> gmap option) option"
  def_mutation_committed :: "('r wctx \<Rightarrow> bool) option"
  def_failure_draft :: "('r wctx \<Rightarrow> gmap option) option"

section \<open>Messages, events, results\<close>

datatype msg =
    MsgNone
  | MsgText string
  | MsgCancelledRun gerr
  | MsgSkipFailed string gerr
  | MsgBadStepType string step_type
  | MsgSealMismatch
  | MsgNoResolver string
  | MsgStepFailed string gerr
  | MsgResolverWroteParams string
  | MsgArgsFailed string gerr
  | MsgPollNotPositive string
  | MsgPollTimeout string
  | MsgPendingWithoutPoll string
  | MsgBatchAllFailed string
  | MsgUserCancelled
  | MsgPromoteFailed string gerr
  | MsgDefaultsInvalid override_error
  | MsgDefaultsRejected gerr
  | MsgTooManyEdits
  | MsgOverridesInvalid override_error
  | MsgOverridesUnsupported
  | MsgOverridesRejected gerr
  | MsgRevalidateUnknown string
  | MsgRevalidateNotBefore string string
  | MsgConfirmInRange string
  | MsgBadRangeType string step_type
  | MsgDone

datatype step_status = Running | Success | Failed | Waiting | Cancelled

record step_event =
  ev_step :: string
  ev_index :: nat
  ev_total :: nat
  ev_type :: step_type
  ev_status :: step_status
  ev_tool :: string
  ev_args :: "gmap option"
  ev_message :: msg

record step_summary =
  ss_name :: string
  ss_status :: step_status
  ss_message :: msg

record step_failure =
  sf_step :: string
  sf_reason :: failure_reason
  sf_args :: "gmap option"
  sf_draft :: "gmap option"
  sf_authorized :: bool

definition empty_failure :: step_failure where
  "empty_failure = \<lparr>sf_step = [], sf_reason = [], sf_args = None, sf_draft = None,
                    sf_authorized = False\<rparr>"

record wresult =
  r_success :: bool
  r_mutation_committed :: bool
  r_stopped_at :: string
  r_message :: msg
  r_missing_slots :: "string list"
  r_data :: "gmap option"
  r_steps :: "step_summary list"
  r_contract :: "sealed_contract option"
  r_failure :: "step_failure option"
  r_err :: "gerr option"

definition empty_result :: wresult where
  "empty_result = \<lparr>r_success = False, r_mutation_committed = False, r_stopped_at = [],
     r_message = MsgNone, r_missing_slots = [], r_data = None, r_steps = [],
     r_contract = None, r_failure = None, r_err = None\<rparr>"

text \<open>\<open>Result.ConfirmationAccepted\<close>; \<open>None\<close> is the nil receiver.\<close>

definition confirmation_accepted :: "wresult option \<Rightarrow> bool" where
  "confirmation_accepted r = (case r of
       None \<Rightarrow> False
     | Some x \<Rightarrow> r_success x \<or>
         (case r_failure x of None \<Rightarrow> False | Some f \<Rightarrow> sf_authorized f))"

section \<open>Facts\<close>

lemma unique_slot_names_props:
  "distinct (unique_slot_names ss)" "[] \<notin> set (unique_slot_names ss)"
  using distinct_uniq_by [of id] uniq_by_subset [of id "[]"]
  by (fastforce simp: unique_slot_names_def)+

lemma unseal_simps [simp]:
  "wc_sealed (unseal c) = None" "wc_pub (unseal c) = wc_pub c"
  by (simp_all add: unseal_def)

lemma seal_ctx_simps [simp]:
  "wc_pub (seal_ctx dig op c) = wc_pub c"
  "wc_sealed (seal_ctx dig op c) \<noteq> None"
  by (simp_all add: seal_ctx_def)

lemma decode_encode_outcome:
  "decode_outcome (encode_outcome b) = b"
  by (cases "bo_result b"; cases "bo_err b = []")
    (auto simp: decode_outcome_def encode_outcome_def mval_def as_str_def as_bool_def as_map_def)

lemma map_filter_as_map [simp]:
  "List.map_filter as_map (map (\<lambda>b. GMap (f b)) bs) = map f bs"
  by (induction bs) (simp_all add: map_filter_simps as_map_def)

end
