(* ===== verification/WorkflowEngine.thy ===== *)
theory WorkflowEngine
  imports WorkflowTypes
begin

text \<open>
  The workflow engine (\<open>internal/workflow/engine.go\<close>): \<open>Engine.Run\<close> and every step runner.

  The environment (\<open>env\<close>) is what the engine is wired to: the tool executor, the two
  confirmation callbacks, the cancellation time of the request context and the digest
  function. The executor and the callbacks act on an external world \<open>'w\<close> and report how
  long they took, so \<open>time.Now\<close> is the run's own clock (nanoseconds). Every executor call
  is logged in \<open>s_calls\<close> and every confirmation card in \<open>s_asks\<close>; the logs are
  observations for the theorems, no operation reads them.

  A step type outside the three the source declares is \<open>StepUnknown\<close>. Hook fields the
  source calls without a nil check (\<open>BuildArgs\<close>) are not optional.
\<close>

section \<open>Environment and run state\<close>

record 'w env =
  env_exec :: "'w \<Rightarrow> nat \<Rightarrow> string \<Rightarrow> gmap \<Rightarrow> gmap res \<times> nat \<times> 'w"
  env_confirm :: "('w \<Rightarrow> string \<Rightarrow> gmap \<Rightarrow> bool \<times> nat \<times> 'w) option"
  env_confirm_edits ::
    "('w \<Rightarrow> string \<Rightarrow> gmap \<Rightarrow> confirm_form \<Rightarrow> confirm_resolution \<times> nat \<times> 'w) option"
  env_done_at :: "nat option"
  env_ctx_err :: gerr
  env_digest :: "jval \<Rightarrow> string"

record call_log =
  cl_step :: nat
  cl_tool :: string
  cl_args :: gmap
  cl_params :: gmap
  cl_sealed :: "sealed_contract option"

record ask_log =
  al_step :: nat
  al_args :: gmap
  al_yes :: bool

record ('r, 'w) rstate =
  s_ctx :: "'r wctx"
  s_res :: wresult
  s_events :: "step_event list"
  s_world :: 'w
  s_now :: nat
  s_calls :: "call_log list"
  s_asks :: "ask_log list"

datatype tool_outcome = ToolOK | ToolSkipped | ToolFailed

definition max_confirm_edits :: nat where
  "max_confirm_edits = 3"

text \<open>\<open>guidedStepFinal\<close> is the last of the wizard's card indices; \<open>guided_step_final\<close> is it.\<close>

definition max_confirmations_per_turn :: "nat \<Rightarrow> nat" where
  "max_confirmations_per_turn guided_step_final = guided_step_final + max_confirm_edits"

definition upd_res :: "(wresult \<Rightarrow> wresult) \<Rightarrow> ('r, 'w) rstate \<Rightarrow> ('r, 'w) rstate" where
  "upd_res f st = st\<lparr>s_res := f (s_res st)\<rparr>"

definition upd_ctx :: "('r wctx \<Rightarrow> 'r wctx) \<Rightarrow> ('r, 'w) rstate \<Rightarrow> ('r, 'w) rstate" where
  "upd_ctx f st = st\<lparr>s_ctx := f (s_ctx st)\<rparr>"

definition run_hook :: "('r, 'a) hook \<Rightarrow> ('r, 'w) rstate \<Rightarrow> 'a \<times> ('r, 'w) rstate" where
  "run_hook h st = (let (a, p) = h (s_ctx st) in (a, upd_ctx (\<lambda>c. c\<lparr>wc_pub := p\<rparr>) st))"

definition set_step_result :: "string \<Rightarrow> gmap \<Rightarrow> ('r, 'w) rstate \<Rightarrow> ('r, 'w) rstate" where
  "set_step_result name r =
     upd_ctx (\<lambda>c. c\<lparr>wc_pub := (wc_pub c)
       \<lparr>wp_step_results := mput name r (wp_step_results (wc_pub c))\<rparr>\<rparr>)"

definition emit :: "'r wstep \<Rightarrow> nat \<Rightarrow> nat \<Rightarrow> step_type \<Rightarrow> step_status \<Rightarrow> string \<Rightarrow> gmap option
    \<Rightarrow> msg \<Rightarrow> ('r, 'w) rstate \<Rightarrow> ('r, 'w) rstate" where
  "emit step i tot ty status tool args m st =
     st\<lparr>s_events := s_events st @
       [\<lparr>ev_step = st_name step, ev_index = i, ev_total = tot, ev_type = ty,
         ev_status = status, ev_tool = tool, ev_args = args, ev_message = m\<rparr>]\<rparr>"

definition add_summary :: "'r wstep \<Rightarrow> step_status \<Rightarrow> msg \<Rightarrow> ('r, 'w) rstate \<Rightarrow> ('r, 'w) rstate" where
  "add_summary step status m =
     upd_res (\<lambda>r. r\<lparr>r_steps := r_steps r @
       [\<lparr>ss_name = st_name step, ss_status = status, ss_message = m\<rparr>]\<rparr>)"

definition stop_at :: "'r wstep \<Rightarrow> msg \<Rightarrow> ('r, 'w) rstate \<Rightarrow> ('r, 'w) rstate" where
  "stop_at step m = upd_res (\<lambda>r. r\<lparr>r_stopped_at := st_name step, r_message := m\<rparr>)"

text \<open>The failing exit every runner shares: event, summary, then where and why it stopped.\<close>

definition fail_stop :: "'r wstep \<Rightarrow> nat \<Rightarrow> nat \<Rightarrow> step_type \<Rightarrow> string \<Rightarrow> msg
    \<Rightarrow> ('r, 'w) rstate \<Rightarrow> ('r, 'w) rstate" where
  "fail_stop step i tot ty tool m st =
     stop_at step m (add_summary step Failed m (emit step i tot ty Failed tool None m st))"

definition record_failed_args :: "gmap \<Rightarrow> ('r, 'w) rstate \<Rightarrow> ('r, 'w) rstate" where
  "record_failed_args args =
     upd_res (\<lambda>r. r\<lparr>r_failure := Some ((case r_failure r of None \<Rightarrow> empty_failure | Some f \<Rightarrow> f)
       \<lparr>sf_args := Some args\<rparr>)\<rparr>)"

definition record_failure_reason :: "failure_reason \<Rightarrow> ('r, 'w) rstate \<Rightarrow> ('r, 'w) rstate" where
  "record_failure_reason reason st =
     (if reason = [] then st
      else upd_res (\<lambda>r. r\<lparr>r_failure := Some ((case r_failure r of None \<Rightarrow> empty_failure | Some f \<Rightarrow> f)
        \<lparr>sf_reason := reason\<rparr>)\<rparr>) st)"

definition set_missing :: "gerr \<Rightarrow> ('r, 'w) rstate \<Rightarrow> ('r, 'w) rstate" where
  "set_missing e = upd_res (\<lambda>r. r\<lparr>r_missing_slots := missing_slots_from_error e\<rparr>)"

definition set_err :: "gerr \<Rightarrow> ('r, 'w) rstate \<Rightarrow> ('r, 'w) rstate" where
  "set_err e = upd_res (\<lambda>r. r\<lparr>r_err := Some e\<rparr>)"

definition ctx_done :: "'w env \<Rightarrow> nat \<Rightarrow> bool" where
  "ctx_done env now = (case env_done_at env of None \<Rightarrow> False | Some t \<Rightarrow> t \<le> now)"

text \<open>One \<open>executor.Execute\<close> call, logged with the parameters its arguments were built from.\<close>

definition exec_call :: "'w env \<Rightarrow> nat \<Rightarrow> string \<Rightarrow> gmap \<Rightarrow> gmap \<Rightarrow> ('r, 'w) rstate
    \<Rightarrow> gmap res \<times> ('r, 'w) rstate" where
  "exec_call env i tool args ps st =
     (let (r, dt, w) = env_exec env (s_world st) (s_now st) tool args in
      (r, st\<lparr>s_world := w, s_now := s_now st + dt,
             s_calls := s_calls st @ [\<lparr>cl_step = i, cl_tool = tool, cl_args = args,
               cl_params = ps, cl_sealed = wc_sealed (s_ctx st)\<rparr>]\<rparr>))"

section \<open>The seal check and the failure record\<close>

definition verify_sealed_contract :: "'w env \<Rightarrow> 'r wstep \<Rightarrow> nat \<Rightarrow> nat \<Rightarrow> ('r, 'w) rstate
    \<Rightarrow> bool \<times> ('r, 'w) rstate" where
  "verify_sealed_contract env step i tot st =
     (case wc_sealed (s_ctx st) of
        None \<Rightarrow> (True, st)
      | Some c \<Rightarrow>
          if verify_digest (env_digest env) c (ctx_params (s_ctx st)) then (True, st)
          else (False, fail_stop step i tot StepToolCall (st_tool step) MsgSealMismatch st))"

definition confirm_gate_unpassed :: "'r definition_ \<Rightarrow> nat \<Rightarrow> bool" where
  "confirm_gate_unpassed def i = list_ex (\<lambda>s. st_type s = StepConfirm) (drop i (def_steps def))"

definition record_step_failure :: "'r definition_ \<Rightarrow> 'r wstep \<Rightarrow> nat \<Rightarrow> ('r, 'w) rstate
    \<Rightarrow> ('r, 'w) rstate" where
  "record_step_failure def step i st =
     upd_res (\<lambda>r. r\<lparr>r_failure := Some
       (let f = (case r_failure r of None \<Rightarrow> empty_failure | Some f \<Rightarrow> f);
            f1 = f\<lparr>sf_step := st_name step,
                   sf_authorized := wc_sealed (s_ctx st) \<noteq> None \<and> \<not> confirm_gate_unpassed def i\<rparr>
        in case def_failure_draft def of
             None \<Rightarrow> f1
           | Some h \<Rightarrow> f1\<lparr>sf_draft := h (s_ctx st)\<rparr>)\<rparr>) st"

section \<open>Tool steps\<close>

text \<open>
  The execute/check/poll loop of \<open>runToolStep\<close>. A poll waits at least one tick: the caller
  has checked that the interval is positive. When the request context ends during the
  wait, the wait is cut short at that moment.
\<close>

definition poll_wait :: "poll_policy \<Rightarrow> nat" where
  "poll_wait pl = max 1 (nat (pp_interval pl))"

definition tool_failed :: "'r wstep \<Rightarrow> nat \<Rightarrow> nat \<Rightarrow> string \<Rightarrow> gmap \<Rightarrow> msg \<Rightarrow> ('r, 'w) rstate
    \<Rightarrow> tool_outcome \<times> ('r, 'w) rstate" where
  "tool_failed step i tot tool args m st =
     (ToolFailed, record_failed_args args (fail_stop step i tot StepToolCall tool m st))"

definition exec_failed :: "'r wstep \<Rightarrow> nat \<Rightarrow> nat \<Rightarrow> string \<Rightarrow> gmap \<Rightarrow> gerr \<Rightarrow> bool \<Rightarrow> ('r, 'w) rstate
    \<Rightarrow> tool_outcome \<times> ('r, 'w) rstate" where
  "exec_failed step i tot tool args e may_skip st =
     (let m = MsgText (err_text e);
          st1 = add_summary step Failed m (emit step i tot StepToolCall Failed tool None m st)
      in if may_skip \<and> st_optional step then (ToolSkipped, st1)
         else (ToolFailed, record_failed_args args (set_err e
                 (stop_at step (MsgStepFailed (st_name step) e) st1))))"

definition check_rejected :: "'r wstep \<Rightarrow> nat \<Rightarrow> nat \<Rightarrow> string \<Rightarrow> gmap \<Rightarrow> check_outcome
    \<Rightarrow> ('r, 'w) rstate \<Rightarrow> tool_outcome \<times> ('r, 'w) rstate" where
  "check_rejected step i tot tool args oc st =
     (let m = (if co_pending oc then MsgPendingWithoutPoll (st_name step) else MsgText (co_message oc));
          st1 = add_summary step Failed m (emit step i tot StepToolCall Failed tool None m st)
      in if st_optional step then (ToolSkipped, st1)
         else (ToolFailed, record_failure_reason (co_reason oc)
                 (record_failed_args args (stop_at step m st1))))"

definition tool_done :: "'r wstep \<Rightarrow> nat \<Rightarrow> nat \<Rightarrow> string \<Rightarrow> gmap \<Rightarrow> ('r, 'w) rstate
    \<Rightarrow> tool_outcome \<times> ('r, 'w) rstate" where
  "tool_done step i tot tool r st =
     (ToolOK, add_summary step Success MsgNone
        (emit step i tot StepToolCall Success tool None MsgNone
          (set_step_result (st_name step) r st)))"

definition poll_timeout_msg :: "'r wstep \<Rightarrow> check_outcome \<Rightarrow> msg" where
  "poll_timeout_msg step oc =
     (if co_message oc = [] then MsgPollTimeout (st_name step) else MsgText (co_message oc))"

lemma run_hook_frame [simp]:
  "s_now (snd (run_hook h st)) = s_now st"
  "s_calls (snd (run_hook h st)) = s_calls st"
  "s_asks (snd (run_hook h st)) = s_asks st"
  "s_events (snd (run_hook h st)) = s_events st"
  "s_res (snd (run_hook h st)) = s_res st"
  "s_world (snd (run_hook h st)) = s_world st"
  "wc_sealed (s_ctx (snd (run_hook h st))) = wc_sealed (s_ctx st)"
  by (simp_all add: run_hook_def upd_ctx_def split: prod.split)

lemma exec_call_now [simp]: "s_now st \<le> s_now (snd (exec_call env i tool args ps st))"
  by (simp add: exec_call_def split: prod.split)

function poll_loop :: "'w env \<Rightarrow> 'r wstep \<Rightarrow> nat \<Rightarrow> nat \<Rightarrow> string \<Rightarrow> gmap \<Rightarrow> gmap \<Rightarrow> nat
    \<Rightarrow> ('r, 'w) rstate \<Rightarrow> tool_outcome \<times> ('r, 'w) rstate" where
  "poll_loop env step i tot tool args ps deadline st =
     (let ra = exec_call env i tool args ps st; st1 = snd ra in
      case fst ra of
        Inl e \<Rightarrow> exec_failed step i tot tool args e True st1
      | Inr r \<Rightarrow>
          (case st_check_result step of
             None \<Rightarrow> tool_done step i tot tool r st1
           | Some chk \<Rightarrow>
               (let rc = run_hook (chk r) st1; oc = fst (fst rc); st2 = snd rc in
                if co_ok oc then tool_done step i tot tool (snd (fst rc)) st2
                else (case (co_pending oc, st_poll step) of
                    (True, Some pl) \<Rightarrow>
                      if deadline \<le> s_now st2
                      then tool_failed step i tot tool args (poll_timeout_msg step oc) st2
                      else if ctx_done env (s_now st2 + poll_wait pl)
                      then exec_failed step i tot tool args (env_ctx_err env) False st2
                      else poll_loop env step i tot tool args ps deadline
                             (st2\<lparr>s_now := s_now st2 + poll_wait pl\<rparr>)
                  | _ \<Rightarrow> check_rejected step i tot tool args oc st2))))"
  by pat_completeness auto
termination
proof (relation "measure (\<lambda>(env, step, i, tot, tool, args, ps, deadline, st). deadline - s_now st)",
    goal_cases)
  case 1
  then show ?case by simp
next
  case (2 env step i tot tool args ps deadline st ra st1 r chk rc oc st2 x xa pl)
  have "s_now st \<le> s_now st2" using 2 by simp
  moreover have "s_now st2 < deadline" using 2 by simp
  moreover have "1 \<le> poll_wait pl" by (simp add: poll_wait_def)
  ultimately show ?case by simp
qed

declare poll_loop.simps [simp del]

text \<open>The fan-out of a batch step: calls past the bound are recorded, never made.\<close>

fun batch_loop :: "'w env \<Rightarrow> nat \<Rightarrow> string \<Rightarrow> gmap \<Rightarrow> nat \<Rightarrow> batch_call list
    \<Rightarrow> batch_outcome list \<times> gval list \<times> nat \<Rightarrow> ('r, 'w) rstate
    \<Rightarrow> (batch_outcome list \<times> gval list \<times> nat) \<times> ('r, 'w) rstate" where
  "batch_loop env i tool ps idx [] acc st = (acc, st)"
| "batch_loop env i tool ps idx (call # calls) (outs, sent, succeeded) st =
     (if max_batch_calls \<le> idx
      then batch_loop env i tool ps (Suc idx) calls
             (outs @ [\<lparr>bo_key = bc_key call, bo_ok = False, bo_result = None,
                       bo_err = batch_not_attempted\<rparr>], sent, succeeded) st
      else
        (let ra = exec_call env i tool (bc_args call) ps st;
             sent' = sent @ [GMap (bc_args call)]
         in case fst ra of
              Inl e \<Rightarrow> batch_loop env i tool ps (Suc idx) calls
                (outs @ [\<lparr>bo_key = bc_key call, bo_ok = False, bo_result = None,
                          bo_err = err_text e\<rparr>], sent', succeeded) (snd ra)
            | Inr r \<Rightarrow> batch_loop env i tool ps (Suc idx) calls
                (outs @ [\<lparr>bo_key = bc_key call, bo_ok = True, bo_result = Some r,
                          bo_err = []\<rparr>], sent', Suc succeeded) (snd ra)))"

text \<open>The batch runner's own exit: an optional step is skipped, any other stops the run.\<close>

definition batch_fail :: "'r wstep \<Rightarrow> nat \<Rightarrow> nat \<Rightarrow> string \<Rightarrow> msg \<Rightarrow> gmap option \<Rightarrow> ('r, 'w) rstate
    \<Rightarrow> tool_outcome \<times> ('r, 'w) rstate" where
  "batch_fail step i tot tool m sent_args st =
     (let st1 = add_summary step Failed m (emit step i tot StepToolCall Failed tool None m st) in
      if st_optional step then (ToolSkipped, st1)
      else (let st2 = stop_at step m st1 in
            (ToolFailed, case sent_args of None \<Rightarrow> st2 | Some a \<Rightarrow> record_failed_args a st2)))"

text \<open>After the fan-out: nothing succeeded, or the collected result is stored and checked.\<close>

definition batch_done :: "'r wstep \<Rightarrow> nat \<Rightarrow> nat \<Rightarrow> string \<Rightarrow> ('r, 'w) rstate
    \<Rightarrow> tool_outcome \<times> ('r, 'w) rstate" where
  "batch_done step i tot tool st =
     (ToolOK, add_summary step Success MsgNone
        (emit step i tot StepToolCall Success tool None MsgNone st))"

definition batch_check :: "'r wstep \<Rightarrow> nat \<Rightarrow> nat \<Rightarrow> string \<Rightarrow> gmap \<Rightarrow> gmap option
    \<Rightarrow> ('r, 'w) rstate \<Rightarrow> tool_outcome \<times> ('r, 'w) rstate" where
  "batch_check step i tot tool enc sent_args st =
     (case st_check_result step of
        None \<Rightarrow> batch_done step i tot tool st
      | Some chk \<Rightarrow>
          (let rc = run_hook (chk enc) st; v = fst (fst rc);
               st1 = set_step_result (st_name step) (snd (fst rc)) (snd rc) in
           if co_ok v then batch_done step i tot tool st1
           else
             (let rf = batch_fail step i tot tool (MsgText (co_message v)) sent_args st1
              in (fst rf, if fst rf = ToolFailed then record_failure_reason (co_reason v) (snd rf)
                          else snd rf))))"

definition batch_fan_out :: "'w env \<Rightarrow> 'r wstep \<Rightarrow> batch_call list \<Rightarrow> string \<Rightarrow> nat \<Rightarrow> nat
    \<Rightarrow> ('r, 'w) rstate \<Rightarrow> tool_outcome \<times> ('r, 'w) rstate" where
  "batch_fan_out env step calls tool i tot st =
     (let bl = batch_loop env i tool (ctx_params (s_ctx st)) 0 calls ([], [], 0) st;
          outs = fst (fst bl); sent = fst (snd (fst bl)); succeeded = snd (snd (fst bl));
          sent_args = Some [(''Batch'', GList sent)]
      in if calls \<noteq> [] \<and> succeeded = 0
         then batch_fail step i tot tool (MsgBatchAllFailed (st_name step)) sent_args (snd bl)
         else batch_check step i tot tool (encode_batch_outcomes outs) sent_args
                (set_step_result (st_name step) (encode_batch_outcomes outs) (snd bl)))"

definition run_batch_tool_step :: "'w env \<Rightarrow> 'r wstep \<Rightarrow> ('r, batch_call list res) hook \<Rightarrow> string
    \<Rightarrow> nat \<Rightarrow> nat \<Rightarrow> ('r, 'w) rstate \<Rightarrow> tool_outcome \<times> ('r, 'w) rstate" where
  "run_batch_tool_step env step build tool i tot st =
     (let rb = run_hook build st; st1 = snd rb in
      case fst rb of
        Inl e \<Rightarrow>
          (let rf = batch_fail step i tot tool (MsgArgsFailed (st_name step) e) None st1
           in (fst rf, if fst rf = ToolFailed then set_missing e (snd rf) else snd rf))
      | Inr calls \<Rightarrow>
          (let rv = verify_sealed_contract env step i tot st1 in
           if \<not> fst rv then (ToolFailed, snd rv)
           else batch_fan_out env step calls tool i tot
                  (emit step i tot StepToolCall Running tool
                    (Some [(''BatchSize'', GInt (int (length calls)))]) MsgNone (snd rv))))"

text \<open>A single-call step once its arguments are built: seal check, then the loop.\<close>

definition run_built_call :: "'w env \<Rightarrow> 'r wstep \<Rightarrow> gmap \<Rightarrow> string \<Rightarrow> nat \<Rightarrow> nat
    \<Rightarrow> ('r, 'w) rstate \<Rightarrow> tool_outcome \<times> ('r, 'w) rstate" where
  "run_built_call env step args tool i tot st =
     (let rv = verify_sealed_contract env step i tot st in
      if \<not> fst rv then (ToolFailed, record_failed_args args (snd rv))
      else
        (let st3 = emit step i tot StepToolCall Running tool (Some args) MsgNone (snd rv);
             ps = ctx_params (s_ctx (snd rv))
         in case st_poll step of
              None \<Rightarrow> poll_loop env step i tot tool args ps 0 st3
            | Some pl \<Rightarrow>
                if pp_interval pl \<le> 0 \<or> pp_timeout pl \<le> 0
                then (ToolFailed, fail_stop step i tot StepToolCall tool
                        (MsgPollNotPositive (st_name step)) st3)
                else poll_loop env step i tot tool args ps
                       (s_now st3 + nat (pp_timeout pl)) st3))"

definition run_tool_step :: "'w env \<Rightarrow> 'r wstep \<Rightarrow> nat \<Rightarrow> nat \<Rightarrow> ('r, 'w) rstate
    \<Rightarrow> tool_outcome \<times> ('r, 'w) rstate" where
  "run_tool_step env step i tot st =
     (let rt = (case st_tool_func step of None \<Rightarrow> (st_tool step, st) | Some f \<Rightarrow> run_hook f st);
          tool = fst rt; st0 = snd rt
      in case st_build_args_batch step of
           Some build \<Rightarrow> run_batch_tool_step env step build tool i tot st0
         | None \<Rightarrow>
             (let ra = run_hook (st_build_args step) st0; st1 = snd ra in
              case fst ra of
                Inl e \<Rightarrow>
                  (let m = MsgText (err_text e);
                       st2 = add_summary step Failed m
                               (emit step i tot StepToolCall Failed tool None m st1)
                   in if st_optional step then (ToolSkipped, st2)
                      else (ToolFailed, set_missing e
                              (stop_at step (MsgArgsFailed (st_name step) e) st2)))
              | Inr args \<Rightarrow> run_built_call env step args tool i tot st1))"

section \<open>Resolve steps\<close>

definition run_resolve_step :: "'w env \<Rightarrow> 'r wstep \<Rightarrow> nat \<Rightarrow> nat \<Rightarrow> ('r, 'w) rstate
    \<Rightarrow> tool_outcome \<times> ('r, 'w) rstate" where
  "run_resolve_step env step i tot st =
     (let failed = (\<lambda>m st. (ToolFailed, fail_stop step i tot StepResolve [] m st)) in
      case st_resolve step of
        None \<Rightarrow> failed (MsgNoResolver (st_name step)) st
      | Some resolve \<Rightarrow>
          (let st1 = emit step i tot StepResolve Running [] None MsgNone st;
               before = params_digest (env_digest env) (ctx_params (s_ctx st1));
               ro = run_hook resolve st1; st2 = snd ro
           in case fst ro of
                Inl e \<Rightarrow> failed (MsgStepFailed (st_name step) e) (set_missing e st2)
              | Inr out \<Rightarrow>
                  if params_digest (env_digest env) (ctx_params (s_ctx st2)) \<noteq> before
                  then failed (MsgResolverWroteParams (st_name step)) st2
                  else (ToolOK, add_summary step Success MsgNone
                          (emit step i tot StepResolve Success [] None MsgNone
                            (set_step_result (st_name step) out st2)))))"

end
