(* ===== verification/WorkflowRun.thy ===== *)
theory WorkflowRun
  imports WorkflowEngine
begin

text \<open>
  The confirmation gate, the re-validation after an edit, and the run loop of
  \<open>internal/workflow/engine.go\<close> (\<open>runConfirmStep\<close>, \<open>revalidateFrom\<close>, \<open>Run\<close>).
\<close>

section \<open>Re-validation after an edit\<close>

fun index_of_step :: "string \<Rightarrow> 'r wstep list \<Rightarrow> nat option" where
  "index_of_step name [] = None"
| "index_of_step name (s # ss) =
     (if st_name s = name then Some 0 else map_option Suc (index_of_step name ss))"

definition drop_results :: "string list \<Rightarrow> ('r, 'w) rstate \<Rightarrow> ('r, 'w) rstate" where
  "drop_results names =
     upd_ctx (\<lambda>c. c\<lparr>wc_pub := (wc_pub c)
       \<lparr>wp_step_results := fold mdel names (wp_step_results (wc_pub c))\<rparr>\<rparr>)"

text \<open>
  The re-run of a range, in definition order. The result is (\<open>False\<close>, a message) for a
  definition error the caller reports, (\<open>False\<close>, none) when a step failed and has already
  populated the result.
\<close>

fun rerun_steps :: "'w env \<Rightarrow> nat \<Rightarrow> (nat \<times> 'r wstep) list \<Rightarrow> ('r, 'w) rstate
    \<Rightarrow> (bool \<times> msg option) \<times> ('r, 'w) rstate" where
  "rerun_steps env tot [] st = ((True, None), st)"
| "rerun_steps env tot ((i, rs) # rest) st =
     (if st_type rs = StepConfirm then ((False, Some (MsgConfirmInRange (st_name rs))), st)
      else
        (let run = (\<lambda>st. case st_type rs of
               StepResolve \<Rightarrow>
                 (let ro = run_resolve_step env rs i tot st in
                  if fst ro = ToolFailed then ((False, None), snd ro)
                  else rerun_steps env tot rest (snd ro))
             | StepToolCall \<Rightarrow>
                 (let ro = run_tool_step env rs i tot st in
                  if fst ro = ToolFailed then ((False, None), snd ro)
                  else rerun_steps env tot rest (snd ro))
             | ty \<Rightarrow> ((False, Some (MsgBadRangeType (st_name rs) ty)), st))
         in case st_skip_if rs of
              None \<Rightarrow> run st
            | Some sk \<Rightarrow>
                (let rk = run_hook sk st in
                 case fst rk of
                   Inl e \<Rightarrow> ((False, Some (MsgSkipFailed (st_name rs) e)), snd rk)
                 | Inr True \<Rightarrow> rerun_steps env tot rest (snd rk)
                 | Inr False \<Rightarrow> run (snd rk))))"

definition step_range :: "'r definition_ \<Rightarrow> nat \<Rightarrow> nat \<Rightarrow> (nat \<times> 'r wstep) list" where
  "step_range def a b = map (\<lambda>j. (j, def_steps def ! j)) [a..<b]"

definition revalidate_from :: "'w env \<Rightarrow> 'r definition_ \<Rightarrow> 'r wstep \<Rightarrow> nat \<Rightarrow> nat
    \<Rightarrow> ('r, 'w) rstate \<Rightarrow> (bool \<times> msg option) \<times> ('r, 'w) rstate" where
  "revalidate_from env def step confirm_idx tot st =
     (let from_name = st_revalidate_from step in
      if from_name = [] then ((True, None), st)
      else case index_of_step from_name (def_steps def) of
        None \<Rightarrow> ((False, Some (MsgRevalidateUnknown from_name)), st)
      | Some start \<Rightarrow>
          if confirm_idx \<le> start
          then ((False, Some (MsgRevalidateNotBefore from_name (st_name step))), st)
          else rerun_steps env tot (step_range def start confirm_idx)
                 (drop_results (map (st_name \<circ> snd) (step_range def start confirm_idx)) st))"

section \<open>The confirmation gate\<close>

definition ask_plain :: "'w env \<Rightarrow> 'r definition_ \<Rightarrow> nat \<Rightarrow> gmap \<Rightarrow> ('r, 'w) rstate
    \<Rightarrow> bool \<times> ('r, 'w) rstate" where
  "ask_plain env def i args st = (case env_confirm env of
       None \<Rightarrow> (False, st)
     | Some ask \<Rightarrow>
         (let (yes, dt, w) = ask (s_world st) (def_name def) args in
          (yes, st\<lparr>s_world := w, s_now := s_now st + dt,
                   s_asks := s_asks st @ [\<lparr>al_step = i, al_args = args, al_yes = yes\<rparr>]\<rparr>)))"

definition ask_form ::
  "('w \<Rightarrow> string \<Rightarrow> gmap \<Rightarrow> confirm_form \<Rightarrow> confirm_resolution \<times> nat \<times> 'w)
    \<Rightarrow> 'r definition_ \<Rightarrow> nat \<Rightarrow> gmap \<Rightarrow> confirm_form \<Rightarrow> ('r, 'w) rstate
    \<Rightarrow> confirm_resolution \<times> ('r, 'w) rstate" where
  "ask_form ask def i args form st =
     (let (res, dt, w) = ask (s_world st) (def_name def) args form in
      (res, st\<lparr>s_world := w, s_now := s_now st + dt,
               s_asks := s_asks st @
                 [\<lparr>al_step = i, al_args = args, al_yes = cr_confirmed res\<rparr>]\<rparr>))"

definition gate_fail :: "'r wstep \<Rightarrow> nat \<Rightarrow> nat \<Rightarrow> msg \<Rightarrow> ('r, 'w) rstate
    \<Rightarrow> bool \<times> ('r, 'w) rstate" where
  "gate_fail step i tot m st = (False, fail_stop step i tot StepConfirm [] m st)"

definition gate_cancelled :: "'r wstep \<Rightarrow> nat \<Rightarrow> nat \<Rightarrow> ('r, 'w) rstate
    \<Rightarrow> bool \<times> ('r, 'w) rstate" where
  "gate_cancelled step i tot st =
     (False, stop_at step MsgUserCancelled (add_summary step Cancelled MsgNone
        (emit step i tot StepConfirm Cancelled [] None MsgUserCancelled st)))"

definition gate_pass :: "'r wstep \<Rightarrow> nat \<Rightarrow> nat \<Rightarrow> ('r, 'w) rstate \<Rightarrow> bool \<times> ('r, 'w) rstate" where
  "gate_pass step i tot st =
     (let rp = (case st_promote step of None \<Rightarrow> (None, st) | Some p \<Rightarrow> run_hook p st); st1 = snd rp in
      case fst rp of
        Some e \<Rightarrow> gate_fail step i tot (MsgPromoteFailed (st_name step) e) st1
      | None \<Rightarrow> (True, add_summary step Success MsgNone
                  (emit step i tot StepConfirm Success [] None MsgNone st1)))"

text \<open>The form is offered only when the rich gate is wired and the form could be built.\<close>

definition build_form :: "'w env \<Rightarrow> 'r wstep \<Rightarrow> ('r, 'w) rstate
    \<Rightarrow> (('w \<Rightarrow> string \<Rightarrow> gmap \<Rightarrow> confirm_form \<Rightarrow> confirm_resolution \<times> nat \<times> 'w)
        \<times> confirm_form) option \<times> ('r, 'w) rstate" where
  "build_form env step st = (case (env_confirm_edits env, st_build_form step) of
       (Some ask, Some bf) \<Rightarrow>
         (let rf = run_hook bf st in
          case fst rf of Inl e \<Rightarrow> (None, snd rf) | Inr f \<Rightarrow> (Some (ask, f), snd rf))
     | _ \<Rightarrow> (None, st))"

text \<open>Confirmed without changes: a guided step applies the displayed defaults.\<close>

definition gate_unchanged :: "'r wstep \<Rightarrow> confirm_form \<Rightarrow> nat \<Rightarrow> nat \<Rightarrow> ('r, 'w) rstate
    \<Rightarrow> bool \<times> ('r, 'w) rstate" where
  "gate_unchanged step form i tot st =
     (case (st_submit_mode step, st_apply_overrides step) of
        (SubmitContinue, Some apply_ov) \<Rightarrow>
          (let defaults = form_default_overrides (Some form) in
           if defaults = [] then gate_pass step i tot st
           else case validate_overrides (Some form) defaults of
             Some e \<Rightarrow> gate_fail step i tot (MsgDefaultsInvalid e) st
           | None \<Rightarrow>
               (let ro = run_hook (apply_ov defaults) st in
                case fst ro of
                  Some e \<Rightarrow> gate_fail step i tot (MsgDefaultsRejected e) (snd ro)
                | None \<Rightarrow> gate_pass step i tot (snd ro)))
      | _ \<Rightarrow> gate_pass step i tot st)"

function confirm_loop :: "'w env \<Rightarrow> 'r definition_ \<Rightarrow> 'r wstep \<Rightarrow> nat \<Rightarrow> nat \<Rightarrow> nat
    \<Rightarrow> ('r, 'w) rstate \<Rightarrow> bool \<times> ('r, 'w) rstate" where
  "confirm_loop env def step i tot edits st =
     (let ra = run_hook (st_build_args step) st in
      case fst ra of
        Inl e \<Rightarrow> gate_fail step i tot (MsgArgsFailed (st_name step) e) (set_missing e (snd ra))
      | Inr args \<Rightarrow>
          (let rf = build_form env step (snd ra);
               st1 = emit step i tot StepConfirm Waiting [] (Some args) MsgNone (snd rf)
           in case fst rf of
                None \<Rightarrow>
                  (let rq = ask_plain env def i args st1 in
                   if fst rq then gate_pass step i tot (snd rq)
                   else gate_cancelled step i tot (snd rq))
              | Some (ask, form) \<Rightarrow>
                  (let rr = ask_form ask def i args form st1; res = fst rr; st2 = snd rr in
                   if \<not> cr_confirmed res then gate_cancelled step i tot st2
                   else if cr_overrides res = [] then gate_unchanged step form i tot st2
                   else if max_confirm_edits < Suc edits
                   then gate_fail step i tot MsgTooManyEdits st2
                   else case validate_overrides (Some form) (cr_overrides res) of
                     Some e \<Rightarrow> gate_fail step i tot (MsgOverridesInvalid e) st2
                   | None \<Rightarrow>
                       (case st_apply_overrides step of
                          None \<Rightarrow> gate_fail step i tot MsgOverridesUnsupported st2
                        | Some apply_ov \<Rightarrow>
                            (let ro = run_hook (apply_ov (cr_overrides res)) st2 in
                             case fst ro of
                               Some e \<Rightarrow> gate_fail step i tot (MsgOverridesRejected e) (snd ro)
                             | None \<Rightarrow>
                                 if st_submit_mode step = SubmitContinue
                                 then gate_pass step i tot (snd ro)
                                 else
                                   (let rv = revalidate_from env def step i tot (snd ro) in
                                    case fst rv of
                                      (True, _) \<Rightarrow>
                                        confirm_loop env def step i tot (Suc edits) (snd rv)
                                    | (False, Some m) \<Rightarrow> gate_fail step i tot m (snd rv)
                                    | (False, None) \<Rightarrow> (False, snd rv)))))))"
  by pat_completeness auto
termination
  by (relation "measure (\<lambda>(env, def, step, i, tot, edits, st). Suc max_confirm_edits - edits)") auto

declare confirm_loop.simps [simp del]

definition run_confirm_step :: "'w env \<Rightarrow> 'r definition_ \<Rightarrow> 'r wstep \<Rightarrow> nat \<Rightarrow> nat
    \<Rightarrow> ('r, 'w) rstate \<Rightarrow> bool \<times> ('r, 'w) rstate" where
  "run_confirm_step env def step i tot st =
     confirm_loop env def step i tot 0 (upd_ctx unseal st)"

section \<open>The run loop\<close>

definition run_finished :: "'r definition_ \<Rightarrow> ('r, 'w) rstate \<Rightarrow> ('r, 'w) rstate" where
  "run_finished def st =
     upd_res (\<lambda>r. r\<lparr>
       r_success := True,
       r_mutation_committed := (case def_mutation_committed def of
           None \<Rightarrow> True | Some f \<Rightarrow> f (s_ctx st)),
       r_data := (case def_result_data def of None \<Rightarrow> r_data r | Some f \<Rightarrow> f (s_ctx st)),
       r_message := MsgDone\<rparr>) st"

definition run_one :: "'w env \<Rightarrow> 'r definition_ \<Rightarrow> nat \<Rightarrow> nat \<Rightarrow> 'r wstep \<Rightarrow> ('r, 'w) rstate
    \<Rightarrow> bool \<times> ('r, 'w) rstate" where
  "run_one env def i tot step st = (case st_type step of
       StepToolCall \<Rightarrow>
         (let ro = run_tool_step env step i tot st in (fst ro \<noteq> ToolFailed, snd ro))
     | StepResolve \<Rightarrow>
         (let ro = run_resolve_step env step i tot st in (fst ro \<noteq> ToolFailed, snd ro))
     | StepConfirm \<Rightarrow>
         (let rc = run_confirm_step env def step i tot st in
          (fst rc, if fst rc then upd_ctx (seal_ctx (env_digest env) (def_name def)) (snd rc)
                   else snd rc))
     | ty \<Rightarrow> (False, fail_stop step i tot ty [] (MsgBadStepType (st_name step) ty) st))"

fun run_steps :: "'w env \<Rightarrow> 'r definition_ \<Rightarrow> nat \<Rightarrow> nat \<Rightarrow> 'r wstep list \<Rightarrow> ('r, 'w) rstate
    \<Rightarrow> ('r, 'w) rstate" where
  "run_steps env def i tot [] st = run_finished def st"
| "run_steps env def i tot (step # rest) st =
     (if ctx_done env (s_now st)
      then record_step_failure def step i
             (stop_at step (MsgCancelledRun (env_ctx_err env)) st)
      else
        (let go = (\<lambda>st. let ro = run_one env def i tot step st in
               if fst ro then run_steps env def (Suc i) tot rest (snd ro)
               else record_step_failure def step i (snd ro))
         in case st_skip_if step of
              None \<Rightarrow> go st
            | Some sk \<Rightarrow>
                (let rk = run_hook sk st in
                 case fst rk of
                   Inl e \<Rightarrow> record_step_failure def step i
                     (fail_stop step i tot (st_type step) [] (MsgSkipFailed (st_name step) e) (snd rk))
                 | Inr True \<Rightarrow> run_steps env def (Suc i) tot rest (snd rk)
                 | Inr False \<Rightarrow> go (snd rk))))"

definition init_state :: "'r \<Rightarrow> 'w \<Rightarrow> nat \<Rightarrow> gmap \<Rightarrow> ('r, 'w) rstate" where
  "init_state ref w now ps =
     \<lparr>s_ctx = new_context ref ps, s_res = empty_result, s_events = [], s_world = w,
      s_now = now, s_calls = [], s_asks = []\<rparr>"

text \<open>\<open>Engine.Run\<close>; the deferred assignment surfaces the seal in force at the end.\<close>

definition run_workflow :: "'w env \<Rightarrow> 'r definition_ \<Rightarrow> 'r \<Rightarrow> 'w \<Rightarrow> nat \<Rightarrow> gmap
    \<Rightarrow> ('r, 'w) rstate" where
  "run_workflow env def ref w now ps =
     (let st = run_steps env def 0 (length (def_steps def)) (def_steps def)
                 (init_state ref w now ps)
      in upd_res (\<lambda>r. r\<lparr>r_contract := wc_sealed (s_ctx st)\<rparr>) st)"

end
