(* ===== verification/WorkflowFacts.thy ===== *)
theory WorkflowFacts
  imports WorkflowRun
begin

text \<open>
  The library behind the workflow properties: which parts of the run state each operation
  leaves alone, and one relation (\<open>extends\<close>) that every runner satisfies.
\<close>

section \<open>Frames\<close>

lemma upd_res_frame [simp]:
  "s_ctx (upd_res f st) = s_ctx st" "s_calls (upd_res f st) = s_calls st"
  "s_asks (upd_res f st) = s_asks st" "s_now (upd_res f st) = s_now st"
  "s_res (upd_res f st) = f (s_res st)" "s_world (upd_res f st) = s_world st"
  by (simp_all add: upd_res_def)

lemma upd_ctx_frame [simp]:
  "s_ctx (upd_ctx f st) = f (s_ctx st)" "s_calls (upd_ctx f st) = s_calls st"
  "s_asks (upd_ctx f st) = s_asks st" "s_now (upd_ctx f st) = s_now st"
  "s_res (upd_ctx f st) = s_res st" "s_world (upd_ctx f st) = s_world st"
  by (simp_all add: upd_ctx_def)

lemma emit_frame [simp]:
  "s_ctx (emit step i t ty sta tool a m st) = s_ctx st"
  "s_calls (emit step i t ty sta tool a m st) = s_calls st"
  "s_asks (emit step i t ty sta tool a m st) = s_asks st"
  "s_now (emit step i t ty sta tool a m st) = s_now st"
  "s_res (emit step i t ty sta tool a m st) = s_res st"
  "s_world (emit step i t ty sta tool a m st) = s_world st"
  by (simp_all add: emit_def)

lemma small_ops_frame [simp]:
  "s_ctx (add_summary step sta m st) = s_ctx st" "s_calls (add_summary step sta m st) = s_calls st"
  "s_asks (add_summary step sta m st) = s_asks st" "s_now (add_summary step sta m st) = s_now st"
  "s_ctx (stop_at step m st) = s_ctx st" "s_calls (stop_at step m st) = s_calls st"
  "s_asks (stop_at step m st) = s_asks st" "s_now (stop_at step m st) = s_now st"
  "s_ctx (set_missing e st) = s_ctx st" "s_calls (set_missing e st) = s_calls st"
  "s_asks (set_missing e st) = s_asks st" "s_now (set_missing e st) = s_now st"
  "s_ctx (set_err e st) = s_ctx st" "s_calls (set_err e st) = s_calls st"
  "s_asks (set_err e st) = s_asks st" "s_now (set_err e st) = s_now st"
  "s_ctx (record_failed_args a st) = s_ctx st" "s_calls (record_failed_args a st) = s_calls st"
  "s_asks (record_failed_args a st) = s_asks st" "s_now (record_failed_args a st) = s_now st"
  "s_ctx (record_failure_reason fr st) = s_ctx st"
  "s_calls (record_failure_reason fr st) = s_calls st"
  "s_asks (record_failure_reason fr st) = s_asks st"
  "s_now (record_failure_reason fr st) = s_now st"
  "s_ctx (record_step_failure def step i st) = s_ctx st"
  "s_calls (record_step_failure def step i st) = s_calls st"
  "s_asks (record_step_failure def step i st) = s_asks st"
  "s_ctx (fail_stop step i t ty tool m st) = s_ctx st"
  "s_calls (fail_stop step i t ty tool m st) = s_calls st"
  "s_asks (fail_stop step i t ty tool m st) = s_asks st"
  "s_now (fail_stop step i t ty tool m st) = s_now st"
  by (simp_all add: add_summary_def stop_at_def set_missing_def set_err_def
      record_failed_args_def record_failure_reason_def record_step_failure_def fail_stop_def)

lemma success_frame [simp]:
  "r_success (s_res (add_summary step status m st)) = r_success (s_res st)"
  "r_success (s_res (stop_at step m st)) = r_success (s_res st)"
  "r_success (s_res (set_missing e st)) = r_success (s_res st)"
  "r_success (s_res (set_err e st)) = r_success (s_res st)"
  "r_success (s_res (record_failed_args a st)) = r_success (s_res st)"
  "r_success (s_res (record_failure_reason fr st)) = r_success (s_res st)"
  "r_success (s_res (record_step_failure def step i st)) = r_success (s_res st)"
  "r_success (s_res (fail_stop step i t ty tool m st)) = r_success (s_res st)"
  by (simp_all add: add_summary_def stop_at_def set_missing_def set_err_def
      record_failed_args_def record_failure_reason_def record_step_failure_def fail_stop_def)

lemma failure_frame [simp]:
  "r_failure (s_res (add_summary step status m st)) = r_failure (s_res st)"
  "r_failure (s_res (stop_at step m st)) = r_failure (s_res st)"
  "r_failure (s_res (set_missing e st)) = r_failure (s_res st)"
  "r_failure (s_res (set_err e st)) = r_failure (s_res st)"
  "r_failure (s_res (record_step_failure def step i st)) \<noteq> None"
  by (simp_all add: add_summary_def stop_at_def set_missing_def set_err_def
      record_step_failure_def)

lemma set_step_result_frame [simp]:
  "s_calls (set_step_result n r st) = s_calls st" "s_asks (set_step_result n r st) = s_asks st"
  "s_now (set_step_result n r st) = s_now st" "s_res (set_step_result n r st) = s_res st"
  "wc_sealed (s_ctx (set_step_result n r st)) = wc_sealed (s_ctx st)"
  "ctx_params (s_ctx (set_step_result n r st)) = ctx_params (s_ctx st)"
  by (simp_all add: set_step_result_def ctx_params_def)

lemma drop_results_frame [simp]:
  "s_calls (drop_results ns st) = s_calls st" "s_asks (drop_results ns st) = s_asks st"
  "s_res (drop_results ns st) = s_res st"
  "wc_sealed (s_ctx (drop_results ns st)) = wc_sealed (s_ctx st)"
  by (simp_all add: drop_results_def)

lemma exec_call_frame [simp]:
  "s_ctx (snd (exec_call env i tool args ps st)) = s_ctx st"
  "s_asks (snd (exec_call env i tool args ps st)) = s_asks st"
  "s_res (snd (exec_call env i tool args ps st)) = s_res st"
  "s_calls (snd (exec_call env i tool args ps st)) = s_calls st @
     [\<lparr>cl_step = i, cl_tool = tool, cl_args = args, cl_params = ps,
       cl_sealed = wc_sealed (s_ctx st)\<rparr>]"
  by (simp_all add: exec_call_def split: prod.split)

section \<open>What every runner does to the logs\<close>

text \<open>
  A call is sound when the seal in force matches the parameters its arguments came from.
\<close>

definition call_sound :: "(jval \<Rightarrow> string) \<Rightarrow> call_log \<Rightarrow> bool" where
  "call_sound dig c =
     (case cl_sealed c of None \<Rightarrow> True | Some k \<Rightarrow> verify_digest dig k (cl_params c))"

text \<open>The calls a step may make: its index with its tool, or with a tool its function may choose.\<close>

definition step_tools :: "'r wstep \<Rightarrow> string set" where
  "step_tools s = (case st_tool_func s of None \<Rightarrow> {st_tool s} | Some f \<Rightarrow> range (\<lambda>c. fst (f c)))"

definition extends :: "(jval \<Rightarrow> string) \<Rightarrow> (nat \<times> string) set \<Rightarrow> nat set \<Rightarrow> ('r, 'w) rstate
    \<Rightarrow> ('r, 'w) rstate \<Rightarrow> bool" where
  "extends dig I J st st' \<longleftrightarrow>
     wc_sealed (s_ctx st') = wc_sealed (s_ctx st) \<and>
     r_success (s_res st') = r_success (s_res st) \<and>
     (\<exists>cs. s_calls st' = s_calls st @ cs \<and>
        (\<forall>c \<in> set cs. (cl_step c, cl_tool c) \<in> I \<and> cl_sealed c = wc_sealed (s_ctx st) \<and> call_sound dig c)) \<and>
     (\<exists>as. s_asks st' = s_asks st @ as \<and> (\<forall>a \<in> set as. al_step a \<in> J))"

lemma extends_same:
  "\<lbrakk>wc_sealed (s_ctx st') = wc_sealed (s_ctx st); s_calls st' = s_calls st; s_asks st' = s_asks st;
    r_success (s_res st') = r_success (s_res st)\<rbrakk>
   \<Longrightarrow> extends dig I J st st'"
  by (simp add: extends_def)

lemma extends_refl [simp]: "extends dig I J st st"
  by (simp add: extends_def)

lemma extends_trans:
  assumes "extends dig I J a b" and "extends dig I J b c"
  shows "extends dig I J a c"
  using assms unfolding extends_def by fastforce

lemma extends_mono: "extends dig I J a b \<Longrightarrow> I \<subseteq> I' \<Longrightarrow> J \<subseteq> J' \<Longrightarrow> extends dig I' J' a b"
  unfolding extends_def by blast

lemma extends_sealed: "extends dig I J a b \<Longrightarrow> wc_sealed (s_ctx b) = wc_sealed (s_ctx a)"
  by (simp add: extends_def)

lemma extends_then_same:
  "\<lbrakk>extends dig I J a b; wc_sealed (s_ctx c) = wc_sealed (s_ctx b);
    s_calls c = s_calls b; s_asks c = s_asks b; r_success (s_res c) = r_success (s_res b)\<rbrakk> \<Longrightarrow> extends dig I J a c"
  by (simp add: extends_def)

lemma extends_after_same:
  "\<lbrakk>extends dig I J b c; wc_sealed (s_ctx b) = wc_sealed (s_ctx a);
    s_calls b = s_calls a; s_asks b = s_asks a; r_success (s_res b) = r_success (s_res a)\<rbrakk> \<Longrightarrow> extends dig I J a c"
  by (simp add: extends_def)

lemma extends_exec_call:
  assumes "\<forall>k. wc_sealed (s_ctx st) = Some k \<longrightarrow> verify_digest dig k ps" and "(i, tool) \<in> I"
  shows "extends dig I J st (snd (exec_call env i tool args ps st))"
  using assms by (simp add: extends_def call_sound_def split: option.split)

lemma verify_sealed_contract_cases:
  "verify_sealed_contract env step i tot st = (b, st') \<Longrightarrow>
     (b \<longrightarrow> st' = st \<and> (\<forall>k. wc_sealed (s_ctx st) = Some k \<longrightarrow>
        verify_digest (env_digest env) k (ctx_params (s_ctx st)))) \<and>
     s_ctx st' = s_ctx st \<and> s_calls st' = s_calls st \<and> s_asks st' = s_asks st"
  by (auto simp: verify_sealed_contract_def split: option.splits if_splits)

lemma tool_exits_extend [simp]:
  "extends dig I J st (snd (tool_failed step i t tool args m st))"
  "extends dig I J st (snd (exec_failed step i t tool args e b st))"
  "extends dig I J st (snd (check_rejected step i t tool args oc st))"
  "extends dig I J st (snd (tool_done step i t tool r st))"
  "extends dig I J st (snd (batch_fail step i t tool m sa st))"
  by (auto simp: tool_failed_def exec_failed_def check_rejected_def tool_done_def batch_fail_def
      Let_def intro!: extends_same split: option.splits)

lemma extends_run_hook [simp]: "extends dig I J st (snd (run_hook h st))"
  by (rule extends_same) auto

lemma poll_loop_extends:
  assumes "\<forall>k. wc_sealed (s_ctx st) = Some k \<longrightarrow> verify_digest (env_digest env) k ps"
    and "(i, tool) \<in> I"
  shows "extends (env_digest env) I J st (snd (poll_loop env step i tot tool args ps deadline st))"
  using assms
proof (induction env step i tot tool args ps deadline st rule: poll_loop.induct)
  case (1 env step i tot tool args ps deadline st)
  let ?dig = "env_digest env"
  let ?ra = "exec_call env i tool args ps st"
  let ?st1 = "snd ?ra"
  have ext1: "extends ?dig I J st ?st1" using "1.prems" by (intro extends_exec_call)
  show ?case
  proof (cases "fst ?ra")
    case (Inl e)
    then show ?thesis
      by (subst poll_loop.simps) (simp add: Let_def extends_trans [OF ext1])
  next
    case (Inr r)
    show ?thesis
    proof (cases "st_check_result step")
      case None
      with Inr show ?thesis
        by (subst poll_loop.simps) (simp add: Let_def extends_trans [OF ext1])
    next
      case (Some chk)
      let ?rc = "run_hook (chk r) ?st1"
      let ?st2 = "snd ?rc"
      have ext2: "extends ?dig I J st ?st2"
        by (rule extends_trans [OF ext1]) simp
      note exits = extends_trans [OF ext2]
      have rec: "extends ?dig I J st
          (snd (poll_loop env step i tot tool args ps deadline (?st2\<lparr>s_now := s_now ?st2 + poll_wait pl\<rparr>)))"
        if "\<not> co_ok (fst (fst ?rc))" "co_pending (fst (fst ?rc))" "st_poll step = Some pl"
          "\<not> deadline \<le> s_now ?st2" "\<not> ctx_done env (s_now ?st2 + poll_wait pl)" for pl
      proof -
        have "extends ?dig I J (?st2\<lparr>s_now := s_now ?st2 + poll_wait pl\<rparr>)
            (snd (poll_loop env step i tot tool args ps deadline
              (?st2\<lparr>s_now := s_now ?st2 + poll_wait pl\<rparr>)))"
          using that Some Inr "1.prems" by (intro "1.IH") auto
        then have "extends ?dig I J ?st2
            (snd (poll_loop env step i tot tool args ps deadline
              (?st2\<lparr>s_now := s_now ?st2 + poll_wait pl\<rparr>)))"
          by (rule extends_after_same) simp_all
        then show ?thesis by (rule exits)
      qed
      show ?thesis
        using Some Inr rec
        by (subst poll_loop.simps) (auto simp: Let_def exits split: option.splits bool.splits)
    qed
  qed
qed

lemma batch_loop_extends:
  assumes "\<forall>k. wc_sealed (s_ctx st) = Some k \<longrightarrow> verify_digest (env_digest env) k ps"
    and "(i, tool) \<in> I"
  shows "extends (env_digest env) I J st (snd (batch_loop env i tool ps idx calls acc st))"
  using assms(1)
proof (induction calls arbitrary: idx acc st)
  case (Cons call calls)
  obtain outs sent succeeded where acc: "acc = (outs, sent, succeeded)" by (cases acc)
  have ext: "extends (env_digest env) I J st (snd (exec_call env i tool (bc_args call) ps st))"
    using Cons.prems assms(2) by (intro extends_exec_call)
  have "extends (env_digest env) I J (snd (exec_call env i tool (bc_args call) ps st))
      (snd (batch_loop env i tool ps idx' calls acc' (snd (exec_call env i tool (bc_args call) ps st))))"
    for idx' acc'
    using Cons.prems by (intro Cons.IH) simp
  then show ?case
    using Cons acc by (auto simp: Let_def split: sum.splits intro!: extends_trans [OF ext])
qed simp

lemma extends_hook_then:
  "extends dig I J (snd (run_hook h st)) c \<Longrightarrow> extends dig I J st c"
  by (rule extends_trans [OF extends_run_hook])

lemma batch_done_extends [simp]: "extends dig I J s (snd (batch_done step i tot tool s))"
  by (rule extends_same) (simp_all add: batch_done_def)

lemma batch_check_extends [simp]:
  "extends dig I J st (snd (batch_check step i tot tool enc sa st))"
proof (cases "st_check_result step")
  case None
  then show ?thesis by (simp add: batch_check_def)
next
  case (Some chk)
  let ?rc = "run_hook (chk enc) st"
  let ?st1 = "set_step_result (st_name step) (snd (fst ?rc)) (snd ?rc)"
  have "extends dig I J (snd ?rc) ?st1" by (rule extends_same) simp_all
  then have stored: "extends dig I J st ?st1" by (rule extends_hook_then)
  have failing: "extends dig I J st (snd (batch_fail step i tot tool m sa ?st1))" for m
    by (rule extends_trans [OF stored]) simp
  have passing: "extends dig I J st (snd (batch_done step i tot tool ?st1))"
    by (rule extends_trans [OF stored]) simp
  show ?thesis
    using Some passing failing
    by (auto simp: batch_check_def Let_def intro!: extends_then_same [OF failing])
qed

lemma batch_fan_out_extends:
  assumes "\<forall>k. wc_sealed (s_ctx st) = Some k \<longrightarrow>
      verify_digest (env_digest env) k (ctx_params (s_ctx st))" and "(i, tool) \<in> I"
  shows "extends (env_digest env) I J st (snd (batch_fan_out env step calls tool i tot st))"
proof -
  let ?bl = "batch_loop env i tool (ctx_params (s_ctx st)) 0 calls ([], [], 0) st"
  have ext: "extends (env_digest env) I J st (snd ?bl)"
    using assms by (rule batch_loop_extends)
  then have "extends (env_digest env) I J st (set_step_result n r (snd ?bl))" for n r
    by (rule extends_then_same) simp_all
  then show ?thesis
    by (auto simp: batch_fan_out_def Let_def
        intro: extends_trans [OF ext] extends_trans [OF _ batch_check_extends])
qed

lemma verify_ok:
  "fst (verify_sealed_contract env step i tot st) \<Longrightarrow>
     snd (verify_sealed_contract env step i tot st) = st \<and>
     (\<forall>k. wc_sealed (s_ctx st) = Some k \<longrightarrow>
        verify_digest (env_digest env) k (ctx_params (s_ctx st)))"
  by (auto simp: verify_sealed_contract_def split: option.splits if_splits)

lemma verify_frame [simp]:
  "s_ctx (snd (verify_sealed_contract env step i tot st)) = s_ctx st"
  "s_calls (snd (verify_sealed_contract env step i tot st)) = s_calls st"
  "s_asks (snd (verify_sealed_contract env step i tot st)) = s_asks st"
  "r_success (s_res (snd (verify_sealed_contract env step i tot st))) = r_success (s_res st)"
  by (auto simp: verify_sealed_contract_def split: option.splits)

lemma run_batch_tool_step_extends:
  assumes "(i, tool) \<in> I"
  shows "extends (env_digest env) I J st
     (snd (run_batch_tool_step env step build tool i tot st))"
proof (cases "fst (run_hook build st)")
  case (Inl e)
  have failing: "extends (env_digest env) I J st
      (snd (batch_fail step i tot tool m None (snd (run_hook build st))))"
    for m by (rule extends_hook_then [of _ _ _ build]) simp
  with Inl show ?thesis
    by (auto simp: run_batch_tool_step_def Let_def intro!: extends_then_same [OF failing])
next
  case (Inr calls)
  let ?st1 = "snd (run_hook build st)"
  let ?st2 = "emit step i tot StepToolCall Running tool
    (Some [(''BatchSize'', GInt (int (length calls)))]) MsgNone ?st1"
  show ?thesis
  proof (cases "fst (verify_sealed_contract env step i tot ?st1)")
    case True
    note ok = verify_ok [OF True]
    have "extends (env_digest env) I J ?st2 (snd (batch_fan_out env step calls tool i tot ?st2))"
      using ok assms by (intro batch_fan_out_extends) auto
    then have "extends (env_digest env) I J st (snd (batch_fan_out env step calls tool i tot ?st2))"
      by (rule extends_after_same) simp_all
    with Inr True ok show ?thesis by (simp add: run_batch_tool_step_def Let_def)
  next
    case False
    with Inr show ?thesis
      by (auto simp: run_batch_tool_step_def Let_def intro!: extends_same)
  qed
qed

lemma run_built_call_extends:
  assumes "(i, tool) \<in> I"
  shows "extends (env_digest env) I J st (snd (run_built_call env step args tool i tot st))"
proof (cases "fst (verify_sealed_contract env step i tot st)")
  case True
  note ok = verify_ok [OF True]
  let ?st3 = "emit step i tot StepToolCall Running tool (Some args) MsgNone st"
  have "extends (env_digest env) I J ?st3
      (snd (poll_loop env step i tot tool args (ctx_params (s_ctx st)) dl ?st3))" for dl
    using ok assms by (intro poll_loop_extends) auto
  then have "extends (env_digest env) I J st
      (snd (poll_loop env step i tot tool args (ctx_params (s_ctx st)) dl ?st3))" for dl
    by (rule extends_after_same) simp_all
  then show ?thesis using True ok
    by (auto simp: run_built_call_def Let_def split: option.split intro!: extends_same)
next
  case False
  then show ?thesis by (auto simp: run_built_call_def intro!: extends_same)
qed

lemma run_tool_step_extends:
  assumes "{i} \<times> step_tools step \<subseteq> I"
  shows "extends (env_digest env) I J st (snd (run_tool_step env step i tot st))"
proof -
  let ?rt = "case st_tool_func step of None \<Rightarrow> (st_tool step, st) | Some f \<Rightarrow> run_hook f st"
  have "fst ?rt \<in> step_tools step"
    by (simp add: step_tools_def run_hook_def split: option.split prod.split) (metis fst_conv rangeI)
  then have tool: "(i, fst ?rt) \<in> I" using assms by blast
  have ext0: "extends (env_digest env) I J st (snd ?rt)"
    by (auto split: option.split)
  have ext1: "extends (env_digest env) I J st (snd (run_hook (st_build_args step) (snd ?rt)))"
    by (rule extends_trans [OF ext0]) simp
  show ?thesis
  proof (cases "st_build_args_batch step")
    case (Some build)
    then show ?thesis
      using extends_trans [OF ext0 run_batch_tool_step_extends [OF tool]]
      by (simp add: run_tool_step_def Let_def)
  next
    case None
    show ?thesis
    proof (cases "fst (run_hook (st_build_args step) (snd ?rt))")
      case (Inl e)
      with None show ?thesis
        by (auto simp: run_tool_step_def Let_def intro!: extends_then_same [OF ext1])
    next
      case (Inr args)
      with None show ?thesis
        using extends_trans [OF ext1 run_built_call_extends [OF tool]]
        by (simp add: run_tool_step_def Let_def)
    qed
  qed
qed

lemma run_resolve_step_extends:
  "extends (env_digest env) I J st (snd (run_resolve_step env step i tot st))"
  by (auto simp: run_resolve_step_def Let_def intro!: extends_same split: option.split sum.split)

section \<open>A step that did not fail leaves no failure record\<close>

lemma tool_exits_failure:
  "fst (tool_failed step i t tool args m st) = ToolFailed"
  "fst (exec_failed step i t tool args e b st) \<noteq> ToolFailed \<Longrightarrow>
     r_failure (s_res (snd (exec_failed step i t tool args e b st))) = r_failure (s_res st)"
  "fst (check_rejected step i t tool args oc st) \<noteq> ToolFailed \<Longrightarrow>
     r_failure (s_res (snd (check_rejected step i t tool args oc st))) = r_failure (s_res st)"
  "r_failure (s_res (snd (tool_done step i t tool r st))) = r_failure (s_res st)"
  "fst (batch_fail step i t tool m sa st) \<noteq> ToolFailed \<Longrightarrow>
     r_failure (s_res (snd (batch_fail step i t tool m sa st))) = r_failure (s_res st)"
  "r_failure (s_res (snd (batch_done step i t tool st))) = r_failure (s_res st)"
  by (auto simp: tool_failed_def exec_failed_def check_rejected_def tool_done_def batch_fail_def
      batch_done_def Let_def split: if_splits)

lemma poll_loop_failure:
  "fst (poll_loop env step i tot tool args ps deadline st) \<noteq> ToolFailed \<Longrightarrow>
     r_failure (s_res (snd (poll_loop env step i tot tool args ps deadline st)))
       = r_failure (s_res st)"
proof (induction env step i tot tool args ps deadline st rule: poll_loop.induct)
  case (1 env step i tot tool args ps deadline st)
  let ?ra = "exec_call env i tool args ps st"
  let ?st1 = "snd ?ra"
  let ?st2 = "\<lambda>chk r. snd (run_hook (chk r) ?st1)"
  let ?rest = "\<lambda>chk r pl. poll_loop env step i tot tool args ps deadline
     ((?st2 chk r)\<lparr>s_now := s_now (?st2 chk r) + poll_wait pl\<rparr>)"
  have "r_failure (s_res (snd (?rest chk r pl))) = r_failure (s_res st)"
    if "fst ?ra = Inr r" "st_check_result step = Some chk"
      "\<not> co_ok (fst (fst (run_hook (chk r) ?st1)))" "co_pending (fst (fst (run_hook (chk r) ?st1)))"
      "st_poll step = Some pl" "\<not> deadline \<le> s_now (?st2 chk r)"
      "\<not> ctx_done env (s_now (?st2 chk r) + poll_wait pl)"
      "fst (?rest chk r pl) \<noteq> ToolFailed" for chk r pl
  proof -
    have "r_failure (s_res (snd (?rest chk r pl)))
        = r_failure (s_res ((?st2 chk r)\<lparr>s_now := s_now (?st2 chk r) + poll_wait pl\<rparr>))"
      using that by (intro "1.IH") auto
    then show ?thesis by simp
  qed
  then show ?case
    using "1.prems"
    by (subst (asm) (2) poll_loop.simps, subst poll_loop.simps)
      (auto simp: Let_def tool_exits_failure split: sum.splits option.splits bool.splits if_splits)
qed

lemma batch_loop_res [simp]:
  "s_res (snd (batch_loop env i tool ps idx calls acc st)) = s_res st"
proof (induction calls arbitrary: idx acc st)
  case (Cons c cs)
  then show ?case by (cases acc) (auto simp: Let_def split: sum.split)
qed simp

lemma batch_check_failure:
  "fst (batch_check step i tot tool enc sa st) \<noteq> ToolFailed \<Longrightarrow>
     r_failure (s_res (snd (batch_check step i tot tool enc sa st))) = r_failure (s_res st)"
  by (auto simp: batch_check_def Let_def tool_exits_failure split: option.splits if_splits)

lemma run_batch_failure:
  "fst (run_batch_tool_step env step build tool i tot st) \<noteq> ToolFailed \<Longrightarrow>
     r_failure (s_res (snd (run_batch_tool_step env step build tool i tot st)))
       = r_failure (s_res st)"
  by (auto simp: run_batch_tool_step_def batch_fan_out_def Let_def tool_exits_failure verify_ok
      batch_check_failure split: sum.splits if_splits)

lemma run_built_call_failure:
  "fst (run_built_call env step args tool i tot st) \<noteq> ToolFailed \<Longrightarrow>
     r_failure (s_res (snd (run_built_call env step args tool i tot st))) = r_failure (s_res st)"
  by (auto simp: run_built_call_def Let_def poll_loop_failure verify_ok
      split: option.splits if_splits)

lemma run_tool_step_failure:
  "fst (run_tool_step env step i tot st) \<noteq> ToolFailed \<Longrightarrow>
     r_failure (s_res (snd (run_tool_step env step i tot st))) = r_failure (s_res st)"
  by (auto simp: run_tool_step_def Let_def run_batch_failure run_built_call_failure
      split: option.splits sum.splits if_splits)

lemma run_resolve_step_failure:
  "fst (run_resolve_step env step i tot st) \<noteq> ToolFailed \<Longrightarrow>
     r_failure (s_res (snd (run_resolve_step env step i tot st))) = r_failure (s_res st)"
  by (auto simp: run_resolve_step_def Let_def split: option.splits sum.splits if_splits)

end
