(* ===== verification/WorkflowGate.thy ===== *)
theory WorkflowGate
  imports WorkflowFacts
begin

text \<open>
  What the confirmation gate and the run loop guarantee: the relation \<open>extends\<close> carried
  through the re-validation and the gate, and \<open>progress\<close>, the invariant of the run loop,
  from which the authorization properties of the engine follow.
\<close>

section \<open>Re-validation\<close>

lemma rerun_steps_extends:
  assumes "\<forall>(i, s) \<in> set rs. st_type s = StepToolCall \<longrightarrow> {i} \<times> step_tools s \<subseteq> I"
  shows "extends (env_digest env) I J st (snd (rerun_steps env tot rs st))"
  using assms
proof (induction rs arbitrary: st)
  case (Cons irs rest)
  obtain i rs where irs: "irs = (i, rs)" by (cases irs)
  let ?ext = "\<lambda>a b. extends (env_digest env) I J a b"
  note res = run_resolve_step_extends [of env I J]
  have rest: "?ext s (snd (rerun_steps env tot rest s))" for s :: "('a, 'b) rstate"
    using Cons by simp
  have res': "?ext s (snd (rerun_steps env tot rest (snd (run_resolve_step env rs i tot s))))"
    for s :: "('a, 'b) rstate"
    by (rule extends_trans [OF res rest])
  have skipped: ?case if "st_type rs \<noteq> StepToolCall"
    unfolding irs using that extends_hook_then [of _ _ _ _ st, OF rest] extends_hook_then [of _ _ _ _ st, OF res]
      extends_hook_then [of _ _ _ _ st, OF res']
    by (auto simp: Let_def res res' rest split: step_type.split option.split sum.split bool.split)
  have called: ?case if ty: "st_type rs = StepToolCall"
  proof -
    have i: "{i} \<times> step_tools rs \<subseteq> I" using Cons.prems irs ty by auto
    note tool = run_tool_step_extends [OF i, of env J]
    have tool': "?ext s (snd (rerun_steps env tot rest (snd (run_tool_step env rs i tot s))))"
      for s :: "('a, 'b) rstate"
      by (rule extends_trans [OF tool rest])
    show ?thesis
      unfolding irs using ty extends_hook_then [of _ _ _ _ st, OF rest] extends_hook_then [of _ _ _ _ st, OF tool]
        extends_hook_then [of _ _ _ _ st, OF tool']
      by (auto simp: Let_def tool tool' rest split: option.split sum.split bool.split)
  qed
  show ?case by (cases "st_type rs = StepToolCall") (rule called skipped, assumption)+
qed simp

text \<open>The calls the tool steps before step \<open>i\<close> may make.\<close>

definition calls_before :: "'r definition_ \<Rightarrow> nat \<Rightarrow> (nat \<times> string) set" where
  "calls_before def i = {(j, t). j < i \<and> st_type (def_steps def ! j) = StepToolCall \<and> t \<in> step_tools (def_steps def ! j)}"

definition calls_at :: "'r definition_ \<Rightarrow> nat \<Rightarrow> (nat \<times> string) set" where
  "calls_at def i = {c \<in> calls_before def (length (def_steps def)). fst c = i}"

lemma calls_before_mono: "i \<le> j \<Longrightarrow> calls_before def i \<subseteq> calls_before def j"
  by (auto simp: calls_before_def)

lemma revalidate_from_extends:
  "extends (env_digest env) (calls_before def ci) J st (snd (revalidate_from env def step ci tot st))"
proof -
  have "extends (env_digest env) (calls_before def ci) J (drop_results ns st)
      (snd (rerun_steps env tot (step_range def a ci) (drop_results ns st)))" for ns a
    by (rule rerun_steps_extends) (auto simp: step_range_def calls_before_def)
  then have "extends (env_digest env) (calls_before def ci) J st
      (snd (rerun_steps env tot (step_range def a ci) (drop_results ns st)))" for ns a
    by (rule extends_after_same) simp_all
  then show ?thesis by (simp add: revalidate_from_def Let_def split: option.split)
qed

section \<open>The gate\<close>

lemma gate_exits [simp]:
  "s_asks (snd (gate_fail step i t m st)) = s_asks st"
  "fst (gate_fail step i t m st) = False"
  "s_asks (snd (gate_cancelled step i t st)) = s_asks st"
  "fst (gate_cancelled step i t st) = False"
  "s_asks (snd (gate_pass step i t st)) = s_asks st"
  "s_asks (snd (gate_unchanged step form i t st)) = s_asks st"
  by (auto simp: gate_fail_def gate_cancelled_def gate_pass_def gate_unchanged_def Let_def
      split: option.split submit_mode.split)

lemma gate_exits_extend [simp]:
  "extends dig I J st (snd (gate_fail step i t m st))"
  "extends dig I J st (snd (gate_cancelled step i t st))"
  "extends dig I J st (snd (gate_pass step i t st))"
  "extends dig I J st (snd (gate_unchanged step form i t st))"
  by (auto simp: gate_fail_def gate_cancelled_def gate_pass_def gate_unchanged_def Let_def
      intro!: extends_same split: option.split submit_mode.split)

lemma build_form_frame [simp]:
  "s_asks (snd (build_form env step st)) = s_asks st"
  "s_calls (snd (build_form env step st)) = s_calls st"
  "wc_sealed (s_ctx (snd (build_form env step st))) = wc_sealed (s_ctx st)"
  "s_res (snd (build_form env step st)) = s_res st"
  by (auto simp: build_form_def Let_def split: option.split sum.split)

lemma ask_plain_frame [simp]:
  "s_ctx (snd (ask_plain env def i args st)) = s_ctx st"
  "s_calls (snd (ask_plain env def i args st)) = s_calls st"
  "s_res (snd (ask_plain env def i args st)) = s_res st"
  by (auto simp: ask_plain_def split: option.split prod.split)

lemma ask_form_frame [simp]:
  "s_ctx (snd (ask_form ask def i args form st)) = s_ctx st"
  "s_calls (snd (ask_form ask def i args form st)) = s_calls st"
  "s_res (snd (ask_form ask def i args form st)) = s_res st"
  "s_asks (snd (ask_form ask def i args form st)) = s_asks st @
     [\<lparr>al_step = i, al_args = args, al_yes = cr_confirmed (fst (ask_form ask def i args form st))\<rparr>]"
  by (auto simp: ask_form_def split: prod.split)

lemma ask_plain_asks:
  "\<exists>as. s_asks (snd (ask_plain env def i args st)) = s_asks st @ as \<and> length as \<le> 1 \<and>
     (\<forall>a \<in> set as. al_step a = i) \<and>
     (fst (ask_plain env def i args st) \<longrightarrow> as \<noteq> [] \<and> al_yes (last as))"
  by (auto simp: ask_plain_def split: option.split prod.split)

lemma gate_failure:
  "fst (gate_pass step i t st) \<Longrightarrow> r_failure (s_res (snd (gate_pass step i t st))) = r_failure (s_res st)"
  "fst (gate_unchanged step form i t st) \<Longrightarrow>
     r_failure (s_res (snd (gate_unchanged step form i t st))) = r_failure (s_res st)"
  by (auto simp: gate_pass_def gate_unchanged_def gate_fail_def Let_def
      split: option.splits submit_mode.splits if_splits)

lemma rerun_steps_failure:
  "fst (fst (rerun_steps env tot rs st)) \<Longrightarrow>
     r_failure (s_res (snd (rerun_steps env tot rs st))) = r_failure (s_res st)"
proof (induction rs arbitrary: st)
  case (Cons irs rest)
  then show ?case
    by (cases irs)
      (auto simp: Let_def run_tool_step_failure run_resolve_step_failure
        split: step_type.splits option.splits sum.splits bool.splits if_splits)
qed simp

lemma revalidate_from_failure:
  "fst (fst (revalidate_from env def step ci tot st)) \<Longrightarrow>
     r_failure (s_res (snd (revalidate_from env def step ci tot st))) = r_failure (s_res st)"
  by (auto simp: revalidate_from_def Let_def rerun_steps_failure split: option.splits if_splits)

lemma revalidate_from_asks [simp]:
  "s_asks (snd (revalidate_from env def step ci tot st)) = s_asks st"
  using revalidate_from_extends [of env def ci "{}"] by (fastforce simp: extends_def)

text \<open>The whole gate: what it does to the logs, how many cards it shows, what passing means.\<close>

definition gate_run :: "(jval \<Rightarrow> string) \<Rightarrow> 'r definition_ \<Rightarrow> nat \<Rightarrow> nat \<Rightarrow> ('r, 'w) rstate
    \<Rightarrow> bool \<times> ('r, 'w) rstate \<Rightarrow> bool" where
  "gate_run dig def i n st r \<longleftrightarrow> extends dig (calls_before def i) {i} st (snd r) \<and>
     (\<exists>as. s_asks (snd r) = s_asks st @ as \<and> length as \<le> n \<and>
        (fst r \<longrightarrow> as \<noteq> [] \<and> al_yes (last as))) \<and>
     (fst r \<longrightarrow> r_failure (s_res (snd r)) = r_failure (s_res st))"

lemma gate_run_final:
  assumes "extends dig (calls_before def i) {i} st s" and "s_asks s = s_asks st @ as" and "length as \<le> n"
    and "extends dig (calls_before def i) {i} s (snd r)" and "s_asks (snd r) = s_asks s"
    and "fst r \<longrightarrow> as \<noteq> [] \<and> al_yes (last as) \<and> r_failure (s_res (snd r)) = r_failure (s_res st)"
  shows "gate_run dig def i n st r"
  using assms extends_trans [OF assms(1,4)] by (auto simp: gate_run_def)

lemma gate_run_again:
  assumes "extends dig (calls_before def i) {i} st s" and "s_asks s = s_asks st @ [a]"
    and "r_failure (s_res s) = r_failure (s_res st)" and "gate_run dig def i n s r"
  shows "gate_run dig def i (Suc n) st r"
proof -
  obtain as where as: "s_asks (snd r) = s_asks s @ as" "length as \<le> n"
    "fst r \<longrightarrow> as \<noteq> [] \<and> al_yes (last as)"
    using assms(4) unfolding gate_run_def by blast
  show ?thesis
    unfolding gate_run_def using assms as extends_trans [OF assms(1), of "snd r"]
    by (auto simp: gate_run_def intro!: exI [of _ "a # as"])
qed

lemma confirm_loop_gate_run:
  assumes "edits \<le> max_confirm_edits"
  shows "gate_run (env_digest env) def i (Suc max_confirm_edits - edits) st
     (confirm_loop env def step i tot edits st)"
  using assms
proof (induction env def step i tot edits st rule: confirm_loop.induct)
  case (1 env def step i tot edits st)
  let ?ext = "extends (env_digest env) (calls_before def i) {i}"
  let ?n = "Suc max_confirm_edits - edits"
  let ?ra = "run_hook (st_build_args step) st"
  let ?rf = "build_form env step (snd ?ra)"
  let ?st1 = "\<lambda>args. emit step i tot StepConfirm Waiting [] (Some args) MsgNone (snd ?rf)"
  have n: "1 \<le> ?n" using "1.prems" by simp
  have pre: "?ext st (?st1 args)" for args by (rule extends_same) simp_all
  show ?case
  proof (cases "fst ?ra")
    case (Inl e)
    have "?ext st (snd (gate_fail step i tot m (set_missing e (snd ?ra))))" for m
      by (rule extends_after_same [OF gate_exits_extend(1)]) simp_all
    with Inl show ?thesis
      by (subst confirm_loop.simps) (simp add: Let_def gate_run_final [where as = "[]", OF extends_refl])
  next
    case args: (Inr args)
    show ?thesis
    proof (cases "fst ?rf")
      case None
      let ?rq = "ask_plain env def i args (?st1 args)"
      obtain as where as: "s_asks (snd ?rq) = s_asks (?st1 args) @ as" "length as \<le> 1"
        "\<forall>a \<in> set as. al_step a = i" "fst ?rq \<longrightarrow> as \<noteq> [] \<and> al_yes (last as)"
        using ask_plain_asks [of env def i args "?st1 args"] by blast
      have "?ext st (snd ?rq)"
        using as pre by (auto simp: extends_def)
      then show ?thesis
        using args None as n
        by (subst confirm_loop.simps)
          (auto simp: Let_def gate_failure intro!: gate_run_final [where as = as])
    next
      case (Some af)
      obtain ask form where af: "af = (ask, form)" by (cases af)
      let ?rr = "ask_form ask def i args form (?st1 args)"
      let ?a = "\<lparr>al_step = i, al_args = args, al_yes = cr_confirmed (fst ?rr)\<rparr>"
      let ?st2 = "snd ?rr"
      have asks2: "s_asks ?st2 = s_asks st @ [?a]" by simp
      have ext2: "?ext st ?st2" by (simp add: extends_def)
      let ?ro = "\<lambda>ov. run_hook (ov (cr_overrides (fst ?rr))) ?st2"
      let ?rv = "\<lambda>ov. revalidate_from env def step i tot (snd (?ro ov))"
      let ?loop = "confirm_loop env def step i tot"
      have unf: "?loop edits st =
          (if \<not> cr_confirmed (fst ?rr) then gate_cancelled step i tot ?st2
           else if cr_overrides (fst ?rr) = [] then gate_unchanged step form i tot ?st2
           else if max_confirm_edits < Suc edits then gate_fail step i tot MsgTooManyEdits ?st2
           else case validate_overrides (Some form) (cr_overrides (fst ?rr)) of
             Some e \<Rightarrow> gate_fail step i tot (MsgOverridesInvalid e) ?st2
           | None \<Rightarrow> (case st_apply_overrides step of
                None \<Rightarrow> gate_fail step i tot MsgOverridesUnsupported ?st2
              | Some ov \<Rightarrow> (case fst (?ro ov) of
                   Some e \<Rightarrow> gate_fail step i tot (MsgOverridesRejected e) (snd (?ro ov))
                 | None \<Rightarrow>
                     if st_submit_mode step = SubmitContinue then gate_pass step i tot (snd (?ro ov))
                     else (case fst (?rv ov) of
                         (True, _) \<Rightarrow> ?loop (Suc edits) (snd (?rv ov))
                       | (False, Some m) \<Rightarrow> gate_fail step i tot m (snd (?rv ov))
                       | (False, None) \<Rightarrow> (False, snd (?rv ov))))))"
        by (subst confirm_loop.simps) (simp only: Let_def args Some af sum.case option.case prod.case)
      have ext3: "?ext st (snd (?ro ov))" for ov
        by (rule extends_trans [OF ext2]) simp
      have ext4: "?ext st (snd (?rv ov))" for ov
        by (rule extends_trans [OF ext3 revalidate_from_extends])
      have asks3: "s_asks (snd (?ro ov)) = s_asks st @ [?a]"
        and asks4: "s_asks (snd (?rv ov)) = s_asks st @ [?a]" for ov
        by simp_all
      note stop2 = gate_run_final [OF ext2 asks2]
      have again: "gate_run (env_digest env) def i ?n st (?loop (Suc edits) (snd (?rv ov)))"
        if "cr_confirmed (fst ?rr)" "cr_overrides (fst ?rr) \<noteq> []" "\<not> max_confirm_edits < Suc edits"
          "validate_overrides (Some form) (cr_overrides (fst ?rr)) = None"
          "st_apply_overrides step = Some ov" "fst (?ro ov) = None"
          "st_submit_mode step \<noteq> SubmitContinue" "fst (fst (?rv ov))" for ov
      proof -
        have "gate_run (env_digest env) def i (Suc max_confirm_edits - Suc edits) (snd (?rv ov))
            (?loop (Suc edits) (snd (?rv ov)))"
          using that args Some af by (intro "1.IH") (auto simp: prod_eq_iff)
        then have "gate_run (env_digest env) def i (Suc (Suc max_confirm_edits - Suc edits)) st
            (?loop (Suc edits) (snd (?rv ov)))"
          by (intro gate_run_again [OF ext4 asks4])
            (simp_all add: revalidate_from_failure [OF that(8)])
        with that(3) show ?thesis by (simp add: Suc_diff_le)
      qed
      let ?ok = "gate_run (env_digest env) def i ?n st"
      have end2: "?ok (gate_cancelled step i tot ?st2)" "?ok (gate_fail step i tot m ?st2)" for m
        by (rule stop2; use n in simp)+
      have end2': "?ok (gate_unchanged step form i tot ?st2)" if "cr_confirmed (fst ?rr)"
        by (rule stop2; use n that in \<open>simp add: gate_failure\<close>)
      have end3: "?ok (gate_fail step i tot m (snd (?ro ov)))" for m ov
        by (rule gate_run_final [OF ext3 [of ov] asks3 [of ov]]; use n in simp)
      have end3': "?ok (gate_pass step i tot (snd (?ro ov)))" if "cr_confirmed (fst ?rr)" for ov
        by (rule gate_run_final [OF ext3 [of ov] asks3 [of ov]]; use n that in \<open>simp add: gate_failure\<close>)
      have end4: "?ok (gate_fail step i tot m (snd (?rv ov)))" "?ok (False, snd (?rv ov))" for m ov
        by (rule gate_run_final [OF ext4 [of ov] asks4 [of ov]]; use n in simp)+
      show ?thesis
        unfolding unf using again
        by (auto simp: end2 end2' end3 end3' end4 simp del: not_less
            split: option.split bool.split prod.split)
    qed
  qed
qed

section \<open>The run loop\<close>

text \<open>A gate of the definition that no skip condition can bypass, and its approval.\<close>

definition gate_at :: "'r definition_ \<Rightarrow> nat \<Rightarrow> bool" where
  "gate_at def g \<longleftrightarrow> g < length (def_steps def) \<and> st_type (def_steps def ! g) = StepConfirm \<and>
     st_skip_if (def_steps def ! g) = None"

definition approved :: "ask_log list \<Rightarrow> nat \<Rightarrow> bool" where
  "approved asks g \<longleftrightarrow> (\<exists>a \<in> set asks. al_step a = g \<and> al_yes a)"

text \<open>A seal as \<open>Context.seal\<close> writes it: this operation, and its own digest.\<close>

definition seal_wf :: "(jval \<Rightarrow> string) \<Rightarrow> 'r definition_ \<Rightarrow> sealed_contract \<Rightarrow> bool" where
  "seal_wf dig def k \<longleftrightarrow> sc_operation k = def_name def \<and>
     sc_digest k = params_digest dig (sc_business_params k)"

definition call_ok :: "(jval \<Rightarrow> string) \<Rightarrow> 'r definition_ \<Rightarrow> ask_log list \<Rightarrow> call_log \<Rightarrow> bool" where
  "call_ok dig def asks c \<longleftrightarrow> (cl_step c, cl_tool c) \<in> calls_before def (length (def_steps def)) \<and> call_sound dig c \<and> (\<forall>k. cl_sealed c = Some k \<longrightarrow> seal_wf dig def k) \<and>
     (cl_sealed c \<noteq> None \<longrightarrow> (\<exists>g < cl_step c. approved asks g)) \<and>
     (\<forall>g < cl_step c. gate_at def g \<longrightarrow> approved asks g) \<and>
     ((\<exists>g < cl_step c. gate_at def g) \<and> \<not> confirm_gate_unpassed def (cl_step c) \<longrightarrow>
        cl_sealed c \<noteq> None)"

definition progress :: "(jval \<Rightarrow> string) \<Rightarrow> 'r definition_ \<Rightarrow> nat \<Rightarrow> ('r, 'w) rstate \<Rightarrow> bool" where
  "progress dig def i st \<longleftrightarrow>
     (\<forall>c \<in> set (s_calls st). call_ok dig def (s_asks st) c) \<and>
     (\<forall>g < i. gate_at def g \<longrightarrow> approved (s_asks st) g) \<and>
     ((\<exists>g < i. gate_at def g) \<longrightarrow> wc_sealed (s_ctx st) \<noteq> None) \<and>
     (wc_sealed (s_ctx st) \<noteq> None \<longrightarrow> (\<exists>g < i. approved (s_asks st) g)) \<and>
     (\<forall>k. wc_sealed (s_ctx st) = Some k \<longrightarrow> seal_wf dig def k)"

lemma approved_mono: "set as \<subseteq> set bs \<Longrightarrow> approved as g \<Longrightarrow> approved bs g"
  by (auto simp: approved_def)

lemma approved_append [simp]: "approved (as @ bs) g \<longleftrightarrow> approved as g \<or> approved bs g"
  by (auto simp: approved_def)

lemma call_ok_mono: "set as \<subseteq> set bs \<Longrightarrow> call_ok dig def as c \<Longrightarrow> call_ok dig def bs c"
  unfolding call_ok_def using approved_mono by blast

lemma seal_wf_draft [simp]:
  "ed_operation d = def_name def \<Longrightarrow> seal_wf dig def (seal_draft dig d)"
  by (simp add: seal_wf_def)

lemma confirm_gate_unpassed_iff:
  "confirm_gate_unpassed def i \<longleftrightarrow>
     (\<exists>g \<ge> i. g < length (def_steps def) \<and> st_type (def_steps def ! g) = StepConfirm)"
proof
  assume "confirm_gate_unpassed def i"
  then obtain n where "n < length (def_steps def) - i" "st_type (def_steps def ! (i + n)) = StepConfirm"
    by (auto simp: confirm_gate_unpassed_def list_ex_length)
  then show "\<exists>g \<ge> i. g < length (def_steps def) \<and> st_type (def_steps def ! g) = StepConfirm"
    by (intro exI [of _ "i + n"]) auto
next
  assume "\<exists>g \<ge> i. g < length (def_steps def) \<and> st_type (def_steps def ! g) = StepConfirm"
  then obtain g where "i \<le> g" "g < length (def_steps def)"
    "st_type (def_steps def ! g) = StepConfirm" by blast
  then show "confirm_gate_unpassed def i"
    by (auto simp: confirm_gate_unpassed_def list_ex_length intro!: exI [of _ "g - i"])
qed

lemma unpassed_before: "\<lbrakk>i < length (def_steps def); st_type (def_steps def ! i) = StepConfirm; j \<le> i\<rbrakk>
    \<Longrightarrow> confirm_gate_unpassed def j"
  unfolding confirm_gate_unpassed_iff by blast

text \<open>A tool or resolve step: the seal stays, its calls are made after every earlier gate.\<close>

lemma progress_extends:
  assumes "progress dig def i st" and "extends dig (calls_at def i) {} st st'"
  shows "progress dig def i st'"
proof -
  obtain cs where cs: "s_calls st' = s_calls st @ cs"
    "\<forall>c \<in> set cs. cl_step c = i \<and> (cl_step c, cl_tool c) \<in> calls_before def (length (def_steps def)) \<and>
       cl_sealed c = wc_sealed (s_ctx st) \<and> call_sound dig c"
    and asks: "s_asks st' = s_asks st" and seal: "wc_sealed (s_ctx st') = wc_sealed (s_ctx st)"
    using assms(2) unfolding extends_def calls_at_def by auto
  have "call_ok dig def (s_asks st) c" if "c \<in> set cs" for c
    using assms(1) cs(2) that unfolding progress_def call_ok_def by metis
  then show ?thesis
    using assms(1) cs(1) asks seal unfolding progress_def by auto
qed

text \<open>A gate: the calls of its re-validation are unsealed and lie before it.\<close>

lemma calls_ok_gate:
  assumes "progress dig def i st" and "gate_run dig def i n st0 r"
    and st0: "s_calls st0 = s_calls st" "s_asks st0 = s_asks st" "wc_sealed (s_ctx st0) = None"
    and conf: "i < length (def_steps def)" "st_type (def_steps def ! i) = StepConfirm"
  shows "\<forall>c \<in> set (s_calls (snd r)). call_ok dig def (s_asks (snd r)) c"
proof -
  obtain cs as where cs: "s_calls (snd r) = s_calls st @ cs"
      "\<forall>c \<in> set cs. (cl_step c, cl_tool c) \<in> calls_before def i \<and> cl_sealed c = None \<and> call_sound dig c"
    and as: "s_asks (snd r) = s_asks st @ as"
    using assms(2) st0 unfolding gate_run_def extends_def by auto
  have low: "(cl_step c, cl_tool c) \<in> calls_before def (length (def_steps def))" "cl_step c < i" if "c \<in> set cs" for c
    using cs(2) that conf(1) by (auto simp: calls_before_def)
  have "call_ok dig def (s_asks (snd r)) c" if "c \<in> set cs" for c
  proof -
    have "confirm_gate_unpassed def (cl_step c)"
      using low(2) [OF that] by (intro unpassed_before [OF conf]) auto
    then show ?thesis
      using assms(1) cs(2) low [OF that] that as unfolding progress_def call_ok_def by auto
  qed
  moreover have "call_ok dig def (s_asks (snd r)) c" if "c \<in> set (s_calls st)" for c
    using assms(1) that as by (auto simp: progress_def intro: call_ok_mono [of "s_asks st"])
  ultimately show ?thesis using cs(1) by auto
qed

lemma progress_gate:
  assumes "progress dig def i st" and "gate_run dig def i n st0 r" and "fst r"
    and st0: "s_calls st0 = s_calls st" "s_asks st0 = s_asks st" "wc_sealed (s_ctx st0) = None"
    and conf: "i < length (def_steps def)" "st_type (def_steps def ! i) = StepConfirm"
  shows "progress dig def (Suc i) (upd_ctx (seal_ctx dig (def_name def)) (snd r))"
proof -
  obtain as where as: "s_asks (snd r) = s_asks st @ as" "as \<noteq> []" "al_yes (last as)"
      "\<forall>a \<in> set as. al_step a = i"
    using assms(2,3) st0(2) unfolding gate_run_def extends_def by fastforce
  then have "approved (s_asks (snd r)) i"
    by (auto simp: approved_def intro!: bexI [of _ "last as"])
  moreover have "approved (s_asks (snd r)) g" if "g < i" "gate_at def g" for g
    using assms(1) as that by (auto simp: progress_def)
  ultimately show ?thesis
    using calls_ok_gate [OF assms(1,2) st0 conf]
    by (auto simp: progress_def less_Suc_eq seal_ctx_def)
qed

text \<open>The run-loop invariant with the card counts and the state of the result.\<close>

definition cards :: "nat \<Rightarrow> ask_log list \<Rightarrow> nat" where
  "cards g asks = length (filter (\<lambda>a. al_step a = g) asks)"

definition running :: "(jval \<Rightarrow> string) \<Rightarrow> 'r definition_ \<Rightarrow> nat \<Rightarrow> ('r, 'w) rstate \<Rightarrow> bool" where
  "running dig def i st \<longleftrightarrow> progress dig def i st \<and>
     (\<forall>g < i. cards g (s_asks st) \<le> Suc max_confirm_edits) \<and>
     (\<forall>g \<ge> i. cards g (s_asks st) = 0) \<and>
     \<not> r_success (s_res st) \<and> r_failure (s_res st) = None"

text \<open>What is left when a step stopped the run: the logs are as good, the seal may be gone.\<close>

definition stopped :: "(jval \<Rightarrow> string) \<Rightarrow> 'r definition_ \<Rightarrow> nat \<Rightarrow> ('r, 'w) rstate \<Rightarrow> bool" where
  "stopped dig def i st \<longleftrightarrow>
     (\<forall>c \<in> set (s_calls st). call_ok dig def (s_asks st) c) \<and>
     (\<forall>g < i. gate_at def g \<longrightarrow> approved (s_asks st) g) \<and>
     (\<forall>g. cards g (s_asks st) \<le> Suc max_confirm_edits) \<and> \<not> r_success (s_res st)"

lemma running_stopped: "running dig def i st \<Longrightarrow> stopped dig def i st"
  unfolding running_def stopped_def progress_def by (metis not_less zero_le)

lemma running_skip: "running dig def i st \<Longrightarrow> \<not> gate_at def i \<Longrightarrow> running dig def (Suc i) st"
  by (auto simp: running_def progress_def less_Suc_eq)

lemma cards_append [simp]: "cards g (as @ bs) = cards g as + cards g bs"
  by (simp add: cards_def)

lemma running_extends:
  assumes "running dig def i st" and "extends dig (calls_at def i) {} st st'"
    and "r_failure (s_res st') = r_failure (s_res st)"
  shows "running dig def i st'"
  using assms progress_extends [of dig def i st st'] by (auto simp: running_def extends_def)

lemma stopped_extends:
  assumes "running dig def i st" and "extends dig (calls_at def i) {} st st'"
  shows "stopped dig def i st'"
proof -
  have "running dig def i (upd_res (\<lambda>r. r\<lparr>r_failure := None\<rparr>) st')"
    using assms by (intro running_extends [OF assms(1)] extends_then_same [OF assms(2)])
      (auto simp: running_def)
  from running_stopped [OF this] show ?thesis by (simp add: stopped_def)
qed

lemma running_one:
  assumes run: "running (env_digest env) def i st" and i: "i < length (def_steps def)"
    and step: "step = def_steps def ! i"
  shows "stopped (env_digest env) def i (snd (run_one env def i tot step st))"
    and "fst (run_one env def i tot step st) \<Longrightarrow>
      running (env_digest env) def (Suc i) (snd (run_one env def i tot step st))"
proof -
  let ?dig = "env_digest env"
  let ?ro = "run_one env def i tot step st"
  have "stopped ?dig def i (snd ?ro) \<and> (fst ?ro \<longrightarrow> running ?dig def (Suc i) (snd ?ro))"
  proof (cases "st_type step")
    case StepToolCall
    then have no_gate: "\<not> gate_at def i" by (simp add: gate_at_def step)
    have ext: "extends ?dig (calls_at def i) {} st (snd (run_tool_step env step i tot st))"
      using i StepToolCall by (intro run_tool_step_extends) (auto simp: calls_at_def calls_before_def step)
    show ?thesis
      using StepToolCall stopped_extends [OF run ext] running_extends [OF run ext]
        running_skip [OF _ no_gate] run_tool_step_failure [of env step i tot st]
      by (auto simp: run_one_def Let_def)
  next
    case StepResolve
    then have no_gate: "\<not> gate_at def i" by (simp add: gate_at_def step)
    have ext: "extends ?dig (calls_at def i) {} st (snd (run_resolve_step env step i tot st))"
      by (rule run_resolve_step_extends)
    show ?thesis
      using StepResolve stopped_extends [OF run ext] running_extends [OF run ext]
        running_skip [OF _ no_gate] run_resolve_step_failure [of env step i tot st]
      by (auto simp: run_one_def Let_def)
  next
    case (StepUnknown ty)
    have "extends ?dig (calls_at def i) {} st (fail_stop step i tot sty [] m st)" for m sty
      by (rule extends_same) simp_all
    with StepUnknown show ?thesis
      using stopped_extends [OF run] by (simp add: run_one_def)
  next
    case StepConfirm
    let ?st0 = "upd_ctx unseal st"
    let ?rc = "run_confirm_step env def step i tot st"
    have gr: "gate_run ?dig def i (Suc max_confirm_edits) ?st0 ?rc"
      using confirm_loop_gate_run [of 0 env def i ?st0] by (simp add: run_confirm_step_def)
    have conf: "st_type (def_steps def ! i) = StepConfirm" using StepConfirm step by simp
    have prog: "progress ?dig def i st" using run by (simp add: running_def)
    note logs = calls_ok_gate [OF prog gr _ _ _ i conf, simplified]
    obtain as where as: "s_asks (snd ?rc) = s_asks st @ as" "length as \<le> Suc max_confirm_edits"
        "\<forall>a \<in> set as. al_step a = i"
      using gr unfolding gate_run_def extends_def by auto
    have cards_as: "cards g as = (if g = i then length as else 0)" for g
      using as(3) by (auto simp: cards_def filter_id_conv filter_empty_conv)
    have cards: "\<forall>g < Suc i. cards g (s_asks (snd ?rc)) \<le> Suc max_confirm_edits"
        "\<forall>g \<ge> Suc i. cards g (s_asks (snd ?rc)) = 0"
      using run as(1,2) by (auto simp: running_def cards_as less_Suc_eq)
    then have all_cards: "cards g (s_asks (snd ?rc)) \<le> Suc max_confirm_edits" for g
      by (metis not_less zero_le)
    have succ: "\<not> r_success (s_res (snd ?rc))" and
      fail: "fst ?rc \<longrightarrow> r_failure (s_res (snd ?rc)) = None"
      using run gr by (auto simp: running_def gate_run_def extends_def)
    have "stopped ?dig def i (snd ?rc)"
      using logs all_cards succ prog as(1) by (simp add: stopped_def progress_def)
    moreover have "fst ?rc \<longrightarrow>
        running ?dig def (Suc i) (upd_ctx (seal_ctx ?dig (def_name def)) (snd ?rc))"
      using progress_gate [OF prog gr _ _ _ _ i conf] cards succ fail by (simp add: running_def)
    ultimately show ?thesis
      using StepConfirm by (auto simp: run_one_def Let_def stopped_def)
  qed
  then show "stopped ?dig def i (snd ?ro)" and "fst ?ro \<Longrightarrow> running ?dig def (Suc i) (snd ?ro)"
    by blast+
qed

text \<open>The state a run ends in.\<close>

definition settled :: "(jval \<Rightarrow> string) \<Rightarrow> 'r definition_ \<Rightarrow> ('r, 'w) rstate \<Rightarrow> bool" where
  "settled dig def st \<longleftrightarrow>
     (\<forall>c \<in> set (s_calls st). call_ok dig def (s_asks st) c) \<and>
     (\<forall>g. cards g (s_asks st) \<le> Suc max_confirm_edits) \<and>
     (r_success (s_res st) \<longleftrightarrow> r_failure (s_res st) = None) \<and>
     (confirmation_accepted (Some (s_res st)) \<longrightarrow>
        (\<forall>g. gate_at def g \<longrightarrow> approved (s_asks st) g))"

lemma gate_at_unpassed: "gate_at def g \<Longrightarrow> i \<le> g \<Longrightarrow> confirm_gate_unpassed def i"
  by (auto simp: gate_at_def intro: unpassed_before)

lemma authorized_field:
  "r_failure (s_res (record_step_failure def step i st)) = Some f \<Longrightarrow>
     sf_authorized f \<longleftrightarrow> wc_sealed (s_ctx st) \<noteq> None \<and> \<not> confirm_gate_unpassed def i"
  by (auto simp: record_step_failure_def Let_def split: option.splits)

lemma settled_failure:
  assumes "stopped dig def i st"
  shows "settled dig def (record_step_failure def step i st)"
proof -
  obtain f where f: "r_failure (s_res (record_step_failure def step i st)) = Some f"
    using failure_frame(5) by blast
  have "approved (s_asks st) g" if "sf_authorized f" "gate_at def g" for g
    using assms authorized_field [OF f] that gate_at_unpassed [of def g i]
    by (cases "g < i") (auto simp: stopped_def)
  then show ?thesis
    using assms f by (auto simp: settled_def stopped_def confirmation_accepted_def)
qed

lemma settled_finished:
  assumes "running dig def i st" and "length (def_steps def) \<le> i"
  shows "settled dig def (run_finished def st)"
  using assms running_stopped [OF assms(1)]
  by (auto simp: settled_def stopped_def running_def run_finished_def gate_at_def)

lemma run_steps_settled:
  assumes "running (env_digest env) def i st" and "drop i (def_steps def) = rest"
  shows "settled (env_digest env) def (run_steps env def i tot rest st)"
  using assms
proof (induction rest arbitrary: i st)
  case Nil
  then show ?case by (simp add: settled_finished)
next
  case (Cons step rest)
  let ?dig = "env_digest env"
  have i: "i < length (def_steps def)" using Cons.prems(2) by (metis drop_all list.simps(3) not_less)
  have step: "step = def_steps def ! i" and rest: "drop (Suc i) (def_steps def) = rest"
    using Cons.prems(2) i by (metis Cons_nth_drop_Suc list.inject)+
  have go: "settled ?dig def (let ro = run_one env def i tot step s in
        if fst ro then run_steps env def (Suc i) tot rest (snd ro)
        else record_step_failure def step i (snd ro))" if "running ?dig def i s" for s
    using running_one [OF that i step, of tot] rest by (auto simp: Let_def Cons.IH settled_failure)
  have cancelled: "settled ?dig def (record_step_failure def step i (stop_at step m st))" for m
    by (rule settled_failure, rule stopped_extends [OF Cons.prems(1)], rule extends_same) simp_all
  show ?case
  proof (cases "st_skip_if step")
    case None
    then show ?thesis using go [OF Cons.prems(1)] cancelled by (simp add: Let_def)
  next
    case (Some sk)
    let ?st1 = "snd (run_hook sk st)"
    have run1: "running ?dig def i ?st1"
      by (rule running_extends [OF Cons.prems(1) extends_run_hook]) simp
    have no_gate: "\<not> gate_at def i" using Some by (simp add: gate_at_def step)
    have "settled ?dig def (run_steps env def (Suc i) tot rest ?st1)"
      by (rule Cons.IH [OF running_skip [OF run1 no_gate] rest])
    moreover have "settled ?dig def (record_step_failure def step i
        (fail_stop step i tot (st_type step) [] m ?st1))" for m
      by (rule settled_failure, rule stopped_extends [OF run1], rule extends_same) simp_all
    ultimately show ?thesis
      using Some go [OF run1] cancelled by (auto simp: Let_def split: sum.split bool.split)
  qed
qed

lemma run_workflow_settled:
  "settled (env_digest env) def (run_workflow env def ref w now ps)"
proof -
  have init: "running (env_digest env) def 0 (init_state ref w now ps)"
    by (simp add: running_def progress_def init_state_def new_context_def cards_def empty_result_def
        split: prod.split)
  have "settled (env_digest env) def
      (run_steps env def 0 (length (def_steps def)) (def_steps def) (init_state ref w now ps))"
    by (rule run_steps_settled [OF init]) simp
  then show ?thesis
    by (simp add: run_workflow_def Let_def settled_def confirmation_accepted_def)
qed

end
