(* ===== verification/WorkflowLimits.thy ===== *)
theory WorkflowLimits
  imports WorkflowGate
begin

text \<open>
  How much a step may do: the fan-out of a batch, the number of calls of a polled step, and
  what a resolve step may write.
\<close>

section \<open>Batches\<close>

text \<open>The specification of the fan-out: which calls are made, and how they are recorded.\<close>

definition batch_call_log :: "nat \<Rightarrow> string \<Rightarrow> gmap \<Rightarrow> sealed_contract option \<Rightarrow> batch_call
    \<Rightarrow> call_log" where
  "batch_call_log i tool ps seal c =
     \<lparr>cl_step = i, cl_tool = tool, cl_args = bc_args c, cl_params = ps, cl_sealed = seal\<rparr>"

definition not_attempted :: "batch_call \<Rightarrow> batch_outcome" where
  "not_attempted c = \<lparr>bo_key = bc_key c, bo_ok = False, bo_result = None, bo_err = batch_not_attempted\<rparr>"

lemma batch_loop_over_bound:
  "max_batch_calls \<le> idx \<Longrightarrow> batch_loop env i tool ps idx calls (outs, sent, n) st =
     ((outs @ map not_attempted calls, sent, n), st)"
  by (induction calls arbitrary: idx outs) (auto simp: not_attempted_def)

lemma batch_loop_spec:
  "\<exists>os. batch_loop env i tool ps idx calls (outs, sent, n) st =
       ((outs @ os, sent @ map (\<lambda>c. GMap (bc_args c)) (take (max_batch_calls - idx) calls),
         n + length (filter bo_ok os)),
        snd (batch_loop env i tool ps idx calls (outs, sent, n) st)) \<and>
     map bo_key os = map bc_key calls \<and>
     drop (max_batch_calls - idx) os = map not_attempted (drop (max_batch_calls - idx) calls) \<and>
     s_calls (snd (batch_loop env i tool ps idx calls (outs, sent, n) st)) =
       s_calls st @ map (batch_call_log i tool ps (wc_sealed (s_ctx st)))
         (take (max_batch_calls - idx) calls)"
proof (induction calls arbitrary: idx outs sent n st)
  case (Cons c cs)
  show ?case
  proof (cases "max_batch_calls \<le> idx")
    case True
    then show ?thesis
      by (auto simp del: batch_loop.simps simp add: batch_loop_over_bound not_attempted_def filter_empty_conv)
  next
    case False
    then have d: "max_batch_calls - idx = Suc (max_batch_calls - Suc idx)" by simp
    let ?ra = "exec_call env i tool (bc_args c) ps st"
    define o1 where "o1 = (case fst ?ra of
        Inl e \<Rightarrow> \<lparr>bo_key = bc_key c, bo_ok = False, bo_result = None, bo_err = err_text e\<rparr>
      | Inr r \<Rightarrow> \<lparr>bo_key = bc_key c, bo_ok = True, bo_result = Some r, bo_err = []\<rparr>)"
    define n1 where "n1 = n + (if bo_ok o1 then 1 else 0)"
    have unf: "batch_loop env i tool ps idx (c # cs) (outs, sent, n) st =
        batch_loop env i tool ps (Suc idx) cs (outs @ [o1], sent @ [GMap (bc_args c)], n1) (snd ?ra)"
      using False by (simp add: o1_def n1_def Let_def split: sum.split)
    have key: "bo_key o1 = bc_key c" by (simp add: o1_def split: sum.split)
    from Cons.IH [of "Suc idx" "outs @ [o1]" "sent @ [GMap (bc_args c)]" n1 "snd ?ra"]
    obtain os where "batch_loop env i tool ps (Suc idx) cs (outs @ [o1], sent @ [GMap (bc_args c)], n1) (snd ?ra) =
       (((outs @ [o1]) @ os, (sent @ [GMap (bc_args c)]) @ map (\<lambda>c. GMap (bc_args c)) (take (max_batch_calls - Suc idx) cs),
         n1 + length (filter bo_ok os)),
        snd (batch_loop env i tool ps (Suc idx) cs (outs @ [o1], sent @ [GMap (bc_args c)], n1) (snd ?ra)))"
      and os: "map bo_key os = map bc_key cs"
       "drop (max_batch_calls - Suc idx) os = map not_attempted (drop (max_batch_calls - Suc idx) cs)"
       "s_calls (snd (batch_loop env i tool ps (Suc idx) cs (outs @ [o1], sent @ [GMap (bc_args c)], n1) (snd ?ra))) =
         s_calls (snd ?ra) @ map (batch_call_log i tool ps (wc_sealed (s_ctx (snd ?ra))))
           (take (max_batch_calls - Suc idx) cs)" by blast
    then show ?thesis
      unfolding unf d
      by (intro exI [of _ "o1 # os"], cases "bo_ok o1") (simp_all add: key n1_def batch_call_log_def)
  qed
qed (simp add: not_attempted_def)

lemma batch_exits_calls [simp]:
  "s_calls (snd (batch_fail step i t tool m sa st)) = s_calls st"
  "s_calls (snd (batch_check step i t tool enc sa st)) = s_calls st"
  by (auto simp: batch_fail_def batch_check_def batch_done_def Let_def split: option.split)

lemma batch_fan_out_log:
  "s_calls (snd (batch_fan_out env step calls tool i tot st)) = s_calls st @
     map (batch_call_log i tool (ctx_params (s_ctx st)) (wc_sealed (s_ctx st)))
       (take max_batch_calls calls)"
  using batch_loop_spec [of env i tool "ctx_params (s_ctx st)" 0 calls "[]" "[]" 0 st]
  by (auto simp: batch_fan_out_def Let_def)

lemma batch_results_encode [simp]: "batch_results (encode_batch_outcomes bs) = bs"
  by (simp add: batch_results_def encode_batch_outcomes_def mval_def as_list_def decode_encode_outcome
      map_idI)

lemma ctx_result_set [simp]: "ctx_result (s_ctx (set_step_result n r st)) n = r"
  by (simp add: set_step_result_def ctx_result_def mget_mput)

lemma batch_done_ctx [simp]: "s_ctx (snd (batch_done step i tot tool st)) = s_ctx st"
  by (simp add: batch_done_def)

lemma batch_fan_out_stored:
  assumes "st_check_result step = None"
    and "fst (batch_fan_out env step calls tool i tot st) = ToolOK"
  shows "\<exists>os. batch_results (ctx_result (s_ctx (snd (batch_fan_out env step calls tool i tot st)))
            (st_name step)) = os \<and> map bo_key os = map bc_key calls \<and>
          drop max_batch_calls os = map not_attempted (drop max_batch_calls calls) \<and>
          (calls \<noteq> [] \<longrightarrow> (\<exists>b \<in> set os. bo_ok b))"
proof -
  let ?bl = "batch_loop env i tool (ctx_params (s_ctx st)) 0 calls ([], [], 0) st"
  obtain os where "?bl = (([] @ os, [] @ map (\<lambda>c. GMap (bc_args c)) (take (max_batch_calls - 0) calls),
        0 + length (filter bo_ok os)), snd ?bl)"
    and os: "map bo_key os = map bc_key calls"
      "drop (max_batch_calls - 0) os = map not_attempted (drop (max_batch_calls - 0) calls)"
    using batch_loop_spec [of env i tool "ctx_params (s_ctx st)" 0 calls "[]" "[]" 0 st] by blast
  then have bl: "fst ?bl = (os, map (\<lambda>c. GMap (bc_args c)) (take max_batch_calls calls),
        length (filter bo_ok os))"
    by (metis append_Nil add_0 diff_zero fst_conv)
  have "calls \<noteq> [] \<Longrightarrow> filter bo_ok os \<noteq> []"
    using assms(2) bl by (auto simp: batch_fan_out_def batch_fail_def Let_def split: if_splits)
  then show ?thesis
    using assms os bl
    by (auto simp: batch_fan_out_def batch_check_def batch_fail_def Let_def filter_empty_conv
        split: if_splits)
qed

section \<open>Polling\<close>

lemma poll_exits_calls [simp]:
  "s_calls (snd (tool_failed step i t tool args m st)) = s_calls st"
  "s_calls (snd (exec_failed step i t tool args e b st)) = s_calls st"
  "s_calls (snd (check_rejected step i t tool args oc st)) = s_calls st"
  "s_calls (snd (tool_done step i t tool r st)) = s_calls st"
  by (auto simp: tool_failed_def exec_failed_def check_rejected_def tool_done_def Let_def)

text \<open>\<open>n\<close> calls take \<open>n - 1\<close> waits, and only the last wait may end past the deadline.\<close>

definition poll_span :: "nat \<Rightarrow> nat \<Rightarrow> ('r, 'w) rstate \<Rightarrow> ('r, 'w) rstate \<Rightarrow> bool" where
  "poll_span w deadline st st' \<longleftrightarrow> (\<exists>n \<ge> 1. length (s_calls st') = length (s_calls st) + n \<and>
     (2 \<le> n \<longrightarrow> (n - 2) * w < deadline - s_now st))"

lemma poll_span_again:
  assumes "poll_span w deadline st3 st'" and "length (s_calls st3) = Suc (length (s_calls st))"
    and "s_now st + w \<le> s_now st3" and "s_now st < deadline"
  shows "poll_span w deadline st st'"
proof -
  obtain n where n: "n \<ge> 1" "length (s_calls st') = length (s_calls st3) + n"
    "2 \<le> n \<longrightarrow> (n - 2) * w < deadline - s_now st3"
    using assms(1) unfolding poll_span_def by blast
  have "(Suc n - 2) * w < deadline - s_now st"
  proof (cases "2 \<le> n")
    case True
    then obtain k where "n = Suc (Suc k)" by (metis Suc_le_D numeral_2_eq_2 Suc_le_mono)
    with True n(3) assms(3) show ?thesis by simp
  next
    case False
    with n(1) assms(4) show ?thesis by simp
  qed
  with n assms(2) show ?thesis unfolding poll_span_def by (intro exI [of _ "Suc n"]) auto
qed

lemma poll_span_one: "length (s_calls st') = Suc (length (s_calls st)) \<Longrightarrow> poll_span w deadline st st'"
  unfolding poll_span_def by (intro exI [of _ 1]) auto

lemma poll_loop_span:
  assumes "st_poll step = Some pl"
  shows "poll_span (poll_wait pl) deadline st
     (snd (poll_loop env step i tot tool args ps deadline st))"
  using assms
proof (induction env step i tot tool args ps deadline st rule: poll_loop.induct)
  case (1 env step i tot tool args ps deadline st)
  let ?ra = "exec_call env i tool args ps st"
  let ?st1 = "snd ?ra"
  let ?rc = "\<lambda>chk r. run_hook (chk r) ?st1"
  let ?st3 = "\<lambda>chk r. (snd (?rc chk r))\<lparr>s_now := s_now (snd (?rc chk r)) + poll_wait pl\<rparr>"
  let ?W = "poll_span (poll_wait pl) deadline st"
  have rec: "?W (snd (poll_loop env step i tot tool args ps deadline (?st3 chk r)))"
    if "fst ?ra = Inr r" "st_check_result step = Some chk" "\<not> co_ok (fst (fst (?rc chk r)))"
      "co_pending (fst (fst (?rc chk r)))" "\<not> deadline \<le> s_now (snd (?rc chk r))"
      "\<not> ctx_done env (s_now (snd (?rc chk r)) + poll_wait pl)" for chk r
  proof (rule poll_span_again)
    show "poll_span (poll_wait pl) deadline (?st3 chk r)
        (snd (poll_loop env step i tot tool args ps deadline (?st3 chk r)))"
      using that "1.prems" by (intro "1.IH") auto
    show "s_now st + poll_wait pl \<le> s_now (?st3 chk r)" by simp
    have "s_now st \<le> s_now ?st1" "s_now (snd (?rc chk r)) = s_now ?st1" by simp_all
    then show "s_now st < deadline"
      using that(5) by linarith
  qed simp
  show ?case
    using "1.prems" rec
    by (subst poll_loop.simps)
      (auto simp: Let_def poll_span_one split: sum.split option.split bool.split)
qed

lemma poll_span_bound:
  assumes "poll_span w (s_now s + T) s s'" and "0 < w"
  shows "length (s_calls s') \<le> length (s_calls s) + (T + w - 1) div w + 1"
proof -
  obtain n where n: "length (s_calls s') = length (s_calls s) + n"
      "2 \<le> n \<longrightarrow> (n - 2) * w < s_now s + T - s_now s"
    using assms(1) unfolding poll_span_def by blast
  have "n \<le> (T + w - 1) div w + 1"
  proof (cases "2 \<le> n")
    case True
    then have "(n - 1) * w \<le> T + w - 1"
      using n(2) by (cases n) (auto simp: algebra_simps numeral_2_eq_2 Suc_le_eq gr0_conv_Suc)
    then have "n - 1 \<le> (T + w - 1) div w" using assms(2) by (simp add: less_eq_div_iff_mult_less_eq)
    then show ?thesis by simp
  qed simp
  with n(1) show ?thesis by simp
qed

lemma run_built_call_polls:
  assumes "st_poll step = Some pl" and "0 < pp_interval pl"
  shows "length (s_calls (snd (run_built_call env step args tool i tot st)))
     \<le> length (s_calls st) + (nat (pp_timeout pl) + nat (pp_interval pl) - 1) div nat (pp_interval pl) + 1"
proof (cases "fst (verify_sealed_contract env step i tot st)")
  case True
  have w: "poll_wait pl = nat (pp_interval pl)" "0 < nat (pp_interval pl)"
    using assms(2) by (auto simp: poll_wait_def)
  let ?st3 = "emit step i tot StepToolCall Running tool (Some args) MsgNone st"
  show ?thesis
    using True verify_ok [OF True] assms
      poll_span_bound [OF poll_loop_span [OF assms(1), of "s_now ?st3 + nat (pp_timeout pl)" ?st3],
        unfolded w(1), OF w(2)]
    by (auto simp: run_built_call_def Let_def)
next
  case False
  then show ?thesis by (simp add: run_built_call_def)
qed

section \<open>Resolve steps\<close>

lemma params_eq_digest:
  "ctx_params (s_ctx (emit step i t ty sta tool a m st)) = ctx_params (s_ctx st)"
  "ctx_params (s_ctx (add_summary step status m st)) = ctx_params (s_ctx st)"
  by simp_all

lemma resolve_params:
  "fst (run_resolve_step env step i tot st) \<noteq> ToolFailed \<Longrightarrow>
     params_digest (env_digest env) (ctx_params (s_ctx (snd (run_resolve_step env step i tot st))))
       = params_digest (env_digest env) (ctx_params (s_ctx st))"
  by (auto simp: run_resolve_step_def Let_def split: option.splits sum.splits if_splits)

end
