(* ===== verification/WorkflowProps.thy ===== *)
theory WorkflowProps
  imports WorkflowLimits
begin

text \<open>
  The properties of the workflow engine and of the execution seal, each with an instance on
  a small workflow: a gate followed by a polled tool step, run against an executor that
  counts its calls and an operator who always confirms.
\<close>

section \<open>The instance\<close>

definition demo_step :: "unit wstep" where
  "demo_step = \<lparr>st_name = ''step'', st_type = StepToolCall, st_tool = ''Tool'', st_tool_func = None,
     st_build_args = (\<lambda>c. (Inr (ctx_params c), wc_pub c)), st_build_args_batch = None,
     st_check_result = None, st_resolve = None, st_skip_if = None, st_optional = False,
     st_poll = None, st_build_form = None, st_apply_overrides = None, st_revalidate_from = [],
     st_promote = None, st_submit_mode = SubmitRevalidate\<rparr>"

definition demo_gate :: "unit wstep" where
  "demo_gate = demo_step\<lparr>st_name := ''confirm'', st_type := StepConfirm\<rparr>"

definition demo_flow :: "unit definition_" where
  "demo_flow = \<lparr>def_name = ''op'', def_steps = [demo_gate, demo_step], def_result_data = None,
     def_mutation_committed = None, def_failure_draft = None\<rparr>"

definition demo_env :: "nat env" where
  "demo_env = \<lparr>env_exec = (\<lambda>w now tool args. (Inr args, 1, Suc w)),
     env_confirm = Some (\<lambda>w name args. (True, 1, w)), env_confirm_edits = None,
     env_done_at = None, env_ctx_err = plain_err ''context canceled'', env_digest = (\<lambda>j. ''d'')\<rparr>"

definition demo_params :: gmap where
  "demo_params = [(''k'', GStr ''v'')]"

definition demo_run :: "(unit, nat) rstate" where
  "demo_run = run_workflow demo_env demo_flow () 0 0 demo_params"

definition demo_seal :: sealed_contract where
  "demo_seal = \<lparr>sc_operation = ''op'', sc_business_params = demo_params,
     sc_runtime = \<lparr>rt_top_org = 0, rt_org = 0, rt_trace_id = []\<rparr>, sc_version = 1, sc_digest = ''d''\<rparr>"

definition demo_call :: call_log where
  "demo_call = \<lparr>cl_step = 1, cl_tool = ''Tool'', cl_args = demo_params, cl_params = demo_params,
     cl_sealed = Some demo_seal\<rparr>"

lemmas engine_defs = run_workflow_def run_one_def run_confirm_step_def confirm_loop.simps
  poll_loop.simps gate_pass_def ask_plain_def build_form_def run_tool_step_def run_built_call_def
  verify_sealed_contract_def exec_call_def tool_done_def set_step_result_def add_summary_def
  emit_def upd_res_def upd_ctx_def run_hook_def init_state_def new_context_def seal_ctx_def
  unseal_def split_runtime_metadata_def runtime_metadata_keys_def uint32_value_def mval_def
  seal_draft_def params_digest_def json_marshal_def verify_digest_def ctx_params_def ctx_done_def
  run_finished_def empty_result_def current_contract_version_def Let_def

lemmas demo_defs = demo_flow_def demo_gate_def demo_step_def demo_env_def demo_params_def
  demo_seal_def demo_call_def

lemma demo_run_facts:
  "s_calls demo_run = [demo_call]"
  "s_asks demo_run = [\<lparr>al_step = 0, al_args = demo_params, al_yes = True\<rparr>]"
  "r_success (s_res demo_run)"
  by (simp_all add: demo_run_def demo_defs engine_defs)

lemma demo_gate_at: "gate_at demo_flow 0"
  by (simp add: gate_at_def demo_flow_def demo_gate_def demo_step_def)

section \<open>Authorization\<close>

text \<open>C1: no tool call past an unskippable confirmation gate is made before the user said yes
  at that gate: every executor call logged for a later step has an approved card of the gate
  in the run's card log.\<close>

theorem calls_after_gate_confirmed:
  assumes "c \<in> set (s_calls (run_workflow env def ref w now ps))"
    and "gate_at def g" and "g < cl_step c"
  shows "approved (s_asks (run_workflow env def ref w now ps)) g"
  using assms run_workflow_settled [of env def ref w now ps]
  by (auto simp: settled_def call_ok_def)

theorem calls_after_gate_confirmed_witness:
  "demo_call \<in> set (s_calls demo_run) \<and> gate_at demo_flow 0 \<and> 0 < cl_step demo_call \<and>
   approved (s_asks demo_run) 0"
  using calls_after_gate_confirmed [of demo_call demo_env demo_flow "()" 0 0 demo_params 0]
    demo_run_facts demo_gate_at
  by (simp add: demo_run_def demo_call_def)

text \<open>C2: every call made after the last confirmation gate runs under a seal of this operation,
  and the parameters its arguments were built from still hash to what was sealed. A call made
  while nothing is sealed can only belong to a step some gate still follows.\<close>

theorem calls_after_last_gate_sealed:
  assumes "c \<in> set (s_calls (run_workflow env def ref w now ps))"
    and "gate_at def g" and "g < cl_step c" and "\<not> confirm_gate_unpassed def (cl_step c)"
  shows "\<exists>k. cl_sealed c = Some k \<and> sc_operation k = def_name def \<and>
     params_digest (env_digest env) (cl_params c) = params_digest (env_digest env) (sc_business_params k)"
  using assms run_workflow_settled [of env def ref w now ps]
  by (fastforce simp: settled_def call_ok_def call_sound_def seal_wf_def verify_digest_def)

theorem calls_after_last_gate_sealed_witness:
  "demo_call \<in> set (s_calls demo_run) \<and> \<not> confirm_gate_unpassed demo_flow (cl_step demo_call) \<and>
   (\<exists>k. cl_sealed demo_call = Some k \<and> sc_operation k = ''op'')"
  using calls_after_last_gate_sealed [of demo_call demo_env demo_flow "()" 0 0 demo_params 0]
    demo_run_facts demo_gate_at
  by (auto simp: demo_run_def demo_defs confirm_gate_unpassed_def)



text \<open>C3: a result that reports an accepted confirmation (\<open>Result.ConfirmationAccepted\<close>: success,
  or a failure marked authorized) comes from a run in which the user said yes at every
  unskippable gate of the definition.\<close>

theorem confirmation_accepted_sound:
  assumes "confirmation_accepted (Some (s_res (run_workflow env def ref w now ps)))"
    and "gate_at def g"
  shows "approved (s_asks (run_workflow env def ref w now ps)) g"
  using assms run_workflow_settled [of env def ref w now ps] by (auto simp: settled_def)

theorem confirmation_accepted_sound_witness:
  "confirmation_accepted (Some (s_res demo_run)) \<and> approved (s_asks demo_run) 0"
  using confirmation_accepted_sound [of demo_env demo_flow "()" 0 0 demo_params 0]
    demo_run_facts demo_gate_at
  by (simp add: demo_run_def confirmation_accepted_def)

text \<open>C23: a run ends in exactly one of two ways: it succeeds and carries no failure record, or it
  fails and carries one. Every early exit of every runner is covered.\<close>

theorem success_iff_no_failure:
  "r_success (s_res (run_workflow env def ref w now ps)) \<longleftrightarrow>
   r_failure (s_res (run_workflow env def ref w now ps)) = None"
  using run_workflow_settled [of env def ref w now ps] by (simp add: settled_def)

text \<open>C24: the confirm loop ends: at most \<open>maxConfirmEdits + 1\<close> cards are shown at any step of the
  workflow, whatever the user submits.\<close>

theorem cards_per_gate_bounded:
  "length (filter (\<lambda>a. al_step a = g) (s_asks (run_workflow env def ref w now ps)))
     \<le> Suc max_confirm_edits"
  using run_workflow_settled [of env def ref w now ps] by (simp add: settled_def cards_def)

section \<open>Steps\<close>

text \<open>A resolve step cannot change what was confirmed and cannot act: when it succeeds, the
  business parameters have the digest they had before it, the seal is untouched, and it made
  no tool call and showed no card.\<close>

theorem resolve_step_reads_only:
  assumes "fst (run_resolve_step env step i tot st) = ToolOK"
  shows "params_digest (env_digest env) (ctx_params (s_ctx (snd (run_resolve_step env step i tot st))))
       = params_digest (env_digest env) (ctx_params (s_ctx st)) \<and>
     wc_sealed (s_ctx (snd (run_resolve_step env step i tot st))) = wc_sealed (s_ctx st) \<and>
     s_calls (snd (run_resolve_step env step i tot st)) = s_calls st \<and>
     s_asks (snd (run_resolve_step env step i tot st)) = s_asks st"
  using assms resolve_params [of env step i tot st]
    run_resolve_step_extends [of env "{}" "{}" st step i tot]
  by (auto simp: extends_def)

theorem resolve_step_reads_only_witness:
  "let step = demo_step\<lparr>st_type := StepResolve, st_resolve := Some (\<lambda>c. (Inr [(''r'', GNil)], wc_pub c))\<rparr>;
       st = init_state () (0::nat) 0 demo_params
   in fst (run_resolve_step demo_env step 0 1 st) = ToolOK \<and>
      s_calls (snd (run_resolve_step demo_env step 0 1 st)) = s_calls st"
proof -
  let ?step = "demo_step\<lparr>st_type := StepResolve,
    st_resolve := Some (\<lambda>c. (Inr [(''r'', GNil)], wc_pub c))\<rparr>"
  have "fst (run_resolve_step demo_env ?step 0 1 (init_state () (0::nat) 0 demo_params)) = ToolOK"
    by (simp add: run_resolve_step_def demo_defs engine_defs)
  from this resolve_step_reads_only [OF this] show ?thesis by (simp add: Let_def)
qed

text \<open>The fan-out of a batch step makes exactly one call per item, in order, for the first
  \<open>maxBatchCalls\<close> items, under the seal in force when the step started, and none for the rest.\<close>

theorem batch_fan_out_calls:
  "s_calls (snd (batch_fan_out env step calls tool i tot st)) = s_calls st @
     map (\<lambda>c. \<lparr>cl_step = i, cl_tool = tool, cl_args = bc_args c,
                cl_params = ctx_params (s_ctx st), cl_sealed = wc_sealed (s_ctx st)\<rparr>)
       (take 40 calls)"
  using batch_fan_out_log [of env step calls tool i tot st]
  by (simp add: batch_call_log_def [abs_def] max_batch_calls_def)

text \<open>The stored result of a batch step lists one outcome per item, under the item's key and in
  the items' order, reads back through \<open>BatchResults\<close>, records every item past the bound as
  not attempted, and holds a success unless there was nothing to call.\<close>

theorem batch_result_mirrors_items:
  assumes "st_check_result step = None"
    and "fst (batch_fan_out env step calls tool i tot st) = ToolOK"
  shows "map bo_key (batch_results (ctx_result (s_ctx (snd (batch_fan_out env step calls tool i tot st)))
            (st_name step))) = map bc_key calls \<and>
     (\<forall>j < length calls. 40 \<le> j \<longrightarrow>
        batch_results (ctx_result (s_ctx (snd (batch_fan_out env step calls tool i tot st)))
            (st_name step)) ! j
          = \<lparr>bo_key = bc_key (calls ! j), bo_ok = False, bo_result = None,
             bo_err = batch_not_attempted\<rparr>) \<and>
     (calls \<noteq> [] \<longrightarrow> (\<exists>b \<in> set (batch_results
        (ctx_result (s_ctx (snd (batch_fan_out env step calls tool i tot st))) (st_name step))). bo_ok b))"
proof -
  let ?os = "batch_results (ctx_result (s_ctx (snd (batch_fan_out env step calls tool i tot st)))
    (st_name step))"
  have os: "map bo_key ?os = map bc_key calls"
      "drop 40 ?os = map not_attempted (drop 40 calls)"
      "calls \<noteq> [] \<longrightarrow> (\<exists>b \<in> set ?os. bo_ok b)"
    using batch_fan_out_stored [OF assms] by (auto simp: max_batch_calls_def)
  have len: "length ?os = length calls" using os(1) by (metis length_map)
  have "?os ! j = not_attempted (calls ! j)" if "j < length calls" "40 \<le> j" for j
  proof -
    have "drop 40 ?os ! (j - 40) = not_attempted (drop 40 calls ! (j - 40))"
      using os(2) that by simp
    then show ?thesis using that len by simp
  qed
  then show ?thesis using os by (simp add: not_attempted_def)
qed

theorem batch_result_mirrors_items_witness:
  "let calls = [\<lparr>bc_key = ''a'', bc_args = demo_params\<rparr>, \<lparr>bc_key = ''b'', bc_args = []\<rparr>];
       r = batch_fan_out demo_env demo_step calls ''Tool'' 0 1 (init_state () (0::nat) 0 demo_params)
   in fst r = ToolOK \<and>
      map bo_key (batch_results (ctx_result (s_ctx (snd r)) ''step'')) = [''a'', ''b'']"
proof -
  let ?calls = "[\<lparr>bc_key = ''a'', bc_args = demo_params\<rparr>, \<lparr>bc_key = ''b'', bc_args = []\<rparr>]"
  have "fst (batch_fan_out demo_env demo_step ?calls ''Tool'' 0 1
      (init_state () (0::nat) 0 demo_params)) = ToolOK"
    by (simp add: batch_fan_out_def batch_check_def batch_done_def max_batch_calls_def
        demo_defs engine_defs)
  from this batch_result_mirrors_items [OF _ this] show ?thesis
    by (simp add: Let_def demo_step_def)
qed

text \<open>C25: a polled step with a positive interval makes at most \<open>ceil(timeout / interval) + 1\<close> tool
  calls, however long each call takes and whatever it returns.\<close>

theorem polled_step_calls_bounded:
  assumes "st_poll step = Some pl" and "0 < pp_interval pl"
  shows "length (s_calls (snd (run_built_call env step args tool i tot st))) \<le> length (s_calls st) +
     (nat (pp_timeout pl) + nat (pp_interval pl) - 1) div nat (pp_interval pl) + 1"
  using assms by (rule run_built_call_polls)

theorem polled_step_calls_bounded_witness:
  "let step = demo_step\<lparr>st_poll := Some \<lparr>pp_interval = 2, pp_timeout = 5\<rparr>,
         st_check_result := Some (\<lambda>r c. ((check_pending ''x'', r), wc_pub c))\<rparr>
   in length (s_calls (snd (run_built_call demo_env step [] ''Tool'' 0 1
        (init_state () (0::nat) 0 [])))) \<le> 4"
  using polled_step_calls_bounded [of "demo_step\<lparr>st_poll := Some \<lparr>pp_interval = 2, pp_timeout = 5\<rparr>,
         st_check_result := Some (\<lambda>r c. ((check_pending ''x'', r), wc_pub c))\<rparr>"
      "\<lparr>pp_interval = 2, pp_timeout = 5\<rparr>" demo_env "[]" "''Tool''" 0 1 "init_state () (0::nat) 0 []"]
  by (simp add: init_state_def Let_def split_runtime_metadata_def new_context_def)

section \<open>The seal\<close>

text \<open>The digest depends on the contents of the parameter map alone: two maps that agree on
  every key have the same digest, in whatever order their entries were written.\<close>

theorem digest_order_independent:
  assumes "distinct (map fst p)" and "distinct (map fst q)" and "\<forall>k. mget p k = mget q k"
  shows "params_digest dig p = params_digest dig q"
  using assms params_digest_map_ext [of p q dig] by blast

theorem digest_order_independent_witness:
  "params_digest (\<lambda>j. ''d'') [(''a'', GInt 1), (''b'', GInt 2)]
     = params_digest (\<lambda>j. ''d'') [(''b'', GInt 2), (''a'', GInt 1)]"
  by (rule digest_order_independent) auto

text \<open>The seal detects tampering: parameters that have a JSON document other than the sealed
  one are rejected, for every digest function that does not collide on the two documents.\<close>

theorem tampered_params_rejected:
  assumes "json_marshal (ed_business_params d) = Some j" and "json_marshal p = Some j'"
    and "j \<noteq> j'" and "dig j = dig j' \<longrightarrow> j = j'"
  shows "\<not> verify_digest dig (seal_draft dig d) p"
  using assms by (auto simp: verify_digest_def params_digest_def)

theorem tampered_params_rejected_witness:
  "\<not> verify_digest (\<lambda>j. if j = JObj [(''k'', JInt 1)] then ''x'' else ''y'')
     (seal_draft (\<lambda>j. if j = JObj [(''k'', JInt 1)] then ''x'' else ''y'')
       \<lparr>ed_operation = ''op'', ed_business_params = [(''k'', GInt 1)],
        ed_runtime = \<lparr>rt_top_org = 0, rt_org = 0, rt_trace_id = []\<rparr>\<rparr>) [(''k'', GInt 2)]"
  by (rule tampered_params_rejected [of _ "JObj [(''k'', JInt 1)]" _ "JObj [(''k'', JInt 2)]"])
    (simp_all add: json_marshal_def)

text \<open>The seal is blind to parameters JSON cannot represent: two parameter maps that
  \<open>json.Marshal\<close> rejects always compare equal, whatever they hold, and a non-finite number
  anywhere at the top level of a map is enough. The comment on \<open>paramsDigest\<close> says the
  sentinel reports a mismatch.\<close>

theorem unmarshallable_params_compare_equal:
  assumes "(k, GFloat x) \<in> set (ed_business_params d)" and "(k', GFloat y) \<in> set p"
    and "x \<in> {PosInf, NegInf, NotANumber}" and "y \<in> {PosInf, NegInf, NotANumber}"
  shows "verify_digest dig (seal_draft dig d) p"
  using nonfinite_not_marshalled [OF assms(1,3)] nonfinite_not_marshalled [OF assms(2,4)]
  by (simp add: verify_digest_def params_digest_def)

theorem unmarshallable_params_compare_equal_witness:
  "verify_digest (\<lambda>j. ''d'') (seal_draft (\<lambda>j. ''d'') \<lparr>ed_operation = ''resize'',
      ed_business_params = [(''Size'', GFloat PosInf), (''UHostId'', GStr ''uhost-a'')],
      ed_runtime = \<lparr>rt_top_org = 0, rt_org = 0, rt_trace_id = []\<rparr>\<rparr>)
     [(''Size'', GFloat PosInf), (''UHostId'', GStr ''uhost-b'')]"
  by (rule unmarshallable_params_compare_equal [of "''Size''" PosInf _ "''Size''" PosInf]) auto

text \<open>A context never keeps identity keys among the business parameters: after
  \<open>splitRuntimeMetadata\<close> they are gone, every other key is unchanged, and the runtime record
  holds their values truncated to 32 bits.\<close>

theorem split_runtime_metadata_spec:
  "(\<forall>k. mget (fst (split_runtime_metadata m)) k =
      (if k \<in> {''top_organization_id'', ''organization_id''} then None else mget m k)) \<and>
   rt_top_org (snd (split_runtime_metadata m)) = uint32_value (mval m ''top_organization_id'') \<and>
   rt_org (snd (split_runtime_metadata m)) = uint32_value (mval m ''organization_id'')"
  by (simp add: split_runtime_metadata_def runtime_metadata_keys_def gm.get_del_keys mget_mdel)

section \<open>Confirm forms\<close>

text \<open>The form gate accepts a set of overrides exactly when each of them names an editable
  field of the form and one of the enabled options that field offers.\<close>

theorem overrides_accepted_iff_offered:
  "validate_overrides form os = None \<longleftrightarrow>
     (\<forall>(k, v) \<in> set os. \<exists>fd. form_field_of form k = Some fd \<and> ff_key fd = k \<and> ff_editable fd \<and>
        (\<exists>opt \<in> set (ff_options fd). fo_value opt = v \<and> \<not> fo_disabled opt))"
  unfolding validate_overrides_None admissible_def using form_field_of_key by fast

theorem overrides_accepted_iff_offered_witness:
  "let size = \<lparr>ff_key = ''Size'', ff_label = [], ff_type = ''select'', ff_value = ''20'', ff_render = [],
         ff_editable = True, ff_options =
           [\<lparr>fo_value = ''20'', fo_label = [], fo_note = [], fo_reason = [], fo_disabled = False, fo_meta = []\<rparr>,
            \<lparr>fo_value = ''40'', fo_label = [], fo_note = [], fo_reason = [], fo_disabled = True, fo_meta = []\<rparr>]\<rparr>;
       form = Some \<lparr>cf_version = 1, cf_step = None, cf_fields = [size]\<rparr>
   in validate_overrides form [(''Size'', ''20'')] = None \<and>
      validate_overrides form [(''Size'', ''40'')] \<noteq> None"
  by (simp only: Let_def overrides_accepted_iff_offered) (simp add: form_field_of_def)

end
