(* ===== verification/Security.thy ===== *)
theory Security
  imports GoText
begin

text \<open>
  Security levels of the API actions (\<open>internal/security/levels.go\<close>): the table that says
  which actions only read, which need the user's confirmation and which are refused.

  The three levels are a datatype; its order (\<open>L0 < L1 < L2\<close>) is the order of the integer
  constants of the source and is an instance of the library's \<open>linorder\<close>. The value -1 that
  \<open>Check\<close> returns with its error is the error alone.
\<close>

datatype level = L0 | L1 | L2

primrec level_rank :: "level \<Rightarrow> nat" where
  "level_rank L0 = 0"
| "level_rank L1 = 1"
| "level_rank L2 = 2"

lemma level_rank_inj: "level_rank a = level_rank b \<Longrightarrow> a = b"
  by (cases a; cases b) simp_all

instantiation level :: linorder
begin

definition less_eq_level :: "level \<Rightarrow> level \<Rightarrow> bool" where
  "a \<le> b \<longleftrightarrow> level_rank a \<le> level_rank b"

definition less_level :: "level \<Rightarrow> level \<Rightarrow> bool" where
  "a < b \<longleftrightarrow> level_rank a < level_rank b"

instance
  by standard (auto simp: less_eq_level_def less_level_def dest: level_rank_inj)

end

text \<open>\<open>ActionLevels\<close>, in the order of the source.\<close>

definition action_levels :: "(string \<times> level) list" where
  "action_levels = [
   (''DescribeCompShareInstance'', L0),
   (''DescribeCompshareDisk'', L0),
   (''DescribeCompShareImages'', L0),
   (''DescribeCompShareCustomImages'', L0),
   (''DescribeCompShareSharingImages'', L0),
   (''DescribeFavoriteImages'', L0),
   (''DescribeCommunityImages'', L0),
   (''DescribeCompShareSupportZone'', L0),
   (''DescribeCompShareGpuInventory'', L0),
   (''DescribeAvailableCompShareInstanceTypes'', L0),
   (''DescribeCompShareMachineTypeFamilies'', L0),
   (''CheckCompShareResourceCapacity'', L0),
   (''GetCompShareInstancePrice'', L0),
   (''GetCompShareInstanceUserPrice'', L0),
   (''GetCompShareInstanceUpgradePrice'', L0),
   (''GetCompShareAttachedDiskUpgradePrice'', L0),
   (''GetCompShareRefundPrice'', L0),
   (''DescribeCompShareJupyterToken'', L0),
   (''DescribeCFS'', L0),
   (''GetCompShareCFSPrice'', L0),
   (''GetCompShareCFSUpgradePrice'', L0),
   (''GetCompShareCFSRefundPrice'', L0),
   (''GetCompShareAccountInfo'', L0),
   (''GetCompShareInvoiceIssued'', L0),
   (''GetCompShareInstanceMonitor'', L0),
   (''GetCompShareImageCreateProgress'', L0),
   (''DescribeCompShareCustomImageSyncDetail'', L0),
   (''DescribeCompShareImageTags'', L0),
   (''DescribeCompShareImageShareAccounts'', L0),
   (''DescribeCompShareSoftwarePort'', L0),
   (''GetSoftwareUrl'', L0),
   (''CheckCompShareResizeAttachedDisk'', L0),
   (''CheckCompShareNetOptimizer'', L0),
   (''DescribeModelRepositoryModels'', L0),
   (''DescribeModelRepositoryTags'', L0),
   (''GetOpenClawModelList'', L0),
   (''GetCompShareTeamInfo'', L0),
   (''DescribeTeamMemberOrder'', L0),
   (''DescribeTeamMemberOrderCount'', L0),
   (''DescribeTeamMemberUnpaidOrder'', L0),
   (''DescribeTeamMemberUnpaidOrderCount'', L0),
   (''DescribeSelfCommunityImages'', L0),
   (''DescribeUserCommunityImages'', L0),
   (''CreateUs3StsToken'', L0),
   (''DownloadTeamOrder'', L0),
   (''CreateCompShareInstance'', L1),
   (''StartCompShareInstance'', L1),
   (''StopCompShareInstance'', L1),
   (''RebootCompShareInstance'', L1),
   (''ResizeCompShareInstance'', L1),
   (''ModifyCompShareInstanceName'', L1),
   (''SwitchChargeType'', L1),
   (''UpdateCompShareInstancePorts'', L1),
   (''ResetCompShareInstancePassword'', L1),
   (''CreateAndAttachCompshareDisk'', L1),
   (''ResizeCompShareDisk'', L1),
   (''CreateCompShareCustomImage'', L1),
   (''SyncCompShareCustomImage'', L1),
   (''UpdateCompShareImage'', L1),
   (''ModifyCompShareImageShareAccount'', L1),
   (''UpdateCompShareStopScheduler'', L1),
   (''DeleteCompShareStopScheduler'', L1),
   (''SyncCompShareNetOptimizer'', L1),
   (''CreateCFS'', L1),
   (''ResizeCFS'', L1),
   (''CreateCompShareTeam'', L1),
   (''UpdateCompShareTeam'', L1),
   (''CreateCompShareTeamRelation'', L1),
   (''SetCompShareTeamRelation'', L1),
   (''SetCompShareTeamAmount'', L1),
   (''ReinstallCompShareInstance'', L1),
   (''TerminateCompShareInstance'', L2),
   (''TerminateCompShareCustomImage'', L2),
   (''DeleteCompshareDisk'', L2),
   (''DeleteCompShareTeam'', L2),
   (''DeleteCFS'', L2),
   (''DetachCFS'', L2)]"

definition check_level :: "string \<Rightarrow> level res" where
  "check_level action = (case mget action_levels action of
       None \<Rightarrow> Inl (plain_err (''unsupported action: '' @ action))
     | Some l \<Rightarrow> Inr l)"

section \<open>The table\<close>

lemma action_levels_by_name:
  "list_all (\<lambda>(a, l).
      (l = L2) = ((has_prefix a ''Terminate'' \<or> has_prefix a ''Delete'' \<or> has_prefix a ''Detach'')
                    \<and> a \<noteq> ''DeleteCompShareStopScheduler'') \<and>
      (if has_prefix a ''Describe'' \<or> has_prefix a ''Get'' \<or> has_prefix a ''Check'' then l = L0 else True))
    action_levels"
  by code_simp

text \<open>The table refuses what deletes: an action is refused exactly when its name starts with
  \<open>Terminate\<close>, \<open>Delete\<close> or \<open>Detach\<close>, with the one exception of the stop scheduler, which only
  needs confirmation; and an action whose name starts with \<open>Describe\<close>, \<open>Get\<close> or \<open>Check\<close> is
  read-only.\<close>

theorem level_check_consistent:
  assumes "check_level a = Inr l"
  shows "(l = L2) = ((has_prefix a ''Terminate'' \<or> has_prefix a ''Delete'' \<or> has_prefix a ''Detach'')
           \<and> a \<noteq> ''DeleteCompShareStopScheduler'') \<and>
     (has_prefix a ''Describe'' \<or> has_prefix a ''Get'' \<or> has_prefix a ''Check'' \<longrightarrow> l = L0)"
proof -
  have "(a, l) \<in> set action_levels"
    using assms by (auto simp: check_level_def dest: map_of_SomeD split: option.splits)
  with action_levels_by_name show ?thesis by (fastforce simp: list_all_iff split: if_splits)
qed

theorem level_check_consistent_witness:
  "check_level ''DeleteCFS'' = Inr L2 \<and> check_level ''DescribeCFS'' = Inr L0"
proof -
  have "check_level ''DeleteCFS'' = Inr L2" "check_level ''DescribeCFS'' = Inr L0"
    by code_simp+
  from this level_check_consistent [OF this(1)] show ?thesis by blast
qed

end
