(* ===== verification/Platform.thy ===== *)
theory Platform
  imports GoText
begin

text \<open>Shared facts about the upstream platform (\<open>internal/platform\<close>): the id of a Pod instance.\<close>

definition is_pod_instance_id :: "string \<Rightarrow> bool" where
  "is_pod_instance_id s = has_prefix (to_lower (trim_space s)) ''cpod-''"

end
