(* ===== verification/WorkflowSteps.thy ===== *)
theory WorkflowSteps
  imports WorkflowRun Security Platform
begin

text \<open>
  What the concrete workflows share: the readers of an instance answer
  (\<open>workflow/instance_shape.go\<close>, \<open>stop_instance.go\<close>, \<open>resize_disk.go\<close>), the placement
  arguments of a write (\<open>workflow/region.go\<close>), parameter readers (\<open>create_instance.go\<close>), the
  step constructors, the registry and the static contract of a definition
  (\<open>registry.go\<close>, \<open>execution_contract.go\<close>).

  The source names its steps, card keys and sentences in Chinese. Here each is an English
  gloss: the program only compares step names and card keys for equality, and distinct names
  have distinct glosses; a sentence is never inspected.
\<close>

section \<open>Instance answers\<close>

text \<open>\<open>firstInstance\<close>, \<open>firstUHost\<close>: the first row of \<open>UHostSet\<close> when it is an object.\<close>

definition first_instance :: "gmap \<Rightarrow> gmap option" where
  "first_instance result = (case mval result ''UHostSet'' of
       GList (GMap host # _) \<Rightarrow> Some host
     | _ \<Rightarrow> None)"

definition extract_field :: "gmap \<Rightarrow> string \<Rightarrow> string" where
  "extract_field result key = (case first_instance result of
       None \<Rightarrow> [] | Some host \<Rightarrow> as_str (mval host key))"

definition extract_instance_state :: "gmap \<Rightarrow> string" where
  "extract_instance_state result = extract_field result ''State''"

definition extract_instance_name :: "gmap \<Rightarrow> string" where
  "extract_instance_name result = extract_field result ''Name''"

definition extract_instance_type :: "gmap \<Rightarrow> string" where
  "extract_instance_type result = extract_field result ''InstanceType''"

definition extract_instance_zone :: "gmap \<Rightarrow> string \<Rightarrow> string" where
  "extract_instance_zone result dflt =
     (let zone = extract_field result ''Zone'' in if zone \<noteq> [] then zone else dflt)"

definition summary_keys :: "string list" where
  "summary_keys = [''UHostId'', ''Name'', ''State'', ''GpuType'', ''GPU'', ''ChargeType'']"

definition extract_instance_summary :: "gmap \<Rightarrow> gmap" where
  "extract_instance_summary result = (case first_instance result of
       None \<Rightarrow> []
     | Some host \<Rightarrow> List.map_filter (\<lambda>k. map_option (Pair k) (mget host k)) summary_keys)"

definition extract_first_bool :: "gmap \<Rightarrow> string \<Rightarrow> bool" where
  "extract_first_bool result key = (case first_instance result of
       None \<Rightarrow> False | Some host \<Rightarrow> as_bool (mval host key))"

text \<open>Editing the answer in place: only the row of the instance stays.\<close>

definition narrow_instance_result :: "gmap \<Rightarrow> string \<Rightarrow> gmap option" where
  "narrow_instance_result result uhost =
     (let i = trim_space uhost in
      if i = [] then None
      else case mval result ''UHostSet'' of
        GList rows \<Rightarrow>
          (case find (\<lambda>h. trim_space (as_str (mval h ''UHostId'')) = i) (List.map_filter as_map rows) of
             None \<Rightarrow> None
           | Some h \<Rightarrow> Some (mput ''TotalCount'' (GFloat (Fin 1)) (mput ''UHostSet'' (GList [GMap h]) result)))
      | _ \<Rightarrow> None)"

definition is_pod_instance_result :: "gmap \<Rightarrow> bool" where
  "is_pod_instance_result result = is_pod_instance_id (extract_field result ''UHostId'')"

definition is_container_instance_result :: "gmap \<Rightarrow> bool" where
  "is_container_instance_result result = equal_fold (extract_field result ''InstanceType'') ''Container''"

definition resize_disk_via_instance :: "gmap \<Rightarrow> bool" where
  "resize_disk_via_instance result \<longleftrightarrow> is_pod_instance_result result \<or> is_container_instance_result result"

section \<open>Numbers and parameters\<close>

text \<open>A Go conversion from \<open>int\<close> to \<open>uint32\<close> keeps the low 32 bits.\<close>

definition parse_uint32_any :: "gval \<Rightarrow> 32 word option" where
  "parse_uint32_any v = (case v of
       GUint32 w \<Rightarrow> if w \<noteq> 0 then Some w else None
     | GUint64 w \<Rightarrow> if 0 < uint w \<and> uint w < 2 ^ 32 then Some (word_of_int (uint w)) else None
     | GInt n \<Rightarrow> if 0 < n then Some (word_of_int n) else None
     | GInt64 n \<Rightarrow> if 0 < n \<and> n < 2 ^ 32 then Some (word_of_int n) else None
     | GFloat (Fin r) \<Rightarrow>
         if 0 < r \<and> r < 2 ^ 32 \<and> r = of_int \<lfloor>r\<rfloor> then Some (word_of_int \<lfloor>r\<rfloor>) else None
     | GStr s \<Rightarrow> (case parse_uint 32 (trim_space s) of
           Some n \<Rightarrow> if n \<noteq> 0 then Some (word_of_nat n) else None
         | None \<Rightarrow> None)
     | _ \<Rightarrow> None)"

fun first_uint32_field :: "gmap \<Rightarrow> string list \<Rightarrow> 32 word option" where
  "first_uint32_field m [] = None"
| "first_uint32_field m (k # ks) = (case parse_uint32_any (mval m k) of
       Some w \<Rightarrow> Some w | None \<Rightarrow> first_uint32_field m ks)"

definition price_number :: "gval \<Rightarrow> gfloat option" where
  "price_number v = (case v of
       GFloat x \<Rightarrow> Some x | GFloat32 x \<Rightarrow> Some x
     | GInt n \<Rightarrow> Some (Fin (of_int n)) | GInt64 n \<Rightarrow> Some (Fin (of_int n)) | _ \<Rightarrow> None)"

fun first_number_field :: "gmap \<Rightarrow> string list \<Rightarrow> gfloat" where
  "first_number_field m [] = Fin 0"
| "first_number_field m (k # ks) = (case price_number (mval m k) of
       Some x \<Rightarrow> x | None \<Rightarrow> first_number_field m ks)"

definition param_str :: "gmap \<Rightarrow> string \<Rightarrow> string \<Rightarrow> string" where
  "param_str ps key dflt = (case mget ps key of Some (GStr s) \<Rightarrow> s | _ \<Rightarrow> dflt)"

definition param_num :: "gmap \<Rightarrow> string \<Rightarrow> gfloat \<Rightarrow> gfloat" where
  "param_num ps key dflt = (case mget ps key of
       Some (GFloat x) \<Rightarrow> x | Some (GInt n) \<Rightarrow> Fin (of_int n) | _ \<Rightarrow> dflt)"

text \<open>The price of a component: a field of the answer, or of the first detail row that has it.\<close>

definition price_detail_rows :: "gmap \<Rightarrow> gmap list" where
  "price_detail_rows result = List.map_filter as_map (concat (map
     (\<lambda>k. case mval result k of GList rows \<Rightarrow> rows | _ \<Rightarrow> [])
     [''PriceDetails'', ''OriginalPriceDetails'', ''ListPriceDetails'']))"

definition required_price_field :: "gmap \<Rightarrow> string \<Rightarrow> gfloat res" where
  "required_price_field result key =
     (case price_number (mval result key) of
        Some x \<Rightarrow> Inr x
      | None \<Rightarrow> (case List.map_filter (\<lambda>row. price_number (mval row key)) (price_detail_rows result) of
            x # _ \<Rightarrow> Inr x
          | [] \<Rightarrow> Inl (plain_err ''no price'')))"

section \<open>Placement of a write\<close>

record support_zone_placement =
  sz_region :: string
  sz_zone_id :: "32 word"
  sz_az_group :: "32 word"

definition support_zone_placement_for_zone :: "gmap \<Rightarrow> string \<Rightarrow> support_zone_placement option" where
  "support_zone_placement_for_zone result zone =
     (let zone = trim_space zone in
      if zone = [] then None
      else case mval result ''ZoneInfo'' of
        GList rows \<Rightarrow>
          map_option (\<lambda>e. \<lparr>sz_region = trim_space (as_str (mval e ''Region'')),
              sz_zone_id = (case parse_uint32_any (mval e ''ZoneId'') of None \<Rightarrow> 0 | Some w \<Rightarrow> w),
              sz_az_group = (case parse_uint32_any (mval e ''RegionId'') of None \<Rightarrow> 0 | Some w \<Rightarrow> w)\<rparr>)
            (find (\<lambda>e. equal_fold (trim_space (as_str (mval e ''Zone''))) zone) (List.map_filter as_map rows))
      | _ \<Rightarrow> None)"

text \<open>The real location of an instance, or a refusal: nothing is guessed from the zone's name.\<close>

definition extract_required_instance_location :: "gmap \<Rightarrow> gmap \<Rightarrow> (string \<times> string) res" where
  "extract_required_instance_location result zones =
     (let zone = trim_space (extract_field result ''Zone'');
          region = trim_space (extract_field result ''Region'');
          sz = support_zone_placement_for_zone zones zone
      in if zone = [] then Inl (plain_err ''no zone'')
         else case sz of
           Some p \<Rightarrow>
             if region = [] then
               (if sz_region p = [] then Inl (plain_err ''no region'') else Inr (sz_region p, zone))
             else if sz_region p \<noteq> [] \<and> \<not> equal_fold region (sz_region p)
             then Inl (plain_err ''regions disagree'')
             else Inr (region, zone)
         | None \<Rightarrow> if region = [] then Inl (plain_err ''no region'') else Inr (region, zone))"

definition put_if_nonzero :: "string \<Rightarrow> 32 word \<Rightarrow> gmap \<Rightarrow> gmap" where
  "put_if_nonzero k w m = (if w \<noteq> 0 then mput k (GUint32 w) m else m)"

definition put_if_missing :: "string \<Rightarrow> 32 word option \<Rightarrow> gmap \<Rightarrow> gmap" where
  "put_if_missing k w m = (case w of
       Some w \<Rightarrow> if mhas m k then m else put_if_nonzero k w m | None \<Rightarrow> m)"

definition add_instance_placement_args_if_missing :: "gmap \<Rightarrow> gmap \<Rightarrow> gmap" where
  "add_instance_placement_args_if_missing args result = (case first_instance result of
       None \<Rightarrow> args
     | Some host \<Rightarrow>
         put_if_missing ''az_group''
           (first_uint32_field host [''RegionId'', ''RegionID'', ''region_id'', ''az_group'', ''AZGroup''])
           (put_if_missing ''zone_id'' (first_uint32_field host [''ZoneId'', ''ZoneID'', ''zone_id'']) args))"

definition add_required_pod_placement_args :: "gmap \<Rightarrow> gmap \<Rightarrow> gmap \<Rightarrow> gmap res" where
  "add_required_pod_placement_args args result zones =
     (if first_instance result = None then Inl (plain_err ''no zone'')
      else case extract_required_instance_location result zones of
        Inl e \<Rightarrow> Inl e
      | Inr (region, zone) \<Rightarrow>
          (let a1 = (case support_zone_placement_for_zone zones zone of
                 None \<Rightarrow> args
               | Some p \<Rightarrow> put_if_nonzero ''az_group'' (sz_az_group p) (put_if_nonzero ''zone_id'' (sz_zone_id p) args));
               a2 = mput ''Zone'' (GStr zone) (mput ''Region'' (GStr region) a1);
               a3 = add_instance_placement_args_if_missing a2 result
           in if resize_disk_via_instance result \<and> \<not> (mhas a3 ''zone_id'' \<and> mhas a3 ''az_group'')
              then Inl (plain_err ''no internal zone id'') else Inr a3))"

section \<open>Step constructors\<close>

text \<open>A hook that only reads, and a hook that fails or yields a value with new parameters.\<close>

definition reads :: "('r wctx \<Rightarrow> 'a) \<Rightarrow> ('r, 'a) hook" where
  "reads f c = (f c, wc_pub c)"

definition set_params :: "gmap \<Rightarrow> 'r wpub \<Rightarrow> 'r wpub" where
  "set_params ps p = p\<lparr>wp_params := ps\<rparr>"

definition plain_step :: "string \<Rightarrow> step_type \<Rightarrow> 'r wstep" where
  "plain_step name ty = \<lparr>st_name = name, st_type = ty, st_tool = [], st_tool_func = None,
     st_build_args = reads (\<lambda>c. Inr []), st_build_args_batch = None, st_check_result = None,
     st_resolve = None, st_skip_if = None, st_optional = False, st_poll = None, st_build_form = None,
     st_apply_overrides = None, st_revalidate_from = [], st_promote = None, st_submit_mode = SubmitRevalidate\<rparr>"

definition tool_step :: "string \<Rightarrow> string \<Rightarrow> ('r, gmap res) hook \<Rightarrow> 'r check option \<Rightarrow> 'r wstep" where
  "tool_step name tool build chk = (plain_step name StepToolCall)
     \<lparr>st_tool := tool, st_build_args := build, st_check_result := chk\<rparr>"

definition confirm_step :: "string \<Rightarrow> ('r, gmap res) hook \<Rightarrow> 'r wstep" where
  "confirm_step name build = (plain_step name StepConfirm)\<lparr>st_build_args := build\<rparr>"

definition resolve_step :: "string \<Rightarrow> ('r, gmap res) hook \<Rightarrow> 'r wstep" where
  "resolve_step name f = (plain_step name StepResolve)\<lparr>st_resolve := Some f\<rparr>"

definition plain_definition :: "string \<Rightarrow> 'r wstep list \<Rightarrow> 'r definition_" where
  "plain_definition name steps = \<lparr>def_name = name, def_steps = steps, def_result_data = None,
     def_mutation_committed = None, def_failure_draft = None\<rparr>"

text \<open>A check that neither writes parameters nor edits the answer.\<close>

definition checks :: "(gmap \<Rightarrow> check_outcome) \<Rightarrow> 'r check" where
  "checks f r c = ((f r, r), wc_pub c)"

definition q_instance :: string where "q_instance = ''query instance''"
definition q_zones :: string where "q_zones = ''query support zones''"

definition instance_query_args :: "gmap \<Rightarrow> gmap" where
  "instance_query_args ps = [(''UHostIds'', GList [mval ps ''UHostId''])]"

definition step_query_instance :: "'r check option \<Rightarrow> 'r wstep" where
  "step_query_instance chk = tool_step q_instance ''DescribeCompShareInstance''
     (reads (\<lambda>c. Inr (instance_query_args (ctx_params c)))) chk"

definition step_query_support_zones :: "'r wstep" where
  "step_query_support_zones =
     (tool_step q_zones ''DescribeCompShareSupportZone'' (reads (\<lambda>c. Inr [])) None)\<lparr>st_optional := True\<rparr>"

section \<open>The static contract of a definition\<close>

datatype tool_binding_kind = ToolBindingNone | ToolBindingStatic | ToolBindingDynamic

text \<open>\<open>xc_risk\<close> is the pair of \<open>RiskKnown\<close> and \<open>Risk\<close>.\<close>

record execution_step_contract =
  xc_name :: string
  xc_type :: step_type
  xc_tool :: string
  xc_binding :: tool_binding_kind
  xc_risk :: "level option"

definition project_step :: "'r wstep \<Rightarrow> execution_step_contract" where
  "project_step s =
     (let unbound = \<lparr>xc_name = st_name s, xc_type = st_type s, xc_tool = [],
            xc_binding = ToolBindingNone, xc_risk = None\<rparr>
      in if st_type s = StepConfirm \<or> st_type s = StepResolve then unbound
         else if st_tool_func s \<noteq> None then unbound\<lparr>xc_binding := ToolBindingDynamic\<rparr>
         else if st_tool s \<noteq> [] then
           unbound\<lparr>xc_binding := ToolBindingStatic, xc_tool := st_tool s,
             xc_risk := (case check_level (st_tool s) of Inl _ \<Rightarrow> None | Inr l \<Rightarrow> Some l)\<rparr>
         else unbound)"

definition execution_contract :: "'r definition_ option \<Rightarrow> execution_step_contract list" where
  "execution_contract def = (case def of None \<Rightarrow> [] | Some d \<Rightarrow> map project_step (def_steps d))"

end
