(* ===== verification/InstanceWorkflows.thy ===== *)
theory InstanceWorkflows
  imports WorkflowSteps
begin

text \<open>
  The workflows that act on one existing instance: stop, reboot, rename, start and the
  cancellation of a scheduled stop (\<open>workflow/stop_instance.go\<close>, \<open>reboot_instance.go\<close>,
  \<open>rename_instance.go\<close>, \<open>start_instance.go\<close>, \<open>scheduler.go\<close>). The texts of cards and refusals
  are glosses; a number inside a text is not rendered.
\<close>

section \<open>Stop\<close>

definition stop_billing_warning :: "gmap \<Rightarrow> string" where
  "stop_billing_warning summary =
     (let ct = to_lower (trim_space (as_str (mval summary ''ChargeType''))) in
      if ct \<in> {''postpay'', ''spot'', ''preemptive''} then ''billing of the run ends; disks may still bill''
      else if ct \<in> {''month'', ''year'', ''day'', ''dynamic''} then ''the prepaid period is not refunded; disks may still bill''
      else ''whether billing ends is not confirmed; disks may still bill'')"

definition check_stop :: "gmap \<Rightarrow> check_outcome" where
  "check_stop result =
     (let state = extract_instance_state result in
      if state = [] then check_failed ''instance not found''
      else if state = ''Stopped'' then check_failed ''already stopped''
      else if state = ''Running'' then check_passed
      else check_failed (''only a running instance can be stopped: '' @ state))"

definition stop_summary :: "gmap \<Rightarrow> gmap" where
  "stop_summary queried = (let s = extract_instance_summary queried in
     mput ''warning'' (GStr (stop_billing_warning s)) s)"

text \<open>The write of stop, reboot and rename: some arguments, with the placement of the instance.\<close>

definition placed_args :: "gmap \<Rightarrow> ('r, gmap res) hook" where
  "placed_args args = reads (\<lambda>c. add_required_pod_placement_args
     (mput ''UHostId'' (mval (ctx_params c) ''UHostId'') args) (ctx_result c q_instance) (ctx_result c q_zones))"

definition stop_instance_workflow :: "'r definition_" where
  "stop_instance_workflow = plain_definition ''StopInstanceWorkflow''
     [step_query_instance (Some (checks check_stop)),
      step_query_support_zones,
      confirm_step ''confirm stop'' (reads (\<lambda>c. Inr (stop_summary (ctx_result c q_instance)))),
      tool_step ''stop'' ''StopCompShareInstance'' (placed_args []) None]"

section \<open>Reboot\<close>

definition check_reboot :: "'r check" where
  "check_reboot result c =
     (let state = extract_instance_state result; fail = (\<lambda>m. ((check_failed m, result), wc_pub c)) in
      if state = [] then fail ''instance not found''
      else if state = ''Running'' then
        ((check_passed, result),
         (case first_instance result of None \<Rightarrow> wc_pub c
          | Some host \<Rightarrow> set_params (mput ''RebootInitialStartTime'' (mval host ''StartTime'') (ctx_params c)) (wc_pub c)))
      else if state = ''Stopped'' then fail ''instance is stopped''
      else if state = ''Rebooting'' then fail ''instance is rebooting''
      else fail (''only a running instance can be rebooted: '' @ state))"

definition reboot_summary :: "gmap \<Rightarrow> gmap" where
  "reboot_summary queried =
     mput ''warning'' (GStr ''a reboot interrupts running tasks'') (extract_instance_summary queried)"

definition reboot_instance_workflow :: "'r definition_" where
  "reboot_instance_workflow = plain_definition ''RebootInstanceWorkflow''
     [step_query_instance (Some check_reboot),
      step_query_support_zones,
      confirm_step ''confirm reboot'' (reads (\<lambda>c. Inr (reboot_summary (ctx_result c q_instance)))),
      tool_step ''reboot'' ''RebootCompShareInstance'' (placed_args []) None]"

section \<open>Rename\<close>

text \<open>
  A resource name: at most \<open>n\<close> code points, each a CJK ideograph from U+4E00 to U+9FA5, an ASCII
  letter or digit, or one of \<open>_ , . : -\<close>. The name is a byte string; \<open>range\<close> decodes it, and a
  byte that is no UTF-8 decodes to U+FFFD, which is not allowed. The ideographs are three
  bytes long.
\<close>

definition ascii_name_char :: "char \<Rightarrow> bool" where
  "ascii_name_char c =
     (is_digit c \<or> (CHR ''A'' \<le> c \<and> c \<le> CHR ''Z'') \<or> (CHR ''a'' \<le> c \<and> c \<le> CHR ''z'') \<or>
      c \<in> {CHR ''_'', CHR '','', CHR ''.'', CHR '':'', CHR ''-''})"

definition continuation :: "char \<Rightarrow> bool" where
  "continuation c = ((of_char c :: nat) div 64 = 2)"

definition rune3 :: "char \<Rightarrow> char \<Rightarrow> char \<Rightarrow> nat" where
  "rune3 a b c = (of_char a mod 16) * 4096 + (of_char b mod 64) * 64 + of_char c mod 64"

definition ideograph :: "char \<Rightarrow> char \<Rightarrow> char \<Rightarrow> bool" where
  "ideograph a b c \<longleftrightarrow> (of_char a :: nat) div 16 = 14 \<and> continuation b \<and> continuation c \<and>
     0x4E00 \<le> rune3 a b c \<and> rune3 a b c \<le> 0x9FA5"

fun resource_name_text :: "string \<Rightarrow> bool" where
  "resource_name_text [] = True"
| "resource_name_text (a # s) =
     (if ascii_name_char a then resource_name_text s
      else case s of b # c # t \<Rightarrow> ideograph a b c \<and> resource_name_text t | _ \<Rightarrow> False)"

definition validated_resource_name :: "string \<Rightarrow> nat \<Rightarrow> string res" where
  "validated_resource_name value max_runes =
     (if value = [] then Inl (plain_err ''name is empty'')
      else if max_runes < rune_count value then Inl (plain_err ''name is too long'')
      else if \<not> resource_name_text value then Inl (plain_err ''name has a character that is not allowed'')
      else Inr value)"

definition check_rename :: "gmap \<Rightarrow> check_outcome" where
  "check_rename result =
     (if extract_instance_state result = [] then check_failed ''instance not found'' else check_passed)"

definition rename_summary :: "'r wctx \<Rightarrow> gmap res" where
  "rename_summary c =
     (let new_name = param_str (ctx_params c) ''Name'' [] in
      if new_name = [] then Inl (new_missing_slot_error ''a new name is needed'' [''name''])
      else case validated_resource_name new_name 63 of
        Inl e \<Rightarrow> Inl e
      | Inr n \<Rightarrow> Inr (mput ''NewName'' (GStr n) (extract_instance_summary (ctx_result c q_instance))))"

definition rename_args :: "('r, gmap res) hook" where
  "rename_args c =
     (let new_name = param_str (ctx_params c) ''Name'' [] in
      if new_name = [] then (Inl (plain_err ''instance Name is required before renaming''), wc_pub c)
      else case validated_resource_name new_name 63 of
        Inl e \<Rightarrow> (Inl e, wc_pub c)
      | Inr n \<Rightarrow> placed_args [(''Name'', GStr n)] c)"

definition rename_instance_workflow :: "'r definition_" where
  "rename_instance_workflow = plain_definition ''RenameInstanceWorkflow''
     [step_query_instance (Some (checks check_rename)),
      step_query_support_zones,
      confirm_step ''confirm rename'' (reads rename_summary),
      tool_step ''rename'' ''ModifyCompShareInstanceName'' rename_args None]"

section \<open>Start\<close>

datatype without_gpu_spec = SpecA | SpecB

definition spec_text :: "without_gpu_spec \<Rightarrow> string" where
  "spec_text s = (case s of SpecA \<Rightarrow> ''A'' | SpecB \<Rightarrow> ''B'')"

definition requested_without_gpu_spec :: "gmap \<Rightarrow> without_gpu_spec option" where
  "requested_without_gpu_spec ps =
     (let mode = to_lower (trim_space (as_str (mval ps ''StartMode''))) in
      if mode = ''cpu_only_2c4g'' then Some SpecA
      else if mode = ''cpu_only_8c16g'' then Some SpecB else None)"

definition validate_without_gpu_start :: "gmap \<Rightarrow> without_gpu_spec \<Rightarrow> check_outcome" where
  "validate_without_gpu_start result spec =
     (let pod = is_pod_instance_result result; ct = trim_space (extract_field result ''ChargeType'') in
      if pod \<and> spec \<noteq> SpecA then check_failed ''a pod starts without GPU in tier A only''
      else if \<not> pod \<and> extract_first_bool result ''IsSpot'' then check_failed ''a spot host cannot start without GPU''
      else if ct \<noteq> [] \<and> \<not> equal_fold ct ''Postpay'' then check_failed ''billing does not allow a start without GPU''
      else if \<not> extract_first_bool result ''SupportWithoutGpuStart''
      then check_failed ''the instance cannot start without GPU'' else check_passed)"

definition check_start :: "'r check" where
  "check_start result c =
     (let state = extract_instance_state result; fail = (\<lambda>m. ((check_failed m, result), wc_pub c)) in
      if state = ''Stopped'' then
        (let ps = (case first_instance result of
               None \<Rightarrow> ctx_params c
             | Some host \<Rightarrow> mput ''StartInitialMemory'' (mval host ''Memory'')
                 (mput ''StartInitialCPU'' (mval host ''CPU'') (mput ''StartInitialGPU'' (mval host ''GPU'') (ctx_params c))))
         in ((case requested_without_gpu_spec ps of
                Some spec \<Rightarrow> validate_without_gpu_start result spec | None \<Rightarrow> check_passed, result),
             set_params ps (wc_pub c)))
      else if state = [] then fail ''instance not found''
      else if state = ''Running'' then fail ''instance is already running''
      else if state = ''Starting'' then fail ''instance is starting''
      else fail (''only a stopped instance can be started: '' @ state))"

definition source_instance_config :: "gmap \<Rightarrow> gmap option" where
  "source_instance_config host = (case mval host ''SrcInstanceConfig'' of
       GMap m \<Rightarrow> if m \<noteq> [] then Some m else None | _ \<Rightarrow> None)"

definition instance_is_currently_without_gpu :: "gmap \<Rightarrow> bool" where
  "instance_is_currently_without_gpu result = (case first_instance result of
       None \<Rightarrow> False
     | Some host \<Rightarrow>
         (case mval host ''WithoutGpuSpec'' of GMap m \<Rightarrow> m \<noteq> [] | _ \<Rightarrow> False) \<or>
         equal_fold (trim_space (as_str (mval host ''MachineType''))) ''O'' \<or>
         flt_eq (first_number_field host [''GPU'', ''Gpu'']) (Fin 0) \<and>
           (case source_instance_config host of
              Some src \<Rightarrow> flt_less (Fin 0) (first_number_field src [''Gpu'', ''GPU'']) | None \<Rightarrow> False))"

definition spec_change_card :: "string \<Rightarrow> string \<Rightarrow> gmap \<Rightarrow> gmap" where
  "spec_change_card change note summary =
     mdel ''GPU'' (mdel ''GpuType'' (mput ''note'' (GStr note) (mput ''spec change'' (GStr change) summary)))"

definition start_summary :: "'r wctx \<Rightarrow> gmap res" where
  "start_summary c =
     (let queried = ctx_result c q_instance; summary = extract_instance_summary queried in
      case extract_required_instance_location queried [] of
        Inl e \<Rightarrow> Inl e
      | Inr _ \<Rightarrow> Inr
          (if requested_without_gpu_spec (ctx_params c) \<noteq> None
           then spec_change_card ''current spec to no GPU'' ''not an ordinary start: the spec changes first'' summary
           else if instance_is_currently_without_gpu queried
           then spec_change_card ''no GPU to the archived spec'' ''not an ordinary start: the archived spec is restored first'' summary
           else summary))"

definition start_args :: "'r wctx \<Rightarrow> gmap res" where
  "start_args c = (case extract_required_instance_location (ctx_result c q_instance) [] of
       Inl e \<Rightarrow> Inl e
     | Inr (region, zone) \<Rightarrow>
         (let args = [(''Region'', GStr region), (''Zone'', GStr zone), (''UHostId'', mval (ctx_params c) ''UHostId'')]
          in Inr (case requested_without_gpu_spec (ctx_params c) of
               None \<Rightarrow> args | Some spec \<Rightarrow> mput ''WithoutGpuSpec'' (GStr (spec_text spec)) args)))"

definition start_instance_workflow :: "'r definition_" where
  "start_instance_workflow = plain_definition ''StartInstanceWorkflow''
     [step_query_instance (Some check_start),
      confirm_step ''confirm start'' (reads start_summary),
      tool_step ''start'' ''StartCompShareInstance'' (reads start_args) None]"

section \<open>Cancel a scheduled stop\<close>

definition cancel_scheduler_summary :: "'r wctx \<Rightarrow> gmap res" where
  "cancel_scheduler_summary c =
     (case extract_required_instance_location (ctx_result c q_instance) [] of
        Inl e \<Rightarrow> Inl e
      | Inr _ \<Rightarrow> Inr (mput ''warning'' (GStr ''the scheduled stop will be cancelled'')
          (extract_instance_summary (ctx_result c q_instance))))"

definition cancel_scheduler_args :: "'r wctx \<Rightarrow> gmap res" where
  "cancel_scheduler_args c =
     (case extract_required_instance_location (ctx_result c q_instance) [] of
        Inl e \<Rightarrow> Inl e
      | Inr (region, zone) \<Rightarrow> Inr [(''Region'', GStr region), (''UHostId'', mval (ctx_params c) ''UHostId'')])"

definition q_cancelled :: string where "q_cancelled = ''read back the cancellation''"

definition scheduler_stop_time :: "gmap \<Rightarrow> int" where
  "scheduler_stop_time result = (case first_instance result of
       None \<Rightarrow> 0
     | Some host \<Rightarrow> int64_of_float (first_number_field host [''SchedulerStopTime'']))"

definition cancel_scheduler_result :: "'r wctx \<Rightarrow> gmap option" where
  "cancel_scheduler_result c = Some
     [(''ObservedStopTime'', GInt64 (scheduler_stop_time (ctx_result c q_cancelled))), (''Verified'', GBool False)]"

definition cancel_stop_scheduler_workflow :: "'r definition_" where
  "cancel_stop_scheduler_workflow = (plain_definition ''CancelStopSchedulerWorkflow''
     [step_query_instance (Some (checks check_rename)),
      confirm_step ''confirm cancellation'' (reads cancel_scheduler_summary),
      tool_step ''cancel scheduled stop'' ''DeleteCompShareStopScheduler'' (reads cancel_scheduler_args) None,
      (tool_step q_cancelled ''DescribeCompShareInstance''
         (reads (\<lambda>c. Inr (instance_query_args (ctx_params c)))) None)\<lparr>st_optional := True\<rparr>])
     \<lparr>def_result_data := Some cancel_scheduler_result\<rparr>"

end
