(* ===== verification/WorkflowProtocol.thy ===== *)
theory WorkflowProtocol
  imports WorkflowSteps WorkflowFacts
begin

text \<open>
  What a run of the engine does, without what it reports: a protocol of tool calls and
  confirmation cards over the context and the external world. The engine of
  \<open>WorkflowEngine\<close> and \<open>WorkflowRun\<close> also keeps events, step summaries, messages and failure
  records; for a definition of plain steps (no form, no batch) it refines the protocol: the
  reporting never changes what is called, what is asked or how the run ends.
\<close>

section \<open>The protocol\<close>

record 'w pstate =
  p_world :: 'w
  p_now :: nat
  p_calls :: "(string \<times> gmap) list"
  p_asks :: "(gmap \<times> bool) list"

definition p_hook :: "('r, 'a) hook \<Rightarrow> 'r wctx \<Rightarrow> 'a \<times> 'r wctx" where
  "p_hook h c = (fst (h c), c\<lparr>wc_pub := snd (h c)\<rparr>)"

definition p_store :: "string \<Rightarrow> gmap \<Rightarrow> 'r wctx \<Rightarrow> 'r wctx" where
  "p_store name r c = c\<lparr>wc_pub := (wc_pub c)\<lparr>wp_step_results := mput name r (wp_step_results (wc_pub c))\<rparr>\<rparr>"

definition seal_ok :: "'w env \<Rightarrow> 'r wctx \<Rightarrow> bool" where
  "seal_ok env c = (case wc_sealed c of
       None \<Rightarrow> True | Some k \<Rightarrow> verify_digest (env_digest env) k (ctx_params c))"

definition p_call :: "'w env \<Rightarrow> string \<Rightarrow> gmap \<Rightarrow> 'w pstate \<Rightarrow> gmap res \<times> 'w pstate" where
  "p_call env tool args ps =
     (let (r, dt, w) = env_exec env (p_world ps) (p_now ps) tool args in
      (r, ps\<lparr>p_world := w, p_now := p_now ps + dt, p_calls := p_calls ps @ [(tool, args)]\<rparr>))"

definition p_ask :: "'w env \<Rightarrow> string \<Rightarrow> gmap \<Rightarrow> 'w pstate \<Rightarrow> bool \<times> 'w pstate" where
  "p_ask env name args ps = (case env_confirm env of
       None \<Rightarrow> (False, ps)
     | Some ask \<Rightarrow>
         (let (yes, dt, w) = ask (p_world ps) name args in
          (yes, ps\<lparr>p_world := w, p_now := p_now ps + dt, p_asks := p_asks ps @ [(args, yes)]\<rparr>)))"

text \<open>A step yields whether the run goes on, the context and the protocol state.\<close>

type_synonym ('r, 'w) presult = "bool \<times> 'r wctx \<times> 'w pstate"

lemma p_call_now [simp]: "p_now ps \<le> p_now (snd (p_call env tool args ps))"
  by (simp add: p_call_def split: prod.split)

function p_poll :: "'w env \<Rightarrow> 'r wstep \<Rightarrow> string \<Rightarrow> gmap \<Rightarrow> nat \<Rightarrow> 'r wctx \<Rightarrow> 'w pstate
    \<Rightarrow> ('r, 'w) presult" where
  "p_poll env step tool args deadline c ps =
     (let ra = p_call env tool args ps; ps1 = snd ra in
      case fst ra of
        Inl e \<Rightarrow> (st_optional step, c, ps1)
      | Inr r \<Rightarrow>
          (case st_check_result step of
             None \<Rightarrow> (True, p_store (st_name step) r c, ps1)
           | Some chk \<Rightarrow>
               (let rc = p_hook (chk r) c; oc = fst (fst rc); c1 = snd rc in
                if co_ok oc then (True, p_store (st_name step) (snd (fst rc)) c1, ps1)
                else (case (co_pending oc, st_poll step) of
                    (True, Some pl) \<Rightarrow>
                      if deadline \<le> p_now ps1 \<or> ctx_done env (p_now ps1 + poll_wait pl) then (False, c1, ps1)
                      else p_poll env step tool args deadline c1 (ps1\<lparr>p_now := p_now ps1 + poll_wait pl\<rparr>)
                  | _ \<Rightarrow> (st_optional step, c1, ps1)))))"
  by pat_completeness auto
termination
proof (relation "measure (\<lambda>(env, step, tool, args, deadline, c, ps). deadline - p_now ps)", goal_cases)
  case 1
  then show ?case by simp
next
  case (2 env step tool args deadline c ps ra ps1 r chk rc oc c1 x xa pl)
  have "p_now ps \<le> p_now ps1" "p_now ps1 < deadline" using 2 by simp_all
  moreover have "1 \<le> poll_wait pl" by (simp add: poll_wait_def)
  ultimately show ?case by simp
qed

declare p_poll.simps [simp del]

definition p_tool :: "'w env \<Rightarrow> 'r wstep \<Rightarrow> 'r wctx \<Rightarrow> 'w pstate \<Rightarrow> ('r, 'w) presult" where
  "p_tool env step c ps =
     (let rt = (case st_tool_func step of None \<Rightarrow> (st_tool step, c) | Some f \<Rightarrow> p_hook f c);
          ra = p_hook (st_build_args step) (snd rt); c1 = snd ra
      in case fst ra of
           Inl e \<Rightarrow> (st_optional step, c1, ps)
         | Inr args \<Rightarrow>
             if \<not> seal_ok env c1 then (False, c1, ps)
             else (case st_poll step of
                 None \<Rightarrow> p_poll env step (fst rt) args 0 c1 ps
               | Some pl \<Rightarrow>
                   if pp_interval pl \<le> 0 \<or> pp_timeout pl \<le> 0 then (False, c1, ps)
                   else p_poll env step (fst rt) args (p_now ps + nat (pp_timeout pl)) c1 ps))"

definition p_resolve :: "'w env \<Rightarrow> 'r wstep \<Rightarrow> 'r wctx \<Rightarrow> 'w pstate \<Rightarrow> ('r, 'w) presult" where
  "p_resolve env step c ps = (case st_resolve step of
       None \<Rightarrow> (False, c, ps)
     | Some f \<Rightarrow>
         (let ro = p_hook f c; c1 = snd ro in
          case fst ro of
            Inl e \<Rightarrow> (False, c1, ps)
          | Inr out \<Rightarrow>
              if params_digest (env_digest env) (ctx_params c1) \<noteq> params_digest (env_digest env) (ctx_params c)
              then (False, c1, ps) else (True, p_store (st_name step) out c1, ps)))"

definition p_confirm :: "'w env \<Rightarrow> string \<Rightarrow> 'r wstep \<Rightarrow> 'r wctx \<Rightarrow> 'w pstate \<Rightarrow> ('r, 'w) presult" where
  "p_confirm env name step c ps =
     (let ra = p_hook (st_build_args step) (unseal c) in
      case fst ra of
        Inl e \<Rightarrow> (False, snd ra, ps)
      | Inr args \<Rightarrow>
          (let rq = p_ask env name args ps;
               rp = (case st_promote step of None \<Rightarrow> (None, snd ra) | Some f \<Rightarrow> p_hook f (snd ra))
           in if \<not> fst rq then (False, snd ra, snd rq)
              else if fst rp \<noteq> None then (False, snd rp, snd rq)
              else (True, seal_ctx (env_digest env) name (snd rp), snd rq)))"

definition p_one :: "'w env \<Rightarrow> string \<Rightarrow> 'r wstep \<Rightarrow> 'r wctx \<Rightarrow> 'w pstate \<Rightarrow> ('r, 'w) presult" where
  "p_one env name step c ps = (case st_type step of
       StepToolCall \<Rightarrow> p_tool env step c ps
     | StepResolve \<Rightarrow> p_resolve env step c ps
     | StepConfirm \<Rightarrow> p_confirm env name step c ps
     | _ \<Rightarrow> (False, c, ps))"

fun p_steps :: "'w env \<Rightarrow> string \<Rightarrow> 'r wstep list \<Rightarrow> 'r wctx \<Rightarrow> 'w pstate \<Rightarrow> ('r, 'w) presult" where
  "p_steps env name [] c ps = (True, c, ps)"
| "p_steps env name (step # rest) c ps =
     (if ctx_done env (p_now ps) then (False, c, ps)
      else
        (let go = (\<lambda>c. let ro = p_one env name step c ps in
               if fst ro then p_steps env name rest (fst (snd ro)) (snd (snd ro)) else ro)
         in case st_skip_if step of
              None \<Rightarrow> go c
            | Some sk \<Rightarrow>
                (let rk = p_hook sk c in
                 case fst rk of
                   Inl e \<Rightarrow> (False, snd rk, ps)
                 | Inr True \<Rightarrow> p_steps env name rest (snd rk) ps
                 | Inr False \<Rightarrow> go (snd rk))))"

definition protocol :: "'w env \<Rightarrow> 'r definition_ \<Rightarrow> 'r \<Rightarrow> 'w \<Rightarrow> nat \<Rightarrow> gmap \<Rightarrow> ('r, 'w) presult" where
  "protocol env def ref w now params = p_steps env (def_name def) (def_steps def) (new_context ref params)
     \<lparr>p_world = w, p_now = now, p_calls = [], p_asks = []\<rparr>"

section \<open>The engine refines the protocol\<close>

text \<open>What is observed of an engine state.\<close>

definition abs_state :: "('r, 'w) rstate \<Rightarrow> 'w pstate" where
  "abs_state st = \<lparr>p_world = s_world st, p_now = s_now st,
     p_calls = map (\<lambda>c. (cl_tool c, cl_args c)) (s_calls st),
     p_asks = map (\<lambda>a. (al_args a, al_yes a)) (s_asks st)\<rparr>"

definition obs :: "bool \<times> ('r, 'w) rstate \<Rightarrow> ('r, 'w) presult" where
  "obs r = (fst r, s_ctx (snd r), abs_state (snd r))"

definition plain :: "'r wstep \<Rightarrow> bool" where
  "plain step \<longleftrightarrow> st_build_args_batch step = None \<and> st_build_form step = None"

text \<open>A form is no matter where nothing can show it.\<close>

definition plain_for :: "'w env \<Rightarrow> 'r wstep \<Rightarrow> bool" where
  "plain_for env step \<longleftrightarrow> st_build_args_batch step = None \<and> (st_build_form step = None \<or> env_confirm_edits env = None)"

lemma plain_plain_for [simp]: "plain step \<Longrightarrow> plain_for env step"
  by (simp add: plain_def plain_for_def)

text \<open>Reporting leaves the observation alone.\<close>

lemma report_obs [simp]:
  "abs_state (upd_res f st) = abs_state st" "s_ctx (upd_res f st) = s_ctx st"
  "abs_state (emit step i tot ty status tool args m st) = abs_state st"
  "s_ctx (emit step i tot ty status tool args m st) = s_ctx st"
  "abs_state (add_summary step status m st) = abs_state st" "s_ctx (add_summary step status m st) = s_ctx st"
  "abs_state (stop_at step m st) = abs_state st" "s_ctx (stop_at step m st) = s_ctx st"
  "abs_state (fail_stop step i tot ty tool m st) = abs_state st"
  "s_ctx (fail_stop step i tot ty tool m st) = s_ctx st"
  "abs_state (record_failed_args a st) = abs_state st" "s_ctx (record_failed_args a st) = s_ctx st"
  "abs_state (set_missing e st) = abs_state st" "s_ctx (set_missing e st) = s_ctx st"
  "abs_state (set_err e st) = abs_state st" "s_ctx (set_err e st) = s_ctx st"
  "abs_state (record_step_failure def step i st) = abs_state st"
  "s_ctx (record_step_failure def step i st) = s_ctx st"
  by (simp_all add: abs_state_def upd_res_def emit_def add_summary_def stop_at_def fail_stop_def
      record_failed_args_def set_missing_def set_err_def record_step_failure_def)

lemma record_failure_reason_obs [simp]:
  "abs_state (record_failure_reason r st) = abs_state st" "s_ctx (record_failure_reason r st) = s_ctx st"
  by (simp_all add: record_failure_reason_def)

lemma set_step_result_obs [simp]:
  "abs_state (set_step_result n r st) = abs_state st" "s_ctx (set_step_result n r st) = p_store n r (s_ctx st)"
  by (simp_all add: set_step_result_def upd_ctx_def p_store_def abs_state_def)

lemma run_hook_obs [simp]:
  "fst (run_hook h st) = fst (p_hook h (s_ctx st))" "abs_state (snd (run_hook h st)) = abs_state st"
  "s_ctx (snd (run_hook h st)) = snd (p_hook h (s_ctx st))"
  by (simp_all add: run_hook_def p_hook_def upd_ctx_def abs_state_def split: prod.split)

lemma exec_call_obs [simp]:
  "fst (exec_call env i tool args ps st) = fst (p_call env tool args (abs_state st))"
  "abs_state (snd (exec_call env i tool args ps st)) = snd (p_call env tool args (abs_state st))"
  "s_ctx (snd (exec_call env i tool args ps st)) = s_ctx st"
  by (simp_all add: exec_call_def p_call_def abs_state_def split: prod.split)

lemma abs_state_now [simp]: "p_now (abs_state st) = s_now st"
  by (simp add: abs_state_def)

lemma wait_obs [simp]:
  "abs_state (st\<lparr>s_now := n\<rparr>) = (abs_state st)\<lparr>p_now := n\<rparr>" "s_ctx (st\<lparr>s_now := n\<rparr>) = s_ctx st"
  by (simp_all add: abs_state_def)

definition obs_tool :: "tool_outcome \<times> ('r, 'w) rstate \<Rightarrow> ('r, 'w) presult" where
  "obs_tool r = (fst r \<noteq> ToolFailed, s_ctx (snd r), abs_state (snd r))"

lemma tool_exit_obs [simp]:
  "obs_tool (exec_failed step i tot tool args e may st) = (may \<and> st_optional step, s_ctx st, abs_state st)"
  "obs_tool (check_rejected step i tot tool args oc st) = (st_optional step, s_ctx st, abs_state st)"
  "obs_tool (tool_failed step i tot tool args m st) = (False, s_ctx st, abs_state st)"
  "obs_tool (tool_done step i tot tool r st) = (True, p_store (st_name step) r (s_ctx st), abs_state st)"
  by (simp_all add: obs_tool_def exec_failed_def check_rejected_def tool_failed_def tool_done_def Let_def)

lemma poll_loop_obs:
  "obs_tool (poll_loop env step i tot tool args params deadline st)
     = p_poll env step tool args deadline (s_ctx st) (abs_state st)"
proof (induction env step i tot tool args params deadline st rule: poll_loop.induct)
  case (1 env step i tot tool args params deadline st)
  let ?ra = "exec_call env i tool args params st"
  let ?pa = "p_call env tool args (abs_state st)"
  have now: "s_now (snd ?ra) = p_now (snd ?pa)" by (metis abs_state_now exec_call_obs(2))
  show ?case
  proof (cases "fst ?pa")
    case (Inl e)
    then show ?thesis by (subst poll_loop.simps, subst p_poll.simps) (simp add: Let_def)
  next
    case (Inr r)
    show ?thesis
    proof (cases "st_check_result step")
      case None
      with Inr show ?thesis by (subst poll_loop.simps, subst p_poll.simps) (simp add: Let_def)
    next
      case (Some chk)
      note IH = "1.IH" [OF refl refl _ Some refl refl refl]
      show ?thesis
        using Inr Some IH [of r] now
        by (subst poll_loop.simps, subst p_poll.simps)
          (auto simp: Let_def split: option.split bool.split)
    qed
  qed
qed

lemma verify_obs [simp]:
  "fst (verify_sealed_contract env step i tot st) = seal_ok env (s_ctx st)"
  "abs_state (snd (verify_sealed_contract env step i tot st)) = abs_state st"
  "s_ctx (snd (verify_sealed_contract env step i tot st)) = s_ctx st"
  by (simp_all add: verify_sealed_contract_def seal_ok_def split: option.split)

lemma s_now_report [simp]:
  "s_now (emit step i tot ty status tool args m st) = s_now st"
  "s_now (snd (verify_sealed_contract env step i tot st)) = s_now st"
  by (metis abs_state_now report_obs(3), metis abs_state_now verify_obs(2))

lemma run_built_call_obs:
  "obs_tool (run_built_call env step args tool i tot st) =
     (let c = s_ctx st; ps = abs_state st in
      if \<not> seal_ok env c then (False, c, ps)
      else (case st_poll step of
          None \<Rightarrow> p_poll env step tool args 0 c ps
        | Some pl \<Rightarrow>
            if pp_interval pl \<le> 0 \<or> pp_timeout pl \<le> 0 then (False, c, ps)
            else p_poll env step tool args (p_now ps + nat (pp_timeout pl)) c ps))"
  by (auto simp: run_built_call_def Let_def poll_loop_obs split: option.split) (simp_all add: obs_tool_def)

lemma run_tool_step_obs:
  fixes st :: "('r, 'w) rstate"
  assumes "plain_for env step"
  shows "obs_tool (run_tool_step env step i tot st) = p_tool env step (s_ctx st) (abs_state st)"
proof -
  have exits: "obs_tool (ToolSkipped, s) = (True, s_ctx s, abs_state s)"
      "obs_tool (ToolFailed, s) = (False, s_ctx s, abs_state s)" for s :: "('r, 'w) rstate"
    by (simp_all add: obs_tool_def)
  show ?thesis
    using assms
    by (cases "st_tool_func step")
      (simp_all add: plain_for_def run_tool_step_def p_tool_def Let_def run_built_call_obs exits if_distrib [of obs_tool]
        split: sum.split option.split)
qed

lemma run_resolve_step_obs:
  "obs_tool (run_resolve_step env step i tot st) = p_resolve env step (s_ctx st) (abs_state st)"
  by (auto simp: run_resolve_step_def p_resolve_def obs_tool_def Let_def split: option.split sum.split)

lemma gate_obs [simp]:
  "obs (gate_fail step i tot m st) = (False, s_ctx st, abs_state st)"
  "obs (gate_cancelled step i tot st) = (False, s_ctx st, abs_state st)"
  by (simp_all add: obs_def gate_fail_def gate_cancelled_def)

lemma gate_pass_obs:
  "obs (gate_pass step i tot st) =
     (let rp = (case st_promote step of None \<Rightarrow> (None, s_ctx st) | Some f \<Rightarrow> p_hook f (s_ctx st))
      in (fst rp = None, snd rp, abs_state st))"
  by (auto simp: gate_pass_def Let_def obs_def gate_fail_def split: option.split)

lemma ask_plain_obs:
  "fst (ask_plain env def i args st) = fst (p_ask env (def_name def) args (abs_state st))"
  "abs_state (snd (ask_plain env def i args st)) = snd (p_ask env (def_name def) args (abs_state st))"
  "s_ctx (snd (ask_plain env def i args st)) = s_ctx st"
  by (simp_all add: ask_plain_def p_ask_def abs_state_def split: option.split prod.split)

lemma unseal_obs [simp]:
  "abs_state (upd_ctx f st) = abs_state st" "s_ctx (upd_ctx f st) = f (s_ctx st)"
  by (simp_all add: upd_ctx_def abs_state_def)

lemma build_form_plain: "plain_for env step \<Longrightarrow> build_form env step st = (None, st)"
  by (auto simp: plain_for_def build_form_def split: option.split)

lemma confirm_loop_obs:
  fixes st :: "('r, 'w) rstate"
  assumes "plain_for env step"
  shows "obs (confirm_loop env def step i tot edits st) =
     (let ra = p_hook (st_build_args step) (s_ctx st) in
      case fst ra of
        Inl e \<Rightarrow> (False, snd ra, abs_state st)
      | Inr args \<Rightarrow>
          (let rq = p_ask env (def_name def) args (abs_state st);
               rp = (case st_promote step of None \<Rightarrow> (None, snd ra) | Some f \<Rightarrow> p_hook f (snd ra))
           in if \<not> fst rq then (False, snd ra, snd rq) else (fst rp = None, snd rp, snd rq)))"
  by (subst confirm_loop.simps)
    (auto simp: Let_def build_form_plain [OF assms] ask_plain_obs gate_pass_obs split: sum.split option.split)

lemma run_confirm_step_obs:
  fixes st :: "('r, 'w) rstate"
  assumes "plain_for env step"
  shows "obs (let rc = run_confirm_step env def step i tot st in
      (fst rc, if fst rc then upd_ctx (seal_ctx (env_digest env) (def_name def)) (snd rc) else snd rc))
    = p_confirm env (def_name def) step (s_ctx st) (abs_state st)"
proof -
  have seal: "obs (fst rc, if fst rc then upd_ctx (seal_ctx (env_digest env) (def_name def)) (snd rc) else snd rc)
    = (fst (obs rc), if fst (obs rc) then seal_ctx (env_digest env) (def_name def) (fst (snd (obs rc)))
         else fst (snd (obs rc)), snd (snd (obs rc)))" for rc :: "bool \<times> ('r, 'w) rstate"
    by (simp add: obs_def)
  show ?thesis
    unfolding Let_def seal run_confirm_step_def confirm_loop_obs [OF assms] p_confirm_def unseal_obs
    by (auto split: sum.split)
qed

lemma run_one_obs:
  fixes st :: "('r, 'w) rstate"
  assumes "plain_for env step"
  shows "obs (run_one env def i tot step st) = p_one env (def_name def) step (s_ctx st) (abs_state st)"
proof -
  have tool: "obs (let ro = r in (fst ro \<noteq> ToolFailed, snd ro)) = obs_tool r"
    for r :: "tool_outcome \<times> ('r, 'w) rstate" by (simp add: obs_def obs_tool_def Let_def)
  show ?thesis
    by (cases "st_type step")
      (simp_all only: run_one_def p_one_def step_type.case tool run_tool_step_obs [OF assms] run_resolve_step_obs
        run_confirm_step_obs [OF assms], simp add: obs_def)
qed

lemma run_confirm_step_success:
  fixes st :: "('r, 'w) rstate"
  assumes "plain_for env step"
  shows "r_success (s_res (snd (run_confirm_step env def step i tot st))) = r_success (s_res st)"
proof -
  have "r_success (s_res (snd (ask_plain env def i args s))) = r_success (s_res s)" for args and s :: "('r, 'w) rstate"
    by (simp add: ask_plain_def split: option.split prod.split)
  then show ?thesis
    unfolding run_confirm_step_def
    by (subst confirm_loop.simps)
      (auto simp: Let_def build_form_plain [OF assms] gate_pass_def gate_fail_def gate_cancelled_def
        upd_ctx_def split: sum.split option.split)
qed

lemma run_one_success:
  fixes st :: "('r, 'w) rstate"
  assumes "plain_for env step"
  shows "r_success (s_res (snd (run_one env def i tot step st))) = r_success (s_res st)"
proof (cases "st_type step")
  case StepToolCall
  then show ?thesis
    using run_tool_step_extends [of i step UNIV env UNIV st tot] by (simp add: run_one_def Let_def extends_def)
next
  case StepResolve
  then show ?thesis
    using run_resolve_step_extends [of env UNIV UNIV st step i tot] by (simp add: run_one_def Let_def extends_def)
next
  case StepConfirm
  then show ?thesis
    using run_confirm_step_success [OF assms] by (simp add: run_one_def Let_def upd_ctx_def)
next
  case (StepUnknown n)
  then show ?thesis by (simp add: run_one_def)
qed

definition obs_run :: "('r, 'w) rstate \<Rightarrow> ('r, 'w) presult" where
  "obs_run st = (r_success (s_res st), s_ctx st, abs_state st)"

lemma run_steps_obs:
  fixes st :: "('r, 'w) rstate"
  assumes "\<forall>s \<in> set steps. plain_for env s" and "\<not> r_success (s_res st)"
  shows "obs_run (run_steps env def i tot steps st) = p_steps env (def_name def) steps (s_ctx st) (abs_state st)"
  using assms
proof (induction steps arbitrary: i st)
  case Nil
  show ?case by (simp add: obs_run_def run_finished_def upd_res_def abs_state_def)
next
  case (Cons step rest)
  have plain: "plain_for env step" using Cons.prems by simp
  let ?P = "p_steps env (def_name def)"
  have go: "obs_run (let ro = run_one env def i tot step s in
        if fst ro then run_steps env def (Suc i) tot rest (snd ro) else record_step_failure def step i (snd ro))
      = (let ro = p_one env (def_name def) step (s_ctx s) (abs_state s) in
         if fst ro then ?P rest (fst (snd ro)) (snd (snd ro)) else ro)"
    if "\<not> r_success (s_res s)" for s
  proof -
    have "obs_run (record_step_failure def step i (snd (run_one env def i tot step s)))
        = (False, snd (obs (run_one env def i tot step s)))"
      using that run_one_success [OF plain, of def i tot s] by (simp add: obs_run_def obs_def)
    moreover have "obs_run (run_steps env def (Suc i) tot rest (snd (run_one env def i tot step s)))
        = ?P rest (fst (snd (obs (run_one env def i tot step s)))) (snd (snd (obs (run_one env def i tot step s))))"
      using that run_one_success [OF plain, of def i tot s] Cons.prems(1)
      by (subst Cons.IH) (simp_all add: obs_def)
    moreover have "p_one env (def_name def) step (s_ctx s) (abs_state s) = obs (run_one env def i tot step s)"
      by (rule run_one_obs [OF plain, symmetric])
    ultimately show ?thesis by (simp add: Let_def obs_def)
  qed
  have hook: "\<not> r_success (s_res (snd (run_hook h st)))" for h :: "('r, 'c) hook"
    using Cons.prems(2) by simp
  have stop: "obs_run (record_step_failure def step i (stop_at step m st)) = (False, s_ctx st, abs_state st)" for m
    using Cons.prems(2) by (simp add: obs_run_def)
  have skip_failed: "obs_run (record_step_failure def step i (fail_stop step i tot ty [] m (snd (run_hook h st))))
      = (False, snd (p_hook h (s_ctx st)), abs_state st)" for ty m and h :: "('r, bool res) hook"
    using Cons.prems(2) by (simp add: obs_run_def)
  have skipped: "obs_run (run_steps env def (Suc i) tot rest (snd (run_hook h st)))
      = ?P rest (snd (p_hook h (s_ctx st))) (abs_state st)" for h :: "('r, bool res) hook"
    using Cons.prems(1) by (subst Cons.IH [OF _ hook]) simp_all
  show ?case
  proof (cases "ctx_done env (s_now st)")
    case True
    then show ?thesis by (simp add: stop)
  next
    case False
    show ?thesis
    proof (cases "st_skip_if step")
      case None
      with False go [OF Cons.prems(2)] show ?thesis by (simp add: Let_def)
    next
      case (Some sk)
      show ?thesis
      proof (cases "fst (p_hook sk (s_ctx st))")
        case (Inl e)
        with False Some show ?thesis by (simp add: Let_def skip_failed)
      next
        case (Inr b)
        with False Some go [OF hook, of sk] show ?thesis
          by (cases b) (simp_all add: Let_def skipped)
      qed
    qed
  qed
qed

lemma run_workflow_obs:
  assumes "\<forall>s \<in> set (def_steps def). plain_for env s"
  shows "obs_run (run_workflow env def ref w now params) = protocol env def ref w now params"
proof -
  have "obs_run (run_workflow env def ref w now params)
      = obs_run (run_steps env def 0 (length (def_steps def)) (def_steps def) (init_state ref w now params))"
    by (simp add: run_workflow_def Let_def obs_run_def upd_res_def abs_state_def)
  also have "\<dots> = protocol env def ref w now params"
    using assms
    by (subst run_steps_obs) (simp_all add: init_state_def empty_result_def protocol_def abs_state_def)
  finally show ?thesis .
qed

text \<open>C7: reporting is invisible: for a workflow without batches, and without forms where the forms can be shown, the engine makes the
  calls of the protocol, with the same arguments and in the same order, shows the same cards with the
  same answers, ends in the same context, seal included, and succeeds exactly when the protocol does.\<close>

theorem engine_refines_protocol:
  assumes "\<forall>s \<in> set (def_steps def). plain_for env s"
  shows "obs_run (run_workflow env def ref w now params) = protocol env def ref w now params"
  using assms by (rule run_workflow_obs)

definition small_env :: "nat env" where
  "small_env = \<lparr>env_exec = (\<lambda>w now t args. (Inr [], 1, Suc w)), env_confirm = Some (\<lambda>w n a. (True, 1, w)),
     env_confirm_edits = None, env_done_at = None, env_ctx_err = plain_err [], env_digest = (\<lambda>j. ''d'')\<rparr>"

definition small_flow :: "unit definition_" where
  "small_flow = plain_definition ''flow''
     [confirm_step ''ask'' (reads (\<lambda>c. Inr [])), tool_step ''act'' ''Tool'' (reads (\<lambda>c. Inr [])) None]"

theorem engine_refines_protocol_witness:
  "obs_run (run_workflow small_env small_flow () 0 0 []) = protocol small_env small_flow () 0 0 [] \<and>
   fst (protocol small_env small_flow () 0 0 [])"
proof -
  have "\<forall>s \<in> set (def_steps small_flow). plain s"
    by (simp add: small_flow_def plain_definition_def confirm_step_def tool_step_def plain_step_def plain_def)
  moreover have "fst (protocol small_env small_flow () 0 0 [])" by code_simp
  ultimately show ?thesis using engine_refines_protocol [of small_flow small_env "()" 0 0 "[]"] by simp
qed

end
