(* ===== verification/InstanceProtocols.thy ===== *)
theory InstanceProtocols
  imports InstanceWorkflows WorkflowProtocol
begin

text \<open>
  Properties of the workflows on one instance, through the protocol of a run
  (\<open>WorkflowProtocol.engine_refines_protocol\<close>).
\<close>

section \<open>Steps of the protocol\<close>

lemma p_hook_reads [simp]: "p_hook (reads f) c = (f c, c)"
  by (simp add: p_hook_def reads_def)

lemma p_hook_checks [simp]: "p_hook (checks f r) c = ((f r, r), c)"
  by (simp add: p_hook_def checks_def)

lemma p_poll_once:
  assumes "st_poll step = None"
  shows "p_poll env step tool args deadline c ps =
     (let ra = p_call env tool args ps; ps1 = snd ra in
      case fst ra of
        Inl e \<Rightarrow> (st_optional step, c, ps1)
      | Inr r \<Rightarrow>
          (case st_check_result step of
             None \<Rightarrow> (True, p_store (st_name step) r c, ps1)
           | Some chk \<Rightarrow>
               (let rc = p_hook (chk r) c in
                if co_ok (fst (fst rc)) then (True, p_store (st_name step) (snd (fst rc)) (snd rc), ps1)
                else (st_optional step, snd rc, ps1))))"
  using assms by (subst p_poll.simps) (simp add: Let_def split: sum.split option.split bool.split)

lemma tool_step_fields [simp]:
  "st_name (tool_step n t b chk) = n" "st_type (tool_step n t b chk) = StepToolCall"
  "st_tool (tool_step n t b chk) = t" "st_tool_func (tool_step n t b chk) = None"
  "st_build_args (tool_step n t b chk) = b" "st_build_args_batch (tool_step n t b chk) = None"
  "st_check_result (tool_step n t b chk) = chk" "st_skip_if (tool_step n t b chk) = None"
  "st_optional (tool_step n t b chk) = False" "st_poll (tool_step n t b chk) = None"
  "st_build_form (tool_step n t b chk) = None"
  by (simp_all add: tool_step_def plain_step_def)

lemma confirm_step_fields [simp]:
  "st_name (confirm_step n b) = n" "st_type (confirm_step n b) = StepConfirm"
  "st_build_args (confirm_step n b) = b" "st_build_args_batch (confirm_step n b) = None"
  "st_skip_if (confirm_step n b) = None" "st_build_form (confirm_step n b) = None"
  "st_promote (confirm_step n b) = None"
  by (simp_all add: confirm_step_def plain_step_def)

lemma resolve_step_fields [simp]:
  "st_name (resolve_step n f) = n" "st_type (resolve_step n f) = StepResolve"
  "st_resolve (resolve_step n f) = Some f" "st_build_args_batch (resolve_step n f) = None"
  "st_skip_if (resolve_step n f) = None" "st_build_form (resolve_step n f) = None"
  by (simp_all add: resolve_step_def plain_step_def)

lemma plain_definition_fields [simp]:
  "def_name (plain_definition n steps) = n" "def_steps (plain_definition n steps) = steps"
  by (simp_all add: plain_definition_def)

text \<open>The context after a step, seen through the accessors the hooks use.\<close>

lemma ctx_store [simp]:
  "ctx_params (p_store n r c) = ctx_params c" "wc_sealed (p_store n r c) = wc_sealed c"
  "ctx_result (p_store n r c) m = (if n = m then r else ctx_result c m)"
  by (simp_all add: p_store_def ctx_params_def ctx_result_def mget_mput)

lemma ctx_unseal [simp]:
  "ctx_params (unseal c) = ctx_params c" "ctx_result (unseal c) n = ctx_result c n"
  by (simp_all add: unseal_def ctx_params_def ctx_result_def)

lemma ctx_seal [simp]:
  "ctx_params (seal_ctx dig op c) = ctx_params c" "ctx_result (seal_ctx dig op c) n = ctx_result c n"
  by (simp_all add: ctx_params_def ctx_result_def)

lemma seal_ok_sealed [simp]: "seal_ok env (seal_ctx (env_digest env) op c)"
  by (simp add: seal_ok_def seal_ctx_def verify_digest_def seal_draft_def ctx_params_def)

lemma seal_ok_unsealed: "wc_sealed c = None \<Longrightarrow> seal_ok env c"
  by (simp add: seal_ok_def)

lemma step_query_instance_fields [simp]:
  "st_name (step_query_instance chk) = q_instance" "st_type (step_query_instance chk) = StepToolCall"
  "st_tool (step_query_instance chk) = ''DescribeCompShareInstance''"
  "st_skip_if (step_query_instance chk) = None" "plain (step_query_instance chk)"
  by (simp_all add: step_query_instance_def plain_def)

lemma step_query_support_zones_fields [simp]:
  "st_name step_query_support_zones = q_zones" "st_type step_query_support_zones = StepToolCall"
  "st_tool step_query_support_zones = ''DescribeCompShareSupportZone''"
  "st_skip_if step_query_support_zones = None" "plain step_query_support_zones"
  by (simp_all add: step_query_support_zones_def plain_def)

text \<open>A call step without a poll: one call, its check, and the stored answer.\<close>

lemma p_tool_once:
  "p_one env name (tool_step n t b chk) c ps =
     (let ra = p_hook b c; c1 = snd ra in
      case fst ra of
        Inl e \<Rightarrow> (False, c1, ps)
      | Inr args \<Rightarrow>
          if \<not> seal_ok env c1 then (False, c1, ps)
          else (let rp = p_call env t args ps in
                case fst rp of
                  Inl e \<Rightarrow> (False, c1, snd rp)
                | Inr r \<Rightarrow> (case chk of
                      None \<Rightarrow> (True, p_store n r c1, snd rp)
                    | Some ch \<Rightarrow>
                        (let rc = p_hook (ch r) c1 in
                         if co_ok (fst (fst rc)) then (True, p_store n (snd (fst rc)) (snd rc), snd rp)
                         else (False, snd rc, snd rp)))))"
  by (simp add: p_one_def p_tool_def p_poll_once Let_def split: sum.split option.split)

lemma p_query_once:
  "p_one env name (step_query_instance (Some chk)) c ps =
     (if \<not> seal_ok env c then (False, c, ps)
      else (let rp = p_call env ''DescribeCompShareInstance'' (instance_query_args (ctx_params c)) ps in
            case fst rp of
              Inl e \<Rightarrow> (False, c, snd rp)
            | Inr r \<Rightarrow>
                (let rc = p_hook (chk r) c in
                 if co_ok (fst (fst rc)) then (True, p_store q_instance (snd (fst rc)) (snd rc), snd rp)
                 else (False, snd rc, snd rp))))"
  by (simp add: step_query_instance_def p_tool_once Let_def split: sum.split)

lemma p_zones_once:
  "p_one env name step_query_support_zones c ps =
     (if \<not> seal_ok env c then (False, c, ps)
      else (let rp = p_call env ''DescribeCompShareSupportZone'' [] ps in
            case fst rp of Inl e \<Rightarrow> (True, c, snd rp) | Inr r \<Rightarrow> (True, p_store q_zones r c, snd rp)))"
  by (simp add: step_query_support_zones_def p_one_def p_tool_def p_poll_once Let_def split: sum.split)

lemma p_confirm_once:
  "p_one env name (confirm_step n (reads crd)) c ps =
     (case crd (unseal c) of
        Inl e \<Rightarrow> (False, unseal c, ps)
      | Inr a \<Rightarrow>
          (let rq = p_ask env name a ps in
           if fst rq then (True, seal_ctx (env_digest env) name (unseal c), snd rq) else (False, unseal c, snd rq)))"
  by (simp add: p_one_def p_confirm_def Let_def split: sum.split)

lemma p_call_logs [simp]:
  "p_calls (snd (p_call env t args ps)) = p_calls ps @ [(t, args)]" "p_asks (snd (p_call env t args ps)) = p_asks ps"
  by (simp_all add: p_call_def split: prod.split)

lemma p_ask_logs [simp]: "p_calls (snd (p_ask env name a ps)) = p_calls ps"
  by (simp add: p_ask_def split: option.split prod.split)

lemma p_ask_yes: "fst (p_ask env name a ps) \<Longrightarrow> p_asks (snd (p_ask env name a ps)) = p_asks ps @ [(a, True)]"
  by (auto simp: p_ask_def split: option.splits prod.splits)

text \<open>What a step that lets the run go on has done, and what any step may have called.\<close>

lemma p_query_goes_on:
  assumes "fst (p_one env name (step_query_instance (Some chk)) c ps)"
  shows "\<exists>q. let rp = p_call env ''DescribeCompShareInstance'' (instance_query_args (ctx_params c)) ps;
       rc = p_hook (chk q) c
     in fst rp = Inr q \<and> co_ok (fst (fst rc)) \<and>
        p_one env name (step_query_instance (Some chk)) c ps = (True, p_store q_instance (snd (fst rc)) (snd rc), snd rp)"
  using assms unfolding p_query_once by (auto simp: Let_def split: sum.splits if_splits)

lemma p_zones_goes_on:
  assumes "fst (p_one env name step_query_support_zones c ps)"
  shows "\<exists>c'. (c' = c \<or> (\<exists>r. c' = p_store q_zones r c)) \<and> p_one env name step_query_support_zones c ps
     = (True, c', snd (p_call env ''DescribeCompShareSupportZone'' [] ps))"
  using assms unfolding p_zones_once by (auto simp: Let_def split: sum.splits if_splits)

lemma p_confirm_goes_on:
  assumes "fst (p_one env name (confirm_step n (reads crd)) c ps)"
  shows "\<exists>a. crd (unseal c) = Inr a \<and> fst (p_ask env name a ps) \<and> p_one env name (confirm_step n (reads crd)) c ps
     = (True, seal_ctx (env_digest env) name (unseal c), snd (p_ask env name a ps))"
  using assms unfolding p_confirm_once by (auto simp: Let_def split: sum.splits if_splits)

lemma p_steps_halted:
  assumes "st_skip_if step = None"
    and "x \<in> set (p_calls (snd (snd (p_steps env name (step # rest) c ps))))"
    and "x \<notin> set (p_calls ps)" and "x \<notin> set (p_calls (snd (snd (p_one env name step c ps))))"
  shows "fst (p_one env name step c ps)"
    and "p_steps env name (step # rest) c ps
       = p_steps env name rest (fst (snd (p_one env name step c ps))) (snd (snd (p_one env name step c ps)))"
  using assms by (auto simp: Let_def split: if_splits)

declare p_steps.simps(2) [simp del]

lemma p_query_calls:
  "set (p_calls (snd (snd (p_one env name (step_query_instance (Some chk)) c ps))))
     \<subseteq> set (p_calls ps) \<union> {(''DescribeCompShareInstance'', instance_query_args (ctx_params c))}"
  by (auto simp: p_query_once Let_def split: sum.split)

lemma p_zones_calls:
  "set (p_calls (snd (snd (p_one env name step_query_support_zones c ps))))
     \<subseteq> set (p_calls ps) \<union> {(''DescribeCompShareSupportZone'', [])}"
  by (auto simp: p_zones_once Let_def split: sum.split)

lemma p_confirm_calls:
  "p_calls (snd (snd (p_one env name (confirm_step n (reads crd)) c ps))) = p_calls ps"
  by (simp add: p_confirm_once Let_def split: sum.split)

text \<open>The steps before the card that only query, and the steps after the write that only read back.\<close>

lemma p_poll_logs:
  "p_asks (snd (snd (p_poll env step t args d c ps))) = p_asks ps \<and>
   (\<exists>cs. p_calls (snd (snd (p_poll env step t args d c ps))) = p_calls ps @ cs \<and> fst ` set cs \<subseteq> {t})"
proof (induction env step t args d c ps rule: p_poll.induct)
  case (1 env step t args d c ps)
  let ?ra = "p_call env t args ps"
  let ?good = "\<lambda>ps'. p_asks ps' = p_asks ps \<and> (\<exists>cs. p_calls ps' = p_calls ps @ cs \<and> fst ` set cs \<subseteq> {t})"
  have now: "?good (snd ?ra)" by simp
  have IH: "?good (snd (snd (p_poll env step t args d c1 ((snd ?ra)\<lparr>p_now := n\<rparr>))))"
    if "fst ?ra = Inr r" "st_check_result step = Some chk" "c1 = snd (p_hook (chk r) c)"
      "\<not> co_ok (fst (fst (p_hook (chk r) c)))" "co_pending (fst (fst (p_hook (chk r) c)))" "st_poll step = Some pl"
      "n = p_now (snd ?ra) + poll_wait pl" "\<not> (d \<le> p_now (snd ?ra) \<or> ctx_done env n)" for r chk c1 pl n
  proof -
    from "1.IH" [OF refl refl that(1,2) refl refl that(3)] that(4-8) obtain cs where
      "p_calls (snd (snd (p_poll env step t args d c1 ((snd ?ra)\<lparr>p_now := n\<rparr>)))) = p_calls ps @ (t, args) # cs"
      "fst ` set cs \<subseteq> {t}" "p_asks (snd (snd (p_poll env step t args d c1 ((snd ?ra)\<lparr>p_now := n\<rparr>)))) = p_asks ps"
      by simp blast
    then show ?thesis by (intro conjI exI [of _ "(t, args) # cs"]) simp_all
  qed
  show ?case
    by (subst (1 2) p_poll.simps)
      (use now IH in \<open>simp add: Let_def split: sum.split option.split bool.split\<close>)
qed

definition readback :: "'r wstep \<Rightarrow> bool" where
  "readback s \<longleftrightarrow> st_type s = StepToolCall \<and> st_tool s = ''DescribeCompShareInstance'' \<and> st_tool_func s = None \<and>
     st_skip_if s = None"

lemma p_readback_logs:
  assumes "readback s"
  shows "p_asks (snd (snd (p_one env name s c ps))) = p_asks ps \<and>
    (\<exists>cs. p_calls (snd (snd (p_one env name s c ps))) = p_calls ps @ cs \<and> fst ` set cs \<subseteq> {''DescribeCompShareInstance''})"
  using assms p_poll_logs [of env s "''DescribeCompShareInstance''"]
  by (auto simp: readback_def p_one_def p_tool_def Let_def split: sum.split option.split)

lemma p_readbacks_logs:
  assumes "list_all readback post"
  shows "p_asks (snd (snd (p_steps env name post c ps))) = p_asks ps \<and>
    (\<exists>cs. p_calls (snd (snd (p_steps env name post c ps))) = p_calls ps @ cs \<and> fst ` set cs \<subseteq> {''DescribeCompShareInstance''})"
  using assms
proof (induction post arbitrary: c ps)
  case (Cons s post)
  then have s1: "readback s" and post: "list_all readback post" by simp_all
  then have s: "readback s" "st_skip_if s = None" by (simp_all add: readback_def [of s])
  let ?o = "p_one env name s c ps"
  from p_readback_logs [OF s(1), of env name c ps] obtain cs where one: "p_asks (snd (snd ?o)) = p_asks ps"
    "p_calls (snd (snd ?o)) = p_calls ps @ cs" "fst ` set cs \<subseteq> {''DescribeCompShareInstance''}" by blast
  from Cons.IH [OF post, of "fst (snd ?o)" "snd (snd ?o)"] obtain ds where rest:
    "p_asks (snd (snd (p_steps env name post (fst (snd ?o)) (snd (snd ?o))))) = p_asks (snd (snd ?o))"
    "p_calls (snd (snd (p_steps env name post (fst (snd ?o)) (snd (snd ?o))))) = p_calls (snd (snd ?o)) @ ds"
    "fst ` set ds \<subseteq> {''DescribeCompShareInstance''}" by blast
  show ?case
    using one rest s(2) by (auto simp: p_steps.simps Let_def)
qed simp

lemma p_write_calls:
  assumes fin: "p_steps env name (tool_step n t (reads b) None # post) c ps = (ok, cf, pf)"
    and called: "(t, args) \<in> set (p_calls pf)" and fresh: "(t, args) \<notin> set (p_calls ps)"
    and post: "list_all readback post" and tool: "t \<noteq> ''DescribeCompShareInstance''"
  shows "b c = Inr args \<and> p_asks pf = p_asks ps \<and>
    (\<exists>cs. p_calls pf = p_calls ps @ (t, args) # cs \<and> fst ` set cs \<subseteq> {''DescribeCompShareInstance''})"
proof (cases "b c")
  case (Inl e)
  then show ?thesis using assms by (auto simp: p_steps.simps p_tool_once Let_def split: if_splits)
next
  case (Inr as)
  let ?r = "p_call env t as ps"
  have rest: "p_asks (snd (snd (p_steps env name post (p_store n r c) (snd ?r)))) = p_asks ps \<and>
      (\<exists>cs. p_calls (snd (snd (p_steps env name post (p_store n r c) (snd ?r)))) = p_calls ps @ (t, as) # cs \<and>
        fst ` set cs \<subseteq> {''DescribeCompShareInstance''})" for r
    using p_readbacks_logs [OF post, of env name "p_store n r c" "snd ?r"] by auto
  have "snd (snd (p_steps env name (tool_step n t (reads b) None # post) c ps)) = pf" by (simp add: fin)
  then have "pf = ps \<or> pf = snd ?r \<or> (\<exists>r. pf = snd (snd (p_steps env name post (p_store n r c) (snd ?r))))"
    using Inr by (auto simp: p_steps.simps p_tool_once Let_def split: if_splits sum.splits)
  then have "p_asks pf = p_asks ps \<and> (\<exists>cs. p_calls pf = p_calls ps @ (t, as) # cs \<and>
      fst ` set cs \<subseteq> {''DescribeCompShareInstance''})"
  proof (elim disjE exE)
    fix r
    assume "pf = snd (snd (p_steps env name post (p_store n r c) (snd ?r)))"
    then show ?thesis using rest [of r] by simp
  qed (use called fresh in auto)
  then obtain cs where cs: "p_asks pf = p_asks ps" "p_calls pf = p_calls ps @ (t, as) # cs"
      "fst ` set cs \<subseteq> {''DescribeCompShareInstance''}" by blast
  with called fresh tool have "as = args" by auto
  with Inr cs show ?thesis by auto
qed

text \<open>
  Query, perhaps the support zones, card, write, perhaps a read-back: the shape of the five
  lifecycle workflows. The write is made once, after the check passed on a fresh answer and
  the user accepted the one card that was shown.
\<close>

lemma lifecycle_write:
  fixes def :: "'r definition_" and env :: "'w env" and w :: 'w
  assumes steps: "def_steps def = step_query_instance (Some chk) # pre @
      confirm_step cn (reads crd) # tool_step wn t (reads wargs) None # post"
    and pre: "pre = [] \<or> pre = [step_query_support_zones]" and post: "list_all readback post"
    and tool: "t \<noteq> ''DescribeCompShareInstance''" "t \<noteq> ''DescribeCompShareSupportZone''"
    and final: "protocol env def ref w now params = (ok, cf, pf)" and called: "(t, args) \<in> set (p_calls pf)"
  obtains q c a where
    "fst (env_exec env w now ''DescribeCompShareInstance'' (instance_query_args (ctx_params (new_context ref params)))) = Inr q"
    "co_ok (fst (fst (p_hook (chk q) (new_context ref params))))"
    "ctx_params c = ctx_params (snd (p_hook (chk q) (new_context ref params)))"
    "ctx_result c q_instance = snd (fst (p_hook (chk q) (new_context ref params)))"
    "crd (unseal c) = Inr a" "wargs (seal_ctx (env_digest env) (def_name def) (unseal c)) = Inr args"
    "p_asks pf = [(a, True)]" "filter (\<lambda>x. fst x = t) (p_calls pf) = [(t, args)]"
proof -
  let ?n = "def_name def" and ?c0 = "new_context ref params"
    and ?s0 = "\<lparr>p_world = w, p_now = now, p_calls = [], p_asks = []\<rparr> :: 'w pstate"
  let ?card = "confirm_step cn (reads crd)" and ?send = "tool_step wn t (reads wargs) None"
  let ?r1 = "p_call env ''DescribeCompShareInstance'' (instance_query_args (ctx_params ?c0)) ?s0"
  let ?o1 = "p_one env ?n (step_query_instance (Some chk)) ?c0 ?s0"
  let ?w = "(t, args)"
  have f0: "p_steps env ?n (def_steps def) ?c0 ?s0 = (ok, cf, pf)" using final by (simp add: protocol_def)
  then have "?w \<in> set (p_calls (snd (snd (p_steps env ?n (def_steps def) ?c0 ?s0))))" using called by simp
  moreover have "?w \<notin> set (p_calls (snd (snd ?o1)))" using p_query_calls [of env ?n chk ?c0 ?s0] tool by auto
  ultimately have h1: "fst ?o1" "p_steps env ?n (pre @ ?card # ?send # post) (fst (snd ?o1)) (snd (snd ?o1)) = (ok, cf, pf)"
    using p_steps_halted [of "step_query_instance (Some chk)" ?w env ?n "pre @ ?card # ?send # post" ?c0 ?s0] f0
    by (simp_all add: steps)
  from p_query_goes_on [OF h1(1)] obtain q where q: "fst ?r1 = Inr q" "co_ok (fst (fst (p_hook (chk q) ?c0)))"
    and o1: "?o1 = (True, p_store q_instance (snd (fst (p_hook (chk q) ?c0))) (snd (p_hook (chk q) ?c0)), snd ?r1)"
    by (auto simp: Let_def)
  let ?c1 = "p_store q_instance (snd (fst (p_hook (chk q) ?c0))) (snd (p_hook (chk q) ?c0))" and ?s1 = "snd ?r1"
  have f1: "p_steps env ?n (pre @ ?card # ?send # post) ?c1 ?s1 = (ok, cf, pf)" using h1(2) o1 by simp
  obtain c2 s2 where c2: "c2 = ?c1 \<or> (\<exists>r. c2 = p_store q_zones r ?c1)"
    and s2: "p_asks s2 = []" "t \<notin> fst ` set (p_calls s2)"
    and f2: "p_steps env ?n (?card # ?send # post) c2 s2 = (ok, cf, pf)"
  proof (cases "pre = []")
    case True
    with f1 tool show thesis by (intro that [of ?c1 ?s1]) simp_all
  next
    case False
    with pre have pre: "pre = [step_query_support_zones]" by simp
    let ?o2 = "p_one env ?n step_query_support_zones ?c1 ?s1"
    have "?w \<notin> set (p_calls ?s1)" "?w \<notin> set (p_calls (snd (snd ?o2)))"
      using p_zones_calls [of env ?n ?c1 ?s1] tool by auto
    with called f1 have h2: "fst ?o2" "p_steps env ?n (?card # ?send # post) (fst (snd ?o2)) (snd (snd ?o2)) = (ok, cf, pf)"
      using p_steps_halted [of step_query_support_zones ?w env ?n "?card # ?send # post" ?c1 ?s1]
      by (simp_all add: pre)
    from p_zones_goes_on [OF h2(1)] obtain c2 where "c2 = ?c1 \<or> (\<exists>r. c2 = p_store q_zones r ?c1)"
      "?o2 = (True, c2, snd (p_call env ''DescribeCompShareSupportZone'' [] ?s1))" by blast
    with h2(2) tool show thesis by (intro that [of c2]) simp_all
  qed
  let ?o3 = "p_one env ?n ?card c2 s2"
  have no2: "?w \<notin> set (p_calls s2)" using s2(2) by force
  then have h3: "fst ?o3" "p_steps env ?n (?send # post) (fst (snd ?o3)) (snd (snd ?o3)) = (ok, cf, pf)"
    using p_steps_halted [of ?card ?w env ?n "?send # post" c2 s2] called f2 by (simp_all add: p_confirm_calls)
  from p_confirm_goes_on [OF h3(1)] obtain a where a: "crd (unseal c2) = Inr a" "fst (p_ask env ?n a s2)"
    and o3: "?o3 = (True, seal_ctx (env_digest env) ?n (unseal c2), snd (p_ask env ?n a s2))" by blast
  have f3: "p_steps env ?n (?send # post) (seal_ctx (env_digest env) ?n (unseal c2)) (snd (p_ask env ?n a s2)) = (ok, cf, pf)"
    using h3(2) o3 by simp
  from p_write_calls [OF f3 called _ post tool(1)] no2 obtain cs where wr:
      "wargs (seal_ctx (env_digest env) ?n (unseal c2)) = Inr args" "p_asks pf = p_asks (snd (p_ask env ?n a s2))"
      "p_calls pf = p_calls s2 @ ?w # cs" "fst ` set cs \<subseteq> {''DescribeCompShareInstance''}" by auto
  have exec: "fst (env_exec env w now ''DescribeCompShareInstance'' (instance_query_args (ctx_params ?c0))) = Inr q"
    using q(1) by (simp add: p_call_def split: prod.splits)
  have "filter (\<lambda>x. fst x = t) (p_calls s2) = []" "filter (\<lambda>x. fst x = t) cs = []"
    using s2(2) wr(4) tool by (auto simp: filter_empty_conv)
  then have once: "filter (\<lambda>x. fst x = t) (p_calls pf) = [?w]" using wr(3) by simp
  show thesis
    by (rule that [OF exec q(2) _ _ a(1) wr(1) _ once])
      (use c2 wr a(2) s2 in \<open>auto simp: p_ask_yes q_instance_def q_zones_def\<close>)
qed

section \<open>Stop, reboot, rename\<close>

lemma engine_protocol:
  assumes "list_all plain (def_steps def)"
  shows "protocol env def ref w now params =
    (let st = run_workflow env def ref w now params in (r_success (s_res st), s_ctx st, abs_state st))"
proof -
  have "obs_run (run_workflow env def ref w now params) = protocol env def ref w now params"
    using assms by (intro run_workflow_obs) (simp add: list_all_iff)
  then show ?thesis by (simp add: obs_run_def Let_def)
qed

lemma plain_confirm [simp]: "plain (confirm_step n b)" and plain_tool [simp]: "plain (tool_step n t b chk)"
  and plain_resolve [simp]: "plain (resolve_step n f)"
  by (simp_all add: plain_def)

text \<open>The parameters of a run, without the identity keys.\<close>

definition business_params :: "gmap \<Rightarrow> gmap" where
  "business_params params = fst (split_runtime_metadata params)"

lemma new_context_params [simp]: "ctx_params (new_context ref params) = business_params params"
  by (simp add: new_context_def business_params_def ctx_params_def split: prod.split)

lemma placed_args_reads: "placed_args args = reads (\<lambda>c. add_required_pod_placement_args
   (mput ''UHostId'' (mval (ctx_params c) ''UHostId'') args) (ctx_result c q_instance) (ctx_result c q_zones))"
  by (simp add: placed_args_def)

lemma put_placement_keeps:
  "k' \<noteq> k \<Longrightarrow> mget (put_if_nonzero k w m) k' = mget m k'"
  "k' \<noteq> k \<Longrightarrow> mget (put_if_missing k v m) k' = mget m k'"
  by (simp_all add: put_if_nonzero_def put_if_missing_def mget_mput split: option.split)

text \<open>The placement only adds its own five keys.\<close>

lemma placement_keeps:
  assumes placed: "add_required_pod_placement_args args result zones = Inr out"
    and k: "k \<notin> {''zone_id'', ''az_group'', ''Region'', ''Zone''}"
  shows "mget out k = mget args k"
proof -
  from placed obtain region zone where loc: "extract_required_instance_location result zones = Inr (region, zone)"
    by (auto simp: add_required_pod_placement_args_def split: if_splits sum.splits)
  define a1 where "a1 = (case support_zone_placement_for_zone zones zone of None \<Rightarrow> args
    | Some p \<Rightarrow> put_if_nonzero ''az_group'' (sz_az_group p) (put_if_nonzero ''zone_id'' (sz_zone_id p) args))"
  define a2 where "a2 = mput ''Zone'' (GStr zone) (mput ''Region'' (GStr region) a1)"
  have "out = add_instance_placement_args_if_missing a2 result"
    using placed loc by (auto simp: add_required_pod_placement_args_def a1_def a2_def Let_def split: if_splits)
  moreover have "mget a1 k = mget args k"
    using k by (auto simp: a1_def put_placement_keeps split: option.split)
  moreover have "''Region'' \<noteq> k" "''Zone'' \<noteq> k" using k by auto
  ultimately show ?thesis
    using k by (simp add: add_instance_placement_args_if_missing_def a2_def put_placement_keeps mget_mput split: option.split)
qed

text \<open>The lifecycle workflows, the call that writes, and the states of the instance they accept.\<close>

definition lifecycle_table :: "('r definition_ \<times> string \<times> (string \<Rightarrow> bool)) list" where
  "lifecycle_table =
     [(stop_instance_workflow, ''StopCompShareInstance'', \<lambda>s. s = ''Running''),
      (reboot_instance_workflow, ''RebootCompShareInstance'', \<lambda>s. s = ''Running''),
      (rename_instance_workflow, ''ModifyCompShareInstanceName'', \<lambda>s. s \<noteq> []),
      (start_instance_workflow, ''StartCompShareInstance'', \<lambda>s. s = ''Stopped''),
      (cancel_stop_scheduler_workflow, ''DeleteCompShareStopScheduler'', \<lambda>s. s \<noteq> [])]"

definition rename_args_of :: "'r wctx \<Rightarrow> gmap res" where
  "rename_args_of c = fst (rename_args c)"

lemma rename_args_reads: "rename_args = reads rename_args_of"
  by (auto simp: fun_eq_iff rename_args_of_def rename_args_def reads_def placed_args_def Let_def split: sum.split)

lemma checks_accept:
  "co_ok (check_stop q) \<Longrightarrow> extract_instance_state q = ''Running''"
  "co_ok (check_rename q) \<Longrightarrow> extract_instance_state q \<noteq> []"
  "co_ok (fst (fst (p_hook (check_reboot q) c))) \<Longrightarrow> extract_instance_state q = ''Running''"
  "co_ok (fst (fst (p_hook (check_start q) c))) \<Longrightarrow> extract_instance_state q = ''Stopped''"
  by (auto simp: check_stop_def check_rename_def check_reboot_def check_start_def check_failed_def check_passed_def
      Let_def p_hook_def split: if_splits)

lemma checks_keep_target:
  "mval (ctx_params (snd (p_hook (check_reboot q) c))) ''UHostId'' = mval (ctx_params c) ''UHostId''"
  "mval (ctx_params (snd (p_hook (check_start q) c))) ''UHostId'' = mval (ctx_params c) ''UHostId''"
  by (auto simp: check_reboot_def check_start_def p_hook_def ctx_params_def set_params_def Let_def mval_mput
      split: option.split)

lemma placed_target:
  "add_required_pod_placement_args (mput ''UHostId'' v as) r z = Inr args \<Longrightarrow> mget args ''UHostId'' = Some v"
  by (drule placement_keeps [where k = "''UHostId''"]) (simp_all add: mget_mput)

lemma placed_target_only:
  "add_required_pod_placement_args [(''UHostId'', v)] r z = Inr args \<Longrightarrow> mget args ''UHostId'' = Some v"
  using placed_target [of v "[]" r z args] by simp

lemma write_targets:
  "rename_args_of c = Inr args \<Longrightarrow> mget args ''UHostId'' = Some (mval (ctx_params c) ''UHostId'')"
  "start_args c = Inr args \<Longrightarrow> mget args ''UHostId'' = Some (mval (ctx_params c) ''UHostId'')"
  "cancel_scheduler_args c = Inr args \<Longrightarrow> mget args ''UHostId'' = Some (mval (ctx_params c) ''UHostId'')"
proof -
  assume r: "rename_args_of c = Inr args"
  then obtain n where "add_required_pod_placement_args (mput ''UHostId'' (mval (ctx_params c) ''UHostId'') [(''Name'', GStr n)])
      (ctx_result c q_instance) (ctx_result c q_zones) = Inr args"
    unfolding rename_args_of_def rename_args_def placed_args_def reads_def Let_def
    by (auto simp del: update.simps split: if_splits sum.splits)
  then show "mget args ''UHostId'' = Some (mval (ctx_params c) ''UHostId'')" by (rule placed_target)
qed (auto simp: start_args_def cancel_scheduler_args_def Let_def mget_mput split: sum.splits option.splits)

text \<open>What holds of a lifecycle run that made its write, in terms of the protocol.\<close>

definition confirmed_write :: "'w env \<Rightarrow> 'w \<Rightarrow> nat \<Rightarrow> gmap \<Rightarrow> string \<Rightarrow> (string \<Rightarrow> bool) \<Rightarrow> gmap \<Rightarrow> 'w pstate \<Rightarrow> bool" where
  "confirmed_write env w now ps t state_ok args pf \<longleftrightarrow>
     (\<exists>q a. fst (env_exec env w now ''DescribeCompShareInstance'' (instance_query_args ps)) = Inr q \<and>
        state_ok (extract_instance_state q) \<and> mget args ''UHostId'' = Some (mval ps ''UHostId'') \<and>
        p_asks pf = [(a, True)] \<and> filter (\<lambda>x. fst x = t) (p_calls pf) = [(t, args)])"

lemma lifecycle_confirmed:
  assumes "def_steps def = step_query_instance (Some chk) # pre @
      confirm_step cn (reads crd) # tool_step wn t (reads wargs) None # post"
    and "pre = [] \<or> pre = [step_query_support_zones]" and "list_all readback post"
    and "t \<noteq> ''DescribeCompShareInstance''" "t \<noteq> ''DescribeCompShareSupportZone''"
    and "protocol env def ref w now params = (ok, cf, pf)" and "(t, args) \<in> set (p_calls pf)"
    and "\<And>q c. co_ok (fst (fst (p_hook (chk q) c))) \<Longrightarrow> state_ok (extract_instance_state q)"
    and "\<And>q c. mval (ctx_params (snd (p_hook (chk q) c))) ''UHostId'' = mval (ctx_params c) ''UHostId''"
    and "\<And>c. wargs c = Inr args \<Longrightarrow> mget args ''UHostId'' = Some (mval (ctx_params c) ''UHostId'')"
  shows "confirmed_write env w now (business_params params) t state_ok args pf"
proof (rule lifecycle_write [OF assms(1-7)])
  let ?c0 = "new_context ref params"
  fix q c a
  assume q: "fst (env_exec env w now ''DescribeCompShareInstance'' (instance_query_args (ctx_params ?c0))) = Inr q"
    "co_ok (fst (fst (p_hook (chk q) ?c0)))"
    and ps: "ctx_params c = ctx_params (snd (p_hook (chk q) ?c0))"
    and wr: "wargs (seal_ctx (env_digest env) (def_name def) (unseal c)) = Inr args"
    and logs: "p_asks pf = [(a, True)]" "filter (\<lambda>x. fst x = t) (p_calls pf) = [(t, args)]"
  from assms(10) [OF wr] have "mget args ''UHostId'' = Some (mval (business_params params) ''UHostId'')"
    by (simp add: ps assms(9))
  moreover from q(2) have "state_ok (extract_instance_state q)" by (rule assms(8))
  ultimately show "confirmed_write env w now (business_params params) t state_ok args pf"
    unfolding confirmed_write_def using q(1) logs unfolding new_context_params by blast
qed

lemma lifecycle_protocol_confirmed:
  assumes "(def, t, state_ok) \<in> set lifecycle_table"
    and "protocol env def ref w now params = (ok, cf, pf)" and "(t, args) \<in> set (p_calls pf)"
  shows "confirmed_write env w now (business_params params) t state_ok args pf"
proof -
  from assms(1) have
    "def = stop_instance_workflow \<and> t = ''StopCompShareInstance'' \<and> state_ok = (\<lambda>s. s = ''Running'') \<or>
     def = reboot_instance_workflow \<and> t = ''RebootCompShareInstance'' \<and> state_ok = (\<lambda>s. s = ''Running'') \<or>
     def = rename_instance_workflow \<and> t = ''ModifyCompShareInstanceName'' \<and> state_ok = (\<lambda>s. s \<noteq> []) \<or>
     def = start_instance_workflow \<and> t = ''StartCompShareInstance'' \<and> state_ok = (\<lambda>s. s = ''Stopped'') \<or>
     def = cancel_stop_scheduler_workflow \<and> t = ''DeleteCompShareStopScheduler'' \<and> state_ok = (\<lambda>s. s \<noteq> [])"
    by (simp only: lifecycle_table_def list.set insert_iff empty_iff prod.inject simp_thms)
  then show ?thesis
  proof (elim disjE conjE)
    assume stop: "def = stop_instance_workflow" "t = ''StopCompShareInstance''" "state_ok = (\<lambda>s. s = ''Running'')"
    show ?thesis
      unfolding stop(2,3)
      by (rule lifecycle_confirmed [where pre = "[step_query_support_zones]" and post = "[]", OF _ _ _ _ _ assms(2,3) [unfolded stop(2)]])
        (auto simp: stop(1) stop_instance_workflow_def placed_args_reads dest: checks_accept placed_target_only)
  next
    assume reboot: "def = reboot_instance_workflow" "t = ''RebootCompShareInstance''" "state_ok = (\<lambda>s. s = ''Running'')"
    show ?thesis
      unfolding reboot(2,3)
      by (rule lifecycle_confirmed [where pre = "[step_query_support_zones]" and post = "[]", OF _ _ _ _ _ assms(2,3) [unfolded reboot(2)]])
        (auto simp: reboot(1) reboot_instance_workflow_def placed_args_reads checks_keep_target dest: checks_accept placed_target_only)
  next
    assume rename: "def = rename_instance_workflow" "t = ''ModifyCompShareInstanceName''" "state_ok = (\<lambda>s. s \<noteq> [])"
    show ?thesis
      unfolding rename(2,3)
      by (rule lifecycle_confirmed [where pre = "[step_query_support_zones]" and post = "[]", OF _ _ _ _ _ assms(2,3) [unfolded rename(2)]])
        (auto simp: rename(1) rename_instance_workflow_def rename_args_reads dest: checks_accept write_targets)
  next
    assume start: "def = start_instance_workflow" "t = ''StartCompShareInstance''" "state_ok = (\<lambda>s. s = ''Stopped'')"
    show ?thesis
      unfolding start(2,3)
      by (rule lifecycle_confirmed [where pre = "[]" and post = "[]", OF _ _ _ _ _ assms(2,3) [unfolded start(2)]])
        (auto simp: start(1) start_instance_workflow_def checks_keep_target dest: checks_accept write_targets)
  next
    assume cancel: "def = cancel_stop_scheduler_workflow" "t = ''DeleteCompShareStopScheduler''" "state_ok = (\<lambda>s. s \<noteq> [])"
    show ?thesis
      unfolding cancel(2,3)
      by (rule lifecycle_confirmed [where pre = "[]", OF _ _ _ _ _ assms(2,3) [unfolded cancel(2)]])
        (auto simp: cancel(1) cancel_stop_scheduler_workflow_def readback_def dest: checks_accept write_targets)
  qed
qed

lemma plain_optional [simp]: "plain (s\<lparr>st_optional := b\<rparr>) = plain s"
  by (simp add: plain_def)

lemma lifecycle_plain: "(def, t, state_ok) \<in> set lifecycle_table \<Longrightarrow> list_all plain (def_steps def)"
  unfolding lifecycle_table_def list.set insert_iff empty_iff prod.inject
  by (elim disjE conjE)
    (simp_all add: stop_instance_workflow_def reboot_instance_workflow_def rename_instance_workflow_def
      start_instance_workflow_def cancel_stop_scheduler_workflow_def)

text \<open>C8: stop, reboot, rename, start and the cancellation of a scheduled stop act only on a confirmed,
  live-checked instance: when such a run makes its writing call, the instance query it started with
  answered, in a state the operation accepts; the call names the instance of the request; exactly one
  card was shown and the user accepted it; and the call was made once.\<close>

theorem lifecycle_write_confirmed:
  assumes "(def, t, state_ok) \<in> set lifecycle_table"
    and "c \<in> set (s_calls (run_workflow env def ref w now params))" and "cl_tool c = t"
  shows "\<exists>q a. fst (env_exec env w now ''DescribeCompShareInstance''
        (instance_query_args (business_params params))) = Inr q \<and> state_ok (extract_instance_state q) \<and>
     mget (cl_args c) ''UHostId'' = Some (mval (business_params params) ''UHostId'') \<and>
     map (\<lambda>a. (al_args a, al_yes a)) (s_asks (run_workflow env def ref w now params)) = [(a, True)] \<and>
     length (filter (\<lambda>c. cl_tool c = t) (s_calls (run_workflow env def ref w now params))) = 1"
proof -
  let ?st = "run_workflow env def ref w now params"
  have run: "protocol env def ref w now params = (r_success (s_res ?st), s_ctx ?st, abs_state ?st)"
    using engine_protocol [OF lifecycle_plain [OF assms(1)], of env ref w now params] by (simp add: Let_def)
  have "(t, cl_args c) \<in> set (p_calls (abs_state ?st))" using assms(2,3) by (force simp: abs_state_def)
  from lifecycle_protocol_confirmed [OF assms(1) run this]
  have conf: "confirmed_write env w now (business_params params) t state_ok (cl_args c) (abs_state ?st)" .
  then obtain q a where q: "fst (env_exec env w now ''DescribeCompShareInstance''
        (instance_query_args (business_params params))) = Inr q" "state_ok (extract_instance_state q)"
      "mget (cl_args c) ''UHostId'' = Some (mval (business_params params) ''UHostId'')"
    and asks: "p_asks (abs_state ?st) = [(a, True)]" and calls: "filter (\<lambda>x. fst x = t) (p_calls (abs_state ?st)) = [(t, cl_args c)]"
    unfolding confirmed_write_def by blast
  have "length (filter (\<lambda>c. cl_tool c = t) (s_calls ?st))
      = length (filter (\<lambda>x. fst x = t) (p_calls (abs_state ?st)))"
    by (simp add: abs_state_def filter_map comp_def)
  then have "length (filter (\<lambda>c. cl_tool c = t) (s_calls ?st)) = 1" by (simp only: calls) simp
  with q asks show ?thesis by (auto simp: abs_state_def)
qed

section \<open>A cooperative environment\<close>

text \<open>
  The context never ends, every call answers, the instance query with \<open>q\<close> and the zone query
  with \<open>z\<close>, and the user accepts.
\<close>

definition cooperative :: "'w env \<Rightarrow> gmap \<Rightarrow> gmap \<Rightarrow> bool" where
  "cooperative env q z \<longleftrightarrow> env_done_at env = None \<and>
     (\<forall>w now t args. \<exists>r dt w'. env_exec env w now t args = (Inr r, dt, w') \<and>
        (t = ''DescribeCompShareInstance'' \<longrightarrow> r = q) \<and> (t = ''DescribeCompShareSupportZone'' \<longrightarrow> r = z)) \<and>
     (\<exists>ask. env_confirm env = Some ask \<and> (\<forall>w n a. fst (ask w n a)))"

lemma cooperative_call:
  assumes "cooperative env q z"
  shows "\<exists>r. fst (p_call env t args ps) = Inr r \<and> (t = ''DescribeCompShareInstance'' \<longrightarrow> r = q) \<and>
     (t = ''DescribeCompShareSupportZone'' \<longrightarrow> r = z)"
proof -
  from assms obtain r dt w' where "env_exec env (p_world ps) (p_now ps) t args = (Inr r, dt, w')"
    "t = ''DescribeCompShareInstance'' \<longrightarrow> r = q" "t = ''DescribeCompShareSupportZone'' \<longrightarrow> r = z" unfolding cooperative_def by blast
  then show ?thesis by (simp add: p_call_def)
qed

lemma cooperative_ask: "cooperative env q z \<Longrightarrow> fst (p_ask env name a ps)"
  by (auto simp: cooperative_def p_ask_def split: prod.splits) (metis fst_conv)

lemma cooperative_runs: "cooperative env q z \<Longrightarrow> \<not> ctx_done env now"
  by (simp add: cooperative_def ctx_done_def)

lemma cooperative_query:
  assumes "cooperative env q z" and "seal_ok env c" and "co_ok (fst (fst (p_hook (chk q) c)))"
  shows "\<exists>ps'. p_one env name (step_query_instance (Some chk)) c ps
     = (True, p_store q_instance (snd (fst (p_hook (chk q) c))) (snd (p_hook (chk q) c)), ps')"
proof -
  from cooperative_call [OF assms(1)] have "fst (p_call env ''DescribeCompShareInstance'' (instance_query_args (ctx_params c)) ps) = Inr q"
    by blast
  with assms(2,3) show ?thesis by (simp add: p_query_once Let_def)
qed

lemma cooperative_zones:
  assumes "cooperative env q z" and "seal_ok env c"
  shows "\<exists>ps'. p_one env name step_query_support_zones c ps = (True, p_store q_zones z c, ps')"
proof -
  from cooperative_call [OF assms(1)] have "fst (p_call env ''DescribeCompShareSupportZone'' [] ps) = Inr z" by blast
  with assms(2) show ?thesis by (simp add: p_zones_once Let_def)
qed

lemma cooperative_confirm:
  assumes "cooperative env q z" and "crd (unseal c) = Inr a"
  shows "\<exists>ps'. p_one env name (confirm_step n (reads crd)) c ps = (True, seal_ctx (env_digest env) name (unseal c), ps')"
  using assms by (simp add: p_confirm_once Let_def cooperative_ask)

lemma cooperative_write:
  assumes "cooperative env q z" and "seal_ok env c" and "b c = Inr args"
  shows "\<exists>r ps'. p_one env name (tool_step n t (reads b) None) c ps = (True, p_store n r c, ps') \<and>
     p_calls ps' = p_calls ps @ [(t, args)]"
proof -
  from cooperative_call [OF assms(1)] obtain r where "fst (p_call env t args ps) = Inr r" by blast
  with assms(2,3) show ?thesis by (auto simp: p_tool_once Let_def)
qed

text \<open>A host whose answer carries its location, which the zone catalog does not contradict.\<close>

definition located_host :: "gmap \<Rightarrow> gmap \<Rightarrow> bool" where
  "located_host q z \<longleftrightarrow> first_instance q \<noteq> None \<and> trim_space (extract_field q ''Zone'') \<noteq> [] \<and>
     trim_space (extract_field q ''Region'') \<noteq> [] \<and> \<not> resize_disk_via_instance q \<and>
     (case support_zone_placement_for_zone z (trim_space (extract_field q ''Zone'')) of
        None \<Rightarrow> True
      | Some p \<Rightarrow> sz_region p = [] \<or> equal_fold (trim_space (extract_field q ''Region'')) (sz_region p))"

lemma located_placement:
  assumes "located_host q z"
  shows "\<exists>out. add_required_pod_placement_args args q z = Inr out"
  using assms
  by (auto simp: located_host_def add_required_pod_placement_args_def extract_required_instance_location_def Let_def
      split: option.split option.splits)

lemma stop_plain: "list_all plain (def_steps stop_instance_workflow)"
  by (simp add: stop_instance_workflow_def)

lemma stop_workflow_runs:
  assumes coop: "cooperative env q z" and run: "extract_instance_state q = ''Running''" and loc: "located_host q z"
  shows "r_success (s_res (run_workflow env stop_instance_workflow ref w now params)) \<and>
    (\<exists>c. c \<in> set (s_calls (run_workflow env stop_instance_workflow ref w now params)) \<and>
       cl_tool c = ''StopCompShareInstance'')"
proof -
  let ?n = "''StopInstanceWorkflow''" and ?st = "run_workflow env stop_instance_workflow ref w now params"
  let ?c0 = "new_context ref params" and ?s0 = "\<lparr>p_world = w, p_now = now, p_calls = [], p_asks = []\<rparr>"
  let ?c1 = "p_store q_instance q ?c0"
  let ?c2 = "p_store q_zones z ?c1"
  let ?c3 = "seal_ctx (env_digest env) ?n (unseal ?c2)"
  note go = p_steps.simps Let_def cooperative_runs [OF coop]
  have unsealed: "seal_ok env ?c0" "seal_ok env ?c1"
    by (simp_all add: seal_ok_unsealed new_context_def p_store_def split: prod.split)
  have "co_ok (fst (fst (p_hook (checks check_stop q) ?c0)))"
    using run by (simp add: check_stop_def Let_def check_passed_def)
  with cooperative_query [OF coop unsealed(1), of "checks check_stop" ?n ?s0] obtain s1
    where o1: "p_one env ?n (step_query_instance (Some (checks check_stop))) ?c0 ?s0 = (True, ?c1, s1)" by auto
  from cooperative_zones [OF coop unsealed(2), of ?n s1] obtain s2
    where o2: "p_one env ?n step_query_support_zones ?c1 s1 = (True, ?c2, s2)" by blast
  have "(\<lambda>c. Inr (stop_summary (ctx_result c q_instance))) (unseal ?c2) = Inr (stop_summary (ctx_result (unseal ?c2) q_instance))"
    by (rule refl)
  from cooperative_confirm [OF coop, of "\<lambda>c. Inr (stop_summary (ctx_result c q_instance))", OF this]
  obtain s3 where o3: "p_one env ?n (confirm_step ''confirm stop''
      (reads (\<lambda>c. Inr (stop_summary (ctx_result c q_instance))))) ?c2 s2 = (True, ?c3, s3)" by blast
  obtain args where args: "add_required_pod_placement_args
      (mput ''UHostId'' (mval (ctx_params ?c3) ''UHostId'') []) (ctx_result ?c3 q_instance) (ctx_result ?c3 q_zones) = Inr args"
    using located_placement [OF loc] by (simp add: q_instance_def q_zones_def del: update.simps) blast
  from cooperative_write [OF coop seal_ok_sealed, of "\<lambda>c. add_required_pod_placement_args
      (mput ''UHostId'' (mval (ctx_params c) ''UHostId'') []) (ctx_result c q_instance) (ctx_result c q_zones)", OF args]
  obtain r s4 where o4: "p_one env ?n (tool_step ''stop'' ''StopCompShareInstance'' (placed_args []) None) ?c3 s3
      = (True, p_store ''stop'' r ?c3, s4)" "p_calls s4 = p_calls s3 @ [(''StopCompShareInstance'', args)]"
    unfolding placed_args_reads by blast
  have "protocol env stop_instance_workflow ref w now params = (True, p_store ''stop'' r ?c3, s4)"
    using o1 o2 o3 o4(1) by (simp add: protocol_def stop_instance_workflow_def go)
  then have "r_success (s_res ?st)" "abs_state ?st = s4"
    using engine_protocol [OF stop_plain, of env ref w now params] by (simp_all add: Let_def)
  moreover have "(''StopCompShareInstance'', args) \<in> set (p_calls (abs_state ?st))"
    using o4(2) calculation(2) by simp
  then obtain c where "c \<in> set (s_calls ?st)" "cl_tool c = ''StopCompShareInstance''" by (auto simp: abs_state_def)
  ultimately show ?thesis by blast
qed


section \<open>An instance\<close>

definition demo_host :: gmap where
  "demo_host = [(''UHostSet'', GList [GMap [(''UHostId'', GStr ''uhost-1''), (''State'', GStr ''Running''),
     (''Zone'', GStr ''cn-a''), (''Region'', GStr ''cn'')]])]"

definition demo_cloud :: "nat env" where
  "demo_cloud = \<lparr>env_exec = (\<lambda>w now t args. (Inr (if t = ''DescribeCompShareInstance'' then demo_host else []), 1, Suc w)),
     env_confirm = Some (\<lambda>w n a. (True, 1, w)), env_confirm_edits = None, env_done_at = None,
     env_ctx_err = plain_err [], env_digest = (\<lambda>j. ''d'')\<rparr>"

lemma demo_cloud_cooperative: "cooperative demo_cloud demo_host []"
  by (simp add: cooperative_def demo_cloud_def)

lemma demo_host_facts: "extract_instance_state demo_host = ''Running''" "located_host demo_host []"
  by code_simp+


theorem lifecycle_write_confirmed_witness:
  "\<exists>c. c \<in> set (s_calls (run_workflow demo_cloud stop_instance_workflow () 0 0 [(''UHostId'', GStr ''uhost-1'')])) \<and>
     mget (cl_args c) ''UHostId'' = Some (GStr ''uhost-1'')"
proof -
  let ?run = "run_workflow demo_cloud stop_instance_workflow () 0 0 [(''UHostId'', GStr ''uhost-1'')]"
  obtain c where c: "c \<in> set (s_calls ?run)" "cl_tool c = ''StopCompShareInstance''"
    using stop_workflow_runs [OF demo_cloud_cooperative demo_host_facts, of "()" 0 0 "[(''UHostId'', GStr ''uhost-1'')]"]
    by blast
  have "(stop_instance_workflow, ''StopCompShareInstance'', \<lambda>s. s = ''Running'') \<in> set lifecycle_table"
    by (simp add: lifecycle_table_def)
  from lifecycle_write_confirmed [OF this c] have "mget (cl_args c) ''UHostId''
      = Some (mval (business_params [(''UHostId'', GStr ''uhost-1'')]) ''UHostId'')" by blast
  moreover have "mval (business_params [(''UHostId'', GStr ''uhost-1'')]) ''UHostId'' = GStr ''uhost-1''" by code_simp
  ultimately show ?thesis using c(1) by auto
qed

end
