(* ===== verification/PortWorkflow.thy ===== *)
theory PortWorkflow
  imports WorkflowSteps
begin

text \<open>
  The port workflow (\<open>workflow/update_instance_ports.go\<close>): a delta-shaped request over an
  upstream call that replaces the whole port configuration. It reads the current ports, shows
  the exact before and after sets, reads them again after the confirmation, sends one full
  replacement and polls until the instance shows it.

  The values a run reads are JSON values or lists the workflow itself stored, so the typed
  slices \<open>[]int\<close> and \<open>[]int32\<close> the source also accepts do not occur.
\<close>

section \<open>Ports\<close>

record port_sets =
  po_http :: "int list"
  po_tcp :: "int list"
  po_udp :: "int list"

definition port_range :: "int \<Rightarrow> bool" where
  "port_range n \<longleftrightarrow> 1 \<le> n \<and> n \<le> 65535"

definition exact_port :: "gval \<Rightarrow> int option" where
  "exact_port v = (case v of
       GInt n \<Rightarrow> if port_range n then Some n else None
     | GInt32 n \<Rightarrow> if port_range n then Some n else None
     | GInt64 n \<Rightarrow> if port_range n then Some n else None
     | GFloat (Fin r) \<Rightarrow> if r = of_int \<lfloor>r\<rfloor> \<and> port_range \<lfloor>r\<rfloor> then Some \<lfloor>r\<rfloor> else None
     | _ \<Rightarrow> None)"

definition sorted_ports :: "int list \<Rightarrow> int list" where
  "sorted_ports ps = sort (remdups ps)"

fun exact_ports :: "gval list \<Rightarrow> int list option" where
  "exact_ports [] = Some []"
| "exact_ports (v # vs) = (case (exact_port v, exact_ports vs) of
       (Some p, Some ps) \<Rightarrow> Some (p # ps) | _ \<Rightarrow> None)"

definition port_set_from_any :: "gval \<Rightarrow> string \<Rightarrow> int list res" where
  "port_set_from_any raw field = (case raw of
       GList items \<Rightarrow> (case exact_ports items of
           Some ps \<Rightarrow> Inr (sorted_ports ps)
         | None \<Rightarrow> Inl (plain_err (field @ '': ports are integers from 1 to 65535'')))
     | _ \<Rightarrow> Inl (plain_err (field @ '': not an array of ports'')))"

definition proposal_port_set :: "gval \<Rightarrow> string \<Rightarrow> int list res" where
  "proposal_port_set raw field = (if raw = GNil then Inr [] else port_set_from_any raw field)"

definition platform_port_set :: "gval \<Rightarrow> string \<Rightarrow> int list res" where
  "platform_port_set raw field = (if raw = GNil then Inr [] else port_set_from_any raw field)"

definition apply_port_delta :: "int list \<Rightarrow> int list \<Rightarrow> int list \<Rightarrow> int list" where
  "apply_port_delta current add remove = sorted_ports (filter (\<lambda>p. p \<notin> set remove) current @ add)"

definition intersects :: "int list \<Rightarrow> int list \<Rightarrow> bool" where
  "intersects left right = list_ex (\<lambda>p. p \<in> set right) left"

definition ints_to_any :: "int list \<Rightarrow> gval" where
  "ints_to_any ps = GList (map GInt ps)"

text \<open>Reading three sets, in the order of the source: the first error wins.\<close>

definition read_sets :: "int list res \<Rightarrow> int list res \<Rightarrow> int list res \<Rightarrow> port_sets res" where
  "read_sets http tcp udp = (case http of Inl e \<Rightarrow> Inl e
     | Inr h \<Rightarrow> (case tcp of Inl e \<Rightarrow> Inl e
     | Inr t \<Rightarrow> (case udp of Inl e \<Rightarrow> Inl e
     | Inr u \<Rightarrow> Inr \<lparr>po_http = h, po_tcp = t, po_udp = u\<rparr>)))"

definition instance_port_sets :: "gmap \<Rightarrow> port_sets res" where
  "instance_port_sets result = (case first_instance result of
       None \<Rightarrow> Inl (plain_err ''no port facts'')
     | Some host \<Rightarrow> (case mval host ''Ports'' of
           GMap raw \<Rightarrow> read_sets (platform_port_set (mval raw ''HttpPorts'') ''Ports.HttpPorts'')
             (platform_port_set (mval raw ''TcpPorts'') ''Ports.TcpPorts'')
             (platform_port_set (mval raw ''UdpPorts'') ''Ports.UdpPorts'')
         | _ \<Rightarrow> Inl (plain_err ''no complete port set'')))"

definition promoted_port_sets :: "gmap \<Rightarrow> string \<Rightarrow> port_sets res" where
  "promoted_port_sets ps prefix = read_sets
     (platform_port_set (mval ps (prefix @ ''HttpPorts'')) (prefix @ ''HttpPorts''))
     (platform_port_set (mval ps (prefix @ ''TcpPorts'')) (prefix @ ''TcpPorts''))
     (platform_port_set (mval ps (prefix @ ''UdpPorts'')) (prefix @ ''UdpPorts''))"

section \<open>The delta of a request\<close>

record port_delta =
  pd_add_http :: "int list"
  pd_remove_http :: "int list"
  pd_add_tcp :: "int list"
  pd_remove_tcp :: "int list"

definition proposed_delta :: "gmap \<Rightarrow> port_delta res" where
  "proposed_delta ps =
     (case proposal_port_set (mval ps ''AddHttpPorts'') ''AddHttpPorts'' of Inl e \<Rightarrow> Inl e
      | Inr ah \<Rightarrow> (case proposal_port_set (mval ps ''RemoveHttpPorts'') ''RemoveHttpPorts'' of Inl e \<Rightarrow> Inl e
      | Inr rh \<Rightarrow> (case proposal_port_set (mval ps ''AddTcpPorts'') ''AddTcpPorts'' of Inl e \<Rightarrow> Inl e
      | Inr ta \<Rightarrow> (case proposal_port_set (mval ps ''RemoveTcpPorts'') ''RemoveTcpPorts'' of Inl e \<Rightarrow> Inl e
      | Inr tr \<Rightarrow> Inr \<lparr>pd_add_http = ah, pd_remove_http = rh, pd_add_tcp = ta, pd_remove_tcp = tr\<rparr>))))"

definition delta_empty :: "port_delta \<Rightarrow> bool" where
  "delta_empty d \<longleftrightarrow> pd_add_http d = [] \<and> pd_remove_http d = [] \<and> pd_add_tcp d = [] \<and> pd_remove_tcp d = []"

definition delta_contradicts :: "port_delta \<Rightarrow> bool" where
  "delta_contradicts d \<longleftrightarrow> intersects (pd_add_http d) (pd_remove_http d) \<or> intersects (pd_add_tcp d) (pd_remove_tcp d)"

text \<open>\<open>ValidatePortDeltaProposal\<close>: the resolver's validator of the operation.\<close>

definition validate_port_delta_proposal :: "gmap \<Rightarrow> gerr option" where
  "validate_port_delta_proposal ps = (case proposed_delta ps of
       Inl e \<Rightarrow> Some e
     | Inr d \<Rightarrow> if delta_empty d then Some (plain_err ''at least one HTTP/TCP port change is required'')
                else if delta_contradicts d
                then Some (plain_err ''the same protocol port cannot be added and removed together'')
                else None)"

definition upstream_required_http_port :: int where "upstream_required_http_port = 8888"
definition upstream_required_tcp_port :: int where "upstream_required_tcp_port = 23"
definition upstream_max_ports_per_type :: nat where "upstream_max_ports_per_type = 10"

definition planned_ports :: "port_sets \<Rightarrow> port_delta \<Rightarrow> port_sets" where
  "planned_ports before d =
     \<lparr>po_http = apply_port_delta (po_http before) (pd_add_http d) (pd_remove_http d),
      po_tcp = apply_port_delta (po_tcp before) (pd_add_tcp d) (pd_remove_tcp d), po_udp = po_udp before\<rparr>"

definition port_keys :: "string \<Rightarrow> string list" where
  "port_keys prefix = map ((@) prefix) [''HttpPorts'', ''TcpPorts'', ''UdpPorts'']"

definition port_plan_map :: "port_sets \<Rightarrow> port_sets \<Rightarrow> gmap" where
  "port_plan_map before after =
     zip (port_keys ''Before'') (map ints_to_any [po_http before, po_tcp before, po_udp before]) @
     zip (port_keys ''After'') (map ints_to_any [po_http after, po_tcp after, po_udp after])"

section \<open>Steps\<close>

definition q_ports :: string where "q_ports = ''query ports''"
definition q_plan :: string where "q_plan = ''resolve port plan''"
definition q_ports_again :: string where "q_ports_again = ''query ports again''"
definition q_update_ports :: string where "q_update_ports = ''update ports''"

definition check_ports_query :: "'r check" where
  "check_ports_query result c =
     (let i = trim_space (param_str (ctx_params c) ''UHostId'' []) in
      case narrow_instance_result result i of
        None \<Rightarrow> ((check_failed ''instance not found'', result), wc_pub c)
      | Some r \<Rightarrow>
          if \<not> is_pod_instance_id i then ((check_failed ''ports are mapped on pods only'', r), wc_pub c)
          else (case instance_port_sets r of
              Inl e \<Rightarrow> ((check_failed (err_text e), r), wc_pub c)
            | Inr _ \<Rightarrow> ((check_passed, r), wc_pub c)))"

definition step_query_ports :: "string \<Rightarrow> 'r check \<Rightarrow> 'r wstep" where
  "step_query_ports name chk = tool_step name ''DescribeCompShareInstance''
     (reads (\<lambda>c. Inr (instance_query_args (ctx_params c)))) (Some chk)"

definition port_plan :: "gmap \<Rightarrow> gmap \<Rightarrow> gmap res" where
  "port_plan queried ps = (case instance_port_sets queried of
       Inl e \<Rightarrow> Inl e
     | Inr before \<Rightarrow> (case proposed_delta ps of
           Inl e \<Rightarrow> Inl e
         | Inr d \<Rightarrow>
             (let after = planned_ports before d in
              if delta_empty d then Inl (new_missing_slot_error ''no port change'' [''port_change''])
              else if delta_contradicts d then Inl (plain_err ''a port is added and removed'')
              else if upstream_required_http_port \<in> set (pd_remove_http d) then Inl (plain_err ''HTTP 8888 is kept'')
              else if upstream_required_tcp_port \<in> set (pd_remove_tcp d) then Inl (plain_err ''TCP 23 is kept'')
              else if list_ex (\<lambda>ps. upstream_max_ports_per_type < length ps) [po_http after, po_tcp after, po_udp after]
              then Inl (plain_err ''too many ports'')
              else if before = after then Inl (plain_err ''nothing to change'')
              else Inr (port_plan_map before after))))"

definition port_card :: "'r wctx \<Rightarrow> gmap res" where
  "port_card c =
     (let plan = ctx_result c q_plan in
      if plan = [] then Inl (plain_err ''no port plan'')
      else Inr [(''UHostId'', mval (ctx_params c) ''UHostId''),
                (''CurrentHTTP'', mval plan ''BeforeHttpPorts''), (''TargetHTTP'', mval plan ''AfterHttpPorts''),
                (''CurrentTCP'', mval plan ''BeforeTcpPorts''), (''TargetTCP'', mval plan ''AfterTcpPorts''),
                (''PreservedUDP'', mval plan ''AfterUdpPorts''), (''Effect'', GStr ''the port set is replaced'')])"

definition promote_plan :: "('r, gerr option) hook" where
  "promote_plan c =
     (let plan = ctx_result c q_plan in
      if plan = [] then (Some (plain_err ''no port plan''), wc_pub c)
      else (None, set_params (fold (\<lambda>k. mput k (mval plan k)) (port_keys ''Before'' @ port_keys ''After'') (ctx_params c))
              (wc_pub c)))"

definition check_ports_unchanged :: "'r check" where
  "check_ports_unchanged result c =
     (let base = check_ports_query result c; r = snd (fst base) in
      if \<not> co_ok (fst (fst base)) then base
      else case instance_port_sets r of
        Inl e \<Rightarrow> ((check_failed (err_text e), r), wc_pub c)
      | Inr current \<Rightarrow> (case promoted_port_sets (ctx_params c) ''Before'' of
            Inl e \<Rightarrow> ((check_failed (err_text e), r), wc_pub c)
          | Inr before \<Rightarrow>
              ((if current = before then check_passed else check_failed ''the ports changed meanwhile'', r), wc_pub c)))"

definition update_ports_args :: "'r wctx \<Rightarrow> gmap res" where
  "update_ports_args c = (case promoted_port_sets (ctx_params c) ''After'' of
       Inl e \<Rightarrow> Inl e
     | Inr after \<Rightarrow>
         (case add_required_pod_placement_args
             [(''UHostId'', mval (ctx_params c) ''UHostId''), (''HttpPorts'', ints_to_any (po_http after)),
              (''TcpPorts'', ints_to_any (po_tcp after)), (''UdpPorts'', ints_to_any (po_udp after))]
             (ctx_result c q_ports_again) (ctx_result c q_zones) of
            Inl e \<Rightarrow> Inl e
          | Inr args \<Rightarrow>
              if parse_uint32_any (mval args ''zone_id'') \<in> {None, Some 0} then Inl (plain_err ''no internal zone id'') else Inr args))"

definition check_ports_updated :: "'r check" where
  "check_ports_updated result c =
     (case narrow_instance_result result (trim_space (param_str (ctx_params c) ''UHostId'' [])) of
        None \<Rightarrow> ((check_failed ''the instance cannot be read back'', result), wc_pub c)
      | Some r \<Rightarrow> (case instance_port_sets r of
            Inl e \<Rightarrow> ((check_failed (err_text e), r), wc_pub c)
          | Inr current \<Rightarrow> (case promoted_port_sets (ctx_params c) ''After'' of
                Inl e \<Rightarrow> ((check_failed (err_text e), r), wc_pub c)
              | Inr after \<Rightarrow>
                  ((if current = after then check_passed else check_pending ''the ports are not shown yet'', r), wc_pub c))))"

definition verify_poll :: poll_policy where
  "verify_poll = \<lparr>pp_interval = 2000000000, pp_timeout = 20000000000\<rparr>"

definition updated_keys :: "string list" where
  "updated_keys = [''AddedServicePorts'', ''RemovedServicePorts'', ''AddedIngresses'', ''RemovedIngresses'',
     ''IngressHosts'', ''TcpForwards'']"

definition port_workflow_result :: "'r wctx \<Rightarrow> gmap option" where
  "port_workflow_result c = (case promoted_port_sets (ctx_params c) ''After'' of
       Inl e \<Rightarrow> None
     | Inr after \<Rightarrow> Some
         ([(''UHostId'', mval (ctx_params c) ''UHostId''),
           (''Ports'', GMap [(''HttpPorts'', ints_to_any (po_http after)), (''TcpPorts'', ints_to_any (po_tcp after)),
              (''UdpPorts'', ints_to_any (po_udp after))])] @
          List.map_filter (\<lambda>k. map_option (Pair k) (mget (ctx_result c q_update_ports) k)) updated_keys))"

definition update_instance_ports_workflow :: "'r definition_" where
  "update_instance_ports_workflow = (plain_definition ''UpdateInstancePortsWorkflow''
     [step_query_ports q_ports check_ports_query,
      step_query_support_zones,
      resolve_step q_plan (reads (\<lambda>c. port_plan (ctx_result c q_ports) (ctx_params c))),
      (confirm_step ''confirm port plan'' (reads port_card))\<lparr>st_promote := Some promote_plan\<rparr>,
      step_query_ports q_ports_again check_ports_unchanged,
      tool_step q_update_ports ''UpdateCompShareInstancePorts'' (reads update_ports_args) None,
      (tool_step ''verify ports'' ''DescribeCompShareInstance''
         (reads (\<lambda>c. Inr (instance_query_args (ctx_params c)))) (Some check_ports_updated))\<lparr>st_poll := Some verify_poll\<rparr>])
     \<lparr>def_result_data := Some port_workflow_result\<rparr>"

end
