(* ===== verification/PortProps.thy ===== *)
theory PortProps
  imports PortWorkflow InstanceProtocols
begin

text \<open>
  Properties of the port workflow: what a plan is, that the promoted plan reads back as it was
  computed, and what a run that replaces the ports has checked.
\<close>

section \<open>Port lists\<close>

definition port_list :: "int list \<Rightarrow> bool" where
  "port_list ps \<longleftrightarrow> sorted ps \<and> distinct ps \<and> list_all port_range ps"

definition port_sets_ok :: "port_sets \<Rightarrow> bool" where
  "port_sets_ok s \<longleftrightarrow> port_list (po_http s) \<and> port_list (po_tcp s) \<and> port_list (po_udp s)"

lemma set_sorted_ports [simp]: "set (sorted_ports ps) = set ps"
  by (simp add: sorted_ports_def)

lemma sorted_ports_list: "list_all port_range ps \<Longrightarrow> port_list (sorted_ports ps)"
  by (simp add: port_list_def sorted_ports_def list_all_iff)

lemma sorted_ports_id: "port_list ps \<Longrightarrow> sorted_ports ps = ps"
  by (simp add: port_list_def sorted_ports_def distinct_remdups_id sorted_sort_id)

lemma exact_port_range: "exact_port v = Some p \<Longrightarrow> port_range p"
  by (auto simp: exact_port_def split: gval.splits gfloat.splits if_splits)

lemma exact_ports_range: "exact_ports vs = Some ps \<Longrightarrow> list_all port_range ps"
  by (induction vs arbitrary: ps) (auto simp: exact_port_range split: option.splits)

lemma exact_ports_ints: "list_all port_range ps \<Longrightarrow> exact_ports (map GInt ps) = Some ps"
  by (induction ps) (simp_all add: exact_port_def)

lemma port_set_from_any_list: "port_set_from_any raw f = Inr ps \<Longrightarrow> port_list ps"
  by (auto simp: port_set_from_any_def exact_ports_range sorted_ports_list split: gval.splits option.splits)

lemma port_set_readers_list:
  "platform_port_set raw f = Inr ps \<Longrightarrow> port_list ps"
  "proposal_port_set raw f = Inr ps \<Longrightarrow> port_list ps"
  by (auto simp: platform_port_set_def proposal_port_set_def port_set_from_any_list port_list_def [of "[]"]
      split: if_splits)

lemma platform_port_set_ints: "port_list ps \<Longrightarrow> platform_port_set (ints_to_any ps) f = Inr ps"
  by (simp add: platform_port_set_def port_set_from_any_def ints_to_any_def exact_ports_ints sorted_ports_id port_list_def)

lemma read_sets_Inr: "read_sets h t u = Inr s \<longleftrightarrow> h = Inr (po_http s) \<and> t = Inr (po_tcp s) \<and> u = Inr (po_udp s)"
  by (cases s) (auto simp: read_sets_def split: sum.split)

lemma instance_port_sets_ok: "instance_port_sets r = Inr s \<Longrightarrow> port_sets_ok s"
  by (auto simp: instance_port_sets_def port_sets_ok_def read_sets_Inr port_set_readers_list split: option.splits gval.splits)

lemma proposed_delta_ok:
  "proposed_delta ps = Inr d \<Longrightarrow> port_list (pd_add_http d) \<and> port_list (pd_remove_http d) \<and>
     port_list (pd_add_tcp d) \<and> port_list (pd_remove_tcp d)"
  by (auto simp: proposed_delta_def port_set_readers_list split: sum.splits)

lemma apply_port_delta_set: "set (apply_port_delta cur add rem) = set cur - set rem \<union> set add"
  by (auto simp: apply_port_delta_def)

lemma apply_port_delta_list: "port_list cur \<Longrightarrow> port_list add \<Longrightarrow> port_list (apply_port_delta cur add rem)"
  unfolding apply_port_delta_def by (rule sorted_ports_list) (auto simp: port_list_def list_all_iff)

lemma planned_ports_ok: "port_sets_ok before \<Longrightarrow> proposed_delta ps = Inr d \<Longrightarrow> port_sets_ok (planned_ports before d)"
  by (auto simp: port_sets_ok_def planned_ports_def apply_port_delta_list dest: proposed_delta_ok)

section \<open>The plan\<close>

text \<open>A plan exists exactly for an admissible request, and then it is the merge of the live sets.\<close>

definition plan_admissible :: "port_sets \<Rightarrow> port_delta \<Rightarrow> bool" where
  "plan_admissible before d \<longleftrightarrow>
     set (pd_add_http d) \<inter> set (pd_remove_http d) = {} \<and> set (pd_add_tcp d) \<inter> set (pd_remove_tcp d) = {} \<and>
     8888 \<notin> set (pd_remove_http d) \<and> 23 \<notin> set (pd_remove_tcp d) \<and>
     (let after = planned_ports before d in
      length (po_http after) \<le> 10 \<and> length (po_tcp after) \<le> 10 \<and> length (po_udp after) \<le> 10 \<and> after \<noteq> before)"

lemma intersects_iff: "intersects l r \<longleftrightarrow> set l \<inter> set r \<noteq> {}"
  by (auto simp: intersects_def list_ex_iff)

lemma apply_nothing: "port_list cur \<Longrightarrow> apply_port_delta cur [] [] = cur"
  by (simp add: apply_port_delta_def sorted_ports_id)

lemma delta_empty_plan: "port_sets_ok before \<Longrightarrow> delta_empty d \<Longrightarrow> planned_ports before d = before"
  by (simp add: delta_empty_def planned_ports_def port_sets_ok_def apply_nothing)

lemma port_plan_Inr_iff:
  "port_plan queried ps = Inr plan \<longleftrightarrow>
     (\<exists>before d. instance_port_sets queried = Inr before \<and> proposed_delta ps = Inr d \<and>
        plan_admissible before d \<and> plan = port_plan_map before (planned_ports before d))"
proof (cases "instance_port_sets queried")
  case (Inr before)
  then have ok: "port_sets_ok before" by (rule instance_port_sets_ok)
  show ?thesis
    using delta_empty_plan [OF ok]
    by (auto simp: Inr port_plan_def plan_admissible_def Let_def delta_contradicts_def intersects_iff
        upstream_required_http_port_def upstream_required_tcp_port_def upstream_max_ports_per_type_def
        split: sum.splits if_splits)
qed (simp add: port_plan_def)

text \<open>C36: a port plan is the exact merge of the live port sets with the requested delta, and every
  refusal has a reason: the plan is computed exactly when the live sets can be read, the request is
  well formed, does not contradict itself, keeps the two ports the platform forces, changes something
  and stays within ten ports per protocol. The merged sets are then sorted, free of duplicates, in the
  port range, and equal the live set minus the removed plus the added ports; UDP is left as it was.\<close>

theorem port_plan_exact:
  "port_plan queried ps = Inr plan \<longleftrightarrow>
     (\<exists>before d. instance_port_sets queried = Inr before \<and> proposed_delta ps = Inr d \<and>
        plan_admissible before d \<and> plan = port_plan_map before (planned_ports before d) \<and>
        port_sets_ok (planned_ports before d) \<and>
        set (po_http (planned_ports before d)) = set (po_http before) - set (pd_remove_http d) \<union> set (pd_add_http d) \<and>
        set (po_tcp (planned_ports before d)) = set (po_tcp before) - set (pd_remove_tcp d) \<union> set (pd_add_tcp d) \<and>
        po_udp (planned_ports before d) = po_udp before)"
  unfolding port_plan_Inr_iff
  by (auto simp: planned_ports_ok instance_port_sets_ok) (auto simp: planned_ports_def apply_port_delta_set)

section \<open>The promoted plan\<close>

definition promoted_params :: "gmap \<Rightarrow> gmap \<Rightarrow> gmap" where
  "promoted_params plan ps = fold (\<lambda>k. mput k (mval plan k)) (port_keys ''Before'' @ port_keys ''After'') ps"

lemma promote_plan_params:
  "plan \<noteq> [] \<Longrightarrow> ctx_result c q_plan = plan \<Longrightarrow>
     p_hook promote_plan c = (None, c\<lparr>wc_pub := set_params (promoted_params plan (ctx_params c)) (wc_pub c)\<rparr>)"
  by (simp add: p_hook_def promote_plan_def promoted_params_def Let_def)

lemma promoted_params_get:
  "mval (promoted_params plan ps) k =
     (if k \<in> set (port_keys ''Before'' @ port_keys ''After'') then mval plan k else mval ps k)"
  by (auto simp: promoted_params_def port_keys_def mval_mput)

lemma port_plan_map_get:
  "mval (port_plan_map b a) ''BeforeHttpPorts'' = ints_to_any (po_http b)"
  "mval (port_plan_map b a) ''BeforeTcpPorts'' = ints_to_any (po_tcp b)"
  "mval (port_plan_map b a) ''BeforeUdpPorts'' = ints_to_any (po_udp b)"
  "mval (port_plan_map b a) ''AfterHttpPorts'' = ints_to_any (po_http a)"
  "mval (port_plan_map b a) ''AfterTcpPorts'' = ints_to_any (po_tcp a)"
  "mval (port_plan_map b a) ''AfterUdpPorts'' = ints_to_any (po_udp a)"
  by (simp_all add: port_plan_map_def port_keys_def mval_def)

lemma promoted_plan_sets:
  assumes "port_sets_ok before" and "port_sets_ok after"
  shows "promoted_port_sets (promoted_params (port_plan_map before after) ps) ''Before'' = Inr before"
    and "promoted_port_sets (promoted_params (port_plan_map before after) ps) ''After'' = Inr after"
  using assms
  by (simp_all add: promoted_port_sets_def read_sets_Inr promoted_params_get port_keys_def port_plan_map_get
      platform_port_set_ints port_sets_ok_def)

text \<open>C37: what the card showed is what is compared and sent: when a plan has been computed and is
  promoted into the run's parameters, whatever those held before, reading the parameters back gives
  exactly the live sets the plan was computed from and the planned sets, and no other parameter changed.\<close>

theorem promoted_plan_reads_back:
  assumes "port_plan queried ps = Inr plan" and "ctx_result c q_plan = plan"
  shows "\<exists>before d. instance_port_sets queried = Inr before \<and> proposed_delta ps = Inr d \<and>
     (let c' = c\<lparr>wc_pub := snd (promote_plan c)\<rparr> in
      fst (promote_plan c) = None \<and>
      promoted_port_sets (ctx_params c') ''Before'' = Inr before \<and>
      promoted_port_sets (ctx_params c') ''After'' = Inr (planned_ports before d) \<and>
      (\<forall>k. k \<notin> set (port_keys ''Before'' @ port_keys ''After'') \<longrightarrow> mval (ctx_params c') k = mval (ctx_params c) k))"
proof -
  from assms(1) obtain before d where p: "instance_port_sets queried = Inr before" "proposed_delta ps = Inr d"
    "plan = port_plan_map before (planned_ports before d)" unfolding port_plan_Inr_iff by blast
  have ok: "port_sets_ok before" using p(1) by (rule instance_port_sets_ok)
  have "plan \<noteq> []" using p(3) by (simp add: port_plan_map_def port_keys_def)
  from promote_plan_params [OF this assms(2)] have "fst (promote_plan c) = None"
    "snd (promote_plan c) = set_params (promoted_params plan (ctx_params c)) (wc_pub c)"
    by (auto simp: p_hook_def prod_eq_iff dest: arg_cong [where f = wc_pub])
  with promoted_plan_sets [OF ok planned_ports_ok [OF ok p(2)]] p show ?thesis
    by (intro exI [of _ before] exI [of _ d]) (simp add: Let_def ctx_params_def set_params_def promoted_params_get)
qed

section \<open>The run\<close>

lemma p_tool_goes_on:
  assumes "fst (p_one env name (tool_step n t (reads b) (Some chk)) c ps)"
  shows "\<exists>args q. b c = Inr args \<and> fst (p_call env t args ps) = Inr q \<and> co_ok (fst (fst (p_hook (chk q) c))) \<and>
     p_one env name (tool_step n t (reads b) (Some chk)) c ps =
       (True, p_store n (snd (fst (p_hook (chk q) c))) (snd (p_hook (chk q) c)), snd (p_call env t args ps))"
  using assms unfolding p_tool_once by (auto simp: Let_def split: sum.splits if_splits)

lemma p_tool_calls:
  "set (p_calls (snd (snd (p_one env name (tool_step n t b chk) c ps)))) \<subseteq> set (p_calls ps) \<union> {t} \<times> UNIV"
  by (auto simp: p_tool_once Let_def split: sum.split option.split)

lemma p_resolve_once:
  "p_one env name (resolve_step n (reads f)) c ps =
     (case f c of Inl e \<Rightarrow> (False, c, ps) | Inr out \<Rightarrow> (True, p_store n out c, ps))"
  by (simp add: p_one_def p_resolve_def Let_def split: sum.split)

lemma p_promote_once:
  "p_one env name ((confirm_step n (reads crd))\<lparr>st_promote := Some f\<rparr>) c ps =
     (case crd (unseal c) of
        Inl e \<Rightarrow> (False, unseal c, ps)
      | Inr a \<Rightarrow>
          (let rq = p_ask env name a ps; rp = p_hook f (unseal c) in
           if \<not> fst rq then (False, unseal c, snd rq)
           else if fst rp \<noteq> None then (False, snd rp, snd rq)
           else (True, seal_ctx (env_digest env) name (snd rp), snd rq)))"
  by (simp add: p_one_def p_confirm_def Let_def split: sum.split)

text \<open>The port sets an answer shows for one instance.\<close>

definition live_ports :: "string \<Rightarrow> gmap \<Rightarrow> port_sets option" where
  "live_ports i q = (case narrow_instance_result q i of
       None \<Rightarrow> None
     | Some r \<Rightarrow> (case instance_port_sets r of Inl e \<Rightarrow> None | Inr s \<Rightarrow> Some s))"

definition reads_ports :: "'w env \<Rightarrow> gmap \<Rightarrow> 'w pstate \<Rightarrow> port_sets \<Rightarrow> bool" where
  "reads_ports env ps s before \<longleftrightarrow>
     (\<exists>q. fst (p_call env ''DescribeCompShareInstance'' (instance_query_args ps) s) = Inr q \<and>
        live_ports (trim_space (param_str ps ''UHostId'' [])) q = Some before)"

lemma check_ports_query_ok:
  assumes "co_ok (fst (fst (p_hook (check_ports_query q) c)))"
  shows "\<exists>before. instance_port_sets (snd (fst (p_hook (check_ports_query q) c))) = Inr before \<and>
      live_ports (trim_space (param_str (ctx_params c) ''UHostId'' [])) q = Some before"
    and "snd (p_hook (check_ports_query q) c) = c"
  using assms
  by (auto simp: check_ports_query_def p_hook_def live_ports_def Let_def check_failed_def
      split: option.splits sum.splits if_splits)

lemma check_ports_unchanged_ok:
  assumes "co_ok (fst (fst (p_hook (check_ports_unchanged q) c)))"
  shows "\<exists>before. promoted_port_sets (ctx_params c) ''Before'' = Inr before \<and>
      live_ports (trim_space (param_str (ctx_params c) ''UHostId'' [])) q = Some before"
    and "snd (p_hook (check_ports_unchanged q) c) = c"
proof -
  let ?base = "check_ports_query q c"
  have base: "co_ok (fst (fst ?base))"
    using assms by (auto simp: check_ports_unchanged_def p_hook_def Let_def split: if_splits)
  then have live: "\<exists>b. instance_port_sets (snd (fst ?base)) = Inr b \<and>
      live_ports (trim_space (param_str (ctx_params c) ''UHostId'' [])) q = Some b"
    using check_ports_query_ok(1) [of q c] by (simp add: p_hook_def)
  then show "\<exists>before. promoted_port_sets (ctx_params c) ''Before'' = Inr before \<and>
      live_ports (trim_space (param_str (ctx_params c) ''UHostId'' [])) q = Some before"
    using assms base
    by (auto simp: check_ports_unchanged_def p_hook_def Let_def check_failed_def split: sum.splits if_splits)
  show "snd (p_hook (check_ports_unchanged q) c) = c"
    using base by (auto simp: check_ports_unchanged_def p_hook_def Let_def split: sum.split)
qed

lemma promoted_params_keep:
  "instance_query_args (promoted_params plan ps) = instance_query_args ps"
  "param_str (promoted_params plan ps) ''UHostId'' d = param_str ps ''UHostId'' d"
  "mval (promoted_params plan ps) ''UHostId'' = mval ps ''UHostId''"
  by (simp_all add: promoted_params_def port_keys_def instance_query_args_def mval_mput param_str_def mget_mput)

text \<open>
  What has happened before a full replacement is sent: the ports were read, the card showed the
  planned sets and was accepted, and a second read, in the world the confirmation left, shows
  the same sets.
\<close>

definition port_write_checked :: "'w env \<Rightarrow> 'w \<Rightarrow> nat \<Rightarrow> gmap \<Rightarrow> gmap \<Rightarrow> gmap \<Rightarrow> bool" where
  "port_write_checked env w now ps crd args \<longleftrightarrow>
     (let s0 = \<lparr>p_world = w, p_now = now, p_calls = [], p_asks = []\<rparr>;
          s1 = snd (p_call env ''DescribeCompShareInstance'' (instance_query_args ps) s0);
          s2 = snd (p_call env ''DescribeCompShareSupportZone'' [] s1);
          ask = p_ask env ''UpdateInstancePortsWorkflow'' crd s2
      in \<exists>before d. proposed_delta ps = Inr d \<and> plan_admissible before d \<and>
           reads_ports env ps s0 before \<and> fst ask \<and> reads_ports env ps (snd ask) before \<and>
           (let after = planned_ports before d in
            mval crd ''TargetHTTP'' = ints_to_any (po_http after) \<and> mval crd ''TargetTCP'' = ints_to_any (po_tcp after) \<and>
            mget args ''HttpPorts'' = Some (ints_to_any (po_http after)) \<and>
            mget args ''TcpPorts'' = Some (ints_to_any (po_tcp after)) \<and>
            mget args ''UdpPorts'' = Some (ints_to_any (po_udp before)) \<and>
            mget args ''UHostId'' = Some (mval ps ''UHostId'')))"

lemma update_ports_args_sets:
  assumes "update_ports_args c = Inr args" and "promoted_port_sets (ctx_params c) ''After'' = Inr after"
  shows "mget args ''HttpPorts'' = Some (ints_to_any (po_http after))"
    and "mget args ''TcpPorts'' = Some (ints_to_any (po_tcp after))"
    and "mget args ''UdpPorts'' = Some (ints_to_any (po_udp after))"
    and "mget args ''UHostId'' = Some (mval (ctx_params c) ''UHostId'')"
proof -
  from assms have placed: "add_required_pod_placement_args
      [(''UHostId'', mval (ctx_params c) ''UHostId''), (''HttpPorts'', ints_to_any (po_http after)),
       (''TcpPorts'', ints_to_any (po_tcp after)), (''UdpPorts'', ints_to_any (po_udp after))]
      (ctx_result c q_ports_again) (ctx_result c q_zones) = Inr args"
    by (auto simp: update_ports_args_def split: sum.splits if_splits)
  show "mget args ''HttpPorts'' = Some (ints_to_any (po_http after))"
    and "mget args ''TcpPorts'' = Some (ints_to_any (po_tcp after))"
    and "mget args ''UdpPorts'' = Some (ints_to_any (po_udp after))"
    and "mget args ''UHostId'' = Some (mval (ctx_params c) ''UHostId'')"
    using placement_keeps [OF placed, of "''HttpPorts''"] placement_keeps [OF placed, of "''TcpPorts''"]
      placement_keeps [OF placed, of "''UdpPorts''"] placement_keeps [OF placed, of "''UHostId''"]
    by simp_all
qed

text \<open>The plan step and the card step, when the run goes on.\<close>

lemma port_names: "q_ports \<noteq> q_zones" "q_ports \<noteq> q_plan" "q_zones \<noteq> q_plan" "q_ports_again \<noteq> q_zones"
  "q_ports_again \<noteq> q_plan"
  by (simp_all add: q_ports_def q_zones_def q_plan_def q_ports_again_def)

lemma port_card_step:
  assumes go: "fst (p_one env name ((confirm_step n (reads port_card))\<lparr>st_promote := Some promote_plan\<rparr>) c ps)"
    and plan: "ctx_result c q_plan = plan" "plan \<noteq> []"
  shows "\<exists>a. fst (p_ask env name a ps) \<and> mval a ''TargetHTTP'' = mval plan ''AfterHttpPorts'' \<and>
     mval a ''TargetTCP'' = mval plan ''AfterTcpPorts'' \<and>
     p_one env name ((confirm_step n (reads port_card))\<lparr>st_promote := Some promote_plan\<rparr>) c ps =
       (True, seal_ctx (env_digest env) name ((unseal c)\<lparr>wc_pub :=
          set_params (promoted_params plan (ctx_params c)) (wc_pub (unseal c))\<rparr>), snd (p_ask env name a ps))"
proof -
  have "ctx_result (unseal c) q_plan = plan" using plan(1) by simp
  from promote_plan_params [OF plan(2) this]
  have pr: "p_hook promote_plan (unseal c) = (None, (unseal c)\<lparr>wc_pub :=
      set_params (promoted_params plan (ctx_params c)) (wc_pub (unseal c))\<rparr>)" by simp
  from go obtain a where a: "port_card (unseal c) = Inr a" "fst (p_ask env name a ps)"
    unfolding p_promote_once by (auto simp: Let_def split: sum.splits if_splits)
  then have "mval a ''TargetHTTP'' = mval plan ''AfterHttpPorts'' \<and> mval a ''TargetTCP'' = mval plan ''AfterTcpPorts''"
    using plan by (auto simp: port_card_def Let_def mval_def)
  with a pr show ?thesis unfolding p_promote_once by (auto simp: Let_def)
qed

lemma ctx_set_params [simp]:
  "ctx_params (c\<lparr>wc_pub := set_params m (wc_pub c)\<rparr>) = m"
  "ctx_result (c\<lparr>wc_pub := set_params m (wc_pub c)\<rparr>) k = ctx_result c k"
  by (simp_all add: ctx_params_def ctx_result_def set_params_def)

text \<open>A step that does not make the call \<open>t\<close>, in a run that makes it, lets the run go on.\<close>

lemma p_steps_went_on:
  assumes "p_steps env name (step # rest) c ps = (ok, cf, pf)" and "(t, args) \<in> set (p_calls pf)"
    and "st_skip_if step = None" and "t \<notin> fst ` set (p_calls ps)"
    and "set (p_calls (snd (snd (p_one env name step c ps)))) \<subseteq> set (p_calls ps) \<union> D \<times> UNIV" and "t \<notin> D"
  shows "fst (p_one env name step c ps)"
    and "p_steps env name rest (fst (snd (p_one env name step c ps))) (snd (snd (p_one env name step c ps))) = (ok, cf, pf)"
    and "t \<notin> fst ` set (p_calls (snd (snd (p_one env name step c ps))))"
proof -
  show t: "t \<notin> fst ` set (p_calls (snd (snd (p_one env name step c ps))))"
    using assms(4-6) by (force dest: subsetD)
  then have no: "(t, args) \<notin> set (p_calls ps)" "(t, args) \<notin> set (p_calls (snd (snd (p_one env name step c ps))))"
    using assms(4) by force+
  have "(t, args) \<in> set (p_calls (snd (snd (p_steps env name (step # rest) c ps))))" using assms(1,2) by simp
  from p_steps_halted [OF assms(3) this no] assms(1)
  show "fst (p_one env name step c ps)"
    and "p_steps env name rest (fst (snd (p_one env name step c ps))) (snd (snd (p_one env name step c ps))) = (ok, cf, pf)"
    by simp_all
qed

abbreviation update_call :: string where "update_call \<equiv> ''UpdateCompShareInstancePorts''"

lemma p_port_query_calls:
  "set (p_calls (snd (snd (p_one env name (step_query_ports n chk) c ps))))
     \<subseteq> set (p_calls ps) \<union> {''DescribeCompShareInstance''} \<times> UNIV"
  unfolding step_query_ports_def by (rule p_tool_calls)

lemma step_query_ports_no_skip: "st_skip_if (step_query_ports n chk) = None"
  by (simp add: step_query_ports_def)

lemma p_port_query_goes_on:
  assumes "fst (p_one env name (step_query_ports n chk) c ps)"
  shows "\<exists>q. fst (p_call env ''DescribeCompShareInstance'' (instance_query_args (ctx_params c)) ps) = Inr q \<and>
     co_ok (fst (fst (p_hook (chk q) c))) \<and>
     p_one env name (step_query_ports n chk) c ps =
       (True, p_store n (snd (fst (p_hook (chk q) c))) (snd (p_hook (chk q) c)),
        snd (p_call env ''DescribeCompShareInstance'' (instance_query_args (ctx_params c)) ps))"
  using assms p_tool_goes_on [of env name n "''DescribeCompShareInstance''"]
  unfolding step_query_ports_def by fastforce

lemma port_run_to_card:
  fixes env :: "'w env" and w :: 'w
  assumes f0: "p_steps env name (step_query_ports q_ports check_ports_query # step_query_support_zones #
       resolve_step q_plan (reads (\<lambda>c. port_plan (ctx_result c q_ports) (ctx_params c))) #
       (confirm_step cn (reads port_card))\<lparr>st_promote := Some promote_plan\<rparr> # rest) c0 s0 = (ok, cf, pf)"
    and called: "(update_call, args) \<in> set (p_calls pf)" and s0: "update_call \<notin> fst ` set (p_calls s0)"
  obtains before d a c4 where "proposed_delta (ctx_params c0) = Inr d" "plan_admissible before d"
    "reads_ports env (ctx_params c0) s0 before"
    "mval a ''TargetHTTP'' = ints_to_any (po_http (planned_ports before d))"
    "mval a ''TargetTCP'' = ints_to_any (po_tcp (planned_ports before d))"
    "ctx_params c4 = promoted_params (port_plan_map before (planned_ports before d)) (ctx_params c0)"
    "port_sets_ok before"
    "fst (p_ask env name a (snd (p_call env ''DescribeCompShareSupportZone'' []
       (snd (p_call env ''DescribeCompShareInstance'' (instance_query_args (ctx_params c0)) s0)))))"
    "p_steps env name rest c4 (snd (p_ask env name a (snd (p_call env ''DescribeCompShareSupportZone'' []
       (snd (p_call env ''DescribeCompShareInstance'' (instance_query_args (ctx_params c0)) s0)))))) = (ok, cf, pf)"
    "update_call \<notin> fst ` set (p_calls (snd (p_ask env name a (snd (p_call env ''DescribeCompShareSupportZone'' []
       (snd (p_call env ''DescribeCompShareInstance'' (instance_query_args (ctx_params c0)) s0)))))))"
proof -
  note on = p_steps_went_on [OF _ called]
  let ?s1 = "snd (p_call env ''DescribeCompShareInstance'' (instance_query_args (ctx_params c0)) s0)"
  note h1 = on [OF f0 step_query_ports_no_skip s0 p_port_query_calls, simplified]
  from p_port_query_goes_on [OF h1(1)] obtain q
    where q: "fst (p_call env ''DescribeCompShareInstance'' (instance_query_args (ctx_params c0)) s0) = Inr q"
      "co_ok (fst (fst (p_hook (check_ports_query q) c0)))"
    and o1: "p_one env name (step_query_ports q_ports check_ports_query) c0 s0
       = (True, p_store q_ports (snd (fst (p_hook (check_ports_query q) c0))) c0, ?s1)"
    using check_ports_query_ok(2) [of _ c0] by metis
  from check_ports_query_ok(1) [OF q(2)] obtain before
    where live: "instance_port_sets (snd (fst (p_hook (check_ports_query q) c0))) = Inr before"
      "live_ports (trim_space (param_str (ctx_params c0) ''UHostId'' [])) q = Some before" by blast
  let ?c1 = "p_store q_ports (snd (fst (p_hook (check_ports_query q) c0))) c0"
  have s1: "update_call \<notin> fst ` set (p_calls ?s1)" using s0 by simp
  have zones_calls: "set (p_calls (snd (snd (p_one env name step_query_support_zones ?c1 ?s1))))
      \<subseteq> set (p_calls ?s1) \<union> {''DescribeCompShareSupportZone''} \<times> UNIV"
    using p_zones_calls [of env name ?c1 ?s1] by auto
  note f1 = h1(2) [unfolded o1, simplified]
  note h2 = on [OF f1 step_query_support_zones_fields(4) s1 zones_calls, simplified]
  let ?s2 = "snd (p_call env ''DescribeCompShareSupportZone'' [] ?s1)"
  from p_zones_goes_on [OF h2(1)] obtain c2 where c2: "c2 = ?c1 \<or> (\<exists>r. c2 = p_store q_zones r ?c1)"
    and o2: "p_one env name step_query_support_zones ?c1 ?s1 = (True, c2, ?s2)" by blast
  have c2_facts: "ctx_params c2 = ctx_params c0" "instance_port_sets (ctx_result c2 q_ports) = Inr before"
    using c2 live(1) port_names by auto
  have s2: "update_call \<notin> fst ` set (p_calls ?s2)" using s1 by simp
  let ?plan = "resolve_step q_plan (reads (\<lambda>c. port_plan (ctx_result c q_ports) (ctx_params c))) :: 'r wstep"
  have plan_calls: "set (p_calls (snd (snd (p_one env name ?plan c2 ?s2)))) \<subseteq> set (p_calls ?s2) \<union> {} \<times> UNIV"
    by (simp add: p_resolve_once split: sum.split)
  note f2 = h2(2) [unfolded o2, simplified]
  note h3 = on [OF f2 resolve_step_fields(5) s2 plan_calls, simplified]
  from h3(1) obtain plan where plan: "port_plan (ctx_result c2 q_ports) (ctx_params c2) = Inr plan"
    and o3: "p_one env name ?plan c2 ?s2 = (True, p_store q_plan plan c2, ?s2)"
    by (auto simp: p_resolve_once split: sum.splits)
  from plan c2_facts obtain d where d: "proposed_delta (ctx_params c0) = Inr d" "plan_admissible before d"
    "plan = port_plan_map before (planned_ports before d)" unfolding port_plan_Inr_iff by auto
  then have "plan \<noteq> []" by (simp add: port_plan_map_def port_keys_def)
  let ?card = "(confirm_step cn (reads port_card))\<lparr>st_promote := Some promote_plan\<rparr> :: 'r wstep"
  let ?c3 = "p_store q_plan plan c2"
  note f3 = h3(2) [unfolded o3, simplified]
  have card_calls: "set (p_calls (snd (snd (p_one env name ?card ?c3 ?s2)))) \<subseteq> set (p_calls ?s2) \<union> {} \<times> UNIV"
    by (simp add: p_promote_once Let_def split: sum.split)
  have card_skip: "st_skip_if ?card = None" by simp
  note h4 = on [OF f3 card_skip s2 card_calls]
  have "ctx_result ?c3 q_plan = plan" by simp
  from port_card_step [OF h4(1) this \<open>plan \<noteq> []\<close>] obtain a
    where a: "fst (p_ask env name a ?s2)" "mval a ''TargetHTTP'' = mval plan ''AfterHttpPorts''"
      "mval a ''TargetTCP'' = mval plan ''AfterTcpPorts''"
    and o4: "p_one env name ?card ?c3 ?s2 =
       (True, seal_ctx (env_digest env) name ((unseal ?c3)\<lparr>wc_pub :=
          set_params (promoted_params plan (ctx_params ?c3)) (wc_pub (unseal ?c3))\<rparr>), snd (p_ask env name a ?s2))"
    by blast
  define c4 where "c4 = seal_ctx (env_digest env) name ((unseal ?c3)\<lparr>wc_pub :=
          set_params (promoted_params plan (ctx_params ?c3)) (wc_pub (unseal ?c3))\<rparr>)"
  have f4: "p_steps env name rest c4 (snd (p_ask env name a ?s2)) = (ok, cf, pf)"
    using h4(2) unfolding o4 c4_def by simp
  have "reads_ports env (ctx_params c0) s0 before" unfolding reads_ports_def using q(1) live(2) by blast
  moreover have "ctx_params c4 = promoted_params (port_plan_map before (planned_ports before d)) (ctx_params c0)"
    by (simp only: c4_def ctx_seal(1) ctx_set_params(1) ctx_store(1) d(3) c2_facts(1))
  ultimately show thesis
    using that [of d before a c4] d a f4 s2 instance_port_sets_ok [OF live(1)] by (simp add: port_plan_map_get)
qed

lemma port_write_protocol:
  fixes env :: "'w env" and w :: 'w
  assumes final: "protocol env update_instance_ports_workflow ref w now params = (ok, cf, pf)"
    and called: "(update_call, args) \<in> set (p_calls pf)"
  shows "\<exists>crd. port_write_checked env w now (business_params params) crd args \<and> p_asks pf = [(crd, True)] \<and>
     filter (\<lambda>x. fst x = update_call) (p_calls pf) = [(update_call, args)]"
proof -
  let ?n = "''UpdateInstancePortsWorkflow''" and ?c0 = "new_context ref params" and ?ps = "business_params params"
    and ?s0 = "\<lparr>p_world = w, p_now = now, p_calls = [], p_asks = []\<rparr> :: 'w pstate"
  let ?q5 = "step_query_ports q_ports_again check_ports_unchanged"
  let ?send = "tool_step q_update_ports update_call (reads update_ports_args) None"
  let ?verify = "(tool_step ''verify ports'' ''DescribeCompShareInstance''
         (reads (\<lambda>c. Inr (instance_query_args (ctx_params c)))) (Some check_ports_updated))\<lparr>st_poll := Some verify_poll\<rparr>"
  let ?s1 = "snd (p_call env ''DescribeCompShareInstance'' (instance_query_args ?ps) ?s0)"
  let ?s2 = "snd (p_call env ''DescribeCompShareSupportZone'' [] ?s1)"
  have f0: "p_steps env ?n (step_query_ports q_ports check_ports_query # step_query_support_zones #
       resolve_step q_plan (reads (\<lambda>c. port_plan (ctx_result c q_ports) (ctx_params c))) #
       (confirm_step ''confirm port plan'' (reads port_card))\<lparr>st_promote := Some promote_plan\<rparr> #
       [?q5, ?send, ?verify]) ?c0 ?s0 = (ok, cf, pf)"
    using final by (simp add: protocol_def update_instance_ports_workflow_def)
  have "update_call \<notin> fst ` set (p_calls ?s0)" by simp
  then obtain before d a c4 where d: "proposed_delta ?ps = Inr d" "plan_admissible before d" "reads_ports env ?ps ?s0 before"
      "mval a ''TargetHTTP'' = ints_to_any (po_http (planned_ports before d))"
      "mval a ''TargetTCP'' = ints_to_any (po_tcp (planned_ports before d))"
    and c4: "ctx_params c4 = promoted_params (port_plan_map before (planned_ports before d)) ?ps"
    and ok: "port_sets_ok before" and a: "fst (p_ask env ?n a ?s2)"
    and f4: "p_steps env ?n [?q5, ?send, ?verify] c4 (snd (p_ask env ?n a ?s2)) = (ok, cf, pf)"
    and s4: "update_call \<notin> fst ` set (p_calls (snd (p_ask env ?n a ?s2)))"
    by (rule port_run_to_card [OF f0 called, unfolded new_context_params])
  let ?s4 = "snd (p_ask env ?n a ?s2)" and ?after = "planned_ports before d"
  note sets = promoted_plan_sets [OF ok planned_ports_ok [OF ok d(1)], of ?ps, folded c4]
  note h5 = p_steps_went_on [OF f4 called step_query_ports_no_skip s4 p_port_query_calls, simplified]
  from p_port_query_goes_on [OF h5(1)] obtain q
    where q: "fst (p_call env ''DescribeCompShareInstance'' (instance_query_args ?ps) ?s4) = Inr q"
      "co_ok (fst (fst (p_hook (check_ports_unchanged q) c4)))"
    and o5: "p_one env ?n ?q5 c4 ?s4 = (True, p_store q_ports_again (snd (fst (p_hook (check_ports_unchanged q) c4))) c4,
       snd (p_call env ''DescribeCompShareInstance'' (instance_query_args ?ps) ?s4))"
    using check_ports_unchanged_ok(2) [of _ c4] c4 promoted_params_keep by metis
  from check_ports_unchanged_ok(1) [OF q(2)] sets(1) c4
  have reread: "reads_ports env ?ps ?s4 before"
    unfolding reads_ports_def using q(1) by (auto simp: promoted_params_keep)
  let ?c5 = "p_store q_ports_again (snd (fst (p_hook (check_ports_unchanged q) c4))) c4"
    and ?s5 = "snd (p_call env ''DescribeCompShareInstance'' (instance_query_args ?ps) ?s4)"
  have f5: "p_steps env ?n [?send, ?verify] ?c5 ?s5 = (ok, cf, pf)" using h5(2) unfolding o5 by simp
  have fresh: "(update_call, args) \<notin> set (p_calls ?s5)" using s4 by force
  have "list_all readback [?verify]" by (simp add: readback_def)
  from p_write_calls [OF f5 called fresh this] obtain cs where wr: "update_ports_args ?c5 = Inr args"
    "p_asks pf = p_asks ?s5" "p_calls pf = p_calls ?s5 @ (update_call, args) # cs"
    "fst ` set cs \<subseteq> {''DescribeCompShareInstance''}" by auto
  have "promoted_port_sets (ctx_params ?c5) ''After'' = Inr ?after" using sets(2) by simp
  note sent = update_ports_args_sets [OF wr(1) this]
  have "port_write_checked env w now ?ps a args"
    unfolding port_write_checked_def Let_def
    using d a reread sent c4 by (intro exI [of _ before] exI [of _ d])
      (simp add: promoted_params_keep planned_ports_def)
  moreover have "p_asks pf = [(a, True)]" using wr(2) a by (simp add: p_ask_yes)
  moreover have "filter (\<lambda>x. fst x = update_call) (p_calls ?s5) = []" "filter (\<lambda>x. fst x = update_call) cs = []"
    using s4 wr(4) by (auto simp: filter_empty_conv)
  then have "filter (\<lambda>x. fst x = update_call) (p_calls pf) = [(update_call, args)]" using wr(3) by simp
  ultimately show ?thesis by blast
qed

lemma port_plain: "list_all plain (def_steps update_instance_ports_workflow)"
  by (simp add: update_instance_ports_workflow_def step_query_ports_def)
    (simp add: plain_def)

text \<open>C10: a port replacement never overwrites a change it has not seen. When a run of the port workflow
  sends the full replacement, the request's delta was well formed and admissible over the live sets; the
  one card that was shown carried exactly the planned HTTP and TCP sets and was accepted; a second read,
  made in the world the confirmation left, showed the same live sets as the first; and the call, made
  once, sends the planned sets for the instance of the request and the live UDP set unchanged.\<close>

theorem port_write_optimistic:
  assumes "c \<in> set (s_calls (run_workflow env update_instance_ports_workflow ref w now params))"
    and "cl_tool c = ''UpdateCompShareInstancePorts''"
  shows "\<exists>crd. port_write_checked env w now (business_params params) crd (cl_args c) \<and>
     map (\<lambda>a. (al_args a, al_yes a)) (s_asks (run_workflow env update_instance_ports_workflow ref w now params)) = [(crd, True)] \<and>
     length (filter (\<lambda>c. cl_tool c = ''UpdateCompShareInstancePorts'')
       (s_calls (run_workflow env update_instance_ports_workflow ref w now params))) = 1"
proof -
  let ?st = "run_workflow env update_instance_ports_workflow ref w now params"
  have run: "protocol env update_instance_ports_workflow ref w now params = (r_success (s_res ?st), s_ctx ?st, abs_state ?st)"
    using engine_protocol [OF port_plain, of env ref w now params] by (simp add: Let_def)
  have "(update_call, cl_args c) \<in> set (p_calls (abs_state ?st))" using assms by (force simp: abs_state_def)
  from port_write_protocol [OF run this] obtain crd where
    crd: "port_write_checked env w now (business_params params) crd (cl_args c)" "p_asks (abs_state ?st) = [(crd, True)]"
    and calls: "filter (\<lambda>x. fst x = update_call) (p_calls (abs_state ?st)) = [(update_call, cl_args c)]" by blast
  have "length (filter (\<lambda>c. cl_tool c = update_call) (s_calls ?st))
      = length (filter (\<lambda>x. fst x = update_call) (p_calls (abs_state ?st)))"
    by (simp add: abs_state_def filter_map comp_def)
  then have "length (filter (\<lambda>c. cl_tool c = update_call) (s_calls ?st)) = 1" by (simp only: calls) simp
  with crd show ?thesis by (intro exI [of _ crd]) (simp add: abs_state_def)
qed

section \<open>A pod\<close>

definition demo_pod :: "int list \<Rightarrow> gmap" where
  "demo_pod ports = [(''UHostSet'', GList [GMap [(''UHostId'', GStr ''cpod-1''), (''Zone'', GStr ''a''),
     (''Region'', GStr ''r''), (''ZoneId'', GInt 3), (''RegionId'', GInt 4),
     (''Ports'', GMap [(''HttpPorts'', GList (map GInt ports))])]])]"

text \<open>The world is the set of HTTP ports; only a replacement changes it.\<close>

definition demo_ports_env :: "int list env" where
  "demo_ports_env = \<lparr>env_exec = (\<lambda>w now t args. (Inr (if t = ''DescribeCompShareInstance'' then demo_pod w else []), 1,
       if t = update_call then [80, 8888] else w)),
     env_confirm = Some (\<lambda>w n a. (True, 1, w)), env_confirm_edits = None, env_done_at = None,
     env_ctx_err = plain_err [], env_digest = (\<lambda>j. ''d'')\<rparr>"

definition demo_ports_params :: gmap where
  "demo_ports_params = [(''UHostId'', GStr ''cpod-1''), (''AddHttpPorts'', GList [GInt 80])]"

lemma p_steps_append:
  "p_steps env name (xs @ ys) c ps =
     (let r = p_steps env name xs c ps in
      if fst r then p_steps env name ys (fst (snd r)) (snd (snd r)) else r)"
  by (induction xs arbitrary: c ps) (auto simp: p_steps.simps Let_def split: option.split sum.split bool.split)

lemma demo_ports_steps:
  "let r = p_steps demo_ports_env (def_name (update_instance_ports_workflow :: unit definition_))
       (take 6 (def_steps update_instance_ports_workflow)) (new_context () demo_ports_params)
       \<lparr>p_world = [8888], p_now = 0, p_calls = [], p_asks = []\<rparr>
   in fst r \<and> update_call \<in> fst ` set (p_calls (snd (snd r)))"
  by code_simp

lemma demo_ports_run:
  "update_call \<in> fst ` set (p_calls (snd (snd (protocol demo_ports_env update_instance_ports_workflow () [8888] 0 demo_ports_params))))"
proof -
  let ?steps = "def_steps (update_instance_ports_workflow :: unit definition_)"
  let ?r = "p_steps demo_ports_env (def_name (update_instance_ports_workflow :: unit definition_)) (take 6 ?steps)
    (new_context () demo_ports_params) \<lparr>p_world = [8888], p_now = 0, p_calls = [], p_asks = []\<rparr>"
  have "list_all readback (drop 6 ?steps)" by (simp add: update_instance_ports_workflow_def readback_def)
  from p_readbacks_logs [OF this] have more: "\<exists>cs. p_calls (snd (snd (p_steps env name (drop 6 ?steps) c ps)))
      = p_calls ps @ cs" for env :: "int list env" and name c ps by blast
  have "p_steps demo_ports_env (def_name (update_instance_ports_workflow :: unit definition_)) (take 6 ?steps @ drop 6 ?steps)
    (new_context () demo_ports_params) \<lparr>p_world = [8888], p_now = 0, p_calls = [], p_asks = []\<rparr>
    = p_steps demo_ports_env (def_name (update_instance_ports_workflow :: unit definition_)) (drop 6 ?steps)
        (fst (snd ?r)) (snd (snd ?r))"
    unfolding p_steps_append using demo_ports_steps by (simp add: Let_def)
  with more [of demo_ports_env "def_name (update_instance_ports_workflow :: unit definition_)" "fst (snd ?r)" "snd (snd ?r)"]
    demo_ports_steps show ?thesis
    by (auto simp: protocol_def Let_def simp del: take_Suc_Cons)
qed

theorem port_write_optimistic_witness:
  "\<exists>c crd. c \<in> set (s_calls (run_workflow demo_ports_env update_instance_ports_workflow () [8888] 0 demo_ports_params)) \<and>
     port_write_checked demo_ports_env [8888] 0 (business_params demo_ports_params) crd (cl_args c)"
proof -
  let ?run = "run_workflow demo_ports_env update_instance_ports_workflow () [8888] 0 demo_ports_params"
  have "snd (snd (protocol demo_ports_env update_instance_ports_workflow () [8888] 0 demo_ports_params)) = abs_state ?run"
    using engine_protocol [OF port_plain, of demo_ports_env "()" "[8888]" 0 demo_ports_params] by (simp add: Let_def)
  with demo_ports_run obtain c where c: "c \<in> set (s_calls ?run)" "cl_tool c = update_call"
    by (auto simp: abs_state_def)
  from port_write_optimistic [OF this] show ?thesis using c(1) by blast
qed

theorem promoted_plan_reads_back_witness:
  "\<exists>plan (c :: unit wctx). port_plan (demo_pod [8888]) demo_ports_params = Inr plan \<and> ctx_result c q_plan = plan \<and>
     fst (promote_plan c) = None"
proof -
  have "\<not> isl (port_plan (demo_pod [8888]) demo_ports_params)" by code_simp
  then obtain plan where plan: "port_plan (demo_pod [8888]) demo_ports_params = Inr plan" by (cases "port_plan (demo_pod [8888]) demo_ports_params") simp_all
  let ?c = "p_store q_plan plan (new_context () [])"
  have c: "ctx_result ?c q_plan = plan" by simp
  from promoted_plan_reads_back [OF plan c] have "fst (promote_plan ?c) = None" by (auto simp: Let_def)
  with plan c show ?thesis by blast
qed

end
