(* ===== verification/GatedWrites.thy ===== *)
theory GatedWrites
  imports PortProps
begin

text \<open>
  The shape of a workflow that changes one thing: steps that only query, each of which may refuse,
  one card, perhaps a computation, one write, and steps that only read back. What a run of such a
  workflow has established when it makes its write.
\<close>

section \<open>Steps that send nothing\<close>

definition sent :: "string \<Rightarrow> 'w pstate \<Rightarrow> (string \<times> gmap) list" where
  "sent t ps = filter (\<lambda>x. fst x = t) (p_calls ps)"

text \<open>A step that does not ask and never calls the tool.\<close>

definition quiet :: "string \<Rightarrow> 'r wstep \<Rightarrow> bool" where
  "quiet t s \<longleftrightarrow> st_type s = StepResolve \<or> st_type s = StepToolCall \<and>
     (case st_tool_func s of None \<Rightarrow> st_tool s \<noteq> t | Some f \<Rightarrow> \<forall>c. fst (f c) \<noteq> t)"

lemma quiet_steps [simp]:
  "quiet t (tool_step n t' b chk) \<longleftrightarrow> t' \<noteq> t"
  "quiet t (step_query_instance chk) \<longleftrightarrow> ''DescribeCompShareInstance'' \<noteq> t"
  "quiet t step_query_support_zones \<longleftrightarrow> ''DescribeCompShareSupportZone'' \<noteq> t"
  "quiet t (resolve_step n f)" "quiet t (s\<lparr>st_optional := b'\<rparr>) = quiet t s" "quiet t (s\<lparr>st_skip_if := sk\<rparr>) = quiet t s"
  by (simp_all add: quiet_def step_query_instance_def step_query_support_zones_def split: option.split)

lemma p_poll_sent:
  "p_asks (snd (snd (p_poll env s t' args d c ps))) = p_asks ps"
  "t' \<noteq> t \<Longrightarrow> sent t (snd (snd (p_poll env s t' args d c ps))) = sent t ps"
proof -
  obtain cs where cs: "p_calls (snd (snd (p_poll env s t' args d c ps))) = p_calls ps @ cs" "fst ` set cs \<subseteq> {t'}"
    and asks: "p_asks (snd (snd (p_poll env s t' args d c ps))) = p_asks ps"
    using p_poll_logs [of env s t' args d c ps] by blast
  show "p_asks (snd (snd (p_poll env s t' args d c ps))) = p_asks ps" by (rule asks)
  assume "t' \<noteq> t"
  then have "filter (\<lambda>x. fst x = t) cs = []" using cs(2) by (auto simp: filter_empty_conv)
  then show "sent t (snd (snd (p_poll env s t' args d c ps))) = sent t ps" by (simp add: sent_def cs(1))
qed

lemma quiet_one:
  assumes "quiet t s"
  shows "p_asks (snd (snd (p_one env name s c ps))) = p_asks ps \<and>
    sent t (snd (snd (p_one env name s c ps))) = sent t ps"
proof (cases "st_type s = StepToolCall")
  case True
  let ?rt = "case st_tool_func s of None \<Rightarrow> (st_tool s, c) | Some f \<Rightarrow> p_hook f c"
  have other: "fst ?rt \<noteq> t" using assms True by (auto simp: quiet_def p_hook_def split: option.splits)
  define rt where "rt = ?rt"
  show ?thesis
    using True other unfolding p_one_def p_tool_def rt_def [symmetric]
    by (simp add: Let_def p_poll_sent split: sum.split option.split)
next
  case False
  with assms have "st_type s = StepResolve" by (simp add: quiet_def)
  then show ?thesis by (auto simp: p_one_def p_resolve_def Let_def split: option.split sum.split)
qed

section \<open>Steps that let the run go on\<close>

text \<open>One step with its skip condition.\<close>

definition p_step :: "'w env \<Rightarrow> string \<Rightarrow> 'r wstep \<Rightarrow> 'r wctx \<Rightarrow> 'w pstate \<Rightarrow> ('r, 'w) presult" where
  "p_step env name s c ps = (case st_skip_if s of
       None \<Rightarrow> p_one env name s c ps
     | Some sk \<Rightarrow> (let rk = p_hook sk c in
         case fst rk of
           Inl e \<Rightarrow> (False, snd rk, ps)
         | Inr skip \<Rightarrow> if skip then (True, snd rk, ps) else p_one env name s (snd rk) ps))"

lemma p_steps_Cons:
  "p_steps env name (s # rest) c ps =
     (if ctx_done env (p_now ps) then (False, c, ps)
      else let ro = p_step env name s c ps in
        if fst ro then p_steps env name rest (fst (snd ro)) (snd (snd ro)) else ro)"
  by (auto simp: p_steps.simps p_step_def Let_def split: option.split sum.split bool.split)

lemma quiet_step:
  assumes "quiet t s"
  shows "p_asks (snd (snd (p_step env name s c ps))) = p_asks ps \<and>
    sent t (snd (snd (p_step env name s c ps))) = sent t ps"
proof -
  have "p_asks (snd (snd (p_one env name s c' ps))) = p_asks ps" "sent t (snd (snd (p_one env name s c' ps))) = sent t ps" for c'
    using quiet_one [OF assms, of env name c' ps] by simp_all
  then show ?thesis by (simp add: p_step_def Let_def split: option.split sum.split)
qed

text \<open>The steps ran one after the other and each let the run go on.\<close>

fun ran :: "'w env \<Rightarrow> string \<Rightarrow> 'r wstep list \<Rightarrow> 'r wctx \<Rightarrow> 'w pstate \<Rightarrow> 'r wctx \<Rightarrow> 'w pstate \<Rightarrow> bool" where
  "ran env name [] c ps c' ps' \<longleftrightarrow> c' = c \<and> ps' = ps"
| "ran env name (s # ss) c ps c' ps' \<longleftrightarrow>
     (\<exists>c1 ps1. p_step env name s c ps = (True, c1, ps1) \<and> ran env name ss c1 ps1 c' ps')"

lemma went_on:
  assumes "p_steps env name (s # rest) c ps = (ok, cf, pf)" and "sent t pf \<noteq> sent t ps"
    and "sent t (snd (snd (p_step env name s c ps))) = sent t ps"
  shows "\<exists>c1 ps1. p_step env name s c ps = (True, c1, ps1) \<and> p_steps env name rest c1 ps1 = (ok, cf, pf)"
proof -
  have "\<not> ctx_done env (p_now ps)" "fst (p_step env name s c ps)"
    using assms by (auto simp: p_steps_Cons Let_def split: if_splits)
  then show ?thesis
    using assms(1) by (intro exI [of _ "fst (snd (p_step env name s c ps))"] exI [of _ "snd (snd (p_step env name s c ps))"])
      (simp add: p_steps_Cons Let_def prod_eq_iff)
qed

lemma quiet_ran:
  assumes "p_steps env name (pre @ rest) c ps = (ok, cf, pf)" and "sent t pf \<noteq> sent t ps" and "list_all (quiet t) pre"
  shows "\<exists>c' ps'. ran env name pre c ps c' ps' \<and> p_steps env name rest c' ps' = (ok, cf, pf) \<and>
    p_asks ps' = p_asks ps \<and> sent t ps' = sent t ps"
  using assms
proof (induction pre arbitrary: c ps)
  case (Cons s pre)
  then have s: "quiet t s" and pre: "list_all (quiet t) pre" by simp_all
  note logs = quiet_step [OF s, of env name c ps]
  from went_on [of env name s "pre @ rest" c ps] Cons.prems logs obtain c1 ps1 where
    on: "p_step env name s c ps = (True, c1, ps1)" "p_steps env name (pre @ rest) c1 ps1 = (ok, cf, pf)" by fastforce
  from logs on(1) have same: "p_asks ps1 = p_asks ps" "sent t ps1 = sent t ps" by simp_all
  with Cons.IH [OF on(2) _ pre] Cons.prems(2) show ?case by (auto simp: on(1))
qed simp

lemma quiet_rest:
  assumes "list_all (quiet t) post"
  shows "p_asks (snd (snd (p_steps env name post c ps))) = p_asks ps \<and>
    sent t (snd (snd (p_steps env name post c ps))) = sent t ps"
  using assms
proof (induction post arbitrary: c ps)
  case (Cons s post)
  then have s: "quiet t s" and IH: "p_asks (snd (snd (p_steps env name post c' ps'))) = p_asks ps' \<and>
      sent t (snd (snd (p_steps env name post c' ps'))) = sent t ps'" for c' ps' by simp_all
  from quiet_step [OF s, of env name c ps] IH show ?case by (simp add: p_steps_Cons Let_def)
qed simp

section \<open>One card, one write\<close>

text \<open>The tool a call step chooses, and what it makes of the context before it builds its arguments.\<close>

definition chosen :: "'r wstep \<Rightarrow> 'r wctx \<Rightarrow> string \<times> 'r wctx" where
  "chosen s c = (case st_tool_func s of None \<Rightarrow> (st_tool s, c) | Some f \<Rightarrow> p_hook f c)"

lemma write_once:
  assumes fin: "p_steps env name (s # post) c ps = (ok, cf, pf)" and new: "sent t pf \<noteq> sent t ps"
    and s: "st_type s = StepToolCall" "st_skip_if s = None" "st_poll s = None" and post: "list_all (quiet t) post"
  shows "\<exists>args. fst (chosen s c) = t \<and> fst (p_hook (st_build_args s) (snd (chosen s c))) = Inr args \<and>
    p_asks pf = p_asks ps \<and> sent t pf = sent t ps @ [(t, args)]"
proof -
  let ?o = "p_step env name s c ps"
  let ?rt = "chosen s c" and ?ra = "p_hook (st_build_args s) (snd (chosen s c))"
  have o: "?o = p_tool env s c ps" using s by (simp add: p_step_def p_one_def)
  have fate: "snd (snd ?o) = ps \<or>
      (\<exists>args. fst ?ra = Inr args \<and> snd (snd ?o) = snd (p_call env (fst ?rt) args ps))"
    unfolding o p_tool_def chosen_def
    using s(3) by (simp add: Let_def p_poll_once split: sum.split option.split)
  have tail: "p_asks pf = p_asks (snd (snd ?o)) \<and> sent t pf = sent t (snd (snd ?o)) \<or> pf = ps"
    using fin quiet_rest [OF post, of env name "fst (snd ?o)" "snd (snd ?o)"]
    by (auto simp: p_steps_Cons Let_def split: if_splits)
  with new have tail: "p_asks pf = p_asks (snd (snd ?o))" "sent t pf = sent t (snd (snd ?o))" by auto
  with new fate obtain args where args: "fst ?ra = Inr args" "snd (snd ?o) = snd (p_call env (fst ?rt) args ps)" by auto
  with tail new have "fst ?rt = t" by (auto simp: sent_def split: if_splits)
  with args tail show ?thesis by (auto simp: sent_def)
qed

text \<open>
  The write of the run: the steps before the card ran, the card was built from what they left and
  accepted, the steps after it ran under its seal, and the arguments of the write were built from
  what those left.
\<close>

definition gated_write :: "'w env \<Rightarrow> 'r definition_ \<Rightarrow> 'r wstep list \<Rightarrow> ('r, gmap res) hook \<Rightarrow> 'r wstep list \<Rightarrow> 'r wstep
    \<Rightarrow> 'r wctx \<Rightarrow> string \<Rightarrow> gmap \<Rightarrow> 'r wctx \<Rightarrow> gmap \<Rightarrow> 'r wctx \<Rightarrow> bool" where
  "gated_write env def pre crd mid s c0 t args c a c2 \<longleftrightarrow>
     (\<exists>ps ps'. ran env (def_name def) pre c0 ps c ps') \<and> fst (p_hook crd (unseal c)) = Inr a \<and>
     (\<exists>ps ps'. ran env (def_name def) mid (seal_ctx (env_digest env) (def_name def) (snd (p_hook crd (unseal c)))) ps c2 ps') \<and>
     fst (chosen s c2) = t \<and> fst (p_hook (st_build_args s) (snd (chosen s c2))) = Inr args"

lemma p_card_once:
  "p_step env name (confirm_step n crd) c ps =
     (let ra = p_hook crd (unseal c) in
      case fst ra of
        Inl e \<Rightarrow> (False, snd ra, ps)
      | Inr a \<Rightarrow>
          (let rq = p_ask env name a ps in
           if fst rq then (True, seal_ctx (env_digest env) name (snd ra), snd rq) else (False, snd ra, snd rq)))"
  by (simp add: p_step_def p_one_def p_confirm_def Let_def split: sum.split)

lemma p_ask_sent [simp]: "sent t (snd (p_ask env name a ps)) = sent t ps"
  by (simp add: sent_def)

lemma write_gated:
  assumes steps: "def_steps def = pre @ confirm_step cn crd # mid @ s # post"
    and quiet: "list_all (quiet t) pre" "list_all (quiet t) mid" "list_all (quiet t) post"
    and s: "st_type s = StepToolCall" "st_skip_if s = None" "st_poll s = None"
    and final: "protocol env def ref w now params = (ok, cf, pf)" and called: "(t, args) \<in> set (p_calls pf)"
  shows "(\<exists>c a c2. gated_write env def pre crd mid s (new_context ref params) t args c a c2 \<and> p_asks pf = [(a, True)]) \<and>
    sent t pf = [(t, args)]"
proof -
  let ?n = "def_name def" and ?c0 = "new_context ref params"
    and ?s0 = "\<lparr>p_world = w, p_now = now, p_calls = [], p_asks = []\<rparr>"
  let ?card = "confirm_step cn crd"
  have fin: "p_steps env ?n (pre @ ?card # mid @ s # post) ?c0 ?s0 = (ok, cf, pf)"
    using final by (simp add: protocol_def steps)
  have here: "(t, args) \<in> set (sent t pf)" using called by (simp add: sent_def)
  then have new: "sent t pf \<noteq> []" by auto
  from quiet_ran [OF fin _ quiet(1)] new obtain c ps where c: "ran env ?n pre ?c0 ?s0 c ps"
    "p_steps env ?n (?card # mid @ s # post) c ps = (ok, cf, pf)" "p_asks ps = []" "sent t ps = []"
    by (auto simp: sent_def)
  have "sent t (snd (snd (p_step env ?n ?card c ps))) = sent t ps"
    by (simp add: p_card_once Let_def split: sum.split)
  from went_on [OF c(2) _ this] new c(4) obtain c1 ps1 where card: "p_step env ?n ?card c ps = (True, c1, ps1)"
    "p_steps env ?n (mid @ s # post) c1 ps1 = (ok, cf, pf)" by auto
  from card(1) obtain a where a: "fst (p_hook crd (unseal c)) = Inr a" "fst (p_ask env ?n a ps)"
    "c1 = seal_ctx (env_digest env) ?n (snd (p_hook crd (unseal c)))" "ps1 = snd (p_ask env ?n a ps)"
    by (auto simp: p_card_once Let_def split: sum.splits if_splits)
  from a c have ps1: "p_asks ps1 = [(a, True)]" "sent t ps1 = []" by (simp_all add: p_ask_yes)
  from quiet_ran [OF card(2) _ quiet(2)] new ps1 obtain c2 ps2 where mid: "ran env ?n mid c1 ps1 c2 ps2"
    "p_steps env ?n (s # post) c2 ps2 = (ok, cf, pf)" "p_asks ps2 = [(a, True)]" "sent t ps2 = []" by auto
  from write_once [OF mid(2) _ s quiet(3)] new mid(3,4) obtain as where wr:
    "fst (chosen s c2) = t" "fst (p_hook (st_build_args s) (snd (chosen s c2))) = Inr as" "p_asks pf = [(a, True)]"
    "sent t pf = [(t, as)]" by auto
  moreover have "as = args" using wr(4) here by simp
  ultimately show ?thesis using c(1) a(1,3) mid(1) unfolding gated_write_def by blast
qed

section \<open>Runs of the engine\<close>

text \<open>The run showed one card, which the user accepted, and called the tool once, with these arguments.\<close>

definition one_confirmed_write :: "('r, 'w) rstate \<Rightarrow> string \<Rightarrow> gmap \<Rightarrow> gmap \<Rightarrow> bool" where
  "one_confirmed_write st t a args \<longleftrightarrow> map (\<lambda>x. (al_args x, al_yes x)) (s_asks st) = [(a, True)] \<and>
     map cl_args (filter (\<lambda>c. cl_tool c = t) (s_calls st)) = [args]"

text \<open>The environment answered the call, in some state of the world.\<close>

definition answered :: "'w env \<Rightarrow> string \<Rightarrow> gmap \<Rightarrow> gmap \<Rightarrow> bool" where
  "answered env t args q \<longleftrightarrow> (\<exists>w n. fst (env_exec env w n t args) = Inr q)"

lemma engine_write_gated:
  assumes steps: "def_steps def = pre @ confirm_step cn crd # mid @ s # post"
    and quiet: "list_all (quiet t) pre" "list_all (quiet t) mid" "list_all (quiet t) post"
    and s: "st_type s = StepToolCall" "st_skip_if s = None" "st_poll s = None"
    and plain: "list_all plain (def_steps def)"
    and call: "c \<in> set (s_calls (run_workflow env def ref w now params))" "cl_tool c = t"
  shows "\<exists>x a c2. gated_write env def pre crd mid s (new_context ref params) t (cl_args c) x a c2 \<and>
    one_confirmed_write (run_workflow env def ref w now params) t a (cl_args c)"
proof -
  let ?st = "run_workflow env def ref w now params"
  have run: "protocol env def ref w now params = (r_success (s_res ?st), s_ctx ?st, abs_state ?st)"
    using engine_protocol [OF plain, of env ref w now params] by (simp add: Let_def)
  have "(t, cl_args c) \<in> set (p_calls (abs_state ?st))" using call by (force simp: abs_state_def)
  from write_gated [OF steps quiet s run this] obtain x a c2 where
    g: "gated_write env def pre crd mid s (new_context ref params) t (cl_args c) x a c2" "p_asks (abs_state ?st) = [(a, True)]"
      "sent t (abs_state ?st) = [(t, cl_args c)]" by blast
  have "map snd (sent t (abs_state ?st)) = map cl_args (filter (\<lambda>c. cl_tool c = t) (s_calls ?st))"
    by (simp add: sent_def abs_state_def filter_map comp_def)
  with g(2,3) have "one_confirmed_write ?st t a (cl_args c)" by (simp add: one_confirmed_write_def abs_state_def)
  with g(1) show ?thesis by blast
qed

text \<open>What a step that let the run go on has left.\<close>

lemma p_call_answered: "fst (p_call env t args ps) = Inr q \<Longrightarrow> answered env t args q"
  by (auto simp: p_call_def answered_def split: prod.splits) (metis fst_conv)

lemma p_step_plain [simp]:
  "p_step env name (tool_step n t b chk) c ps = p_one env name (tool_step n t b chk) c ps"
  "p_step env name (step_query_instance chk') c ps = p_one env name (step_query_instance chk') c ps"
  "p_step env name step_query_support_zones c ps = p_one env name step_query_support_zones c ps"
  "p_step env name (resolve_step n f) c ps = p_one env name (resolve_step n f) c ps"
  by (simp_all add: p_step_def)

lemma ran_tool:
  "p_one env name (tool_step n t b (Some chk)) c ps = (True, c', ps') \<Longrightarrow>
     \<exists>args q. fst (p_hook b c) = Inr args \<and> answered env t args q \<and>
       co_ok (fst (fst (p_hook (chk q) (snd (p_hook b c))))) \<and>
       c' = p_store n (snd (fst (p_hook (chk q) (snd (p_hook b c))))) (snd (p_hook (chk q) (snd (p_hook b c))))"
  unfolding p_tool_once by (auto simp: Let_def dest: p_call_answered split: sum.splits if_splits)

lemma ran_plain_tool:
  "p_one env name (tool_step n t b None) c ps = (True, c', ps') \<Longrightarrow>
     \<exists>args q. fst (p_hook b c) = Inr args \<and> answered env t args q \<and> c' = p_store n q (snd (p_hook b c))"
  unfolding p_tool_once by (auto simp: Let_def dest: p_call_answered split: sum.splits if_splits)

lemma ran_zones:
  "p_one env name step_query_support_zones c ps = (True, c', ps') \<Longrightarrow> c' = c \<or> (\<exists>z. c' = p_store q_zones z c)"
  by (auto simp: p_zones_once Let_def split: sum.splits if_splits)

lemma ran_query:
  "p_one env name (step_query_instance (Some chk)) c ps = (True, c', ps') \<Longrightarrow>
     \<exists>q. answered env ''DescribeCompShareInstance'' (instance_query_args (ctx_params c)) q \<and>
       co_ok (fst (fst (p_hook (chk q) c))) \<and> c' = p_store q_instance (snd (fst (p_hook (chk q) c))) (snd (p_hook (chk q) c))"
  by (auto simp: p_query_once Let_def dest: p_call_answered split: sum.splits if_splits)

lemma ran_resolve:
  "p_one env name (resolve_step n (reads f)) c ps = (True, c', ps') \<Longrightarrow> \<exists>out. f c = Inr out \<and> c' = p_store n out c"
  by (auto simp: p_resolve_once split: sum.splits)

lemmas ran_steps = ran_tool ran_plain_tool ran_zones ran_query ran_resolve

lemma chosen_tool [simp]: "chosen (tool_step n t b chk) c = (t, c)"
  by (simp add: chosen_def)

text \<open>The context after a hook that sets the parameters.\<close>

lemma hook_sets:
  "h c = (x, set_params ps (wc_pub c)) \<Longrightarrow> ctx_params (snd (p_hook h c)) = ps \<and> fst (p_hook h c) = x \<and>
     (\<forall>n. ctx_result (snd (p_hook h c)) n = ctx_result c n)"
  by (simp add: p_hook_def ctx_params_def ctx_result_def set_params_def)

section \<open>A scripted environment\<close>

text \<open>It answers each tool from a table, the user accepts every card, and the context never ends.\<close>

definition scripted :: "(string \<times> gmap) list \<Rightarrow> nat env" where
  "scripted table = \<lparr>env_exec = (\<lambda>w now t args. (Inr (case mget table t of Some r \<Rightarrow> r | None \<Rightarrow> []), 1, Suc w)),
     env_confirm = Some (\<lambda>w n a. (True, 1, w)), env_confirm_edits = None, env_done_at = None,
     env_ctx_err = plain_err [], env_digest = (\<lambda>j. ''d'')\<rparr>"

definition scripted_calls :: "(string \<times> gmap) list \<Rightarrow> 'r definition_ \<Rightarrow> 'r \<Rightarrow> gmap \<Rightarrow> string list" where
  "scripted_calls table def ref params = map fst (p_calls (snd (snd (protocol (scripted table) def ref 0 0 params))))"

lemma scripted_makes_call:
  assumes "list_all plain (def_steps def)" and "t \<in> set (scripted_calls table def ref params)"
  shows "\<exists>c. c \<in> set (s_calls (run_workflow (scripted table) def ref 0 0 params)) \<and> cl_tool c = t"
  using assms(2) engine_protocol [OF assms(1), of "scripted table" ref 0 0 params]
  by (auto simp: scripted_calls_def Let_def abs_state_def)

end
