(* ===== verification/DiskWorkflows.thy ===== *)
theory DiskWorkflows
  imports InstanceWorkflows
begin

text \<open>
  The workflows on the disks and the password of one instance (\<open>workflow/create_disk.go\<close>,
  \<open>resize_disk.go\<close>, \<open>reset_password.go\<close>). The texts of cards and refusals are glosses; a number
  inside a text is not rendered. The two Chinese words for a disk role that a parameter may hold
  are kept as their bytes, since the program compares a user's value with them.
\<close>

section \<open>Create and attach a data disk\<close>

definition disk_type_cloud_ssd :: string where "disk_type_cloud_ssd = ''CLOUD_SSD''"
definition data_disk_type_ssd :: string where "data_disk_type_ssd = ''SSDDataDisk''"

definition q_disk_price :: string where "q_disk_price = ''query disk price''"
definition q_create_disk :: string where "q_create_disk = ''create and attach disk''"

text \<open>The query of both disk workflows: the size is required and stored as a number first.\<close>

definition sized_query_args :: "string \<Rightarrow> ('r, gmap res) hook" where
  "sized_query_args slot c =
     (let size = param_num (ctx_params c) ''Size'' (Fin 0) in
      if flt_le size (Fin 0) then (Inl (new_missing_slot_error ''a size is needed'' [slot]), wc_pub c)
      else (let ps = mput ''Size'' (GFloat size) (ctx_params c) in
            (Inr (instance_query_args ps), set_params ps (wc_pub c))))"

definition check_create_disk :: "'r check" where
  "check_create_disk result c =
     (let uhost = as_str (mval (ctx_params c) ''UHostId'');
          narrowed = (if uhost = [] then Some result else narrow_instance_result result uhost)
      in case narrowed of
           None \<Rightarrow> ((check_failed ''instance not found'', result), wc_pub c)
         | Some r \<Rightarrow>
             ((if extract_instance_state r = [] then check_failed ''instance not found''
               else if is_pod_instance_result r then check_failed ''a pod takes no plain data disk''
               else check_passed, r), wc_pub c))"

text \<open>The spec of the host a price is asked for; a host without GPU has it in the archived config.\<close>

definition priced_spec :: "gmap \<Rightarrow> gfloat \<times> gfloat \<times> gfloat" where
  "priced_spec m = (first_number_field m [''GPU'', ''Gpu''], first_number_field m [''CPU'', ''Cpu''],
     first_number_field m [''Memory'', ''Mem''])"

definition spec_incomplete :: "gfloat \<times> gfloat \<times> gfloat \<Rightarrow> bool" where
  "spec_incomplete s = (case s of (gpu, cpu, memory) \<Rightarrow>
     flt_le gpu (Fin 0) \<or> flt_le cpu (Fin 0) \<or> flt_le memory (Fin 0))"

definition add_source_instance_spec_for_disk_price :: "gmap \<Rightarrow> gmap \<Rightarrow> gmap res" where
  "add_source_instance_spec_for_disk_price args result = (case first_instance result of
       None \<Rightarrow> Inl (plain_err ''no source spec'')
     | Some host \<Rightarrow>
         (let t1 = as_str (mval host ''GpuType''); gpu_type = (if t1 = [] then as_str (mval host ''GPUType'') else t1);
              put = (\<lambda>(gpu, cpu, memory).
                if gpu_type = [] \<or> spec_incomplete (gpu, cpu, memory) then Inl (plain_err ''the source spec is incomplete'')
                else Inr (mput ''Memory'' (GFloat memory) (mput ''Cpu'' (GFloat cpu) (mput ''Gpu'' (GFloat gpu)
                  (mput ''GpuType'' (GStr gpu_type) args)))))
          in if flt_le (fst (priced_spec host)) (Fin 0)
             then (case source_instance_config host of
                 None \<Rightarrow> Inl (plain_err ''a host without GPU and no archived spec'')
               | Some src \<Rightarrow> if spec_incomplete (priced_spec src) then Inl (plain_err ''the archived spec is incomplete'')
                   else put (priced_spec src))
             else put (priced_spec host)))"

definition disk_price_args :: "'r wctx \<Rightarrow> gmap res" where
  "disk_price_args c =
     (case add_required_pod_placement_args
         [(''ChargeType'', GStr ''Postpay''),
          (''Disks'', GList [GMap [(''IsBoot'', GBool False), (''Type'', GStr disk_type_cloud_ssd),
             (''Size'', mval (ctx_params c) ''Size'')]])]
         (ctx_result c q_instance) (ctx_result c q_zones) of
        Inl e \<Rightarrow> Inl e
      | Inr args \<Rightarrow> add_source_instance_spec_for_disk_price args (ctx_result c q_instance))"

definition create_disk_card :: "'r wctx \<Rightarrow> gmap res" where
  "create_disk_card c = (case required_price_field (ctx_result c q_disk_price) ''Disks'' of
       Inl e \<Rightarrow> Inl e
     | Inr price \<Rightarrow> Inr (mput ''warning'' (GStr ''an SSD data disk is created and attached, billed by use'')
         (mput ''price'' (GFloat price) (mput ''charge_type'' (GStr ''Postpay'')
         (mput ''disk_type'' (GStr data_disk_type_ssd) (mput ''disk_size_gb'' (mval (ctx_params c) ''Size'')
         (extract_instance_summary (ctx_result c q_instance))))))))"

definition create_disk_args :: "'r wctx \<Rightarrow> gmap res" where
  "create_disk_args c =
     (let queried = ctx_result c q_instance; n = extract_instance_name queried in
      add_required_pod_placement_args
        [(''UHostId'', mval (ctx_params c) ''UHostId''), (''Size'', mval (ctx_params c) ''Size''),
         (''Name'', GStr ((if n = [] then ''data-disk'' else n) @ ''-data'')), (''DiskType'', GStr data_disk_type_ssd),
         (''ChargeType'', GStr ''Postpay'')] queried (ctx_result c q_zones))"

definition create_disk_result_data :: "'r wctx \<Rightarrow> gmap option" where
  "create_disk_result_data c =
     (let i = trim_space (param_str (ctx_result c q_create_disk) ''UDiskId'' []) in
      if i = [] then None else Some [(''UDiskId'', GStr i)])"

definition create_disk_workflow :: "'r definition_" where
  "create_disk_workflow = (plain_definition ''CreateDiskWorkflow''
     [tool_step q_instance ''DescribeCompShareInstance'' (sized_query_args ''size_gb'') (Some check_create_disk),
      step_query_support_zones,
      tool_step q_disk_price ''GetCompShareInstancePrice'' (reads disk_price_args) None,
      confirm_step ''confirm create disk'' (reads create_disk_card),
      tool_step q_create_disk ''CreateAndAttachCompshareDisk'' (reads create_disk_args) None])
     \<lparr>def_result_data := Some create_disk_result_data\<rparr>"

section \<open>Resize a disk\<close>

definition extract_disk_set :: "gmap \<Rightarrow> gmap list" where
  "extract_disk_set result = (case first_instance result of
       None \<Rightarrow> []
     | Some host \<Rightarrow> (case mval host ''DiskSet'' of GList rows \<Rightarrow> List.map_filter as_map rows | _ \<Rightarrow> []))"

definition disk_string :: "gmap \<Rightarrow> string \<Rightarrow> string" where
  "disk_string disk key = as_str (mval disk key)"

definition find_disk_by_id :: "gmap list \<Rightarrow> string \<Rightarrow> gmap res" where
  "find_disk_by_id disks want =
     (case find (\<lambda>d. list_ex (\<lambda>k. disk_string d k = want) [''DiskId'', ''UDiskId'', ''Id'', ''DiskShortId'']) disks of
        Some d \<Rightarrow> Inr d | None \<Rightarrow> Inl (plain_err ''no disk of that id on the instance''))"

definition disk_id_value :: "gmap \<Rightarrow> string" where
  "disk_id_value disk =
     (case find (\<lambda>v. v \<noteq> []) (map (disk_string disk) [''DiskId'', ''UDiskId'', ''Id'']) of Some v \<Rightarrow> v | None \<Rightarrow> [])"

fun disk_number :: "gmap \<Rightarrow> string list \<Rightarrow> gfloat" where
  "disk_number disk [] = Fin 0"
| "disk_number disk (k # ks) = (case mval disk k of
       GFloat x \<Rightarrow> x
     | GFloat32 x \<Rightarrow> x
     | GInt n \<Rightarrow> Fin (of_int n)
     | GInt64 n \<Rightarrow> Fin (of_int n)
     | GUint32 w \<Rightarrow> Fin (of_int (uint w))
     | GUint64 w \<Rightarrow> Fin (of_int (uint w))
     | _ \<Rightarrow> disk_number disk ks)"

datatype disk_role_param = RoleBoot | RoleData | RoleUnknown

definition system_disk_text :: string where
  "system_disk_text = map char_of [0xE7, 0xB3, 0xBB, 0xE7, 0xBB, 0x9F, 0xE7, 0x9B, 0x98 :: nat]"

definition data_disk_text :: string where
  "data_disk_text = map char_of [0xE6, 0x95, 0xB0, 0xE6, 0x8D, 0xAE, 0xE7, 0x9B, 0x98 :: nat]"

definition normalize_disk_role_param :: "string \<Rightarrow> disk_role_param" where
  "normalize_disk_role_param v =
     (let t = to_lower (trim_space v) in
      if t \<in> {''boot'', ''system'', ''systemdisk'', ''sys'', system_disk_text} then RoleBoot
      else if t \<in> {''data'', ''udisk'', ''datasdisk'', ''datadisk'', data_disk_text} then RoleData
      else RoleUnknown)"

definition is_boot_disk :: "gmap \<Rightarrow> bool" where
  "is_boot_disk disk \<longleftrightarrow> equal_fold (disk_string disk ''Type'') ''Boot'' \<or> equal_fold (disk_string disk ''IsBoot'') ''True''"

definition is_data_disk :: "gmap \<Rightarrow> bool" where
  "is_data_disk disk \<longleftrightarrow> \<not> is_boot_disk disk \<and>
     (let t = disk_string disk ''Type'' in equal_fold t ''Data'' \<or> equal_fold t ''Udisk'' \<or> t = [])"

definition disk_role :: "gmap \<Rightarrow> string" where
  "disk_role disk = (if is_boot_disk disk then ''Boot''
     else if equal_fold (disk_string disk ''Type'') ''Udisk'' then ''Udisk'' else ''Data'')"

definition resolve_disk_for_resize :: "gmap \<Rightarrow> gmap \<Rightarrow> gmap res" where
  "resolve_disk_for_resize ps result =
     (let disks = extract_disk_set result; fail = (\<lambda>m. Inl (plain_err m)) in
      if disks = [] then fail ''no disk list''
      else if param_str ps ''DiskId'' [] \<noteq> [] then find_disk_by_id disks (param_str ps ''DiskId'' [])
      else if param_str ps ''UDiskId'' [] \<noteq> [] then find_disk_by_id disks (param_str ps ''UDiskId'' [])
      else case normalize_disk_role_param (param_str ps ''DiskType'' []) of
        RoleBoot \<Rightarrow> (case find is_boot_disk disks of Some d \<Rightarrow> Inr d | None \<Rightarrow> fail ''no system disk'')
      | RoleData \<Rightarrow> (case filter is_data_disk disks of
            [] \<Rightarrow> fail ''no data disk'' | [d] \<Rightarrow> Inr d | _ \<Rightarrow> fail ''several data disks: name one'')
      | RoleUnknown \<Rightarrow> fail ''name the disk'')"

definition q_resize_disk_price :: string where "q_resize_disk_price = ''query resize price''"

definition check_resize_disk_query :: "'r check" where
  "check_resize_disk_query result c =
     (let fail = (\<lambda>m. ((check_failed m, result), wc_pub c)) in
      if extract_instance_state result = [] then fail ''instance not found''
      else case resolve_disk_for_resize (ctx_params c) result of
        Inl e \<Rightarrow> fail (err_text e)
      | Inr disk \<Rightarrow>
          (let target = param_num (ctx_params c) ''Size'' (Fin 0); current = disk_number disk [''Size'', ''DiskSpace''] in
           if flt_le current (Fin 0) then fail ''the current size is not known''
           else if flt_le target current then fail ''the target must exceed the current size''
           else ((check_passed, result), set_params
             (mput ''CurrentDiskSize'' (GFloat current)
             (mput ''ResolvedDiskType'' (GStr (disk_string disk ''DiskType''))
             (mput ''ResolvedDiskRole'' (GStr (disk_role disk))
             (mput ''ResolvedDiskName'' (GStr (disk_string disk ''Name''))
             (mput ''ResolvedDiskId'' (GStr (disk_id_value disk)) (ctx_params c)))))) (wc_pub c))))"

text \<open>The arguments of the check, the price and the resize through the instance.\<close>

definition attached_disk_args :: "'r wctx \<Rightarrow> gmap res" where
  "attached_disk_args c = add_required_pod_placement_args
     [(''UHostId'', mval (ctx_params c) ''UHostId''), (''DiskId'', mval (ctx_params c) ''ResolvedDiskId''),
      (''DiskSpace'', mval (ctx_params c) ''Size'')] (ctx_result c q_instance) (ctx_result c q_zones)"

definition check_resize_conditions :: "'r check" where
  "check_resize_conditions result c =
     (let ps1 = (case mval result ''NeedRestart'' of GBool b \<Rightarrow> mput ''NeedRestart'' (GBool b) (ctx_params c) | _ \<Rightarrow> ctx_params c);
          i = as_str (mval result ''DiskId'')
      in ((check_passed, result), set_params (if i = [] then ps1 else mput ''ResolvedDiskId'' (GStr i) ps1) (wc_pub c)))"

definition copy_as :: "string \<Rightarrow> string \<Rightarrow> gmap \<Rightarrow> gmap \<Rightarrow> gmap" where
  "copy_as dst src from m = (case mget from src of Some v \<Rightarrow> mput dst v m | None \<Rightarrow> m)"

definition resize_disk_card :: "'r wctx \<Rightarrow> gmap res" where
  "resize_disk_card c =
     (let ps = ctx_params c; priced = ctx_result c q_resize_disk_price;
          s1 = fold (\<lambda>(k, p). mput k (mval ps p))
            [(''disk_id'', ''ResolvedDiskId''), (''disk_name'', ''ResolvedDiskName''), (''disk_role'', ''ResolvedDiskRole''),
             (''disk_type'', ''ResolvedDiskType''), (''current_size_gb'', ''CurrentDiskSize''), (''target_size_gb'', ''Size'')]
            (extract_instance_summary (ctx_result c q_instance));
          s2 = (case mval ps ''NeedRestart'' of GBool b \<Rightarrow> mput ''need_restart'' (GBool b) s1 | _ \<Rightarrow> s1)
      in case required_price_field priced ''Price'' of
           Inl e \<Rightarrow> Inl e
         | Inr price \<Rightarrow> Inr (mput ''warning'' (GStr ''the size is the target, not an increment; a disk never shrinks'')
             (copy_as ''list_price_delta'' ''ListPrice'' priced
             (copy_as ''original_price_delta'' ''OriginalPrice'' priced (mput ''price_delta'' (GFloat price) s2)))))"

definition resize_disk_tool :: "'r wctx \<Rightarrow> string" where
  "resize_disk_tool c = (if resize_disk_via_instance (ctx_result c q_instance) then ''ResizeCompShareInstance''
     else ''ResizeCompShareDisk'')"

definition resize_disk_args :: "'r wctx \<Rightarrow> gmap res" where
  "resize_disk_args c =
     (if resize_disk_via_instance (ctx_result c q_instance) then attached_disk_args c
      else add_required_pod_placement_args
        [(''UHostId'', mval (ctx_params c) ''UHostId''), (''UDiskId'', mval (ctx_params c) ''ResolvedDiskId''),
         (''Size'', mval (ctx_params c) ''Size'')] (ctx_result c q_instance) (ctx_result c q_zones))"

definition resize_disk_result_data :: "'r wctx \<Rightarrow> gmap option" where
  "resize_disk_result_data c = Some [(''UHostId'', mval (ctx_params c) ''UHostId''),
     (''UDiskId'', mval (ctx_params c) ''ResolvedDiskId''), (''target_size_gb'', mval (ctx_params c) ''Size'')]"

definition resize_disk_workflow :: "'r definition_" where
  "resize_disk_workflow = (plain_definition ''ResizeDiskWorkflow''
     [tool_step q_instance ''DescribeCompShareInstance'' (sized_query_args ''target_size_gb'') (Some check_resize_disk_query),
      step_query_support_zones,
      tool_step ''check resize'' ''CheckCompShareResizeAttachedDisk'' (reads attached_disk_args) (Some check_resize_conditions),
      tool_step q_resize_disk_price ''GetCompShareAttachedDiskUpgradePrice'' (reads attached_disk_args) None,
      confirm_step ''confirm resize disk'' (reads resize_disk_card),
      (tool_step ''resize disk'' [] (reads resize_disk_args) None)\<lparr>st_tool_func := Some (reads resize_disk_tool)\<rparr>])
     \<lparr>def_result_data := Some resize_disk_result_data\<rparr>"

section \<open>Reset the password\<close>

text \<open>\<open>base64.StdEncoding\<close>: six bits a letter, padded to groups of four.\<close>

definition base64_letter :: "int \<Rightarrow> char" where
  "base64_letter n = (if n < 26 then char_of (65 + n) else if n < 52 then char_of (71 + n)
     else if n < 62 then char_of (n - 4) else if n = 62 then CHR ''+'' else CHR ''/'')"

fun base64_encode :: "string \<Rightarrow> string" where
  "base64_encode [] = []"
| "base64_encode [a] = (let n = of_char a * 16 in [base64_letter (n div 64), base64_letter (n mod 64), CHR ''='', CHR ''=''])"
| "base64_encode [a, b] = (let n = (of_char a * 256 + of_char b) * 4 in
     [base64_letter (n div 4096), base64_letter (n div 64 mod 64), base64_letter (n mod 64), CHR ''=''])"
| "base64_encode (a # b # c # s) = (let n = of_char a * 65536 + of_char b * 256 + of_char c in
     base64_letter (n div 262144) # base64_letter (n div 4096 mod 64) # base64_letter (n div 64 mod 64) #
     base64_letter (n mod 64) # base64_encode s)"

definition container_special_chars :: string where
  "container_special_chars = ''()`~!@#$%^&*-+=_|{}[]:;'' @ [CHR 0x27] @ ''<>,.?/''"

datatype char_class = ClassUpper | ClassLower | ClassDigit | ClassSpecial

definition classify_password_char :: "char \<Rightarrow> char_class option" where
  "classify_password_char c =
     (if CHR ''A'' \<le> c \<and> c \<le> CHR ''Z'' then Some ClassUpper
      else if CHR ''a'' \<le> c \<and> c \<le> CHR ''z'' then Some ClassLower
      else if is_digit c then Some ClassDigit
      else if c \<in> set container_special_chars then Some ClassSpecial else None)"

definition validate_container_password :: "string \<Rightarrow> gerr option" where
  "validate_container_password password =
     (if length password < 8 \<or> 32 < length password then Some (plain_err ''the length must be 8 to 32'')
      else if list_ex (\<lambda>c. classify_password_char c = None) password then Some (plain_err ''a character is not allowed'')
      else if length (remdups (map classify_password_char password)) < 2 then Some (plain_err ''two kinds of characters are needed'')
      else None)"

definition check_reset :: "gmap \<Rightarrow> check_outcome" where
  "check_reset result =
     (let state = extract_instance_state result in
      if state = [] then check_failed ''instance not found''
      else if is_pod_instance_result result
      then (if state = ''Running'' then check_passed else check_failed ''a pod must be running'')
      else if extract_instance_type result = ''Container''
      then (if state = ''Running'' \<or> state = ''Stopped'' then check_passed
            else check_failed ''a container must be running or stopped'')
      else if state = ''Stopped'' then check_passed
      else if state = ''Running'' then check_failed ''stop the host first''
      else check_failed (''not in state '' @ state))"

definition reset_card :: "gmap \<Rightarrow> gmap" where
  "reset_card queried = mput ''warning'' (GStr ''8 to 32 characters of two kinds'')
     (mput ''Password'' (GStr ''[set, not shown]'') (extract_instance_summary queried))"

definition reset_password_args :: "'r wctx \<Rightarrow> gmap res" where
  "reset_password_args c =
     (let password = as_str (mval (ctx_params c) ''Password''); queried = ctx_result c q_instance in
      if password = [] then Inl (plain_err ''empty password'')
      else if extract_instance_type queried = ''Container'' \<and> validate_container_password password \<noteq> None
      then Inl (the (validate_container_password password))
      else add_required_pod_placement_args
        [(''UHostId'', mval (ctx_params c) ''UHostId''), (''Password'', GStr (base64_encode password))]
        queried (ctx_result c q_zones))"

definition reset_password_workflow :: "'r definition_" where
  "reset_password_workflow = plain_definition ''ResetPasswordWorkflow''
     [step_query_instance (Some (checks check_reset)),
      step_query_support_zones,
      confirm_step ''confirm reset'' (reads (\<lambda>c. Inr (reset_card (ctx_result c q_instance)))),
      tool_step ''reset password'' ''ResetCompShareInstancePassword'' (reads reset_password_args) None,
      tool_step ''verify reset'' ''DescribeCompShareInstance''
        (reads (\<lambda>c. Inr (instance_query_args (ctx_params c)))) None]"

end
