(* ===== verification/Catalogs.thy ===== *)
theory Catalogs
  imports GoText
begin

text \<open>
  The catalog snapshots of a turn: the zone catalog (\<open>internal/deployment/zone_catalog.go\<close>)
  and the image catalog (\<open>internal/deployment/image_catalog.go\<close>). Both types of the source
  have the same shape (an availability flag, the order of ids, rows keyed by the lower-cased
  id) and are built by the same loop; the shape and the loop are stated once here, with the
  row id and the canonical form of a row as arguments. A nil snapshot is \<open>None\<close>. The copies
  the accessors make are the values themselves.
\<close>

section \<open>Snapshots\<close>

record 'e snapshot =
  sn_available :: bool
  sn_order :: "string list"
  sn_entries :: "(string \<times> 'e) list"

definition empty_snapshot :: "bool \<Rightarrow> 'e snapshot" where
  "empty_snapshot available = \<lparr>sn_available = available, sn_order = [], sn_entries = []\<rparr>"

definition add_row :: "('e \<Rightarrow> string) \<Rightarrow> ('e \<Rightarrow> 'e) \<Rightarrow> 'e \<Rightarrow> 'e snapshot \<Rightarrow> 'e snapshot" where
  "add_row rid canon e s =
     (let i = trim_space (rid e); key = to_lower i in
      if i = [] then s
      else s\<lparr>sn_order := (if mhas (sn_entries s) key then sn_order s else sn_order s @ [i]),
             sn_entries := mput key (canon e) (sn_entries s)\<rparr>)"

definition freeze :: "('e \<Rightarrow> string) \<Rightarrow> ('e \<Rightarrow> 'e) \<Rightarrow> bool \<Rightarrow> 'e list \<Rightarrow> 'e snapshot" where
  "freeze rid canon available es =
     (if available then fold (add_row rid canon) es (empty_snapshot True) else empty_snapshot False)"

definition snapshot_available :: "'e snapshot option \<Rightarrow> bool" where
  "snapshot_available s = (case s of None \<Rightarrow> False | Some s \<Rightarrow> sn_available s)"

definition snapshot_entry :: "'e snapshot option \<Rightarrow> string \<Rightarrow> 'e option" where
  "snapshot_entry s i = (case s of None \<Rightarrow> None
     | Some s \<Rightarrow> if sn_available s then mget (sn_entries s) (to_lower (trim_space i)) else None)"

definition snapshot_ids :: "'e snapshot option \<Rightarrow> string list" where
  "snapshot_ids s = (case s of None \<Rightarrow> [] | Some s \<Rightarrow> if sn_available s then sn_order s else [])"

section \<open>Zones\<close>

record zone_placement =
  zp_zone :: string
  zp_region :: string
  zp_zone_id :: "32 word"
  zp_az_group :: "32 word"
  zp_is_pod :: bool

record zone_row =
  zr_placement :: zone_placement
  zr_display :: string
  zr_disable_image_sync :: bool
  zr_unsupported :: "string list"

definition zone_row_id :: "zone_row \<Rightarrow> string" where
  "zone_row_id e = zp_zone (zr_placement e)"

definition canonical_zone_row :: "zone_row \<Rightarrow> zone_row" where
  "canonical_zone_row e =
     e\<lparr>zr_placement := (zr_placement e)\<lparr>zp_zone := trim_space (zone_row_id e)\<rparr>,
       zr_display := trim_space (zr_display e)\<rparr>"

definition new_zone_snapshot :: "bool \<Rightarrow> zone_row list \<Rightarrow> zone_row snapshot" where
  "new_zone_snapshot = freeze zone_row_id canonical_zone_row"

definition supports_image_type :: "zone_row \<Rightarrow> string \<Rightarrow> bool" where
  "supports_image_type e ty =
     (trim_space ty = [] \<or> \<not> list_ex (\<lambda>d. equal_fold (trim_space d) (trim_space ty)) (zr_unsupported e))"

definition zone_placement_of :: "zone_row snapshot option \<Rightarrow> string \<Rightarrow> zone_placement option" where
  "zone_placement_of s zone = map_option zr_placement (snapshot_entry s zone)"

definition snapshot_label :: "zone_row snapshot option \<Rightarrow> string \<Rightarrow> string" where
  "snapshot_label s zone = (case snapshot_entry s (trim_space zone) of
       Some e \<Rightarrow> if zr_display e \<noteq> [] then zr_display e else trim_space zone
     | None \<Rightarrow> trim_space zone)"

section \<open>Images\<close>

record software_facts =
  sw_present :: bool
  sw_framework :: string
  sw_framework_version :: string
  sw_cuda :: string
  sw_os :: string
  sw_python :: string
  sw_version_index :: "32 word"

record image_row =
  im_id :: string
  im_name :: string
  im_family_id :: string
  im_family_name :: string
  im_version_name :: string
  im_source :: string
  im_type :: string
  im_status :: string
  im_container :: bool
  im_gpus :: "string list"
  im_software :: software_facts
  im_tags :: "string list"
  im_description :: string
  im_size_mb :: gfloat
  im_price :: gfloat
  im_price_known :: bool
  im_create_time :: int
  im_pub_time :: int
  im_zone :: string
  im_zone_id :: "32 word"

definition image_status_usable :: "string \<Rightarrow> string \<Rightarrow> bool" where
  "image_status_usable source status =
     (let st = trim_space status; src = to_lower (trim_space source) in
      st = [] \<or> equal_fold st ''Available'' \<or>
      ((src = ''sharing'' \<or> src = ''shared'') \<and> equal_fold st ''Reviewing''))"

text \<open>The separator of a display label is a space, a middle dot (two bytes) and a space.\<close>

definition label_separator :: string where
  "label_separator = [CHR '' '', CHR 0xC2, CHR 0xB7, CHR '' '']"

definition display_label :: "image_row \<Rightarrow> string" where
  "display_label e =
     (let name = trim_space (im_name e); version = trim_space (im_version_name e) in
      if version = [] \<or> equal_fold name version then name
      else if name = [] then version
      else name @ label_separator @ version)"

definition family_key :: "image_row \<Rightarrow> string" where
  "family_key e =
     (let src0 = to_lower (trim_space (im_source e)); src = (if src0 = [] then ''unknown'' else src0) in
      if trim_space (im_family_id e) \<noteq> []
      then src @ '':family:'' @ to_lower (trim_space (im_family_id e))
      else if trim_space (im_family_name e) \<noteq> []
      then src @ '':family-name:'' @ to_lower (trim_space (im_family_name e))
      else src @ '':image:'' @ to_lower (trim_space (im_id e)))"

definition family_label :: "image_row \<Rightarrow> string" where
  "family_label e =
     (if trim_space (im_family_name e) \<noteq> [] then trim_space (im_family_name e) else trim_space (im_name e))"

record image_family =
  if_key :: string
  if_name :: string
  if_source :: string
  if_variants :: "image_row list"

definition variant_key :: "image_row \<Rightarrow> string" where
  "variant_key e = to_lower (trim_space (im_source e)) @ '':'' @ to_lower (trim_space (im_id e))"

text \<open>The family a row joins: the one with its key, which is unique in the list, or a new one.\<close>

fun add_variant :: "image_row \<Rightarrow> image_family list \<Rightarrow> image_family list" where
  "add_variant e [] = [\<lparr>if_key = family_key e, if_name = family_label e, if_source = im_source e,
                        if_variants = [e]\<rparr>]"
| "add_variant e (f # fs) =
     (if if_key f = family_key e then f\<lparr>if_variants := if_variants f @ [e]\<rparr> # fs
      else f # add_variant e fs)"

definition group_image_families :: "image_row list \<Rightarrow> image_family list" where
  "group_image_families es =
     fold add_variant (uniq_by variant_key [] (filter (\<lambda>e. trim_space (im_id e) \<noteq> []) es)) []"

definition canonical_image_row :: "image_row \<Rightarrow> image_row" where
  "canonical_image_row e = e\<lparr>im_id := trim_space (im_id e), im_name := trim_space (im_name e)\<rparr>"

definition new_image_snapshot :: "bool \<Rightarrow> image_row list \<Rightarrow> image_row snapshot" where
  "new_image_snapshot = freeze im_id canonical_image_row"

definition image_by_id :: "image_row snapshot option \<Rightarrow> string \<Rightarrow> image_row option" where
  "image_by_id s i = snapshot_entry s i"

definition image_entries :: "image_row snapshot option \<Rightarrow> image_row list" where
  "image_entries s = List.map_filter (snapshot_entry s) (snapshot_ids s)"

definition image_count :: "image_row snapshot option \<Rightarrow> nat" where
  "image_count s = length (snapshot_ids s)"

section \<open>Parsing image listings\<close>

definition as_string :: "gmap \<Rightarrow> string \<Rightarrow> string" where
  "as_string m key = (case mval m key of GStr s \<Rightarrow> trim_space s | _ \<Rightarrow> [])"

definition as_bool_field :: "gmap \<Rightarrow> string \<Rightarrow> bool" where
  "as_bool_field m key = (case mval m key of GBool b \<Rightarrow> b | _ \<Rightarrow> False)"

definition as_string_slice :: "gval \<Rightarrow> string list" where
  "as_string_slice v = (case v of
       GList vs \<Rightarrow> List.map_filter
         (\<lambda>x. case x of GStr s \<Rightarrow> if trim_space s \<noteq> [] then Some (trim_space s) else None | _ \<Rightarrow> None) vs
     | _ \<Rightarrow> [])"

fun as_float :: "gmap \<Rightarrow> string list \<Rightarrow> gfloat" where
  "as_float m [] = Fin 0"
| "as_float m (k # ks) = (case mval m k of
       GFloat x \<Rightarrow> x | GInt64 n \<Rightarrow> Fin (of_int n) | GInt n \<Rightarrow> Fin (of_int n) | _ \<Rightarrow> as_float m ks)"

definition as_int64_any :: "gval \<Rightarrow> int" where
  "as_int64_any v = (case v of
       GFloat x \<Rightarrow> int64_of_float x | GInt64 n \<Rightarrow> n | GInt n \<Rightarrow> n | GUint32 w \<Rightarrow> uint w | _ \<Rightarrow> 0)"

definition has_numeric_field :: "gmap \<Rightarrow> string \<Rightarrow> bool" where
  "has_numeric_field m key = (case mval m key of
       GFloat _ \<Rightarrow> True | GFloat32 _ \<Rightarrow> True | GInt _ \<Rightarrow> True | GInt32 _ \<Rightarrow> True | GInt64 _ \<Rightarrow> True
     | GUint32 _ \<Rightarrow> True | GUint64 _ \<Rightarrow> True | _ \<Rightarrow> False)"

definition parse_container_flag :: "gval \<Rightarrow> bool" where
  "parse_container_flag v = (case v of GBool b \<Rightarrow> b | GStr s \<Rightarrow> equal_fold (trim_space s) ''True'' | _ \<Rightarrow> False)"

text \<open>Tags are split at commas, the ASCII one and the full-width one (three bytes).\<close>

definition wide_comma :: string where
  "wide_comma = [CHR 0xEF, CHR 0xBC, CHR 0x8C]"

fun split_tag :: "string \<Rightarrow> string list" where
  "split_tag [] = [[]]"
| "split_tag (c # s) =
     (if c = CHR '','' then [] # split_tag s
      else if has_prefix (c # s) wide_comma then [] # split_tag (drop 2 s)
      else case split_tag s of [] \<Rightarrow> [[c]] | p # ps \<Rightarrow> (c # p) # ps)"

definition normalize_image_tags :: "string list \<Rightarrow> string list" where
  "normalize_image_tags raw =
     uniq_by to_lower [] (filter (\<lambda>p. p \<noteq> []) (map trim_space (concat (map split_tag raw))))"

definition first_nonempty :: "string list \<Rightarrow> string" where
  "first_nonempty ss = (case find (\<lambda>s. s \<noteq> []) ss of None \<Rightarrow> [] | Some s \<Rightarrow> s)"

text \<open>The loop over \<open>ImageSupportZone\<close>: it stops at the first row that names a zone.\<close>

fun support_zone :: "gval list \<Rightarrow> string \<times> 32 word \<Rightarrow> string \<times> 32 word" where
  "support_zone [] z = z"
| "support_zone (v # vs) z = (case v of
       GMap m \<Rightarrow>
         (let zone = (if fst z = [] then as_string m ''Zone'' else fst z);
              zid = word_of_int (as_int64_any (mval m ''ZoneId''))
          in if zid \<noteq> 0 \<or> zone \<noteq> [] then (zone, zid) else support_zone vs (zone, zid))
     | _ \<Rightarrow> support_zone vs z)"

definition no_software :: software_facts where
  "no_software = \<lparr>sw_present = False, sw_framework = [], sw_framework_version = [], sw_cuda = [],
     sw_os = [], sw_python = [], sw_version_index = 0\<rparr>"

definition parse_software :: "gval \<Rightarrow> software_facts" where
  "parse_software v = (case v of
       GMap m \<Rightarrow> \<lparr>sw_present = True, sw_framework = as_string m ''Framework'',
         sw_framework_version = as_string m ''FrameworkVersion'', sw_cuda = as_string m ''CUDAVersion'',
         sw_os = as_string m ''OsVersion'', sw_python = as_string m ''PythonVersion'',
         sw_version_index = word_of_int (as_int64_any (mval m ''FrameworkVersionIndex''))\<rparr>
     | _ \<Rightarrow> no_software)"

definition image_entry_from_map :: "gmap \<Rightarrow> string \<Rightarrow> image_row option" where
  "image_entry_from_map img source =
     (let i = first_nonempty [as_string img ''CompShareImageId'', as_string img ''ImageId''];
          zone = (case mval img ''ImageSupportZone'' of
             GList zs \<Rightarrow> support_zone zs (as_string img ''Zone'', 0)
           | _ \<Rightarrow> (as_string img ''Zone'', 0))
      in if i = [] then None
         else Some \<lparr>im_id = i,
           im_name = first_nonempty [as_string img ''Name'', as_string img ''CompShareImageName'',
                       as_string img ''ImageName''],
           im_family_id = [], im_family_name = [],
           im_version_name = first_nonempty [as_string img ''VersionName'', as_string img ''Version''],
           im_source = source, im_type = as_string img ''ImageType'', im_status = as_string img ''Status'',
           im_container = (parse_container_flag (mval img ''Container'') \<or> as_bool_field img ''IsContainer''),
           im_gpus = as_string_slice (mval img ''SupportedGpuTypes''),
           im_software = parse_software (mval img ''Softwares''),
           im_tags = normalize_image_tags (as_string_slice (mval img ''Tags'')),
           im_description = as_string img ''Description'',
           im_size_mb = as_float img [''Size'', ''ActualSize'', ''ImageSize''],
           im_price = as_float img [''Price''], im_price_known = has_numeric_field img ''Price'',
           im_create_time = as_int64_any (mval img ''CreateTime''),
           im_pub_time = as_int64_any (mval img ''PubTime''),
           im_zone = fst zone, im_zone_id = snd zone\<rparr>)"

definition map_items :: "gval list \<Rightarrow> gmap list" where
  "map_items vs = List.map_filter (\<lambda>x. case x of GMap m \<Rightarrow> Some m | _ \<Rightarrow> None) vs"

definition parse_platform_image_entries :: "gmap \<Rightarrow> string \<Rightarrow> image_row list" where
  "parse_platform_image_entries res source = (case mval res ''ImageSet'' of
       GList imgs \<Rightarrow> List.map_filter (\<lambda>m. image_entry_from_map m source) (map_items imgs)
     | _ \<Rightarrow> [])"

text \<open>The family of a community row: the group's id and name; the row's own name becomes its version.\<close>

definition with_family :: "string \<Rightarrow> string \<Rightarrow> image_row \<Rightarrow> image_row" where
  "with_family gid gname e0 =
     (let e1 = (if gid \<noteq> [] then e0\<lparr>im_family_id := gid\<rparr> else e0) in
      if gname = [] then e1
      else
        (let e2 = e1\<lparr>im_family_name := gname\<rparr>;
             e3 = (if im_family_id e2 = [] then e2\<lparr>im_family_id := gname\<rparr> else e2);
             e4 = (if im_version_name e3 = [] \<and> im_name e3 \<noteq> [] \<and> \<not> equal_fold (im_name e3) gname
                   then e3\<lparr>im_version_name := im_name e3\<rparr> else e3)
         in e4\<lparr>im_name := gname\<rparr>))"

definition parse_community_group :: "gmap \<Rightarrow> image_row list" where
  "parse_community_group grp = (case mval grp ''Data'' of
       GList data \<Rightarrow>
         map (with_family (as_string grp ''GroupId'') (as_string grp ''ImageName''))
           (List.map_filter (\<lambda>m. image_entry_from_map m ''community'') (map_items data))
     | _ \<Rightarrow> [])"

definition parse_community_image_entries :: "gmap \<Rightarrow> image_row list" where
  "parse_community_image_entries res = (case mval res ''CompshareImageGroup'' of
       GList groups \<Rightarrow> concat (map parse_community_group (map_items groups))
     | _ \<Rightarrow> parse_platform_image_entries res ''community'')"

section \<open>Snapshot laws\<close>

text \<open>
  What a reader of a snapshot relies on, for both kinds of rows. The only thing the loop
  needs of the canonical form is that it keeps the row's id up to surrounding space.
\<close>

definition keyed_row :: "('e \<Rightarrow> string) \<Rightarrow> string \<Rightarrow> 'e \<Rightarrow> bool" where
  "keyed_row rid key e \<longleftrightarrow> trim_space (rid e) \<noteq> [] \<and> to_lower (trim_space (rid e)) = key"

lemma add_row_lookup:
  "mget (sn_entries (add_row rid canon e s)) key
     = (if keyed_row rid key e then Some (canon e) else mget (sn_entries s) key)"
  by (auto simp: add_row_def keyed_row_def Let_def mget_mput)

lemma add_row_available [simp]: "sn_available (add_row rid canon e s) = sn_available s"
  by (simp add: add_row_def Let_def)

lemma fold_rows_available [simp]: "sn_available (fold (add_row rid canon) es s) = sn_available s"
  by (induction es arbitrary: s) simp_all

lemma find_snoc: "find P (xs @ [x]) = (case find P xs of None \<Rightarrow> if P x then Some x else None | Some y \<Rightarrow> Some y)"
  by (induction xs) auto

lemma fold_rows_lookup:
  "mget (sn_entries (fold (add_row rid canon) es s)) key
     = (case find (keyed_row rid key) (rev es) of Some e \<Rightarrow> Some (canon e) | None \<Rightarrow> mget (sn_entries s) key)"
proof (induction es arbitrary: s)
  case (Cons e es)
  then show ?case by (simp add: add_row_lookup find_snoc split: option.split)
qed simp

text \<open>The last row of an id wins, whole.\<close>

lemma freeze_entry:
  "snapshot_entry (Some (freeze rid canon available es)) i =
     (if available then map_option canon (find (keyed_row rid (to_lower (trim_space i))) (rev es)) else None)"
  by (auto simp: snapshot_entry_def freeze_def empty_snapshot_def fold_rows_lookup split: option.split)

definition snapshot_ok :: "'e snapshot \<Rightarrow> bool" where
  "snapshot_ok s \<longleftrightarrow> distinct (map to_lower (sn_order s)) \<and> mkeys (sn_entries s) = to_lower ` set (sn_order s) \<and>
     (\<forall>i \<in> set (sn_order s). i \<noteq> [] \<and> trim_space i = i)"

lemma add_row_ok:
  assumes "snapshot_ok s"
  shows "snapshot_ok (add_row rid canon e s)"
proof (cases "trim_space (rid e) = []")
  case False
  have keys: "mhas (sn_entries s) k \<longleftrightarrow> k \<in> set (map to_lower (sn_order s))" for k
    using assms by (simp add: snapshot_ok_def mhas_iff)
  show ?thesis
  proof (cases "to_lower (trim_space (rid e)) \<in> set (map to_lower (sn_order s))")
    case True
    with keys False assms show ?thesis
      by (simp add: snapshot_ok_def add_row_def Let_def insert_absorb)
  next
    case new: False
    with keys False assms show ?thesis
      by (simp add: snapshot_ok_def add_row_def Let_def)
  qed
qed (use assms in \<open>simp add: add_row_def\<close>)

lemma fold_rows_ok: "snapshot_ok s \<Longrightarrow> snapshot_ok (fold (add_row rid canon) es s)"
proof (induction es arbitrary: s)
  case (Cons e es)
  from Cons.IH [OF add_row_ok [OF Cons.prems]] show ?case by simp
qed simp

lemma empty_snapshot_ok: "snapshot_ok (empty_snapshot b)"
  by (simp add: snapshot_ok_def empty_snapshot_def)

lemma freeze_ok: "snapshot_ok (freeze rid canon available es)"
  by (simp add: freeze_def fold_rows_ok empty_snapshot_ok)

text \<open>Two rows whose zone ids differ only in case: the list keeps the first spelling, the stored row the last.\<close>

lemma zone_spelling_diverges:
  "let row = (\<lambda>z. \<lparr>zr_placement = \<lparr>zp_zone = z, zp_region = [], zp_zone_id = 1, zp_az_group = 0, zp_is_pod = False\<rparr>,
       zr_display = [], zr_disable_image_sync = False, zr_unsupported = []\<rparr>);
       snap = Some (new_zone_snapshot True [row ''CN-A'', row ''cn-a''])
   in snapshot_ids snap = [''CN-A''] \<and> map_option zp_zone (zone_placement_of snap ''CN-A'') = Some ''cn-a''"
  by code_simp

end
