(* ===== verification/Planner.thy ===== *)
theory Planner
  imports Catalogs WorkflowTypes
begin

text \<open>
  Pure parts of a deployment: the arguments of a capacity probe and of a purchase
  (\<open>deployment/planner.go\<close>), the disks a catalog allows (\<open>deployment/disks.go\<close>), the answer of a
  capacity probe (\<open>workflow/capacity_specs.go\<close>) and the legal specs of a GPU
  (\<open>workflow/create_instance.go\<close>).
\<close>

section \<open>Capacity and purchase arguments\<close>

record deployment_draft =
  dd_zone :: string
  dd_gpu_type :: string
  dd_image_id :: string
  dd_charge_type :: string
  dd_disks :: "gval list"
  dd_min_cpu_platform :: string

definition normalize_charge_type :: "string \<Rightarrow> string" where
  "normalize_charge_type ct = (if trim_space ct \<in> {[], ''Dynamic''} then ''Postpay'' else ct)"

definition minimal_cpu_platform :: "string \<Rightarrow> string" where
  "minimal_cpu_platform v = (let t = trim_space v in if t = [] then ''Auto'' else t)"

definition build_capacity_args :: "deployment_draft \<Rightarrow> gmap" where
  "build_capacity_args d =
     [(''Zone'', GStr (dd_zone d)), (''GpuType'', GStr (dd_gpu_type d)), (''MachineType'', GStr ''G''),
      (''MinimalCpuPlatform'', GStr (minimal_cpu_platform (dd_min_cpu_platform d))),
      (''CompShareImageId'', GStr (dd_image_id d)), (''ChargeType'', GStr (normalize_charge_type (dd_charge_type d)))] @
     (if dd_disks d = [] then [] else [(''Disks'', GList (dd_disks d))])"

definition put_text :: "string \<Rightarrow> string \<Rightarrow> gmap \<Rightarrow> gmap" where
  "put_text k v m = (if v = [] then m else mput k (GStr v) m)"

definition put_id :: "string \<Rightarrow> 32 word \<Rightarrow> gmap \<Rightarrow> gmap" where
  "put_id k w m = (if w = 0 then m else mput k (GUint32 w) m)"

definition apply_capacity_placement_args :: "gmap \<Rightarrow> zone_placement \<Rightarrow> gmap" where
  "apply_capacity_placement_args args p =
     (if zp_is_pod p
      then put_id ''zone_id'' (zp_zone_id p)
        (mput ''IsPod'' (GBool True) (mdel ''az_group'' (mdel ''Region'' (mdel ''Zone'' args))))
      else put_id ''zone_id'' (zp_zone_id p)
        (put_text ''Region'' (zp_region p) (put_text ''Zone'' (zp_zone p) (mdel ''IsPod'' args))))"

definition apply_purchase_placement_args :: "gmap \<Rightarrow> zone_placement \<Rightarrow> gmap" where
  "apply_purchase_placement_args args p =
     put_id ''az_group'' (zp_az_group p) (put_id ''zone_id'' (zp_zone_id p)
       (put_text ''Region'' (zp_region p) (put_text ''Zone'' (zp_zone p)
         (if zp_is_pod p then mput ''IsPod'' (GBool True) args else mdel ''IsPod'' args))))"

datatype failure_kind = FailureUnknown | FailureImageZoneNotAdapted | FailureCapacityNotEnough

definition classify_create_failure :: "string \<Rightarrow> failure_kind \<times> bool" where
  "classify_create_failure msg =
     (let lower = to_lower msg in
      if contains_text lower ''adaptive uhost image id is empty'' then (FailureImageZoneNotAdapted, True)
      else if contains_text lower ''resourcenotenough'' \<or> contains_text lower ''resource not enough''
      then (FailureCapacityNotEnough, True) else (FailureUnknown, False))"

section \<open>The answer of a capacity probe\<close>

record capacity_spec =
  cs_gpu :: int
  cs_cpu :: int
  cs_mem_gb :: int
  cs_enough :: bool

definition capacity_int :: "gval \<Rightarrow> int option" where
  "capacity_int v = (case v of
       GFloat x \<Rightarrow> Some (int64_of_float x) | GFloat32 x \<Rightarrow> Some (int64_of_float x)
     | GInt n \<Rightarrow> Some n | GInt64 n \<Rightarrow> Some n | _ \<Rightarrow> None)"

definition capacity_bool :: "gval \<Rightarrow> bool" where
  "capacity_bool v = (case v of GBool b \<Rightarrow> b | GStr s \<Rightarrow> s = ''true'' \<or> s = ''True'' | _ \<Rightarrow> False)"

definition capacity_row :: "gmap \<Rightarrow> capacity_spec option" where
  "capacity_row m = (case (capacity_int (mval m ''Gpu''), capacity_int (mval m ''Cpu''), capacity_int (mval m ''Mem'')) of
       (Some g, Some c, Some k) \<Rightarrow>
         Some \<lparr>cs_gpu = g, cs_cpu = c, cs_mem_gb = k, cs_enough = capacity_bool (mval m ''ResourceEnough'')\<rparr>
     | _ \<Rightarrow> None)"

definition parse_capacity_specs :: "gmap \<Rightarrow> capacity_spec list" where
  "parse_capacity_specs result = (case mval result ''Specs'' of
       GList rows \<Rightarrow> List.map_filter capacity_row (List.map_filter as_map rows) | _ \<Rightarrow> [])"

definition capacity_has_signal :: "capacity_spec list \<Rightarrow> bool" where
  "capacity_has_signal specs \<longleftrightarrow> specs \<noteq> []"

definition capacity_creatable :: "capacity_spec list \<Rightarrow> bool" where
  "capacity_creatable specs = list_ex cs_enough specs"

definition capacity_gpu_count_enough :: "capacity_spec list \<Rightarrow> int \<Rightarrow> bool" where
  "capacity_gpu_count_enough specs n = list_ex (\<lambda>s. cs_gpu s = n \<and> cs_enough s) specs"

definition capacity_knows_gpu_count :: "capacity_spec list \<Rightarrow> int \<Rightarrow> bool" where
  "capacity_knows_gpu_count specs n = list_ex (\<lambda>s. cs_gpu s = n) specs"

definition capacity_combo :: "int \<Rightarrow> int \<Rightarrow> int \<Rightarrow> capacity_spec \<Rightarrow> bool" where
  "capacity_combo g c k s \<longleftrightarrow> cs_gpu s = g \<and> cs_cpu s = c \<and> cs_mem_gb s = k"

definition capacity_cpu_mem_enough :: "capacity_spec list \<Rightarrow> int \<Rightarrow> int \<Rightarrow> int \<Rightarrow> bool" where
  "capacity_cpu_mem_enough specs g c k =
     (case find (capacity_combo g c k) specs of Some s \<Rightarrow> cs_enough s | None \<Rightarrow> False)"

definition capacity_knows_combo :: "capacity_spec list \<Rightarrow> int \<Rightarrow> int \<Rightarrow> int \<Rightarrow> bool" where
  "capacity_knows_combo specs g c k = list_ex (capacity_combo g c k) specs"

section \<open>Legal specs\<close>

record spec_candidate =
  sc_cpu :: gfloat
  sc_memory_mb :: gfloat

definition as_float64 :: "gval \<Rightarrow> gfloat" where
  "as_float64 v = (case v of GFloat x \<Rightarrow> x | _ \<Rightarrow> Fin 0)"

definition as_items :: "gval \<Rightarrow> gval list" where
  "as_items v = (case v of GList xs \<Rightarrow> xs | _ \<Rightarrow> [])"

text \<open>An item that is no object reads as the empty one.\<close>

definition as_object :: "gval \<Rightarrow> gmap" where
  "as_object v = (case v of GMap m \<Rightarrow> m | _ \<Rightarrow> [])"

fun flt_times :: "rat \<Rightarrow> gfloat \<Rightarrow> gfloat" where
  "flt_times k (Fin r) = Fin (k * r)"
| "flt_times k x = x"

definition collection_candidates :: "gmap \<Rightarrow> spec_candidate list" where
  "collection_candidates col =
     (let cpu = as_float64 (mval col ''Cpu'') in
      if flt_eq cpu (Fin 0) then []
      else List.map_filter (\<lambda>m. let gb = as_float64 m in
          if flt_less (Fin 0) gb then Some \<lparr>sc_cpu = cpu, sc_memory_mb = flt_times 1024 gb\<rparr> else None)
        (as_items (mval col ''Memory'')))"

definition list_spec_candidates :: "gmap \<Rightarrow> string \<Rightarrow> gfloat \<Rightarrow> string \<Rightarrow> spec_candidate list" where
  "list_spec_candidates result gpu_type gpu_count target_zone =
     (let zone = trim_space target_zone in
      if zone = [] then []
      else concat (map (\<lambda>t. let mt = as_object t; entry_zone = as_str (mval mt ''Zone'') in
          if as_str (mval mt ''Name'') \<noteq> gpu_type \<or> trim_space entry_zone = [] \<or> \<not> equal_fold entry_zone zone then []
          else concat (map (\<lambda>s. let size = as_object s in
              if \<not> flt_eq (as_float64 (mval size ''Gpu'')) gpu_count then []
              else concat (map (\<lambda>c. collection_candidates (as_object c)) (as_items (mval size ''Collection''))))
            (as_items (mval mt ''MachineSizes''))))
        (as_items (mval result ''AvailableInstanceTypes''))))"

section \<open>Disks\<close>

text \<open>\<open>uint32\<close> of a float64: truncation to 64 bits, of which the low 32 are kept, as on amd64.\<close>

definition uint32_of_float :: "gfloat \<Rightarrow> 32 word" where
  "uint32_of_float x = word_of_int (int64_of_float x)"

text \<open>The value and whether it is positive.\<close>

definition positive_float_any :: "gval \<Rightarrow> gfloat \<times> bool" where
  "positive_float_any v =
     (let num = (\<lambda>x. (x, flt_less (Fin 0) x)) in
      case v of
        GFloat x \<Rightarrow> num x
      | GFloat32 x \<Rightarrow> num x
      | GInt n \<Rightarrow> num (Fin (of_int n))
      | GInt64 n \<Rightarrow> num (Fin (of_int n))
      | GUint32 w \<Rightarrow> num (Fin (of_int (uint w)))
      | GUint64 w \<Rightarrow> num (Fin (of_int (uint w)))
      | GStr s \<Rightarrow> (case parse_float (trim_space s) of Some x \<Rightarrow> num x | None \<Rightarrow> (Fin 0, False))
      | _ \<Rightarrow> (Fin 0, False))"

definition ceil_mb_to_gb :: "gval \<Rightarrow> 32 word" where
  "ceil_mb_to_gb v = (case positive_float_any v of
       (x, False) \<Rightarrow> 0
     | (x, True) \<Rightarrow>
         (let gb = flt_times (1 / 1024) x; out = uint32_of_float gb;
              up = (if flt_less (Fin (of_int (uint out))) gb then out + 1 else out)
          in if up = 0 then 1 else up))"

definition object_rows :: "gval \<Rightarrow> gmap list" where
  "object_rows v = List.map_filter as_map (as_items v)"

definition named_image :: "string \<Rightarrow> gmap \<Rightarrow> bool" where
  "named_image i m \<longleftrightarrow> mval m ''CompShareImageId'' = GStr i"

definition image_map_by_id :: "gmap \<Rightarrow> string \<Rightarrow> gmap option" where
  "image_map_by_id images i =
     (if i = [] then None
      else case mval images ''CompshareImageGroup'' of
        GList groups \<Rightarrow> find (named_image i) (concat (map (\<lambda>g. object_rows (mval g ''Data'')) (List.map_filter as_map groups)))
      | _ \<Rightarrow> find (named_image i) (object_rows (mval images ''ImageSet'')))"

definition image_size_gb :: "gmap \<Rightarrow> string \<Rightarrow> 32 word" where
  "image_size_gb images i = (case image_map_by_id images i of
       None \<Rightarrow> 0
     | Some img \<Rightarrow> (let a = ceil_mb_to_gb (mval img ''Size'') in
         if a \<noteq> 0 then a else ceil_mb_to_gb (mval img ''ImageSize'')))"

text \<open>The row of a GPU and zone, or the first row of the GPU.\<close>

definition catalog_entry :: "gmap \<Rightarrow> string \<Rightarrow> string \<Rightarrow> gmap option" where
  "catalog_entry catalog gpu_type zone =
     (let rows = filter (\<lambda>e. as_str (mval e ''Name'') = gpu_type) (object_rows (mval catalog ''AvailableInstanceTypes''));
          matches = (\<lambda>e. let z = as_str (mval e ''Zone'') in zone = [] \<or> z = [] \<or> equal_fold z zone)
      in if gpu_type = [] then None
         else case find matches rows of
           Some e \<Rightarrow> Some e
         | None \<Rightarrow> (case rows of [] \<Rightarrow> None | e # _ \<Rightarrow> Some e))"

definition boot_rows :: "gmap \<Rightarrow> gmap list" where
  "boot_rows entry = concat (map (\<lambda>d. object_rows (mval d ''BootDisk'')) (object_rows (mval entry ''Disks'')))"

definition boot_name :: "gmap \<Rightarrow> string option" where
  "boot_name boot =
     (let n = trim_space (as_str (mval boot ''Name'')); t = trim_space (as_str (mval boot ''Type'')) in
      if n \<noteq> [] then Some n else if t \<noteq> [] then Some t else None)"

definition catalog_boot_disk_type :: "gmap \<Rightarrow> string \<Rightarrow> string \<Rightarrow> string" where
  "catalog_boot_disk_type catalog gpu_type zone = (case catalog_entry catalog gpu_type zone of
       None \<Rightarrow> []
     | Some e \<Rightarrow> (case List.map_filter boot_name (boot_rows e) of [] \<Rightarrow> [] | n # _ \<Rightarrow> n))"

definition boot_minimum :: "gmap \<Rightarrow> 32 word option" where
  "boot_minimum boot =
     (case filter snd (map (\<lambda>k. positive_float_any (mval boot k)) [''MinimalSize'', ''MinSize'', ''Size'']) of
        [] \<Rightarrow> None | p # _ \<Rightarrow> Some (uint32_of_float (fst p)))"

definition catalog_boot_disk_min_gb :: "gmap \<Rightarrow> string \<Rightarrow> string \<Rightarrow> 32 word" where
  "catalog_boot_disk_min_gb catalog gpu_type zone = (case catalog_entry catalog gpu_type zone of
       None \<Rightarrow> 0
     | Some e \<Rightarrow> (case List.map_filter boot_minimum (boot_rows e) of [] \<Rightarrow> 0 | n # _ \<Rightarrow> n))"

definition resolve_boot_disk :: "gmap \<Rightarrow> gmap \<Rightarrow> string \<Rightarrow> string \<Rightarrow> string \<Rightarrow> 32 word \<Rightarrow> gval list" where
  "resolve_boot_disk images catalog image_id gpu_type zone requested =
     (let size = max (max requested (image_size_gb images image_id)) (catalog_boot_disk_min_gb catalog gpu_type zone);
          ty = catalog_boot_disk_type catalog gpu_type zone
      in if size = 0 \<or> ty = [] then []
         else [GMap [(''IsBoot'', GBool True), (''Type'', GStr ty), (''Size'', GUint32 size)]])"

record data_disk_range =
  dr_type :: string
  dr_minimum_gb :: "32 word"
  dr_maximum_gb :: "32 word"

definition catalog_data_disk_range :: "gmap \<Rightarrow> string \<Rightarrow> string \<Rightarrow> string \<Rightarrow> data_disk_range option" where
  "catalog_data_disk_range catalog gpu_type zone disk_type =
     (if gpu_type = [] \<or> zone = [] \<or> disk_type = [] then None
      else case find (\<lambda>e. equal_fold (as_str (mval e ''Name'')) gpu_type \<and> equal_fold (as_str (mval e ''Zone'')) zone)
          (object_rows (mval catalog ''AvailableInstanceTypes'')) of
        None \<Rightarrow> None
      | Some e \<Rightarrow>
          map_option (\<lambda>d. \<lparr>dr_type = trim_space (as_str (mval d ''Name'')),
              dr_minimum_gb = uint32_of_float (fst (positive_float_any (mval d ''MinimalSize''))),
              dr_maximum_gb = uint32_of_float (fst (positive_float_any (mval d ''MaximalSize'')))\<rparr>)
            (find (\<lambda>d. equal_fold (trim_space (as_str (mval d ''Name''))) disk_type)
              (concat (map (\<lambda>d. object_rows (mval d ''DataDisk'')) (object_rows (mval e ''Disks''))))))"

end
