(* ===== verification/GoFmt.thy ===== *)
theory GoFmt
  imports GoText
begin

text \<open>
  How Go prints numbers and dynamic values: \<open>strconv.Itoa\<close>, \<open>strconv.FormatFloat(x, 'f', -1, 64)\<close>
  and the verbs \<open>%v\<close>, \<open>%.2f\<close>, \<open>%.0f\<close> of \<open>fmt\<close>; and \<open>strconv.ParseBool\<close>. A finite float is an exact rational here, so the shortest decimal
  that reads back as the value is its own decimal expansion; an expansion that does not end,
  which no decimal input has, is cut after 1100 places (a float64 has at most 1074).
\<close>

fun nat_text :: "nat \<Rightarrow> string" where
  "nat_text n = (if n < 10 then [char_of (48 + n)] else nat_text (n div 10) @ [char_of (48 + n mod 10)])"

declare nat_text.simps [simp del]

definition int_text :: "int \<Rightarrow> string" where
  "int_text n = (if n < 0 then CHR ''-'' # nat_text (nat (- n)) else nat_text (nat n))"

text \<open>The same on integers, for evaluation.\<close>

fun int_digits :: "int \<Rightarrow> string" where
  "int_digits n = (if n < 10 then [char_of (48 + nat n)] else int_digits (n div 10) @ [char_of (48 + nat (n mod 10))])"

declare int_digits.simps [simp del]

lemma nat_text_nat: "0 \<le> n \<Longrightarrow> nat_text (nat n) = int_digits n"
proof (induction n rule: int_digits.induct)
  case (1 n)
  show ?case
  proof (cases "n < 10")
    case True
    then have "nat n < 10" by simp
    with True show ?thesis by (subst nat_text.simps, subst int_digits.simps) simp
  next
    case False
    have "nat n div 10 = nat (n div 10)" "nat n mod 10 = nat (n mod 10)" "\<not> nat n < 10" "0 \<le> n div 10"
      using 1(2) False by (simp_all add: nat_div_distrib nat_mod_distrib)
    with False 1 show ?thesis by (subst nat_text.simps, subst int_digits.simps) simp
  qed
qed

lemma int_text_code [code]: "int_text n = (if n < 0 then CHR ''-'' # int_digits (- n) else int_digits n)"
  by (simp add: int_text_def nat_text_nat)

text \<open>The number of decimal places of a non-negative rational.\<close>

fun decimal_places :: "nat \<Rightarrow> rat \<Rightarrow> nat" where
  "decimal_places 0 r = 0"
| "decimal_places (Suc n) r = (if r = of_int \<lfloor>r\<rfloor> then 0 else Suc (decimal_places n (10 * r)))"

definition pad_zeros :: "nat \<Rightarrow> string \<Rightarrow> string" where
  "pad_zeros n s = replicate (n - length s) (CHR ''0'') @ s"

definition decimal_text :: "rat \<Rightarrow> string" where
  "decimal_text r =
     (let k = decimal_places 1100 r; digits = pad_zeros (Suc k) (nat_text (nat \<lfloor>r * 10 ^ k\<rfloor>)); n = length digits - k
      in if k = 0 then digits else take n digits @ ''.'' @ drop n digits)"

text \<open>The decimal exponent of a positive rational.\<close>

fun small_exponent :: "nat \<Rightarrow> rat \<Rightarrow> nat" where
  "small_exponent 0 r = 0"
| "small_exponent (Suc n) r = (if 1 \<le> r then 0 else Suc (small_exponent n (10 * r)))"

definition decimal_exponent :: "rat \<Rightarrow> int" where
  "decimal_exponent r =
     (if 1 \<le> r then int (length (nat_text (nat \<lfloor>r\<rfloor>))) - 1 else - int (small_exponent 400 r))"

definition exponent_text :: "rat \<Rightarrow> string" where
  "exponent_text r =
     (let e = decimal_exponent r in
      decimal_text (if 0 \<le> e then r / 10 ^ nat e else r * 10 ^ nat (- e)) @ ''e'' @
      (if e < 0 then ''-'' else ''+'') @ pad_zeros 2 (nat_text (nat \<bar>e\<bar>)))"

definition signed_text :: "(rat \<Rightarrow> string) \<Rightarrow> rat \<Rightarrow> string" where
  "signed_text f r = (if r < 0 then CHR ''-'' # f (- r) else f r)"

text \<open>\<open>FormatFloat\<close> with \<open>'f'\<close>, and \<open>%v\<close>, which is \<open>%g\<close> with the exponent from 21 digits on.\<close>

fun float_text_f :: "gfloat \<Rightarrow> string" where
  "float_text_f (Fin r) = signed_text decimal_text r"
| "float_text_f PosInf = ''+Inf''"
| "float_text_f NegInf = ''-Inf''"
| "float_text_f NotANumber = ''NaN''"

fun float_text_v :: "gfloat \<Rightarrow> string" where
  "float_text_v (Fin r) =
     (if r \<noteq> 0 \<and> (decimal_exponent \<bar>r\<bar> < -4 \<or> 21 \<le> decimal_exponent \<bar>r\<bar>) then signed_text exponent_text r
      else signed_text decimal_text r)"
| "float_text_v x = float_text_f x"

text \<open>The verbs \<open>%.2f\<close> and \<open>%.0f\<close>: the value is rounded to the nearest, a tie to the even one.\<close>

definition round_half_even :: "rat \<Rightarrow> int" where
  "round_half_even r =
     (let n = \<lfloor>r\<rfloor>; d = r - of_int n in if d < 1 / 2 \<or> d = 1 / 2 \<and> even n then n else n + 1)"

definition hundredths_text :: "rat \<Rightarrow> string" where
  "hundredths_text r =
     (let digits = pad_zeros 3 (nat_text (nat (round_half_even (100 * r)))); n = length digits - 2
      in take n digits @ ''.'' @ drop n digits)"

fun float_text_2 :: "gfloat \<Rightarrow> string" where
  "float_text_2 (Fin r) = signed_text hundredths_text r"
| "float_text_2 x = float_text_f x"

fun float_text_0 :: "gfloat \<Rightarrow> string" where
  "float_text_0 (Fin r) = signed_text (\<lambda>x. nat_text (nat (round_half_even x))) r"
| "float_text_0 x = float_text_f x"

text \<open>\<open>strconv.ParseBool\<close>.\<close>

definition parse_bool :: "string \<Rightarrow> bool option" where
  "parse_bool s = (if s \<in> {''1'', ''t'', ''T'', ''true'', ''TRUE'', ''True''} then Some True
     else if s \<in> {''0'', ''f'', ''F'', ''false'', ''FALSE'', ''False''} then Some False else None)"

fun sprint :: "gval \<Rightarrow> string" where
  "sprint GNil = ''<nil>''"
| "sprint (GBool b) = (if b then ''true'' else ''false'')"
| "sprint (GInt n) = int_text n"
| "sprint (GInt32 n) = int_text n"
| "sprint (GInt64 n) = int_text n"
| "sprint (GUint32 w) = nat_text (unat w)"
| "sprint (GUint64 w) = nat_text (unat w)"
| "sprint (GFloat x) = float_text_v x"
| "sprint (GFloat32 x) = float_text_v x"
| "sprint (GNumber s) = s"
| "sprint (GStr s) = s"
| "sprint (GStrs ss) = ''['' @ join_with '' '' ss @ '']''"
| "sprint (GList vs) = ''['' @ join_with '' '' (map sprint vs) @ '']''"
| "sprint (GMap m) = ''map['' @ join_with '' ''
     (map (\<lambda>kt. fst kt @ '':'' @ snd kt) (sort_key fst (map (\<lambda>(k, v). (k, sprint v)) m))) @ '']''"

text \<open>A printed number reads back: the digits of a natural number are its digits.\<close>

lemma char_of_digit:
  assumes "d < 10"
  shows "is_digit (char_of (48 + d))" and "digit_val (char_of (48 + d)) = d"
proof -
  have "(of_char (char_of (48 + d) :: char) :: nat) = 48 + d" using assms by simp
  then show "is_digit (char_of (48 + d))" "digit_val (char_of (48 + d)) = d"
    using assms by (simp_all add: is_digit_def digit_val_def Let_def)
qed

lemma digits_val_nat_text: "digits_val 0 (nat_text n) = Some n"
proof (induction n rule: less_induct)
  case (less n)
  show ?case
  proof (cases "n < 10")
    case True
    then show ?thesis by (subst nat_text.simps) (simp add: char_of_digit)
  next
    case False
    then have "digits_val 0 (nat_text (n div 10)) = Some (n div 10)" by (intro less) simp
    with False show ?thesis
      by (subst nat_text.simps) (simp add: digits_val_append char_of_digit)
  qed
qed

lemma nat_text_nonempty [simp]: "nat_text n \<noteq> []"
  by (subst nat_text.simps) simp

lemma parse_uint_nat_text: "n < 2 ^ bits \<Longrightarrow> parse_uint bits (nat_text n) = Some n"
  by (simp add: parse_uint_def digits_val_nat_text)

end
