(* ===== verification/BillingWorkflows.thy ===== *)
theory BillingWorkflows
  imports DiskWorkflows Planner GoFmt
begin

text \<open>
  The workflows that change what an instance is or costs: the switch of the billing mode
  (\<open>workflow/switch_charge_type.go\<close>) and the resize (\<open>workflow/resize_instance.go\<close>). The texts of
  cards and refusals are glosses; the amounts of a price are rendered.
\<close>

section \<open>Prices and labels\<close>

fun flt_plus :: "gfloat \<Rightarrow> gfloat \<Rightarrow> gfloat" where
  "flt_plus (Fin a) (Fin b) = Fin (a + b)"
| "flt_plus NotANumber _ = NotANumber"
| "flt_plus _ NotANumber = NotANumber"
| "flt_plus PosInf NegInf = NotANumber"
| "flt_plus NegInf PosInf = NotANumber"
| "flt_plus PosInf _ = PosInf"
| "flt_plus _ PosInf = PosInf"
| "flt_plus NegInf _ = NegInf"
| "flt_plus _ NegInf = NegInf"

definition charge_period_unit :: "string \<Rightarrow> string" where
  "charge_period_unit ct = (if ct = ''Day'' then ''/day'' else if ct = ''Month'' then ''/month''
     else if ct = ''Year'' then ''/year'' else ''/hour'')"

definition estimated_price_suffix :: string where "estimated_price_suffix = '' (estimated)''"

text \<open>The offered billing modes and their labels.\<close>

definition create_form_charge_types :: "(string \<times> string) list" where
  "create_form_charge_types = [(''Postpay'', ''pay as you go (hourly)''), (''Spot'', ''preemptible''),
     (''Day'', ''by the day''), (''Month'', ''by the month'')]"

definition charge_type_label :: "string \<Rightarrow> string" where
  "charge_type_label ct = (case find (\<lambda>opt. equal_fold (fst opt) ct) create_form_charge_types of
       Some (value, label) \<Rightarrow> label | None \<Rightarrow> ct)"

definition shared_charge_type_label :: "string \<Rightarrow> string" where
  "shared_charge_type_label value =
     (let label = charge_type_label value; t = trim_space value in
      if label \<noteq> t then label
      else if to_lower t = ''dynamic'' then ''by the hour''
      else if to_lower t = ''year'' then ''by the year'' else t)"

text \<open>A parameter read as a boolean.\<close>

definition param_bool :: "gmap \<Rightarrow> string \<Rightarrow> bool \<Rightarrow> bool" where
  "param_bool ps key dflt = (case mget ps key of
       Some (GBool b) \<Rightarrow> b
     | Some (GStr s) \<Rightarrow> (case parse_bool s of Some b \<Rightarrow> b | None \<Rightarrow> dflt)
     | _ \<Rightarrow> dflt)"

text \<open>The disks of an instance, as a capacity or price query wants them: all of them or none.\<close>

definition capacity_disk :: "gval \<Rightarrow> gval res" where
  "capacity_disk raw = (case raw of
       GMap disk \<Rightarrow>
         (let ty = trim_space (as_str (mval disk ''DiskType'')); incomplete = Inl (plain_err ''a disk has no type or size'') in
          case parse_uint32_any (mval disk ''Size'') of
            None \<Rightarrow> incomplete
          | Some sz \<Rightarrow>
              if ty = [] \<or> sz = 0 then incomplete
              else Inr (GMap [(''IsBoot'', GBool (param_bool disk ''IsBoot'' False \<or>
                  equal_fold (trim_space (as_str (mval disk ''Type''))) ''Boot'')),
                (''Type'', GStr ty), (''Size'', GUint32 sz)]))
     | _ \<Rightarrow> Inl (plain_err ''a disk is no object''))"

fun capacity_disks :: "gval list \<Rightarrow> gval list res" where
  "capacity_disks [] = Inr []"
| "capacity_disks (raw # raws) = (case capacity_disk raw of
       Inl e \<Rightarrow> Inl e
     | Inr d \<Rightarrow> (case capacity_disks raws of Inl e \<Rightarrow> Inl e | Inr ds \<Rightarrow> Inr (d # ds)))"

definition resize_capacity_disks :: "gmap \<Rightarrow> gval list res" where
  "resize_capacity_disks host = (case mval host ''DiskSet'' of
       GList raws \<Rightarrow> if raws = [] then Inl (plain_err ''no disks'') else capacity_disks raws
     | _ \<Rightarrow> Inl (plain_err ''no disks''))"

section \<open>Switch the billing mode\<close>

definition q_switch_price :: string where "q_switch_price = ''query the price of the target mode''"
definition q_switch :: string where "q_switch = ''switch the billing mode''"
definition q_switch_readback :: string where "q_switch_readback = ''read back the billing mode''"

definition switch_charge_type_target :: "gmap \<Rightarrow> string res" where
  "switch_charge_type_target ps =
     (let t = trim_space (param_str ps ''DestChargeType'' []) in
      if t \<in> {''Dynamic'', ''Day'', ''Month'', ''Year''} then Inr t
      else Inl (new_missing_slot_error ''choose the target billing mode'' [''dest_charge_type'']))"

definition switch_query_args :: "'r wctx \<Rightarrow> gmap res" where
  "switch_query_args c = (case switch_charge_type_target (ctx_params c) of
       Inl e \<Rightarrow> Inl e | Inr t \<Rightarrow> Inr (instance_query_args (ctx_params c)))"

definition check_switch_charge_type :: "'r check" where
  "check_switch_charge_type result c =
     (let i = trim_space (param_str (ctx_params c) ''UHostId'' []) in
      case (if i = [] then None else narrow_instance_result result i) of
        None \<Rightarrow> ((check_failed ''instance not found'', result), wc_pub c)
      | Some r \<Rightarrow>
          (let host = (case first_instance r of Some h \<Rightarrow> h | None \<Rightarrow> []);
               current = trim_space (as_str (mval host ''ChargeType''));
               fail = (\<lambda>m. ((check_failed m, r), wc_pub c))
           in if \<not> equal_fold (trim_space (as_str (mval host ''State''))) ''Running'' then fail ''the instance must be running''
              else if mval host ''IsSpot'' = GBool True then fail ''a spot instance cannot be switched''
              else if flt_le (first_number_field host [''GPU'', ''Gpu'']) (Fin 0) then fail ''an instance without GPU cannot be switched''
              else if current = [] then fail ''the current billing mode is not known''
              else if \<not> equal_fold current ''Postpay''
              then fail (''only an hourly instance can be switched: '' @ shared_charge_type_label current)
              else ((check_passed, r), set_params (mput ''InitialChargeType'' (GStr current) (ctx_params c)) (wc_pub c))))"

definition switch_price_args :: "'r wctx \<Rightarrow> gmap res" where
  "switch_price_args c = (case switch_charge_type_target (ctx_params c) of
       Inl e \<Rightarrow> Inl e
     | Inr target \<Rightarrow>
         (case first_instance (ctx_result c q_instance) of
            None \<Rightarrow> Inl (plain_err ''no live spec'')
          | Some host \<Rightarrow>
              (case resize_capacity_disks host of
                 Inl _ \<Rightarrow> Inl (plain_err ''the live disks are incomplete'')
               | Inr disks \<Rightarrow>
                   (let gpu_type = trim_space (as_str (mval host ''GpuType''));
                        gpu = first_number_field host [''GPU'', ''Gpu'']; cpu = first_number_field host [''CPU'', ''Cpu''];
                        memory = first_number_field host [''Memory'']
                    in if gpu_type = [] \<or> spec_incomplete (gpu, cpu, memory) then Inl (plain_err ''the live spec is incomplete'')
                       else add_required_pod_placement_args
                         [(''GpuType'', GStr gpu_type), (''GPU'', GFloat gpu), (''CPU'', GFloat cpu), (''Memory'', GFloat memory),
                          (''ChargeType'', GStr target), (''Disks'', GList disks)]
                         (ctx_result c q_instance) (ctx_result c q_zones)))))"

text \<open>Of the rows of the target mode, the first price of the instance and of the system disk.\<close>

definition switch_charge_type_price_parts :: "gmap \<Rightarrow> string \<Rightarrow> (gfloat \<times> gfloat) option" where
  "switch_charge_type_price_parts result target =
     (let rows = filter (\<lambda>row. equal_fold (trim_space (as_str (mval row ''ChargeType''))) target)
            (object_rows (mval result ''PriceDetails''));
          first_price = (\<lambda>k. case List.map_filter (\<lambda>row. price_number (mval row k)) rows of [] \<Rightarrow> None | x # _ \<Rightarrow> Some x)
      in case (first_price ''Instance'', first_price ''SystemDisks'') of
           (Some x, Some y) \<Rightarrow> Some (x, y) | _ \<Rightarrow> None)"

definition check_switch_price :: "'r check" where
  "check_switch_price result c =
     ((case switch_charge_type_target (ctx_params c) of
         Inl e \<Rightarrow> check_failed (err_text e)
       | Inr target \<Rightarrow> if switch_charge_type_price_parts result target = None then check_failed ''no price of the target mode''
           else check_passed, result), wc_pub c)"

definition switch_charge_type_price_text :: "gfloat \<Rightarrow> string \<Rightarrow> string" where
  "switch_charge_type_price_text amount ct =
     ''CNY '' @ float_text_2 amount @ charge_period_unit ct @ estimated_price_suffix"

definition switch_card :: "'r wctx \<Rightarrow> gmap res" where
  "switch_card c = (case switch_charge_type_target (ctx_params c) of
       Inl e \<Rightarrow> Inl e
     | Inr target \<Rightarrow>
         (case switch_charge_type_price_parts (ctx_result c q_switch_price) target of
            None \<Rightarrow> Inl (plain_err ''no price of the target mode'')
          | Some (inst, disk) \<Rightarrow>
              (let queried = ctx_result c q_instance;
                   current = trim_space (param_str (ctx_params c) ''InitialChargeType'' [])
               in Inr (mput ''warning'' (GStr (if is_pod_instance_result queried
                      then ''the instance and its cloud storage change their billing''
                      else ''the instance and its system disk change their billing''))
                  (mdel ''ChargeType''
                  (mput ''total price'' (GStr (switch_charge_type_price_text (flt_plus inst disk) target))
                  (mput ''system disk price'' (GStr (switch_charge_type_price_text disk target))
                  (mput ''instance price'' (GStr (switch_charge_type_price_text inst target))
                  (mput ''billing change'' (GStr (shared_charge_type_label current @ '' -> '' @ shared_charge_type_label target))
                  (extract_instance_summary queried))))))))))"

definition switch_args :: "'r wctx \<Rightarrow> gmap res" where
  "switch_args c = (case switch_charge_type_target (ctx_params c) of
       Inl e \<Rightarrow> Inl e
     | Inr target \<Rightarrow> add_required_pod_placement_args
         [(''UHostId'', mval (ctx_params c) ''UHostId''), (''DestChargeType'', GStr target)]
         (ctx_result c q_instance) (ctx_result c q_zones))"

definition check_switch_readback :: "'r check" where
  "check_switch_readback result c =
     ((case narrow_instance_result result (param_str (ctx_params c) ''UHostId'' []) of
         Some r \<Rightarrow> (check_passed, r) | None \<Rightarrow> (check_failed ''the instance could not be read back'', result)), wc_pub c)"

definition switch_charge_type_result_data :: "'r wctx \<Rightarrow> gmap option" where
  "switch_charge_type_result_data c =
     (let target = (case switch_charge_type_target (ctx_params c) of Inl _ \<Rightarrow> [] | Inr t \<Rightarrow> t);
          data = [(''UHostId'', mval (ctx_params c) ''UHostId''),
            (''PreviousChargeType'', GStr (param_str (ctx_params c) ''InitialChargeType'' [])), (''TargetChargeType'', GStr target)]
      in Some (case first_instance (ctx_result c q_switch_readback) of
           None \<Rightarrow> data @ [(''ReadbackAvailable'', GBool False), (''Verified'', GBool False)]
         | Some host \<Rightarrow>
             (let seen = trim_space (as_str (mval host ''ChargeType'')) in
              data @ [(''ReadbackAvailable'', GBool True), (''ObservedChargeType'', GStr seen),
                (''Verified'', GBool (seen \<noteq> [] \<and> equal_fold seen target))])))"

definition switch_charge_type_workflow :: "'r definition_" where
  "switch_charge_type_workflow = (plain_definition ''SwitchChargeTypeWorkflow''
     [tool_step q_instance ''DescribeCompShareInstance'' (reads switch_query_args) (Some check_switch_charge_type),
      step_query_support_zones,
      tool_step q_switch_price ''GetCompShareInstanceUserPrice'' (reads switch_price_args) (Some check_switch_price),
      confirm_step ''confirm billing mode'' (reads switch_card),
      tool_step q_switch ''SwitchChargeType'' (reads switch_args) None,
      (tool_step q_switch_readback ''DescribeCompShareInstance''
         (reads (\<lambda>c. Inr (instance_query_args (ctx_params c)))) (Some check_switch_readback))\<lparr>st_optional := True\<rparr>])
     \<lparr>def_result_data := Some switch_charge_type_result_data\<rparr>"

section \<open>Resize\<close>

definition q_specs :: string where "q_specs = ''query legal specs''"
definition q_resize_price :: string where "q_resize_price = ''query the resize price''"

definition resize_query_args :: "'r wctx \<Rightarrow> gmap res" where
  "resize_query_args c =
     (if \<not> mhas (ctx_params c) ''Cpu'' \<and> \<not> mhas (ctx_params c) ''Gpu'' \<and> \<not> mhas (ctx_params c) ''Memory''
      then Inl (new_missing_slot_error ''a resize names a CPU, a GPU count or a memory'' [''cpu'', ''memory_gb'', ''gpu_count''])
      else Inr (instance_query_args (ctx_params c)))"

definition resize_has_effective_spec_change :: "gmap \<Rightarrow> gmap \<Rightarrow> bool" where
  "resize_has_effective_spec_change ps result = (case first_instance result of
       None \<Rightarrow> True
     | Some host \<Rightarrow> list_ex (\<lambda>(p, h). case price_number (mval ps p) of
           None \<Rightarrow> False
         | Some target \<Rightarrow> (case price_number (mval host h) of
               None \<Rightarrow> True | Some current \<Rightarrow> \<not> flt_eq target current))
         [(''Cpu'', ''CPU''), (''Gpu'', ''GPU''), (''Memory'', ''Memory'')])"

definition check_resize_query :: "'r check" where
  "check_resize_query result c =
     (let state = extract_instance_state result; fail = (\<lambda>m. ((check_failed m, result), wc_pub c)) in
      if state = ''Stopped'' then
        (if \<not> resize_has_effective_spec_change (ctx_params c) result then fail ''the spec would not change''
         else ((check_passed, result), case first_instance result of
             None \<Rightarrow> wc_pub c
           | Some host \<Rightarrow> set_params (mput ''ResizeInitialMemory'' (mval host ''Memory'')
               (mput ''ResizeInitialGPU'' (mval host ''GPU'') (mput ''ResizeInitialCPU'' (mval host ''CPU'') (ctx_params c))))
               (wc_pub c)))
      else if state = [] then fail ''instance not found''
      else if state = ''Running'' then fail ''stop the instance first''
      else if state = ''Stopping'' then fail ''the instance is stopping''
      else fail (''only a stopped instance can be resized: '' @ state))"

definition resize_current_gpu_type :: "gmap \<Rightarrow> string" where
  "resize_current_gpu_type result = (case first_instance result of
       None \<Rightarrow> [] | Some host \<Rightarrow> as_str (mval host ''GpuType''))"

definition resize_specs_args :: "'r wctx \<Rightarrow> gmap res" where
  "resize_specs_args c =
     (case extract_required_instance_location (ctx_result c q_instance) (ctx_result c q_zones) of
        Inl e \<Rightarrow> Inl e
      | Inr (region, zone) \<Rightarrow>
          (let t = resize_current_gpu_type (ctx_result c q_instance) in
           Inr ([(''Region'', GStr region), (''Zone'', GStr zone)] @
             (if t = [] then [] else [(''MachineTypes'', GList [GStr t])]))))"

definition resize_target_number :: "gmap \<Rightarrow> gmap \<Rightarrow> string \<Rightarrow> string \<Rightarrow> gfloat" where
  "resize_target_number ps host param_key host_key =
     (if mhas ps param_key then param_num ps param_key (Fin 0)
      else case price_number (mval host host_key) of Some x \<Rightarrow> x | None \<Rightarrow> Fin 0)"

definition validate_resize_target_spec :: "'r check" where
  "validate_resize_target_spec catalog c =
     (let fail = (\<lambda>m. ((check_failed m, catalog), wc_pub c)); ps = ctx_params c in
      case first_instance (ctx_result c q_instance) of
        None \<Rightarrow> fail ''instance not found''
      | Some host \<Rightarrow>
          (let gpu_type = as_str (mval host ''GpuType''); gpu = resize_target_number ps host ''Gpu'' ''GPU'';
               cpu = resize_target_number ps host ''Cpu'' ''CPU''; memory = resize_target_number ps host ''Memory'' ''Memory'';
               candidates = list_spec_candidates catalog gpu_type gpu (as_str (mval host ''Zone''))
           in if gpu_type = [] then fail ''the GPU of the instance is not known''
              else if flt_eq gpu (Fin 0) \<or> flt_eq cpu (Fin 0) \<or> flt_eq memory (Fin 0) then fail ''the target is incomplete''
              else if candidates = [] then fail ''no legal spec of that GPU count''
              else if list_ex (\<lambda>s. flt_eq (sc_cpu s) cpu \<and> flt_eq (sc_memory_mb s) memory) candidates
              then ((check_passed, catalog), set_params (mput ''ResolvedResizeMemory'' (GFloat memory)
                (mput ''ResolvedResizeGPU'' (GFloat gpu) (mput ''ResolvedResizeCPU'' (GFloat cpu) ps))) (wc_pub c))
              else fail ''the target is no legal spec''))"

definition resolved_resize_target :: "gmap \<Rightarrow> (gval \<times> gval \<times> gval) res" where
  "resolved_resize_target ps =
     (case (mget ps ''ResolvedResizeCPU'', mget ps ''ResolvedResizeGPU'', mget ps ''ResolvedResizeMemory'') of
        (Some c, Some g, Some m) \<Rightarrow> Inr (c, g, m) | _ \<Rightarrow> Inl (plain_err ''no complete target spec''))"

definition resize_capacity_args :: "'r wctx \<Rightarrow> gmap res" where
  "resize_capacity_args c =
     (let queried = ctx_result c q_instance; zones = ctx_result c q_zones in
      case first_instance queried of
        None \<Rightarrow> Inl (plain_err ''instance not found'')
      | Some host \<Rightarrow>
          (let text = (\<lambda>k. trim_space (as_str (mval host k)));
               charge_type = (if param_bool host ''IsSpot'' False then ''Spot'' else text ''ChargeType'')
           in if list_ex (\<lambda>k. text k = [])
                [''UHostId'', ''GpuType'', ''MachineType'', ''CpuPlatform'', ''CompShareImageId'', ''ChargeType'']
              then Inl (plain_err ''the instance lacks what a capacity check needs'')
              else case resize_capacity_disks host of
                Inl e \<Rightarrow> Inl e
              | Inr disks \<Rightarrow> (case extract_required_instance_location queried zones of
                    Inl e \<Rightarrow> Inl e
                  | Inr (region, zone) \<Rightarrow>
                      (let pod = is_pod_instance_result queried;
                           seen = support_zone_placement_for_zone zones zone;
                           placement = \<lparr>zp_zone = zone, zp_region = region,
                             zp_zone_id = (case seen of Some p \<Rightarrow> sz_zone_id p | None \<Rightarrow> 0),
                             zp_az_group = (case seen of Some p \<Rightarrow> sz_az_group p | None \<Rightarrow> 0), zp_is_pod = pod\<rparr>
                       in if pod \<and> zp_zone_id placement = 0 then Inl (plain_err ''no internal zone id'')
                          else Inr (apply_capacity_placement_args
                            (mput ''MachineType'' (GStr (text ''MachineType'')) (mput ''UHostId'' (GStr (text ''UHostId''))
                            (mput ''ChargeType'' (GStr charge_type) (build_capacity_args
                              \<lparr>dd_zone = zone, dd_gpu_type = text ''GpuType'', dd_image_id = text ''CompShareImageId'',
                               dd_charge_type = charge_type, dd_disks = disks,
                               dd_min_cpu_platform = text ''CpuPlatform''\<rparr>)))) placement)))))"

definition resize_capacity_outcome :: "gmap \<Rightarrow> gmap \<Rightarrow> check_outcome" where
  "resize_capacity_outcome ps result = (case resolved_resize_target ps of
       Inl e \<Rightarrow> check_failed (err_text e)
     | Inr (cv, gv, mv) \<Rightarrow>
         (case (capacity_int cv, capacity_int gv, capacity_int mv) of
            (Some cpu, Some gpu, Some mb) \<Rightarrow>
              if cpu \<le> 0 \<or> gpu \<le> 0 \<or> mb \<le> 0 \<or> mb mod 1024 \<noteq> 0 then check_failed ''no complete target spec''
              else (let specs = parse_capacity_specs result in
                if \<not> capacity_has_signal specs then check_failed ''the capacity check returned no spec''
                else case find (capacity_combo gpu cpu (mb div 1024)) specs of
                  Some s \<Rightarrow> if cs_enough s then check_passed
                    else check_failed_because reason_capacity_sold_out ''the target spec is sold out''
                | None \<Rightarrow> check_failed ''the capacity check did not return the target spec'')
          | _ \<Rightarrow> check_failed ''no complete target spec''))"

definition check_resize_capacity :: "'r check" where
  "check_resize_capacity result c = ((resize_capacity_outcome (ctx_params c) result, result), wc_pub c)"

text \<open>The arguments of the price query and of the write; they differ in the case of two keys.\<close>

definition resize_args :: "string \<Rightarrow> string \<Rightarrow> 'r wctx \<Rightarrow> gmap res" where
  "resize_args cpu_key gpu_key c = (case resolved_resize_target (ctx_params c) of
       Inl e \<Rightarrow> Inl e
     | Inr (cpu, gpu, memory) \<Rightarrow> add_required_pod_placement_args
         [(''UHostId'', mval (ctx_params c) ''UHostId''), (cpu_key, cpu), (gpu_key, gpu), (''Memory'', memory)]
         (ctx_result c q_instance) (ctx_result c q_zones))"

definition resize_card :: "'r wctx \<Rightarrow> gmap res" where
  "resize_card c = (case resolved_resize_target (ctx_params c) of
       Inl e \<Rightarrow> Inl e
     | Inr (cpu, gpu, memory) \<Rightarrow>
         (case required_price_field (ctx_result c q_resize_price) ''Price'' of
            Inl e \<Rightarrow> Inl e
          | Inr price \<Rightarrow> Inr (mput ''warning'' (GStr ''a resize changes CPU, GPU and memory and may change the billing'')
              (mput ''price_delta'' (GFloat price) (mput ''target_memory'' memory (mput ''target_gpu'' gpu
              (mput ''target_cpu'' cpu (extract_instance_summary (ctx_result c q_instance)))))))))"

definition resize_instance_workflow :: "'r definition_" where
  "resize_instance_workflow = plain_definition ''ResizeInstanceWorkflow''
     [tool_step q_instance ''DescribeCompShareInstance'' (reads resize_query_args) (Some check_resize_query),
      step_query_support_zones,
      tool_step q_specs ''DescribeAvailableCompShareInstanceTypes'' (reads resize_specs_args) (Some validate_resize_target_spec),
      tool_step ''check capacity'' ''CheckCompShareResourceCapacity'' (reads resize_capacity_args) (Some check_resize_capacity),
      tool_step q_resize_price ''GetCompShareInstanceUpgradePrice'' (reads (resize_args ''CPU'' ''GPU'')) None,
      confirm_step ''confirm resize'' (reads resize_card),
      tool_step ''resize'' ''ResizeCompShareInstance'' (reads (resize_args ''Cpu'' ''Gpu'')) None]"

end
