(* ===== verification/BillingProps.thy ===== *)
theory BillingProps
  imports GatedWrites BillingWorkflows
begin

text \<open>
  What the workflows that change the spec or the billing mode of an instance have checked when they
  write, and that the card showed what is sent.
\<close>

section \<open>Resize\<close>

text \<open>
  The stopped instance was read, the target is the request completed with its current spec, it is a
  row of the live list of legal specs and a row of the live capacity with stock, and the card and the
  write carry this target.
\<close>

definition resize_checked :: "'w env \<Rightarrow> gmap \<Rightarrow> gmap \<Rightarrow> gmap \<Rightarrow> bool" where
  "resize_checked env ps a args \<longleftrightarrow>
     (\<exists>q host. answered env ''DescribeCompShareInstance'' (instance_query_args ps) q \<and>
        extract_instance_state q = ''Stopped'' \<and> first_instance q = Some host \<and>
        (let cpu = resize_target_number ps host ''Cpu'' ''CPU''; gpu = resize_target_number ps host ''Gpu'' ''GPU'';
             memory = resize_target_number ps host ''Memory'' ''Memory''
         in (\<exists>ss catalog s. answered env ''DescribeAvailableCompShareInstanceTypes'' ss catalog \<and>
               s \<in> set (list_spec_candidates catalog (as_str (mval host ''GpuType'')) gpu (as_str (mval host ''Zone''))) \<and>
               flt_eq (sc_cpu s) cpu \<and> flt_eq (sc_memory_mb s) memory) \<and>
            (\<exists>cs cap n g mb s. answered env ''CheckCompShareResourceCapacity'' cs cap \<and>
               capacity_int (GFloat cpu) = Some n \<and> capacity_int (GFloat gpu) = Some g \<and>
               capacity_int (GFloat memory) = Some mb \<and> s \<in> set (parse_capacity_specs cap) \<and>
               capacity_combo g n (mb div 1024) s \<and> cs_enough s) \<and>
            mget a ''target_cpu'' = Some (GFloat cpu) \<and> mget a ''target_gpu'' = Some (GFloat gpu) \<and>
            mget a ''target_memory'' = Some (GFloat memory) \<and>
            mget args ''Cpu'' = Some (GFloat cpu) \<and> mget args ''Gpu'' = Some (GFloat gpu) \<and>
            mget args ''Memory'' = Some (GFloat memory) \<and> mget args ''UHostId'' = Some (mval ps ''UHostId'')))"

lemma check_resize_query_ok:
  assumes "co_ok (fst (fst (p_hook (check_resize_query q) c)))" and "ctx_params c = ps"
  shows "extract_instance_state q = ''Stopped''" and "snd (fst (p_hook (check_resize_query q) c)) = q"
    and "\<forall>k \<in> {''Cpu'', ''Gpu'', ''Memory'', ''UHostId''}. mget (ctx_params (snd (p_hook (check_resize_query q) c))) k = mget ps k"
    and "\<And>n. ctx_result (snd (p_hook (check_resize_query q) c)) n = ctx_result c n"
  using assms by (auto simp: p_hook_def check_resize_query_def Let_def check_failed_def check_passed_def mget_mput
      ctx_params_def set_params_def ctx_result_def split: if_splits option.splits)

lemma validate_resize_target_ok:
  assumes "co_ok (fst (fst (p_hook (validate_resize_target_spec catalog) c)))"
  shows "\<exists>host s. let ps = ctx_params c; cpu = resize_target_number ps host ''Cpu'' ''CPU'';
       gpu = resize_target_number ps host ''Gpu'' ''GPU''; memory = resize_target_number ps host ''Memory'' ''Memory'';
       ps' = ctx_params (snd (p_hook (validate_resize_target_spec catalog) c))
     in first_instance (ctx_result c q_instance) = Some host \<and>
        s \<in> set (list_spec_candidates catalog (as_str (mval host ''GpuType'')) gpu (as_str (mval host ''Zone''))) \<and>
        flt_eq (sc_cpu s) cpu \<and> flt_eq (sc_memory_mb s) memory \<and>
        resolved_resize_target ps' = Inr (GFloat cpu, GFloat gpu, GFloat memory) \<and>
        mget ps' ''UHostId'' = mget ps ''UHostId'' \<and>
        (\<forall>n. ctx_result (snd (p_hook (validate_resize_target_spec catalog) c)) n = ctx_result c n)"
proof -
  let ?ps = "ctx_params c"
  obtain host where h: "first_instance (ctx_result c q_instance) = Some host"
    using assms by (auto simp: p_hook_def validate_resize_target_spec_def Let_def check_failed_def split: option.splits)
  define cpu where "cpu = resize_target_number ?ps host ''Cpu'' ''CPU''"
  define gpu where "gpu = resize_target_number ?ps host ''Gpu'' ''GPU''"
  define memory where "memory = resize_target_number ?ps host ''Memory'' ''Memory''"
  define rows where "rows = list_spec_candidates catalog (as_str (mval host ''GpuType'')) gpu (as_str (mval host ''Zone''))"
  define ps' where "ps' = mput ''ResolvedResizeMemory'' (GFloat memory)
    (mput ''ResolvedResizeGPU'' (GFloat gpu) (mput ''ResolvedResizeCPU'' (GFloat cpu) ?ps))"
  note names = h cpu_def [symmetric] gpu_def [symmetric] memory_def [symmetric] rows_def [symmetric] ps'_def [symmetric]
  from assms have go: "list_ex (\<lambda>s. flt_eq (sc_cpu s) cpu \<and> flt_eq (sc_memory_mb s) memory) rows"
    "as_str (mval host ''GpuType'') \<noteq> []" "\<not> (flt_eq gpu (Fin 0) \<or> flt_eq cpu (Fin 0) \<or> flt_eq memory (Fin 0))" "rows \<noteq> []"
    by (auto simp: p_hook_def validate_resize_target_spec_def Let_def names check_failed_def split: if_splits)
  then have "validate_resize_target_spec catalog c = ((check_passed, catalog), set_params ps' (wc_pub c))"
    by (simp add: validate_resize_target_spec_def Let_def names)
  note after = hook_sets [of "validate_resize_target_spec catalog", OF this]
  moreover have "resolved_resize_target ps' = Inr (GFloat cpu, GFloat gpu, GFloat memory)"
    "mget ps' ''UHostId'' = mget ?ps ''UHostId''"
    by (simp_all add: ps'_def resolved_resize_target_def mget_mput)
  moreover from go(1) obtain s where "s \<in> set rows" "flt_eq (sc_cpu s) cpu" "flt_eq (sc_memory_mb s) memory"
    by (auto simp: list_ex_iff)
  ultimately show ?thesis by (intro exI [of _ host] exI [of _ s]) (simp add: Let_def names)
qed

lemma p_hook_capacity [simp]:
  "p_hook (check_resize_capacity r) c = ((resize_capacity_outcome (ctx_params c) r, r), c)"
  by (simp add: p_hook_def check_resize_capacity_def)

lemma check_resize_capacity_ok:
  assumes "co_ok (resize_capacity_outcome ps cap)" and "resolved_resize_target ps = Inr (cv, gv, mv)"
  shows "\<exists>n g mb s. capacity_int cv = Some n \<and> capacity_int gv = Some g \<and> capacity_int mv = Some mb \<and>
    s \<in> set (parse_capacity_specs cap) \<and> capacity_combo g n (mb div 1024) s \<and> cs_enough s"
proof -
  from assms obtain n g mb s where v: "capacity_int cv = Some n" "capacity_int gv = Some g" "capacity_int mv = Some mb"
    and s: "find (capacity_combo g n (mb div 1024)) (parse_capacity_specs cap) = Some s" "cs_enough s"
    by (auto simp: resize_capacity_outcome_def Let_def check_failed_def check_failed_because_def
        split: option.splits if_splits)
  from s(1) have "s \<in> set (parse_capacity_specs cap)" "capacity_combo g n (mb div 1024) s" by (auto simp: find_Some_iff)
  with v s(2) show ?thesis by blast
qed

lemma resize_args_get:
  assumes "resize_args ck gk c = Inr args" and "resolved_resize_target (ctx_params c) = Inr (cpu, gpu, memory)"
    and "distinct [''UHostId'', ck, gk, ''Memory'', ''zone_id'', ''az_group'', ''Region'', ''Zone'']"
  shows "mget args ck = Some cpu \<and> mget args gk = Some gpu \<and> mget args ''Memory'' = Some memory \<and>
    mget args ''UHostId'' = Some (mval (ctx_params c) ''UHostId'')"
  using assms(3) placement_keeps [OF assms(1) [unfolded resize_args_def assms(2), simplified]] by auto

lemma resize_card_get:
  assumes "resize_card c = Inr a" and "resolved_resize_target (ctx_params c) = Inr (cpu, gpu, memory)"
  shows "mget a ''target_cpu'' = Some cpu \<and> mget a ''target_gpu'' = Some gpu \<and> mget a ''target_memory'' = Some memory"
  using assms by (auto simp: resize_card_def mget_mput split: sum.splits)

lemma resize_plain: "list_all plain (def_steps resize_instance_workflow)"
  by (simp add: resize_instance_workflow_def)

lemma resize_target_number_cong:
  "mget ps pk = mget ps' pk \<Longrightarrow> resize_target_number ps host pk hk = resize_target_number ps' host pk hk"
  by (simp add: resize_target_number_def mhas_def param_num_def)

text \<open>C11: a resize is sent only for a spec the user saw, the platform sells and has in stock: when such a
  run makes its writing call, the instance was read live and stopped; the target, which is the request
  completed with the instance's own values, is a row of the live list of legal specs of its GPU type,
  GPU count and zone, and a row with stock of the live capacity answer; exactly one card was shown, it
  carried this target, and it was accepted; and the call was made once, with this target for the
  instance of the request.\<close>

theorem resize_write_legal:
  fixes ref :: 'r
  assumes "c \<in> set (s_calls (run_workflow env resize_instance_workflow ref w now params))"
    and "cl_tool c = ''ResizeCompShareInstance''"
  shows "\<exists>a. resize_checked env (business_params params) a (cl_args c) \<and>
     one_confirmed_write (run_workflow env resize_instance_workflow ref w now params) ''ResizeCompShareInstance'' a (cl_args c)"
proof -
  let ?c0 = "new_context ref params" and ?ps = "business_params params" and ?n = "''ResizeInstanceWorkflow''"
  let ?s = "\<lambda>i. def_steps (resize_instance_workflow :: 'r definition_) ! i"
  have n: "def_name (resize_instance_workflow :: 'r definition_) = ?n" by (simp add: resize_instance_workflow_def)
  obtain x a c2 where
    g: "gated_write env resize_instance_workflow [?s 0, ?s 1, ?s 2, ?s 3, ?s 4] (reads resize_card) [] (?s 6) ?c0
      ''ResizeCompShareInstance'' (cl_args c) x a c2"
    and once: "one_confirmed_write (run_workflow env resize_instance_workflow ref w now params) ''ResizeCompShareInstance'' a (cl_args c)"
    using engine_write_gated [OF _ _ _ _ _ _ _ resize_plain assms,
        of "[?s 0, ?s 1, ?s 2, ?s 3, ?s 4]" "''confirm resize''" "reads resize_card" "[]" "?s 6" "[]"]
    by (auto simp: resize_instance_workflow_def)
  from g obtain c1 c3 c4 c5 p0 p1 p3 p4 p5 p6 where
    s: "p_step env ?n (?s 0) ?c0 p0 = (True, c1, p1)" "p_step env ?n (?s 1) c1 p1 = (True, c3, p3)"
      "p_step env ?n (?s 2) c3 p3 = (True, c4, p4)" "p_step env ?n (?s 3) c4 p4 = (True, c5, p5)"
      "p_step env ?n (?s 4) c5 p5 = (True, x, p6)"
    by (auto simp: gated_write_def n simp del: nth_Cons_Suc nth_Cons_0 nth_Cons_numeral)
  have q: "\<exists>q. answered env ''DescribeCompShareInstance'' (instance_query_args ?ps) q \<and>
       co_ok (fst (fst (p_hook (check_resize_query q) ?c0))) \<and>
       c1 = p_store q_instance (snd (fst (p_hook (check_resize_query q) ?c0))) (snd (p_hook (check_resize_query q) ?c0))"
    using s(1) by (auto simp: resize_instance_workflow_def resize_query_args_def dest!: ran_tool split: if_splits)
  have z: "c3 = c1 \<or> (\<exists>z. c3 = p_store q_zones z c1)"
    using s(2) by (auto simp: resize_instance_workflow_def dest!: ran_zones)
  have v: "\<exists>ss catalog. answered env ''DescribeAvailableCompShareInstanceTypes'' ss catalog \<and>
       co_ok (fst (fst (p_hook (validate_resize_target_spec catalog) c3))) \<and>
       c4 = p_store q_specs (snd (fst (p_hook (validate_resize_target_spec catalog) c3))) (snd (p_hook (validate_resize_target_spec catalog) c3))"
    using s(3) by (simp add: resize_instance_workflow_def) (drule ran_tool, auto)
  have k: "\<exists>cs cap. answered env ''CheckCompShareResourceCapacity'' cs cap \<and> co_ok (resize_capacity_outcome (ctx_params c4) cap) \<and>
       ctx_params c5 = ctx_params c4"
    using s(4) by (auto simp: resize_instance_workflow_def dest!: ran_tool) blast
  have x: "ctx_params x = ctx_params c5"
    using s(5) by (auto simp: resize_instance_workflow_def dest!: ran_plain_tool)
  have a: "resize_card (unseal x) = Inr a" and w: "resize_args ''Cpu'' ''Gpu'' c2 = Inr (cl_args c)" "ctx_params c2 = ctx_params x"
    using g by (auto simp: gated_write_def resize_instance_workflow_def)
  from q obtain q where q: "answered env ''DescribeCompShareInstance'' (instance_query_args ?ps) q"
    "co_ok (fst (fst (p_hook (check_resize_query q) ?c0)))" "c1 = p_store q_instance (snd (fst (p_hook (check_resize_query q) ?c0))) (snd (p_hook (check_resize_query q) ?c0))"
    by blast
  note ok = check_resize_query_ok [OF q(2) new_context_params]
  note q3 = q(3) [unfolded ok(2)]
  have keep: "mget (ctx_params c3) k = mget ?ps k" if "k \<in> {''Cpu'', ''Gpu'', ''Memory'', ''UHostId''}" for k
    using z ok(3) that unfolding q3 by auto
  have c3: "ctx_result c3 q_instance = q" using z unfolding q3 by (auto simp: q_instance_def q_zones_def)
  from v obtain ss catalog where v: "answered env ''DescribeAvailableCompShareInstanceTypes'' ss catalog"
    "co_ok (fst (fst (p_hook (validate_resize_target_spec catalog) c3)))"
    "ctx_params c4 = ctx_params (snd (p_hook (validate_resize_target_spec catalog) c3))" by auto
  from validate_resize_target_ok [OF v(2)] obtain host s where h: "first_instance q = Some host"
    and s: "s \<in> set (list_spec_candidates catalog (as_str (mval host ''GpuType''))
        (resize_target_number (ctx_params c3) host ''Gpu'' ''GPU'') (as_str (mval host ''Zone'')))"
      "flt_eq (sc_cpu s) (resize_target_number (ctx_params c3) host ''Cpu'' ''CPU'')"
      "flt_eq (sc_memory_mb s) (resize_target_number (ctx_params c3) host ''Memory'' ''Memory'')"
    and t: "resolved_resize_target (ctx_params c4) = Inr (GFloat (resize_target_number (ctx_params c3) host ''Cpu'' ''CPU''),
        GFloat (resize_target_number (ctx_params c3) host ''Gpu'' ''GPU''),
        GFloat (resize_target_number (ctx_params c3) host ''Memory'' ''Memory''))"
    and u: "mget (ctx_params c4) ''UHostId'' = mget (ctx_params c3) ''UHostId''"
    by (auto simp: Let_def c3 v(3))
  have target: "resize_target_number (ctx_params c3) host ''Cpu'' ''CPU'' = resize_target_number ?ps host ''Cpu'' ''CPU''"
    "resize_target_number (ctx_params c3) host ''Gpu'' ''GPU'' = resize_target_number ?ps host ''Gpu'' ''GPU''"
    "resize_target_number (ctx_params c3) host ''Memory'' ''Memory'' = resize_target_number ?ps host ''Memory'' ''Memory''"
    by (rule resize_target_number_cong, rule keep, simp)+
  note s = s [unfolded target] and t = t [unfolded target]
  have "mval (ctx_params c4) ''UHostId'' = mval ?ps ''UHostId''" using u keep [of "''UHostId''"] by (simp add: mval_def)
  moreover from k obtain cs cap where k: "answered env ''CheckCompShareResourceCapacity'' cs cap"
    "co_ok (resize_capacity_outcome (ctx_params c4) cap)" "ctx_params c5 = ctx_params c4" by blast
  moreover note check_resize_capacity_ok [OF k(2) t]
  moreover have "mget a ''target_cpu'' = Some (GFloat (resize_target_number ?ps host ''Cpu'' ''CPU'')) \<and>
      mget a ''target_gpu'' = Some (GFloat (resize_target_number ?ps host ''Gpu'' ''GPU'')) \<and>
      mget a ''target_memory'' = Some (GFloat (resize_target_number ?ps host ''Memory'' ''Memory''))"
    using a by (rule resize_card_get) (simp add: x k(3) t)
  moreover note resize_args_get [OF w(1), unfolded w(2) x k(3), OF t, simplified]
  ultimately have "resize_checked env ?ps a (cl_args c)"
    using q(1) ok(1) h s v(1) unfolding resize_checked_def Let_def by metis
  with once show ?thesis by blast
qed

section \<open>Switch the billing mode\<close>

definition switch_checked :: "'w env \<Rightarrow> gmap \<Rightarrow> gmap \<Rightarrow> gmap \<Rightarrow> bool" where
  "switch_checked env ps a args \<longleftrightarrow>
     (\<exists>q r host target qs prices inst disk.
        answered env ''DescribeCompShareInstance'' (instance_query_args ps) q \<and>
        narrow_instance_result q (trim_space (param_str ps ''UHostId'' [])) = Some r \<and> first_instance r = Some host \<and>
        equal_fold (trim_space (as_str (mval host ''State''))) ''Running'' \<and> mval host ''IsSpot'' \<noteq> GBool True \<and>
        equal_fold (trim_space (as_str (mval host ''ChargeType''))) ''Postpay'' \<and>
        switch_charge_type_target ps = Inr target \<and>
        answered env ''GetCompShareInstanceUserPrice'' qs prices \<and> mget qs ''ChargeType'' = Some (GStr target) \<and>
        switch_charge_type_price_parts prices target = Some (inst, disk) \<and>
        mget a ''total price'' = Some (GStr (switch_charge_type_price_text (flt_plus inst disk) target)) \<and>
        mget args ''DestChargeType'' = Some (GStr target) \<and> mget args ''UHostId'' = Some (mval ps ''UHostId''))"

lemma check_switch_ok:
  assumes "co_ok (fst (fst (p_hook (check_switch_charge_type q) c)))"
  shows "\<exists>r host ct. narrow_instance_result q (trim_space (param_str (ctx_params c) ''UHostId'' [])) = Some r \<and>
    first_instance r = Some host \<and> equal_fold (trim_space (as_str (mval host ''State''))) ''Running'' \<and>
    mval host ''IsSpot'' \<noteq> GBool True \<and> equal_fold (trim_space (as_str (mval host ''ChargeType''))) ''Postpay'' \<and>
    ctx_params (snd (p_hook (check_switch_charge_type q) c)) = mput ''InitialChargeType'' ct (ctx_params c)"
proof -
  let ?i = "trim_space (param_str (ctx_params c) ''UHostId'' [])"
  obtain r where r: "?i \<noteq> []" "narrow_instance_result q ?i = Some r"
    using assms by (auto simp: p_hook_def check_switch_charge_type_def Let_def check_failed_def split: if_splits option.splits)
  define host where "host = (case first_instance r of Some h \<Rightarrow> h | None \<Rightarrow> [])"
  have empty: "\<not> equal_fold (trim_space (as_str (mval [] ''State''))) ''Running''" by code_simp
  have ok: "equal_fold (trim_space (as_str (mval host ''State''))) ''Running''" "mval host ''IsSpot'' \<noteq> GBool True"
    "\<not> flt_le (first_number_field host [''GPU'', ''Gpu'']) (Fin 0)" "trim_space (as_str (mval host ''ChargeType'')) \<noteq> []"
    "equal_fold (trim_space (as_str (mval host ''ChargeType''))) ''Postpay''"
    using assms by (auto simp: p_hook_def check_switch_charge_type_def Let_def r host_def [symmetric] check_failed_def split: if_splits)
  then have "check_switch_charge_type q c = ((check_passed, r),
      set_params (mput ''InitialChargeType'' (GStr (trim_space (as_str (mval host ''ChargeType'')))) (ctx_params c)) (wc_pub c))"
    by (simp add: check_switch_charge_type_def Let_def r host_def [symmetric])
  note after = hook_sets [of "check_switch_charge_type q", OF this]
  have "first_instance r = Some host" using ok(1) empty unfolding host_def by (auto split: option.splits)
  with r ok after show ?thesis by blast
qed

lemma switch_target_cong: "mget ps ''DestChargeType'' = mget ps' ''DestChargeType'' \<Longrightarrow>
  switch_charge_type_target ps = switch_charge_type_target ps'"
  by (simp add: switch_charge_type_target_def param_str_def)

lemma p_hook_switch_price [simp]:
  "p_hook (check_switch_price r) c = ((case switch_charge_type_target (ctx_params c) of
         Inl e \<Rightarrow> check_failed (err_text e)
       | Inr target \<Rightarrow> if switch_charge_type_price_parts r target = None then check_failed ''no price of the target mode''
           else check_passed, r), c)"
  by (simp add: p_hook_def check_switch_price_def)

lemma switch_price_args_mode:
  assumes "switch_price_args c = Inr qs" and "switch_charge_type_target (ctx_params c) = Inr target"
  shows "mget qs ''ChargeType'' = Some (GStr target)"
  using assms(1) by (auto simp: switch_price_args_def assms(2) Let_def split: option.splits sum.splits if_splits
      dest!: placement_keeps [where k = "''ChargeType''"])

lemma switch_plain: "list_all plain (def_steps switch_charge_type_workflow)"
  by (simp add: switch_charge_type_workflow_def)

text \<open>C12: a switch of the billing mode is sent only at a price the user saw: the instance was read live,
  running, not a spot instance and billed by the hour; the target is one of the four offered modes; the
  price query asked for this mode and its answer has a row for it; the one card that was shown carried
  the sum of that row's instance and system-disk prices and was accepted; and the call was made once,
  for this mode and the instance of the request.\<close>

theorem switch_priced_as_shown:
  fixes ref :: 'r
  assumes "c \<in> set (s_calls (run_workflow env switch_charge_type_workflow ref w now params))"
    and "cl_tool c = ''SwitchChargeType''"
  shows "\<exists>a. switch_checked env (business_params params) a (cl_args c) \<and>
     one_confirmed_write (run_workflow env switch_charge_type_workflow ref w now params) ''SwitchChargeType'' a (cl_args c)"
proof -
  let ?c0 = "new_context ref params" and ?ps = "business_params params" and ?n = "''SwitchChargeTypeWorkflow''"
  let ?s = "\<lambda>i. def_steps (switch_charge_type_workflow :: 'r definition_) ! i"
  have n: "def_name (switch_charge_type_workflow :: 'r definition_) = ?n" by (simp add: switch_charge_type_workflow_def)
  obtain x a c2 where
    g: "gated_write env switch_charge_type_workflow [?s 0, ?s 1, ?s 2] (reads switch_card) [] (?s 4) ?c0
      ''SwitchChargeType'' (cl_args c) x a c2"
    and once: "one_confirmed_write (run_workflow env switch_charge_type_workflow ref w now params) ''SwitchChargeType'' a (cl_args c)"
    using engine_write_gated [OF _ _ _ _ _ _ _ switch_plain assms,
        of "[?s 0, ?s 1, ?s 2]" "''confirm billing mode''" "reads switch_card" "[]" "?s 4" "[?s 5]"]
    by (auto simp: switch_charge_type_workflow_def)
  from g obtain c1 c3 p0 p1 p3 p4 where
    s: "p_step env ?n (?s 0) ?c0 p0 = (True, c1, p1)" "p_step env ?n (?s 1) c1 p1 = (True, c3, p3)"
      "p_step env ?n (?s 2) c3 p3 = (True, x, p4)"
    by (auto simp: gated_write_def n simp del: nth_Cons_Suc nth_Cons_0 nth_Cons_numeral)
  from s(1) obtain q where q: "answered env ''DescribeCompShareInstance'' (instance_query_args ?ps) q"
    "co_ok (fst (fst (p_hook (check_switch_charge_type q) ?c0)))"
    "ctx_params c1 = ctx_params (snd (p_hook (check_switch_charge_type q) ?c0))"
    by (auto simp: switch_charge_type_workflow_def switch_query_args_def dest!: ran_tool split: sum.splits)
  from check_switch_ok [OF q(2)] obtain r host ct where r: "narrow_instance_result q (trim_space (param_str ?ps ''UHostId'' [])) = Some r"
    "first_instance r = Some host" "equal_fold (trim_space (as_str (mval host ''State''))) ''Running''"
    "mval host ''IsSpot'' \<noteq> GBool True" "equal_fold (trim_space (as_str (mval host ''ChargeType''))) ''Postpay''"
    "ctx_params (snd (p_hook (check_switch_charge_type q) ?c0)) = mput ''InitialChargeType'' ct ?ps"
    by auto
  have c3: "ctx_params c3 = mput ''InitialChargeType'' ct ?ps"
    using s(2) by (auto simp: switch_charge_type_workflow_def q(3) r(6) dest!: ran_zones)
  have same: "switch_charge_type_target (ctx_params c3) = switch_charge_type_target ?ps"
    by (rule switch_target_cong) (simp add: c3 mget_mput)
  from s(3) obtain qs prices where p: "switch_price_args c3 = Inr qs" "answered env ''GetCompShareInstanceUserPrice'' qs prices"
    "co_ok (fst (fst (p_hook (check_switch_price prices) c3)))" "x = p_store q_switch_price prices c3"
    by (auto simp: switch_charge_type_workflow_def simp del: p_hook_switch_price dest!: ran_tool)
      (simp only: p_hook_switch_price snd_conv fst_conv)
  from p(3) obtain target inst disk where t: "switch_charge_type_target ?ps = Inr target"
    "switch_charge_type_price_parts prices target = Some (inst, disk)"
    by (auto simp: same check_failed_def split: sum.splits if_splits)
  have card: "switch_card (unseal x) = Inr a" and w: "switch_args c2 = Inr (cl_args c)" "ctx_params c2 = ctx_params x"
    using g by (auto simp: gated_write_def switch_charge_type_workflow_def)
  have "ctx_params c2 = ctx_params c3" by (simp add: w(2) p(4))
  then have sent_args: "add_required_pod_placement_args [(''UHostId'', mval (ctx_params c3) ''UHostId''), (''DestChargeType'', GStr target)]
      (ctx_result c2 q_instance) (ctx_result c2 q_zones) = Inr (cl_args c)"
    using w(1) by (simp add: switch_args_def same t)
  have "mget a ''total price'' = Some (GStr (switch_charge_type_price_text (flt_plus inst disk) target))"
    using card by (auto simp: switch_card_def Let_def p(4) same t mget_mput mget_mdel)
  moreover have "mget (cl_args c) ''DestChargeType'' = Some (GStr target)" "mget (cl_args c) ''UHostId'' = Some (mval ?ps ''UHostId'')"
    using placement_keeps [OF sent_args, of "''UHostId''"] placement_keeps [OF sent_args, of "''DestChargeType''"]
    by (simp_all add: c3 mval_mput)
  moreover have "mget qs ''ChargeType'' = Some (GStr target)" by (rule switch_price_args_mode [OF p(1)]) (simp add: same t)
  ultimately have "switch_checked env ?ps a (cl_args c)"
    using q(1) r(1-5) t p(2) unfolding switch_checked_def by blast
  with once show ?thesis by blast
qed

section \<open>An account\<close>

definition demo_machine :: "string \<Rightarrow> gmap" where
  "demo_machine state = [(''UHostSet'', GList [GMap [(''UHostId'', GStr ''u1''), (''State'', GStr state),
     (''Zone'', GStr ''a''), (''Region'', GStr ''r''), (''GpuType'', GStr ''4090''), (''MachineType'', GStr ''G''),
     (''CpuPlatform'', GStr ''Intel''), (''CompShareImageId'', GStr ''i''), (''ChargeType'', GStr ''Postpay''),
     (''GPU'', GFloat (Fin 1)), (''CPU'', GFloat (Fin 8)), (''Memory'', GFloat (Fin 32768)),
     (''DiskSet'', GList [GMap [(''DiskId'', GStr ''d1''), (''DiskType'', GStr ''CLOUD_SSD''), (''IsBoot'', GStr ''True''),
        (''Size'', GFloat (Fin 100))]])]])]"

definition demo_offers :: "(string \<times> gmap) list" where
  "demo_offers = [(''DescribeCompShareInstance'', demo_machine ''Stopped''),
    (''DescribeAvailableCompShareInstanceTypes'', [(''AvailableInstanceTypes'', GList [GMap [(''Name'', GStr ''4090''),
       (''Zone'', GStr ''a''), (''MachineSizes'', GList [GMap [(''Gpu'', GFloat (Fin 1)),
          (''Collection'', GList [GMap [(''Cpu'', GFloat (Fin 16)), (''Memory'', GList [GFloat (Fin 64)])]])]])]])]),
    (''CheckCompShareResourceCapacity'', [(''Specs'', GList [GMap [(''Gpu'', GInt 1), (''Cpu'', GInt 16), (''Mem'', GInt 64),
       (''ResourceEnough'', GBool True)]])]),
    (''GetCompShareInstanceUpgradePrice'', [(''Price'', GFloat (Fin 2))])]"

definition demo_prices :: "(string \<times> gmap) list" where
  "demo_prices = [(''DescribeCompShareInstance'', demo_machine ''Running''),
    (''GetCompShareInstanceUserPrice'', [(''PriceDetails'', GList [GMap [(''ChargeType'', GStr ''Day''),
       (''Instance'', GFloat (Fin 10)), (''SystemDisks'', GFloat (Fin 1))]])])]"

definition demo_resize_request :: gmap where
  "demo_resize_request = [(''UHostId'', GStr ''u1''), (''Cpu'', GFloat (Fin 16)), (''Memory'', GFloat (Fin 65536))]"

definition demo_switch_request :: gmap where
  "demo_switch_request = [(''UHostId'', GStr ''u1''), (''DestChargeType'', GStr ''Day'')]"

theorem resize_write_legal_witness:
  "\<exists>c a. c \<in> set (s_calls (run_workflow (scripted demo_offers) resize_instance_workflow () 0 0 demo_resize_request)) \<and>
     resize_checked (scripted demo_offers) (business_params demo_resize_request) a (cl_args c)"
proof -
  have "''ResizeCompShareInstance'' \<in> set (scripted_calls demo_offers resize_instance_workflow () demo_resize_request)" by code_simp
  from scripted_makes_call [OF resize_plain this] obtain c where
    c: "c \<in> set (s_calls (run_workflow (scripted demo_offers) resize_instance_workflow () 0 0 demo_resize_request))"
      "cl_tool c = ''ResizeCompShareInstance''" by blast
  with resize_write_legal [OF c] show ?thesis by blast
qed

theorem switch_priced_as_shown_witness:
  "\<exists>c a. c \<in> set (s_calls (run_workflow (scripted demo_prices) switch_charge_type_workflow () 0 0 demo_switch_request)) \<and>
     switch_checked (scripted demo_prices) (business_params demo_switch_request) a (cl_args c)"
proof -
  have "''SwitchChargeType'' \<in> set (scripted_calls demo_prices switch_charge_type_workflow () demo_switch_request)" by code_simp
  from scripted_makes_call [OF switch_plain this] obtain c where
    c: "c \<in> set (s_calls (run_workflow (scripted demo_prices) switch_charge_type_workflow () 0 0 demo_switch_request))"
      "cl_tool c = ''SwitchChargeType''" by blast
  with switch_priced_as_shown [OF c] show ?thesis by blast
qed

end
