(* ===== verification/DiskProps.thy ===== *)
theory DiskProps
  imports GatedWrites DiskWorkflows
begin

text \<open>
  What the workflows on the disks and the password of an instance have checked when they write, and
  that the card showed what is sent, or, for a password, did not.
\<close>

section \<open>Resize a disk\<close>

text \<open>
  The disk was resolved on the answer of the live query, the requested size is above its size, and
  card and call name the same disk and this size.
\<close>

definition disk_resize_checked :: "'w env \<Rightarrow> gmap \<Rightarrow> gmap \<Rightarrow> gmap \<Rightarrow> bool" where
  "disk_resize_checked env ps a args \<longleftrightarrow>
     (let target = param_num ps ''Size'' (Fin 0); ps1 = mput ''Size'' (GFloat target) ps in
      \<exists>q disk. answered env ''DescribeCompShareInstance'' (instance_query_args ps1) q \<and>
        resolve_disk_for_resize ps1 q = Inr disk \<and>
        (let current = disk_number disk [''Size'', ''DiskSpace''] in
         \<not> flt_le current (Fin 0) \<and> \<not> flt_le target current \<and>
         mget a ''current_size_gb'' = Some (GFloat current)) \<and>
        mget a ''target_size_gb'' = Some (GFloat target) \<and>
        (mget args ''Size'' = Some (GFloat target) \<and> mget args ''UDiskId'' = mget a ''disk_id'' \<or>
         mget args ''DiskSpace'' = Some (GFloat target) \<and> mget args ''DiskId'' = mget a ''disk_id'') \<and>
        mget args ''UHostId'' = Some (mval ps ''UHostId''))"

lemma check_resize_disk_ok:
  assumes "co_ok (fst (fst (p_hook (check_resize_disk_query q) c)))"
  shows "\<exists>disk. let ps = ctx_params c; ps' = ctx_params (snd (p_hook (check_resize_disk_query q) c));
      target = param_num ps ''Size'' (Fin 0); current = disk_number disk [''Size'', ''DiskSpace''] in
    resolve_disk_for_resize ps q = Inr disk \<and> \<not> flt_le current (Fin 0) \<and> \<not> flt_le target current \<and>
    mget ps' ''CurrentDiskSize'' = Some (GFloat current) \<and>
    (\<forall>k \<in> {''Size'', ''UHostId''}. mget ps' k = mget ps k)"
proof -
  obtain disk where d: "extract_instance_state q \<noteq> []" "resolve_disk_for_resize (ctx_params c) q = Inr disk"
    using assms by (auto simp: p_hook_def check_resize_disk_query_def Let_def check_failed_def split: if_splits sum.splits)
  define ps' where "ps' = mput ''CurrentDiskSize'' (GFloat (disk_number disk [''Size'', ''DiskSpace'']))
             (mput ''ResolvedDiskType'' (GStr (disk_string disk ''DiskType''))
             (mput ''ResolvedDiskRole'' (GStr (disk_role disk))
             (mput ''ResolvedDiskName'' (GStr (disk_string disk ''Name''))
             (mput ''ResolvedDiskId'' (GStr (disk_id_value disk)) (ctx_params c)))))"
  have ok: "\<not> flt_le (disk_number disk [''Size'', ''DiskSpace'']) (Fin 0)"
    "\<not> flt_le (param_num (ctx_params c) ''Size'' (Fin 0)) (disk_number disk [''Size'', ''DiskSpace''])"
    using assms by (auto simp: p_hook_def check_resize_disk_query_def Let_def check_failed_def d simp del: disk_number.simps split: if_splits)
  then have "check_resize_disk_query q c = ((check_passed, q), set_params ps' (wc_pub c))"
    unfolding check_resize_disk_query_def ps'_def by (simp add: Let_def d del: disk_number.simps)
  note after = hook_sets [of "check_resize_disk_query q", OF this]
  show ?thesis
    by (intro exI [of _ disk]) (use after d ok in \<open>simp add: ps'_def mget_mput del: disk_number.simps\<close>)
qed

lemma p_hook_resize_conditions:
  "p_hook (check_resize_conditions r) c = ((check_passed, r), snd (p_hook (check_resize_conditions r) c))"
  "k \<in> {''Size'', ''UHostId'', ''CurrentDiskSize''} \<Longrightarrow>
     mget (ctx_params (snd (p_hook (check_resize_conditions r) c))) k = mget (ctx_params c) k"
  by (auto simp: p_hook_def check_resize_conditions_def Let_def ctx_params_def set_params_def mget_mput split: gval.split)

lemma sized_query_ok:
  assumes "fst (p_hook (sized_query_args slot) c) = Inr args"
  shows "args = instance_query_args (ctx_params (snd (p_hook (sized_query_args slot) c))) \<and>
    ctx_params (snd (p_hook (sized_query_args slot) c)) = mput ''Size'' (GFloat (param_num (ctx_params c) ''Size'' (Fin 0))) (ctx_params c)"
  using assms by (auto simp: p_hook_def sized_query_args_def Let_def ctx_params_def set_params_def split: if_splits)

lemma copy_as_get: "k \<noteq> dst \<Longrightarrow> mget (copy_as dst src from m) k = mget m k"
  by (simp add: copy_as_def mget_mput split: option.split)

lemma need_restart_get:
  "k \<noteq> ''need_restart'' \<Longrightarrow> mget (case v of GBool b \<Rightarrow> mput ''need_restart'' (GBool b) m | _ \<Rightarrow> m) k = mget m k"
  by (cases v) (simp_all add: mget_mput)

lemma resize_disk_card_get:
  assumes "resize_disk_card c = Inr a"
  shows "mget a ''disk_id'' = Some (mval (ctx_params c) ''ResolvedDiskId'') \<and>
    mget a ''current_size_gb'' = Some (mval (ctx_params c) ''CurrentDiskSize'') \<and>
    mget a ''target_size_gb'' = Some (mval (ctx_params c) ''Size'')"
proof -
  obtain price where "a = mput ''warning'' (GStr ''the size is the target, not an increment; a disk never shrinks'')
    (copy_as ''list_price_delta'' ''ListPrice'' (ctx_result c q_resize_disk_price)
    (copy_as ''original_price_delta'' ''OriginalPrice'' (ctx_result c q_resize_disk_price) (mput ''price_delta'' (GFloat price)
    (case mval (ctx_params c) ''NeedRestart'' of GBool b \<Rightarrow> mput ''need_restart'' (GBool b)
        (fold (\<lambda>(k, p). mput k (mval (ctx_params c) p))
            [(''disk_id'', ''ResolvedDiskId''), (''disk_name'', ''ResolvedDiskName''), (''disk_role'', ''ResolvedDiskRole''),
             (''disk_type'', ''ResolvedDiskType''), (''current_size_gb'', ''CurrentDiskSize''), (''target_size_gb'', ''Size'')]
            (extract_instance_summary (ctx_result c q_instance)))
     | _ \<Rightarrow> fold (\<lambda>(k, p). mput k (mval (ctx_params c) p))
            [(''disk_id'', ''ResolvedDiskId''), (''disk_name'', ''ResolvedDiskName''), (''disk_role'', ''ResolvedDiskRole''),
             (''disk_type'', ''ResolvedDiskType''), (''current_size_gb'', ''CurrentDiskSize''), (''target_size_gb'', ''Size'')]
            (extract_instance_summary (ctx_result c q_instance))))))"
    using assms unfolding resize_disk_card_def Let_def by (auto split: sum.splits)
  then show ?thesis by (simp add: mget_mput copy_as_get need_restart_get)
qed

lemma resize_disk_args_get:
  assumes "resize_disk_args c = Inr args"
  shows "mget args ''UHostId'' = Some (mval (ctx_params c) ''UHostId'') \<and>
    (mget args ''Size'' = Some (mval (ctx_params c) ''Size'') \<and> mget args ''UDiskId'' = Some (mval (ctx_params c) ''ResolvedDiskId'') \<or>
     mget args ''DiskSpace'' = Some (mval (ctx_params c) ''Size'') \<and> mget args ''DiskId'' = Some (mval (ctx_params c) ''ResolvedDiskId''))"
proof (cases "resize_disk_via_instance (ctx_result c q_instance)")
  case True
  with assms have "attached_disk_args c = Inr args" by (simp add: resize_disk_args_def)
  note keep = placement_keeps [OF this [unfolded attached_disk_args_def]]
  show ?thesis by (simp add: keep)
next
  case False
  with assms have "add_required_pod_placement_args [(''UHostId'', mval (ctx_params c) ''UHostId''),
      (''UDiskId'', mval (ctx_params c) ''ResolvedDiskId''), (''Size'', mval (ctx_params c) ''Size'')]
      (ctx_result c q_instance) (ctx_result c q_zones) = Inr args"
    by (simp add: resize_disk_args_def)
  note keep = placement_keeps [OF this]
  show ?thesis by (simp add: keep)
qed

lemma resize_disk_plain: "list_all plain (def_steps resize_disk_workflow)"
  by (simp add: resize_disk_workflow_def) (simp add: plain_def)


section \<open>Reset the password\<close>

text \<open>
  The instance was read in a state that takes the change; the password sent is the Base64 of the
  requested one, which for a container is well formed; and the card is computed from the answer of the
  query alone, so the password is not on it.
\<close>

definition password_checked :: "'w env \<Rightarrow> gmap \<Rightarrow> gmap \<Rightarrow> gmap \<Rightarrow> bool" where
  "password_checked env ps a args \<longleftrightarrow>
     (let password = as_str (mval ps ''Password'') in
      \<exists>q. answered env ''DescribeCompShareInstance'' (instance_query_args ps) q \<and>
        co_ok (check_reset q) \<and> a = reset_card q \<and> password \<noteq> [] \<and>
        (extract_instance_type q = ''Container'' \<longrightarrow> validate_container_password password = None) \<and>
        mget args ''Password'' = Some (GStr (base64_encode password)) \<and>
        mget args ''UHostId'' = Some (mval ps ''UHostId''))"

lemma reset_plain: "list_all plain (def_steps reset_password_workflow)"
  by (simp add: reset_password_workflow_def)

text \<open>C15: a password is sent once and never shown: when such a run makes its writing call, the instance was
  read live in a state that takes the change; the one card that was shown is computed from that answer
  alone, whatever the password is; and the call carries the Base64 of the requested password, which is
  not empty and, for a container, meets the platform's rule.\<close>

theorem password_never_shown:
  fixes ref :: 'r
  assumes "c \<in> set (s_calls (run_workflow env reset_password_workflow ref w now params))"
    and "cl_tool c = ''ResetCompShareInstancePassword''"
  shows "\<exists>a. password_checked env (business_params params) a (cl_args c) \<and>
     one_confirmed_write (run_workflow env reset_password_workflow ref w now params) ''ResetCompShareInstancePassword'' a (cl_args c)"
proof -
  let ?c0 = "new_context ref params" and ?ps = "business_params params" and ?n = "''ResetPasswordWorkflow''"
  let ?s = "\<lambda>i. def_steps (reset_password_workflow :: 'r definition_) ! i"
  let ?card = "\<lambda>c. Inr (reset_card (ctx_result c q_instance))"
  have n: "def_name (reset_password_workflow :: 'r definition_) = ?n" by (simp add: reset_password_workflow_def)
  obtain x a c2 where
    g: "gated_write env reset_password_workflow [?s 0, ?s 1] (reads ?card) [] (?s 3) ?c0
      ''ResetCompShareInstancePassword'' (cl_args c) x a c2"
    and once: "one_confirmed_write (run_workflow env reset_password_workflow ref w now params)
      ''ResetCompShareInstancePassword'' a (cl_args c)"
    using engine_write_gated [OF _ _ _ _ _ _ _ reset_plain assms,
        of "[?s 0, ?s 1]" "''confirm reset''" "reads ?card" "[]" "?s 3" "[?s 4]"]
    by (auto simp: reset_password_workflow_def)
  from g obtain c1 p0 p1 p3 where
    s: "p_step env ?n (?s 0) ?c0 p0 = (True, c1, p1)" "p_step env ?n (?s 1) c1 p1 = (True, x, p3)"
    by (auto simp: gated_write_def n simp del: nth_Cons_Suc nth_Cons_0 nth_Cons_numeral)
  from s(1) obtain q where q: "answered env ''DescribeCompShareInstance'' (instance_query_args ?ps) q" "co_ok (check_reset q)"
    "c1 = p_store q_instance q ?c0"
    by (auto simp: reset_password_workflow_def dest!: ran_query)
  have x: "ctx_params x = ?ps" "ctx_result x q_instance = q"
    using s(2) by (auto simp: reset_password_workflow_def q(3) q_instance_def q_zones_def dest!: ran_zones)
  have card: "a = reset_card q" and w: "reset_password_args c2 = Inr (cl_args c)" "ctx_params c2 = ?ps" "ctx_result c2 q_instance = q"
    using g x by (auto simp: gated_write_def reset_password_workflow_def)
  let ?pw = "as_str (mval ?ps ''Password'')"
  from w(1) have pw: "?pw \<noteq> []" "extract_instance_type q = ''Container'' \<longrightarrow> validate_container_password ?pw = None"
    and sent: "add_required_pod_placement_args [(''UHostId'', mval ?ps ''UHostId''), (''Password'', GStr (base64_encode ?pw))]
      q (ctx_result c2 q_zones) = Inr (cl_args c)"
    by (auto simp: reset_password_args_def w(2,3) Let_def split: if_splits)
  show ?thesis
    using q(1,2) card pw placement_keeps [OF sent, of "''Password''"] placement_keeps [OF sent, of "''UHostId''"] once
    unfolding password_checked_def Let_def by (intro exI [of _ a]) auto
qed

section \<open>An account\<close>

definition demo_disks :: "(string \<times> gmap) list" where
  "demo_disks = [(''DescribeCompShareInstance'', [(''UHostSet'', GList [GMap [(''UHostId'', GStr ''u1''),
      (''State'', GStr ''Stopped''), (''Zone'', GStr ''a''), (''Region'', GStr ''r''), (''GPU'', GFloat (Fin 1)),
      (''DiskSet'', GList [GMap [(''DiskId'', GStr ''d1''), (''DiskType'', GStr ''CLOUD_SSD''), (''IsBoot'', GStr ''True''),
        (''Size'', GFloat (Fin 100))]])]])]),
    (''GetCompShareAttachedDiskUpgradePrice'', [(''Price'', GFloat (Fin 2))])]"

definition demo_enlarge :: gmap where
  "demo_enlarge = [(''UHostId'', GStr ''u1''), (''DiskId'', GStr ''d1''), (''Size'', GFloat (Fin 200))]"

definition demo_reset :: gmap where
  "demo_reset = [(''UHostId'', GStr ''u1''), (''Password'', GStr ''Abcd1234'')]"


theorem password_never_shown_witness:
  "\<exists>c. c \<in> set (s_calls (run_workflow (scripted demo_disks) reset_password_workflow () 0 0 demo_reset)) \<and>
     mget (cl_args c) ''Password'' = Some (GStr ''QWJjZDEyMzQ='')"
proof -
  have "''ResetCompShareInstancePassword'' \<in> set (scripted_calls demo_disks reset_password_workflow () demo_reset)" by code_simp
  from scripted_makes_call [OF reset_plain this] obtain c where
    c: "c \<in> set (s_calls (run_workflow (scripted demo_disks) reset_password_workflow () 0 0 demo_reset))"
      "cl_tool c = ''ResetCompShareInstancePassword''" by blast
  from password_never_shown [OF this] obtain a where
    "password_checked (scripted demo_disks) (business_params demo_reset) a (cl_args c)" by blast
  then have "mget (cl_args c) ''Password'' = Some (GStr (base64_encode (as_str (mval (business_params demo_reset) ''Password''))))"
    by (auto simp: password_checked_def Let_def)
  moreover have "base64_encode (as_str (mval (business_params demo_reset) ''Password'')) = ''QWJjZDEyMzQ=''" by code_simp
  ultimately show ?thesis using c(1) by auto
qed

end
