(* ===== verification/GoTime.thy ===== *)
theory GoTime
  imports GoFmt "HOL-Library.Monad_Syntax"
begin

text \<open>
  The calendar of Go's \<open>time\<close> package, as far as the source uses it: the proleptic Gregorian
  calendar, the parsers of the layouts \<open>15:04\<close>, \<open>2006-01-02 15:04\<close> and RFC 3339, the rendering of
  the second, and rounded differences. An instant is a number of nanoseconds since 1970 UTC, a
  location a fixed offset in seconds.
\<close>

section \<open>The calendar\<close>

definition leap_year :: "int \<Rightarrow> bool" where
  "leap_year y \<longleftrightarrow> y mod 4 = 0 \<and> (y mod 100 \<noteq> 0 \<or> y mod 400 = 0)"

definition month_lengths :: "int \<Rightarrow> int list" where
  "month_lengths y = [31, if leap_year y then 29 else 28, 31, 30, 31, 30, 31, 31, 30, 31, 30, 31]"

definition valid_date :: "int \<Rightarrow> int \<Rightarrow> int \<Rightarrow> bool" where
  "valid_date y m d \<longleftrightarrow> 1 \<le> m \<and> m \<le> 12 \<and> 1 \<le> d \<and> d \<le> month_lengths y ! nat (m - 1)"

text \<open>Days since the first of January of year 1.\<close>

definition days_before_year :: "int \<Rightarrow> int" where
  "days_before_year y = (let n = y - 1 in 365 * n + n div 4 - n div 100 + n div 400)"

definition days_before_month :: "int \<Rightarrow> int \<Rightarrow> int" where
  "days_before_month y m = sum_list (take (nat (m - 1)) (month_lengths y))"

text \<open>Days since the first of January 1970, and back.\<close>

definition day_of_date :: "int \<Rightarrow> int \<Rightarrow> int \<Rightarrow> int" where
  "day_of_date y m d = days_before_year y + days_before_month y m + (d - 1) - 719162"

definition year_of_day :: "int \<Rightarrow> int" where
  "year_of_day n = (let y = 400 * n div 146097 + 1 in if days_before_year (y + 1) \<le> n then y + 1 else y)"

fun split_month :: "int list \<Rightarrow> int \<Rightarrow> int \<times> int" where
  "split_month [] n = (1, n + 1)"
| "split_month (l # ls) n = (if n < l then (1, n + 1) else (case split_month ls (n - l) of (m, d) \<Rightarrow> (m + 1, d)))"

definition date_of_day :: "int \<Rightarrow> int \<times> int \<times> int" where
  "date_of_day n = (let k = n + 719162; y = year_of_day k in (y, split_month (month_lengths y) (k - days_before_year y)))"

lemma days_before_next_year:
  "days_before_year (y + 1) = days_before_year y + (if leap_year y then 366 else 365)"
proof -
  have d: "y div k = (y - 1) div k + (if y mod k = 0 then 1 else 0)" if "0 < k" for k :: int
  proof -
    have "(y - 1) div k = (k * (y div k) + (y mod k - 1)) div k" by (simp add: algebra_simps)
    also have "\<dots> = y div k + (y mod k - 1) div k" using that by simp
    also have "(y mod k - 1) div k = (if y mod k = 0 then - 1 else 0)"
    proof (cases "y mod k = 0")
      case True
      then show ?thesis using that by (simp add: div_eq_minus1)
    next
      case False
      have "0 \<le> y mod k" "y mod k < k" using that by simp_all
      with False have "0 \<le> y mod k - 1" "y mod k - 1 < k" by linarith+
      with False show ?thesis by (simp add: div_pos_pos_trivial)
    qed
    finally show ?thesis by simp
  qed
  have m: "y mod 100 = 0 \<Longrightarrow> y mod 4 = 0" "y mod 400 = 0 \<Longrightarrow> y mod 100 = 0" by presburger+
  have next_: "days_before_year (y + 1) = 365 * y + y div 4 - y div 100 + y div 400"
    by (simp add: days_before_year_def Let_def)
  have this_: "days_before_year y = 365 * (y - 1) + (y - 1) div 4 - (y - 1) div 100 + (y - 1) div 400"
    unfolding days_before_year_def Let_def ..
  have "y div 4 - y div 100 + y div 400 = (y - 1) div 4 - (y - 1) div 100 + (y - 1) div 400 + (if leap_year y then 1 else 0)"
    using m d [of 4] d [of 100] d [of 400] unfolding leap_year_def by (smt (verit))
  then show ?thesis unfolding next_ this_ by (simp split: if_splits)
qed

lemma days_before_year_bounds:
  "146097 * (y - 1) - 699 \<le> 400 * days_before_year y" "400 * days_before_year y \<le> 146097 * (y - 1) + 396"
proof -
  have q: "k * ((y - 1) div k) \<le> y - 1" "y - k \<le> k * ((y - 1) div k)" if "0 < k" for k :: int
    using that mult_div_mod_eq [of k "y - 1"] pos_mod_bound [of k "y - 1"] pos_mod_sign [of k "y - 1"] by linarith+
  from q [of 4] q [of 100] q [of 400]
  show "146097 * (y - 1) - 699 \<le> 400 * days_before_year y" "400 * days_before_year y \<le> 146097 * (y - 1) + 396"
    by (simp_all add: days_before_year_def Let_def)
qed

lemma year_of_day:
  assumes "days_before_year y \<le> n" and "n < days_before_year (y + 1)"
  shows "year_of_day n = y"
proof -
  define e r where "e = 400 * n div 146097" and "r = 400 * n mod 146097"
  have er: "146097 * e + r = 400 * n" "0 \<le> r" "r < 146097" by (simp_all add: e_def r_def)
  have "400 * n < 146097 * y" using assms(2) days_before_year_bounds(2) [of "y + 1"] by simp
  moreover have "146097 * (y - 1) - 699 \<le> 400 * n" using assms(1) days_before_year_bounds(1) [of y] by simp
  ultimately have "146097 * (y - 2 - e) < 699" "146097 * e < 146097 * y" using er by (simp_all add: algebra_simps)
  have "y - 2 \<le> e" using \<open>146097 * (y - 2 - e) < 699\<close> by (intro ccontr [of "y - 2 \<le> e"]) simp
  moreover have "e < y" using \<open>146097 * e < 146097 * y\<close> by simp
  ultimately have "e = y - 1 \<or> e = y - 2" by linarith
  then show ?thesis
    using assms by (auto simp: year_of_day_def Let_def e_def [symmetric] add.commute)
qed

lemma split_month:
  assumes "m < length ls" and "1 \<le> d" and "d \<le> ls ! m" and "\<forall>l \<in> set ls. 0 < l"
  shows "split_month ls (sum_list (take m ls) + (d - 1)) = (int m + 1, d)"
  using assms
proof (induction ls arbitrary: m)
  case (Cons l ls)
  show ?case
  proof (cases m)
    case 0
    with Cons.prems show ?thesis by simp
  next
    case (Suc k)
    have "0 \<le> sum_list (take k ls)"
      using Cons.prems(4) by (intro sum_list_nonneg) (auto dest!: in_set_takeD intro: less_imp_le)
    with Suc Cons.prems Cons.IH [of k] show ?thesis by simp
  qed
qed simp

lemma month_lengths_pos: "\<forall>l \<in> set (month_lengths y). 0 < l" and length_month_lengths [simp]: "length (month_lengths y) = 12"
  by (simp_all add: month_lengths_def)

lemma days_in_year: "sum_list (month_lengths y) = (if leap_year y then 366 else 365)"
  by (simp add: month_lengths_def)

lemma day_within_year:
  assumes "valid_date y m d"
  shows "0 \<le> days_before_month y m + (d - 1)" "days_before_month y m + (d - 1) < (if leap_year y then 366 else 365)"
proof -
  let ?k = "nat (m - 1)" and ?ls = "month_lengths y"
  have k: "?k < 12" and d: "1 \<le> d" "d \<le> ?ls ! ?k" using assms by (auto simp: valid_date_def)
  have nonneg: "0 \<le> sum_list xs" if "set xs \<subseteq> set ?ls" for xs
    using that month_lengths_pos [of y] by (intro sum_list_nonneg) (auto intro: less_imp_le)
  have "0 \<le> sum_list (take ?k ?ls)" "0 \<le> sum_list (drop (Suc ?k) ?ls)"
    by (intro nonneg set_take_subset set_drop_subset)+
  moreover have "sum_list ?ls = sum_list (take ?k ?ls) + ?ls ! ?k + sum_list (drop (Suc ?k) ?ls)"
    by (metis id_take_nth_drop k length_month_lengths sum_list.append sum_list.Cons add.assoc)
  ultimately show "0 \<le> days_before_month y m + (d - 1)"
    "days_before_month y m + (d - 1) < (if leap_year y then 366 else 365)"
    using d days_in_year [of y] by (simp_all add: days_before_month_def)
qed

lemma date_of_day_of_date:
  assumes "valid_date y m d"
  shows "date_of_day (day_of_date y m d) = (y, m, d)"
proof -
  have "year_of_day (day_of_date y m d + 719162) = y"
    using day_within_year [OF assms] days_before_next_year [of y]
    by (intro year_of_day) (simp_all add: day_of_date_def)
  moreover have "split_month (month_lengths y) (days_before_month y m + (d - 1)) = (m, d)"
    using assms split_month [of "nat (m - 1)" "month_lengths y" d, OF _ _ _ month_lengths_pos]
    by (auto simp: days_before_month_def valid_date_def)
  moreover have "day_of_date y m d + 719162 - days_before_year y = days_before_month y m + (d - 1)"
    by (simp add: day_of_date_def)
  ultimately show ?thesis unfolding date_of_day_def Let_def by (simp only:)
qed

lemma year_of_day_bounds: "days_before_year (year_of_day n) \<le> n" "n < days_before_year (year_of_day n + 1)"
proof -
  define e r where "e = 400 * n div 146097" and "r = 400 * n mod 146097"
  have er: "146097 * e + r = 400 * n" "0 \<le> r" "r < 146097" by (simp_all add: e_def r_def)
  have "400 * days_before_year (e + 1) \<le> 400 * n + 396" using days_before_year_bounds(2) [of "e + 1"] er by simp
  then have lo: "days_before_year (e + 1) \<le> n" by simp
  have "400 * n < 400 * days_before_year (e + 1 + 1 + 1)" using days_before_year_bounds(1) [of "e + 1 + 1 + 1"] er by simp
  then have hi: "n < days_before_year (e + 1 + 1 + 1)" by simp
  have y: "year_of_day n = (if days_before_year (e + 1 + 1) \<le> n then e + 1 + 1 else e + 1)"
    by (simp add: year_of_day_def Let_def e_def)
  show "days_before_year (year_of_day n) \<le> n" "n < days_before_year (year_of_day n + 1)"
    using lo hi unfolding y by (auto simp only: not_le split: if_splits)
qed

lemma split_month_inverse:
  assumes "0 \<le> n" and "n < sum_list ls" and "split_month ls n = (m, d)"
  shows "1 \<le> m \<and> nat (m - 1) < length ls \<and> 1 \<le> d \<and> d \<le> ls ! nat (m - 1) \<and> sum_list (take (nat (m - 1)) ls) + (d - 1) = n"
  using assms
proof (induction ls arbitrary: n m)
  case (Cons l ls)
  show ?case
  proof (cases "n < l")
    case True
    with Cons.prems show ?thesis by auto
  next
    case False
    then obtain k where k: "split_month ls (n - l) = (k, d)" "m = k + 1"
      using Cons.prems(3) by (auto split: prod.splits)
    with False Cons.prems Cons.IH [of "n - l" k] have
      "1 \<le> k" "nat (k - 1) < length ls" "1 \<le> d" "d \<le> ls ! nat (k - 1)" "sum_list (take (nat (k - 1)) ls) + (d - 1) = n - l"
      by simp_all
    moreover from this(1) k(2) have "nat (m - 1) = Suc (nat (k - 1))" by simp
    ultimately show ?thesis using k(2) by simp
  qed
qed simp

lemma date_of_day_valid:
  assumes "date_of_day n = (y, m, d)"
  shows "valid_date y m d" and "day_of_date y m d = n"
proof -
  let ?k = "n + 719162"
  have y: "y = year_of_day ?k" and s: "split_month (month_lengths y) (?k - days_before_year y) = (m, d)"
    using assms by (auto simp: date_of_day_def Let_def)
  have "0 \<le> ?k - days_before_year y" "?k - days_before_year y < sum_list (month_lengths y)"
    using year_of_day_bounds [of ?k] unfolding y days_in_year by (simp_all add: days_before_next_year)
  from split_month_inverse [OF this s] show "valid_date y m d" "day_of_date y m d = n"
    by (auto simp: valid_date_def day_of_date_def days_before_month_def)
qed

section \<open>Parsing\<close>

text \<open>One or two digits (two when \<open>fixed\<close>); a literal; a space of a layout, which stands for several.\<close>

definition getnum :: "bool \<Rightarrow> string \<Rightarrow> (int \<times> string) option" where
  "getnum fixed s = (case s of
       [] \<Rightarrow> None
     | a # r \<Rightarrow>
         if \<not> is_digit a then None
         else (case r of
             b # t \<Rightarrow> if is_digit b then Some (10 * int (digit_val a) + int (digit_val b), t)
               else if fixed then None else Some (int (digit_val a), r)
           | [] \<Rightarrow> if fixed then None else Some (int (digit_val a), [])))"

definition skip_char :: "char \<Rightarrow> string \<Rightarrow> string option" where
  "skip_char c s = (case s of x # t \<Rightarrow> if x = c then Some t else None | [] \<Rightarrow> None)"

definition skip_spaces :: "string \<Rightarrow> string option" where
  "skip_spaces s = (if s \<noteq> [] \<and> hd s \<noteq> CHR '' '' then None else Some (dropWhile (\<lambda>c. c = CHR '' '') s))"

definition ensure :: "bool \<Rightarrow> unit option" where
  "ensure b = (if b then Some () else None)"

lemma bind_ensure [simp]: "Option.bind (ensure b) f = (if b then f () else None)"
  by (simp add: ensure_def)

definition parse_year :: "string \<Rightarrow> (int \<times> string) option" where
  "parse_year s = (if length s < 4 then None
     else map_option (\<lambda>n. (int n, drop 4 s)) (digits_val 0 (take 4 s)))"

definition parse_date :: "string \<Rightarrow> ((int \<times> int \<times> int) \<times> string) option" where
  "parse_date s = do {
     (y, s) \<leftarrow> parse_year s;
     s \<leftarrow> skip_char (CHR ''-'') s;
     (m, s) \<leftarrow> getnum True s;
     _ \<leftarrow> ensure (1 \<le> m \<and> m \<le> 12);
     s \<leftarrow> skip_char (CHR ''-'') s;
     (d, s) \<leftarrow> getnum True s;
     Some ((y, m, d), s)
   }"

definition parse_hour_minute :: "string \<Rightarrow> ((int \<times> int) \<times> string) option" where
  "parse_hour_minute s = do {
     (h, s) \<leftarrow> getnum False s;
     _ \<leftarrow> ensure (h < 24);
     s \<leftarrow> skip_char (CHR '':'') s;
     (mi, s) \<leftarrow> getnum True s;
     _ \<leftarrow> ensure (mi < 60);
     Some ((h, mi), s)
   }"

definition parse_clock :: "string \<Rightarrow> (int \<times> int) option" where
  "parse_clock s = do { (c, s) \<leftarrow> parse_hour_minute s; _ \<leftarrow> ensure (s = []); Some c }"

definition nanos :: int where "nanos = 1000000000"

definition instant :: "int \<times> int \<times> int \<Rightarrow> int \<Rightarrow> int \<Rightarrow> int" where
  "instant date seconds offset = (case date of (y, m, d) \<Rightarrow> (day_of_date y m d * 86400 + seconds - offset) * nanos)"

definition parse_local_minute :: "int \<Rightarrow> string \<Rightarrow> int option" where
  "parse_local_minute offset s = do {
     ((y, m, d), s) \<leftarrow> parse_date s;
     s \<leftarrow> skip_spaces s;
     ((h, mi), s) \<leftarrow> parse_hour_minute s;
     _ \<leftarrow> ensure (s = [] \<and> valid_date y m d);
     Some (instant (y, m, d) (h * 3600 + mi * 60) offset)
   }"

text \<open>RFC 3339: a fraction of any length is read to nine places; \<open>Z\<close> or a numeric offset ends the text.\<close>

definition parse_fraction :: "string \<Rightarrow> int \<times> string" where
  "parse_fraction s = (case s of
       c # d # _ \<Rightarrow>
         if (c = CHR ''.'' \<or> c = CHR '','') \<and> is_digit d then
           (let ds = takeWhile is_digit (tl s); kept = take 9 ds in
            (case digits_val 0 kept of Some n \<Rightarrow> int n * 10 ^ (9 - length kept) | None \<Rightarrow> 0, drop (length ds) (tl s)))
         else (0, s)
     | _ \<Rightarrow> (0, s))"

definition parse_offset :: "string \<Rightarrow> (int \<times> string) option" where
  "parse_offset s = (case s of
       CHR ''Z'' # r \<Rightarrow> Some (0, r)
     | sg # a # b # c # d # e # r \<Rightarrow>
         if c \<noteq> CHR '':'' then None
         else do {
           (h, _) \<leftarrow> getnum True [a, b];
           (mi, _) \<leftarrow> getnum True [d, e];
           _ \<leftarrow> ensure (h \<le> 24 \<and> mi \<le> 60);
           if sg = CHR ''+'' then Some ((h * 60 + mi) * 60, r)
           else if sg = CHR ''-'' then Some (- ((h * 60 + mi) * 60), r) else None
         }
     | _ \<Rightarrow> None)"

definition parse_rfc3339 :: "string \<Rightarrow> int option" where
  "parse_rfc3339 s = do {
     ((y, m, d), s) \<leftarrow> parse_date s;
     s \<leftarrow> skip_char (CHR ''T'') s;
     ((h, mi), s) \<leftarrow> parse_hour_minute s;
     s \<leftarrow> skip_char (CHR '':'') s;
     (sec, s) \<leftarrow> getnum True s;
     _ \<leftarrow> ensure (sec < 60);
     let (ns, s) = parse_fraction s;
     (offset, s) \<leftarrow> parse_offset s;
     _ \<leftarrow> ensure (s = [] \<and> valid_date y m d);
     Some (instant (y, m, d) (h * 3600 + mi * 60 + sec) offset + ns)
   }"

section \<open>Reading a clock, rendering and differences\<close>

definition local_date :: "int \<Rightarrow> int \<Rightarrow> int \<times> int \<times> int" where
  "local_date offset t = date_of_day ((t div nanos + offset) div 86400)"

definition second_of_day :: "int \<Rightarrow> int \<Rightarrow> int" where
  "second_of_day offset t = (t div nanos + offset) mod 86400"

definition year_text :: "int \<Rightarrow> string" where
  "year_text y = (if y < 0 then CHR ''-'' # pad_zeros 4 (nat_text (nat (- y))) else pad_zeros 4 (nat_text (nat y)))"

definition two_digits :: "int \<Rightarrow> string" where
  "two_digits n = pad_zeros 2 (nat_text (nat n))"

definition minute_text :: "int \<Rightarrow> int \<Rightarrow> string" where
  "minute_text offset t =
     (let sec = second_of_day offset t in
      case local_date offset t of (y, m, d) \<Rightarrow>
        year_text y @ ''-'' @ two_digits m @ ''-'' @ two_digits d @ '' '' @
        two_digits (sec div 3600) @ '':'' @ two_digits (sec div 60 mod 60))"

text \<open>Durations are 64-bit: products wrap, \<open>Sub\<close> saturates, \<open>Round\<close> of a positive one goes up at a half.\<close>

definition wrap_int64 :: "int \<Rightarrow> int" where
  "wrap_int64 n = sint (word_of_int n :: 64 word)"

definition time_sub :: "int \<Rightarrow> int \<Rightarrow> int" where
  "time_sub t u = max min_int64 (min max_int64 (t - u))"

definition round_to :: "int \<Rightarrow> int \<Rightarrow> int" where
  "round_to unit d = (let r = d mod unit in
     if 2 * r < unit then d - r else if d + unit - r \<le> max_int64 then d + unit - r else max_int64)"

section \<open>What is rendered reads back\<close>

lemma nat_text_one: "n < 10 \<Longrightarrow> nat_text n = [char_of (48 + n)]"
  by (subst nat_text.simps) simp

lemma nat_text_two: "\<not> n < 10 \<Longrightarrow> n < 100 \<Longrightarrow> nat_text n = [char_of (48 + n div 10), char_of (48 + n mod 10)]"
  by (subst nat_text.simps) (simp add: nat_text_one)

lemma char_of_48: "char_of (48 :: nat) = CHR ''0''"
  by (simp add: char_of_def bit_0)

lemma two_digits:
  assumes "0 \<le> n" and "n < 100"
  shows "two_digits n = [char_of (48 + nat n div 10), char_of (48 + nat n mod 10)]"
proof (cases "nat n < 10")
  case True
  then show ?thesis by (simp add: two_digits_def nat_text_one pad_zeros_def char_of_48)
next
  case False
  then show ?thesis using assms by (simp add: two_digits_def nat_text_two pad_zeros_def)
qed

lemma getnum_two_digits:
  assumes "0 \<le> n" and "n < 100"
  shows "getnum fixed (two_digits n @ s) = Some (n, s)"
proof -
  have "nat n div 10 < 10" "nat n mod 10 < 10" using assms by simp_all
  then have "10 * digit_val (char_of (48 + nat n div 10)) + digit_val (char_of (48 + nat n mod 10)) = nat n"
    "is_digit (char_of (48 + nat n div 10))" "is_digit (char_of (48 + nat n mod 10))"
    by (simp_all add: char_of_digit)
  then show ?thesis using assms by (simp add: two_digits getnum_def)
qed

lemma digits_val_zeros: "digits_val 0 (replicate k (CHR ''0'') @ s) = digits_val 0 s"
  by (induction k) (simp_all add: is_digit_def digit_val_def)

lemma nat_text_length: "n < 10 ^ k \<Longrightarrow> 0 < k \<Longrightarrow> length (nat_text n) \<le> k"
proof (induction k arbitrary: n)
  case (Suc k)
  show ?case
  proof (cases "n < 10")
    case False
    then have "k \<noteq> 0" using Suc.prems by (cases k) simp_all
    moreover have "n div 10 < 10 ^ k" using Suc.prems by (simp add: div_less_iff_less_mult mult.commute)
    ultimately show ?thesis using Suc.IH [of "n div 10"] False by (subst nat_text.simps) simp
  qed (simp add: nat_text_one)
qed simp

lemma year_text_code [code]:
  "year_text y = (if y < 0 then CHR ''-'' # pad_zeros 4 (int_digits (- y)) else pad_zeros 4 (int_digits y))"
  by (simp add: year_text_def nat_text_nat)

lemma two_digits_code [code]: "two_digits n = (if 0 \<le> n then pad_zeros 2 (int_digits n) else ''00'')"
  by (simp add: two_digits_def nat_text_nat) (subst nat_text.simps, simp add: pad_zeros_def char_of_48)

lemma parse_year_text:
  assumes "0 \<le> y" and "y < 10000"
  shows "parse_year (year_text y @ s) = Some (y, s)"
proof -
  have "length (nat_text (nat y)) \<le> 4" using assms by (intro nat_text_length) simp_all
  then have "length (year_text y) = 4" using assms by (simp add: year_text_def pad_zeros_def)
  moreover have "digits_val 0 (year_text y) = Some (nat y)"
    using assms by (simp add: year_text_def pad_zeros_def digits_val_zeros digits_val_nat_text)
  ultimately show ?thesis using assms by (simp add: parse_year_def)
qed

lemma skip_char_Cons [simp]: "skip_char c (c # s) = Some s"
  by (simp add: skip_char_def)

lemma parse_date_text:
  assumes "valid_date y m d" and "0 \<le> y" and "y < 10000"
  shows "parse_date (year_text y @ ''-'' @ two_digits m @ ''-'' @ two_digits d @ s) = Some ((y, m, d), s)"
proof -
  have m: "1 \<le> m" "m \<le> 12" and d: "1 \<le> d" "d \<le> month_lengths y ! nat (m - 1)" using assms(1) by (auto simp: valid_date_def)
  have "\<forall>l \<in> set (month_lengths y). l \<le> 31" by (simp add: month_lengths_def)
  moreover have "month_lengths y ! nat (m - 1) \<in> set (month_lengths y)" using m by (intro nth_mem) simp
  ultimately have "d < 100" using d by force
  with m d assms show ?thesis
    by (simp add: parse_date_def parse_year_text getnum_two_digits)
qed

lemma parse_hour_minute_text:
  assumes "0 \<le> h" "h < 24" "0 \<le> mi" "mi < 60"
  shows "parse_hour_minute (two_digits h @ '':'' @ two_digits mi) = Some ((h, mi), [])"
proof -
  have "getnum f (two_digits mi) = Some (mi, [])" for f
    using getnum_two_digits [of mi f "[]"] assms by simp
  with assms show ?thesis by (simp add: parse_hour_minute_def getnum_two_digits)
qed

definition floor_minute :: "int \<Rightarrow> int \<Rightarrow> int" where
  "floor_minute offset t = ((t div nanos + offset) div 60 * 60 - offset) * nanos"

lemma two_digits_space: "0 \<le> n \<Longrightarrow> n < 100 \<Longrightarrow> dropWhile (\<lambda>c. c = CHR '' '') (two_digits n @ s) = two_digits n @ s"
proof -
  assume n: "0 \<le> n" "n < 100"
  then have "is_digit (char_of (48 + nat n div 10))" by (intro char_of_digit) simp
  moreover have "\<not> is_digit (CHR '' '')" by (simp add: is_digit_def)
  ultimately have "char_of (48 + nat n div 10) \<noteq> CHR '' ''" by metis
  with n show ?thesis by (simp add: two_digits)
qed

lemma minutes_split: "q div k * (k * 60) + q mod k * 60 = q * (60 :: int)"
  by (metis distrib_right div_mult_mod_eq mult.assoc)

lemma div_mult2_numeral: "q div 60 div 60 = q div (3600 :: int)"
  using zdiv_zmult2_eq [of 60 q 60] by simp

lemma day_split: "l div 86400 * 86400 + l mod 86400 div 60 * 60 = l div 60 * (60 :: int)"
proof -
  have "l mod 86400 = 60 * (l div 60 mod 1440) + l mod 60" using zmod_zmult2_eq [of 1440 l 60] by simp
  then have "l mod 86400 div 60 = l div 60 mod 1440" by simp
  moreover have "l div 86400 = l div 60 div 1440" using zdiv_zmult2_eq [of 1440 l 60] by simp
  ultimately show ?thesis using minutes_split [of "l div 60" 1440] by simp
qed

lemma minute_text_reads_back:
  assumes "local_date offset t = (y, m, d)" and "0 \<le> y" and "y < 10000"
  shows "parse_local_minute offset (minute_text offset t) = Some (floor_minute offset t)"
proof -
  let ?l = "t div nanos + offset"
  let ?s = "second_of_day offset t"
  have s: "?s = ?l mod 86400" by (simp add: second_of_day_def)
  have h: "0 \<le> ?s div 3600" "?s div 3600 < 24" "0 \<le> ?s div 60 mod 60" "?s div 60 mod 60 < 60"
    unfolding s by (simp_all add: div_less_iff_less_mult pos_imp_zdiv_nonneg_iff)
  from date_of_day_valid [OF assms(1) [unfolded local_date_def]]
  have v: "valid_date y m d" "day_of_date y m d = ?l div 86400" .
  have "?s div 3600 * 3600 + ?s div 60 mod 60 * 60 = ?s div 60 * 60"
    using minutes_split [of "?s div 60" 60] by (simp add: div_mult2_numeral)
  moreover have "?l div 86400 * 86400 + ?s div 60 * 60 = ?l div 60 * 60"
    unfolding s by (rule day_split)
  ultimately have "instant (y, m, d) (?s div 3600 * 3600 + ?s div 60 mod 60 * 60) offset = floor_minute offset t"
    by (simp add: instant_def floor_minute_def v(2))
  moreover have "parse_date (minute_text offset t) = Some ((y, m, d), '' '' @ two_digits (?s div 3600) @ '':'' @ two_digits (?s div 60 mod 60))"
    using parse_date_text [OF v(1) assms(2,3)] by (simp add: minute_text_def assms(1) Let_def)
  ultimately show ?thesis
    using h v(1) parse_hour_minute_text [OF h]
    by (simp add: parse_local_minute_def skip_spaces_def two_digits_space)
qed

end
