(* ===== verification/ScheduleWorkflow.thy ===== *)
theory ScheduleWorkflow
  imports InstanceWorkflows GoTime
begin

text \<open>
  The scheduled stop of an instance (\<open>workflow/scheduler.go\<close>). The two readings of the clock a run
  makes, when it drafts the time and when it computes it after the confirmation, are arguments of
  the workflow. Asia/Shanghai is eight hours ahead of UTC, as it has been since 1991. The texts of
  cards and refusals are glosses, apart from the times and numbers in them.
\<close>

section \<open>The time of a schedule\<close>

definition shutdown_minimum_lead :: int where "shutdown_minimum_lead = 300 * nanos"
definition shutdown_transport_allowance :: int where "shutdown_transport_allowance = 5 * nanos"
definition shanghai_loc :: int where "shanghai_loc = 28800"

definition shutdown_schedule_location :: "gmap \<Rightarrow> int res" where
  "shutdown_schedule_location schedule =
     (let tz = trim_space (as_str (mval schedule ''timezone'')) in
      if tz \<in> {[], ''Asia/Shanghai''} then Inr shanghai_loc
      else if tz = ''UTC'' then Inr 0 else Inl (plain_err ''the timezone is Asia/Shanghai or UTC''))"

definition numeric_value :: "gval \<Rightarrow> gfloat option" where
  "numeric_value v = (case v of
       GInt n \<Rightarrow> Some (Fin (of_int n)) | GInt64 n \<Rightarrow> Some (Fin (of_int n)) | GFloat x \<Rightarrow> Some x | _ \<Rightarrow> None)"

definition format_relative_duration :: "int \<Rightarrow> string" where
  "format_relative_duration d =
     (let minutes = d div (60 * nanos) in
      if minutes < 60 then ''in about '' @ int_text minutes @ '' minutes''
      else if minutes mod 60 = 0 then ''in about '' @ int_text (minutes div 60) @ '' hours''
      else ''in about '' @ int_text (minutes div 60) @ '' hours '' @ int_text (minutes mod 60) @ '' minutes'')"

definition format_shutdown_display :: "int \<Rightarrow> int \<Rightarrow> string" where
  "format_shutdown_display target now = minute_text shanghai_loc target @ '' (Beijing time, '' @
     format_relative_duration (round_to (60 * nanos) (time_sub target now)) @ '')''"

definition after_minutes_target :: "int \<Rightarrow> gval \<Rightarrow> int res" where
  "after_minutes_target now v = (case numeric_value v of
       None \<Rightarrow> Inl (plain_err ''minutes is a positive integer'')
     | Some x \<Rightarrow>
         if \<not> flt_integral x then Inl (plain_err ''minutes is a positive integer'')
         else (let n = int64_of_float x in
           if n < 5 then Inl (plain_err ''at least 5 minutes'')
           else (let t = now + wrap_int64 (n * (60 * nanos)) in
             Inr (if n = 5 then t + shutdown_transport_allowance else t))))"

definition local_clock_target :: "int \<Rightarrow> int \<Rightarrow> int \<Rightarrow> string \<Rightarrow> int res" where
  "local_clock_target now offset days_ahead clock = (case parse_clock (trim_space clock) of
       None \<Rightarrow> Inl (plain_err ''local_time is HH:MM'')
     | Some (h, mi) \<Rightarrow>
         Inr (instant (local_date offset now) (days_ahead * 86400 + h * 3600 + mi * 60) offset))"

definition absolute_target :: "int \<Rightarrow> string \<Rightarrow> int res" where
  "absolute_target offset str = (case parse_rfc3339 (trim_space str) of
       Some t \<Rightarrow> Inr t
     | None \<Rightarrow> (case parse_local_minute offset (trim_space str) of
           Some t \<Rightarrow> Inr t | None \<Rightarrow> Inl (plain_err ''at is RFC3339 or YYYY-MM-DD HH:MM'')))"

definition schedule_target :: "int \<Rightarrow> gmap \<Rightarrow> int \<Rightarrow> int res" where
  "schedule_target now schedule offset =
     (let mode = as_str (mval schedule ''mode'') in
      if mode = ''after_minutes'' then after_minutes_target now (mval schedule ''minutes'')
      else if mode = ''today'' then local_clock_target now offset 0 (as_str (mval schedule ''local_time''))
      else if mode = ''tomorrow'' then local_clock_target now offset 1 (as_str (mval schedule ''local_time''))
      else if mode = ''absolute'' then absolute_target offset (as_str (mval schedule ''at''))
      else Inl (plain_err ''the mode is after_minutes, today, tomorrow or absolute''))"

text \<open>The instant sent upstream, in seconds, and the text of the card.\<close>

definition resolve_shutdown_time :: "int \<Rightarrow> gmap \<Rightarrow> (int \<times> string) res" where
  "resolve_shutdown_time now ps = (case mget ps ''Schedule'' of
       None \<Rightarrow> Inl (new_missing_slot_error ''name the time of the stop'' [''schedule''])
     | Some (GMap schedule) \<Rightarrow>
         (case shutdown_schedule_location schedule of
            Inl e \<Rightarrow> Inl e
          | Inr offset \<Rightarrow> (case schedule_target now schedule offset of
              Inl e \<Rightarrow> Inl e
            | Inr target \<Rightarrow>
                if target < now + (shutdown_minimum_lead + shutdown_transport_allowance)
                then Inl (plain_err ''the stop must be at least 5 minutes ahead'')
                else Inr (target div nanos, format_shutdown_display target now)))
     | Some _ \<Rightarrow> Inl (plain_err ''a schedule is structured''))"

definition validate_shutdown_schedule :: "int \<Rightarrow> gval \<Rightarrow> gerr option" where
  "validate_shutdown_schedule now v = (case resolve_shutdown_time now [(''Schedule'', v)] of
       Inl e \<Rightarrow> Some e | Inr _ \<Rightarrow> None)"

section \<open>The workflow\<close>

definition q_shutdown_draft :: string where "q_shutdown_draft = ''draft the scheduled stop''"
definition q_shutdown_final :: string where "q_shutdown_final = ''compute the time after the confirmation''"
definition q_shutdown_readback :: string where "q_shutdown_readback = ''read back the scheduled stop''"

definition check_scheduler :: "gmap \<Rightarrow> check_outcome" where
  "check_scheduler result =
     (if extract_instance_state result = [] then check_failed ''instance not found''
      else if extract_first_bool result ''IsSpot'' then check_failed ''a spot instance takes no scheduled stop''
      else check_passed)"

definition scheduler_draft :: "int \<Rightarrow> 'r wctx \<Rightarrow> gmap res" where
  "scheduler_draft now c = (case resolve_shutdown_time now (ctx_params c) of
       Inl e \<Rightarrow> Inl e
     | Inr (unix, display) \<Rightarrow>
         (case mval (ctx_params c) ''Schedule'' of
            GMap schedule \<Rightarrow>
              (let relative = equal_fold (trim_space (param_str schedule ''mode'' [])) ''after_minutes'';
                   minutes = (case numeric_value (mval schedule ''minutes'') of Some x \<Rightarrow> x | None \<Rightarrow> Fin 0)
               in Inr [(''preview_unix'', GInt64 unix),
                 (''display'', GStr (if relative
                    then ''about '' @ float_text_0 minutes @ '' minutes after the confirmation (as of now '' @ display @ '')''
                    else display)),
                 (''schedule'', GMap schedule)])
          | _ \<Rightarrow> Inl (plain_err ''a schedule is structured'')))"

text \<open>The draft as it is used: what is shown and the schedule it was drafted from.\<close>

definition shutdown_draft_from_value :: "gmap \<Rightarrow> (string \<times> gmap) res" where
  "shutdown_draft_from_value draft = (case mval draft ''display'' of
       GStr display \<Rightarrow>
         if trim_space display = [] then Inl (plain_err ''no time to show'')
         else (case mval draft ''schedule'' of
             GMap schedule \<Rightarrow> if schedule = [] then Inl (plain_err ''no schedule'') else Inr (display, schedule)
           | _ \<Rightarrow> Inl (plain_err ''no schedule''))
     | _ \<Rightarrow> Inl (plain_err ''no time to show''))"

definition scheduler_card :: "'r wctx \<Rightarrow> gmap res" where
  "scheduler_card c = (case shutdown_draft_from_value (ctx_result c q_shutdown_draft) of
       Inl e \<Rightarrow> Inl e
     | Inr (display, schedule) \<Rightarrow>
         (case extract_required_instance_location (ctx_result c q_instance) [] of
            Inl e \<Rightarrow> Inl e
          | Inr _ \<Rightarrow> Inr (mput ''shutdownTime'' (GStr display) (extract_instance_summary (ctx_result c q_instance)))))"

definition scheduler_final :: "int \<Rightarrow> 'r wctx \<Rightarrow> gmap res" where
  "scheduler_final now c = (case shutdown_draft_from_value (ctx_result c q_shutdown_draft) of
       Inl e \<Rightarrow> Inl e
     | Inr (_, schedule) \<Rightarrow>
         (case resolve_shutdown_time now [(''Schedule'', GMap schedule)] of
            Inl e \<Rightarrow> Inl e
          | Inr (unix, display) \<Rightarrow> Inr [(''unix'', GInt64 unix), (''display'', GStr display)]))"

definition shutdown_resolved_from_result :: "gmap \<Rightarrow> int res" where
  "shutdown_resolved_from_result raw = (case mval raw ''unix'' of
       GInt64 unix \<Rightarrow> if unix \<le> 0 then Inl (plain_err ''no valid time'') else Inr unix
     | _ \<Rightarrow> Inl (plain_err ''no valid time''))"

definition set_stop_args :: "'r wctx \<Rightarrow> gmap res" where
  "set_stop_args c = (case shutdown_resolved_from_result (ctx_result c q_shutdown_final) of
       Inl e \<Rightarrow> Inl e
     | Inr unix \<Rightarrow> (case extract_required_instance_location (ctx_result c q_instance) [] of
           Inl e \<Rightarrow> Inl e
         | Inr (region, zone) \<Rightarrow> Inr [(''Region'', GStr region), (''Zone'', GStr zone),
             (''UHostId'', mval (ctx_params c) ''UHostId''), (''SchedulerStopTime'', GInt64 unix)]))"

definition set_stop_scheduler_result_data :: "'r wctx \<Rightarrow> gmap option" where
  "set_stop_scheduler_result_data c = (case shutdown_resolved_from_result (ctx_result c q_shutdown_final) of
       Inl _ \<Rightarrow> None
     | Inr want \<Rightarrow> (let seen = scheduler_stop_time (ctx_result c q_shutdown_readback) in
         Some [(''RequestedStopTime'', GInt64 want), (''ObservedStopTime'', GInt64 seen), (''Verified'', GBool (seen = want))]))"

definition set_stop_scheduler_workflow :: "int \<Rightarrow> int \<Rightarrow> 'r definition_" where
  "set_stop_scheduler_workflow now_draft now_final = (plain_definition ''SetStopSchedulerWorkflow''
     [step_query_instance (Some (checks check_scheduler)),
      resolve_step q_shutdown_draft (reads (scheduler_draft now_draft)),
      confirm_step ''confirm scheduled stop'' (reads scheduler_card),
      resolve_step q_shutdown_final (reads (scheduler_final now_final)),
      tool_step ''set scheduled stop'' ''UpdateCompShareStopScheduler'' (reads set_stop_args) None,
      (tool_step q_shutdown_readback ''DescribeCompShareInstance''
         (reads (\<lambda>c. Inr (instance_query_args (ctx_params c)))) None)\<lparr>st_optional := True\<rparr>])
     \<lparr>def_result_data := Some set_stop_scheduler_result_data\<rparr>"

end
