(* ===== verification/ScheduleProps.thy ===== *)
theory ScheduleProps
  imports GatedWrites ScheduleWorkflow
begin

text \<open>
  The scheduled stop: what is sent is the schedule of the card, resolved again when the user has
  accepted it, and how that can differ from what the card showed.
\<close>

section \<open>Resolving a schedule\<close>

lemma resolve_shutdown_Inr:
  assumes "resolve_shutdown_time now ps = Inr (unix, display)"
  shows "\<exists>schedule offset target. mget ps ''Schedule'' = Some (GMap schedule) \<and>
    shutdown_schedule_location schedule = Inr offset \<and> schedule_target now schedule offset = Inr target \<and>
    now + 305 * nanos \<le> target \<and> unix = target div nanos \<and> display = format_shutdown_display target now"
  using assms
  by (auto simp: resolve_shutdown_time_def shutdown_minimum_lead_def shutdown_transport_allowance_def
      split: option.splits gval.splits sum.splits if_splits)

lemma resolve_shutdown_lead:
  assumes "resolve_shutdown_time now ps = Inr (unix, display)"
  shows "now div nanos + 305 \<le> unix"
proof -
  from resolve_shutdown_Inr [OF assms] obtain target where t: "now + 305 * nanos \<le> target" "unix = target div nanos" by blast
  have "(now + 305 * nanos) div nanos \<le> unix" unfolding t(2) by (rule zdiv_mono1 [OF t(1)]) (simp add: nanos_def)
  then show ?thesis by (simp add: nanos_def)
qed

lemma minute_text_second: "minute_text offset (t div nanos * nanos) = minute_text offset t"
  by (simp add: minute_text_def local_date_def second_of_day_def nanos_def)

text \<open>An absolute schedule means the same instant whenever it is resolved.\<close>

lemma absolute_schedule_fixed:
  assumes "as_str (mval schedule ''mode'') = ''absolute''" and "mget ps ''Schedule'' = Some (GMap schedule)"
    and "resolve_shutdown_time now ps = Inr (unix, display)"
    and "resolve_shutdown_time now' [(''Schedule'', GMap schedule)] = Inr (unix', display')"
  shows "unix' = unix" and "\<exists>r. display = minute_text shanghai_loc (unix * nanos) @ r"
proof -
  from resolve_shutdown_Inr [OF assms(3)] assms(1,2) obtain offset target where
    a: "shutdown_schedule_location schedule = Inr offset" "absolute_target offset (as_str (mval schedule ''at'')) = Inr target"
      "unix = target div nanos" "display = format_shutdown_display target now"
    by (auto simp: schedule_target_def Let_def)
  from resolve_shutdown_Inr [OF assms(4)] assms(1) a(1,2) have "unix' = target div nanos"
    by (auto simp: schedule_target_def Let_def)
  then show "unix' = unix" using a(3) by simp
  show "\<exists>r. display = minute_text shanghai_loc (unix * nanos) @ r"
    unfolding a(3,4) minute_text_second format_shutdown_display_def by blast
qed

section \<open>The call\<close>

lemma schedule_plain: "list_all plain (def_steps (set_stop_scheduler_workflow n1 n2))"
  by (simp add: set_stop_scheduler_workflow_def)


definition demo_schedule :: gmap where
  "demo_schedule = [(''mode'', GStr ''absolute''), (''at'', GStr ''1970-01-01 09:00'')]"

definition demo_stop_request :: gmap where
  "demo_stop_request = [(''UHostId'', GStr ''uhost-1''), (''Schedule'', GMap demo_schedule)]"


section \<open>Where the schedule and the card part\<close>

text \<open>A number of minutes is multiplied in 64-bit nanoseconds: 307445745 minutes, five centuries and
  more, wrap around to a stop eleven minutes ahead, which the check of the lead lets through.\<close>

lemma after_minutes_wraps:
  "map_sum id fst (resolve_shutdown_time 0 [(''Schedule'',
     GMap [(''mode'', GStr ''after_minutes''), (''minutes'', GInt 307445745)])]) = Inr 626"
  by code_simp

text \<open>A schedule for today that is confirmed after midnight means the next day: the card was drawn at
  23:00 for 23:30 of that day, and at 00:10 the time sent is 23:30 of the day after.\<close>

lemma today_moves_past_midnight:
  "map_sum id fst (resolve_shutdown_time (54000 * nanos) [(''Schedule'',
     GMap [(''mode'', GStr ''today''), (''local_time'', GStr ''23:30'')])]) = Inr 55800"
  "map_sum id fst (resolve_shutdown_time (58200 * nanos) [(''Schedule'',
     GMap [(''mode'', GStr ''today''), (''local_time'', GStr ''23:30'')])]) = Inr (55800 + 86400)"
  by code_simp+

end
