(* ===== verification/ImageResolve.thy ===== *)
theory ImageResolve
  imports Catalogs
begin

text \<open>
  The image interpreter (\<open>internal/deployment/image_resolve.go\<close>): a request is answered by an
  explicit id, by an exact name, or by ranked recommendations, always against the catalog
  snapshot of the turn. \<open>ImageSelection\<close> is the zero value unless a request is resolved; here
  it is an option.
\<close>

section \<open>Requests and answers\<close>

datatype resolution_status =
    ResolutionResolved | ResolutionAmbiguous | ResolutionNotFound | ResolutionCatalogUnavailable

datatype provenance =
    ProvenanceCatalogExactID | ProvenanceCatalogExactName | ProvenanceStructuredRecommendation
  | ProvenanceCallerSuppliedUnverified

record image_selection =
  se_id :: string
  se_name :: string
  se_source :: string
  se_container :: bool
  se_provenance :: provenance

record image_request =
  ir_id :: string
  ir_name :: string
  ir_framework :: string
  ir_cuda :: string
  ir_os :: string
  ir_python :: string
  ir_tag :: string
  ir_gpu :: string
  ir_zone :: string
  ir_is_pod :: bool
  ir_source :: string
  ir_prefiltered :: bool

record image_resolution =
  rn_status :: resolution_status
  rn_selection :: "image_selection option"
  rn_candidates :: "image_selection list"

definition selection_from :: "provenance \<Rightarrow> image_row \<Rightarrow> image_selection" where
  "selection_from prov e = \<lparr>se_id = im_id e, se_name = im_name e, se_source = im_source e,
     se_container = im_container e, se_provenance = prov\<rparr>"

definition selections :: "image_row list \<Rightarrow> provenance \<Rightarrow> image_selection list" where
  "selections es prov = map (selection_from prov) es"

definition refused :: "resolution_status \<Rightarrow> image_selection list \<Rightarrow> image_resolution" where
  "refused st cs = \<lparr>rn_status = st, rn_selection = None, rn_candidates = cs\<rparr>"

definition resolved :: "image_selection \<Rightarrow> image_selection list \<Rightarrow> image_resolution" where
  "resolved sel cs = \<lparr>rn_status = ResolutionResolved, rn_selection = Some sel, rn_candidates = cs\<rparr>"

section \<open>Filters\<close>

definition has_specific_request :: "image_request \<Rightarrow> bool" where
  "has_specific_request req = list_ex (\<lambda>s. trim_space s \<noteq> [])
     [ir_name req, ir_framework req, ir_cuda req, ir_os req, ir_python req, ir_tag req]"

definition scope_by_source :: "image_row list \<Rightarrow> string \<Rightarrow> image_row list" where
  "scope_by_source es source =
     (if trim_space source = [] then es else filter (\<lambda>e. equal_fold (im_source e) (trim_space source)) es)"

definition viable :: "image_request \<Rightarrow> image_row \<Rightarrow> bool" where
  "viable req e \<longleftrightarrow> image_status_usable (im_source e) (im_status e) \<and> (ir_is_pod req \<longrightarrow> im_container e)"

definition viable_entries :: "image_row list \<Rightarrow> image_request \<Rightarrow> image_row list" where
  "viable_entries es req = filter (viable req) es"

definition exact_name_matches :: "image_row list \<Rightarrow> string \<Rightarrow> image_row list" where
  "exact_name_matches es name =
     (let want = to_lower (trim_space name) in
      if want = [] then [] else filter (\<lambda>e. to_lower (trim_space (im_name e)) = want) es)"

section \<open>Versions\<close>

definition strip_prefix :: "string \<Rightarrow> string \<Rightarrow> string" where
  "strip_prefix p s = (if has_prefix s p then drop (length p) s else s)"

fun parse_parts :: "string list \<Rightarrow> nat list option" where
  "parse_parts [] = Some []"
| "parse_parts (p # ps) = (case parse_uint 64 p of
       None \<Rightarrow> None
     | Some n \<Rightarrow> map_option ((#) n) (parse_parts ps))"

definition parse_dotted :: "string \<Rightarrow> nat list option" where
  "parse_dotted raw =
     (let core = takeWhile (\<lambda>c. c \<noteq> CHR ''+'' \<and> c \<noteq> CHR ''-'')
                   (strip_prefix ''V'' (strip_prefix ''v'' (trim_space raw)))
      in if core = [] then None else parse_parts (split_on (CHR ''.'') core))"

text \<open>Missing components count as zero.\<close>

fun compare_parts :: "nat list \<Rightarrow> nat list \<Rightarrow> int" where
  "compare_parts [] [] = 0"
| "compare_parts [] (r # rs) = (if 0 < r then -1 else compare_parts [] rs)"
| "compare_parts (l # ls) [] = (if 0 < l then 1 else compare_parts ls [])"
| "compare_parts (l # ls) (r # rs) = (if l < r then -1 else if r < l then 1 else compare_parts ls rs)"

definition compare_dotted_version :: "string \<Rightarrow> string \<Rightarrow> int option" where
  "compare_dotted_version a b = (case (parse_dotted a, parse_dotted b) of
       (Some l, Some r) \<Rightarrow> Some (compare_parts l r) | _ \<Rightarrow> None)"

definition same_framework :: "image_row \<Rightarrow> image_row \<Rightarrow> bool" where
  "same_framework a b \<longleftrightarrow> sw_present (im_software a) \<and> sw_present (im_software b) \<and>
     equal_fold (sw_framework (im_software a)) (sw_framework (im_software b))"

definition cross_framework_collision :: "image_row \<Rightarrow> image_row \<Rightarrow> bool" where
  "cross_framework_collision a b \<longleftrightarrow> sw_present (im_software a) \<and> sw_present (im_software b) \<and>
     \<not> equal_fold (sw_framework (im_software a)) (sw_framework (im_software b))"

text \<open>What the framework versions say about two rows; \<open>None\<close>: nothing.\<close>

definition version_less :: "image_row \<Rightarrow> image_row \<Rightarrow> bool option" where
  "version_less a b =
     (if \<not> same_framework a b then None
      else if sw_version_index (im_software a) \<noteq> sw_version_index (im_software b)
      then Some (sw_version_index (im_software b) < sw_version_index (im_software a))
      else case compare_dotted_version (sw_framework_version (im_software a))
                  (sw_framework_version (im_software b)) of
        Some c \<Rightarrow> if c \<noteq> 0 then Some (0 < c) else None
      | None \<Rightarrow> None)"

definition ladder_less :: "image_row \<Rightarrow> image_row \<Rightarrow> bool" where
  "ladder_less a b = (case version_less a b of Some r \<Rightarrow> r | None \<Rightarrow> im_pub_time b < im_pub_time a)"

definition sort_by_version_ladder :: "image_row list \<Rightarrow> image_row list" where
  "sort_by_version_ladder es = slice_stable ladder_less es"

section \<open>Scores\<close>

definition split_fields :: "(char \<Rightarrow> bool) \<Rightarrow> string \<Rightarrow> string list" where
  "split_fields sep s =
     filter (\<lambda>p. p \<noteq> []) (split_on (CHR '' '') (map (\<lambda>c. if sep c then CHR '' '' else c) s))"

definition token_separator :: "char \<Rightarrow> bool" where
  "token_separator c = (c \<in> {CHR '' '', CHR ''_'', CHR ''-'', CHR ''.'', CHR ''/''})"

definition shares_token :: "string \<Rightarrow> string \<Rightarrow> bool" where
  "shares_token a b =
     (let toks = (\<lambda>s. filter (\<lambda>t. 3 \<le> length t) (split_fields token_separator s)) in
      list_ex (\<lambda>t. t \<in> set (toks a)) (toks b))"

definition shared_substring :: "string \<Rightarrow> string \<Rightarrow> nat \<Rightarrow> bool" where
  "shared_substring a b n =
     (let la = to_lower a; lb = to_lower b in
      n \<le> length la \<and> n \<le> length lb \<and>
      list_ex (\<lambda>i. contains_text lb (take n (drop i la))) [0..<Suc (length la - n)])"

definition name_similarity :: "string \<Rightarrow> string \<Rightarrow> nat" where
  "name_similarity want name =
     (let nm = to_lower (trim_space name) in
      if want = [] \<or> nm = [] then 0
      else if nm = want then 300
      else if contains_text nm want then 200
      else if contains_text want nm then 150
      else if shares_token want nm then 120
      else if shared_substring want nm 4 then 100
      else 0)"

definition version_related :: "string \<Rightarrow> string \<Rightarrow> bool" where
  "version_related have0 want0 =
     (let h = trim_space (to_lower have0); w = trim_space (to_lower want0) in
      h \<noteq> [] \<and> w \<noteq> [] \<and> (h = w \<or> has_prefix h w \<or> has_prefix w h))"

definition substring_fold :: "string \<Rightarrow> string \<Rightarrow> bool" where
  "substring_fold haystack needle =
     (let h = to_lower (trim_space haystack); n = to_lower (trim_space needle) in
      h \<noteq> [] \<and> n \<noteq> [] \<and> contains_text h n)"

definition structured_score :: "image_request \<Rightarrow> image_row \<Rightarrow> nat" where
  "structured_score req e =
     (let sw = im_software e in
      (if sw_present sw then
         (if ir_framework req \<noteq> [] \<and> equal_fold (trim_space (sw_framework sw)) (trim_space (ir_framework req))
          then 80 else 0) +
         (if ir_cuda req \<noteq> [] \<and> version_related (sw_cuda sw) (ir_cuda req) then 40 else 0) +
         (if ir_os req \<noteq> [] \<and> substring_fold (sw_os sw) (ir_os req) then 40 else 0) +
         (if ir_python req \<noteq> [] \<and> version_related (sw_python sw) (ir_python req) then 20 else 0)
       else 0) +
      (if ir_tag req \<noteq> [] \<and> list_ex (\<lambda>t. equal_fold (trim_space t) (trim_space (ir_tag req))) (im_tags e)
       then 60 else 0))"

definition gpu_bump :: "string \<Rightarrow> string list \<Rightarrow> nat" where
  "gpu_bump gpu supported =
     (if trim_space gpu \<noteq> [] \<and> list_ex (\<lambda>s. equal_fold (trim_space s) (trim_space gpu)) supported
      then 10 else 0)"

section \<open>Ranking\<close>

record scored_row =
  sc_row :: image_row
  sc_score :: nat
  sc_idx :: nat

definition request_preference :: "image_request \<Rightarrow> image_row \<Rightarrow> nat" where
  "request_preference req e =
     name_similarity (to_lower (trim_space (ir_name req))) (im_name e) + structured_score req e"

definition row_score :: "image_request \<Rightarrow> image_row \<Rightarrow> nat" where
  "row_score req e = request_preference req e + gpu_bump (ir_gpu req) (im_gpus e)"

definition score_rows :: "image_row list \<Rightarrow> image_request \<Rightarrow> bool \<Rightarrow> scored_row list" where
  "score_rows es req keep_all =
     filter (\<lambda>s. keep_all \<or> 0 < sc_score s)
       (map (\<lambda>(i, e). \<lparr>sc_row = e, sc_score = row_score req e, sc_idx = i\<rparr>) (enumerate 0 es))"

definition scored_less :: "bool \<Rightarrow> scored_row \<Rightarrow> scored_row \<Rightarrow> bool" where
  "scored_less by_request a b =
     (if sc_score a \<noteq> sc_score b then sc_score b < sc_score a
      else case (if by_request then version_less (sc_row a) (sc_row b) else None) of
        Some r \<Rightarrow> r
      | None \<Rightarrow>
          if by_request \<and> im_pub_time (sc_row a) \<noteq> im_pub_time (sc_row b)
          then im_pub_time (sc_row b) < im_pub_time (sc_row a)
          else sc_idx a < sc_idx b)"

definition ranked_rows :: "image_row list \<Rightarrow> image_request \<Rightarrow> bool \<Rightarrow> scored_row list" where
  "ranked_rows es req keep_all =
     (let out = score_rows es req keep_all;
          by_request = list_ex (\<lambda>s. 0 < request_preference req (sc_row s)) out
      in slice_stable (scored_less by_request) out)"

definition rank_recommendations :: "image_row list \<Rightarrow> image_request \<Rightarrow> bool \<Rightarrow> image_row list" where
  "rank_recommendations es req keep_all = map sc_row (ranked_rows es req keep_all)"

definition rank_images :: "image_row snapshot option \<Rightarrow> image_request \<Rightarrow> image_selection list" where
  "rank_images snap req =
     (if \<not> snapshot_available snap then []
      else selections (rank_recommendations
             (viable_entries (scope_by_source (image_entries snap) (ir_source req)) req) req
             (\<not> has_specific_request req)) ProvenanceStructuredRecommendation)"

section \<open>The resolution ladder\<close>

definition resolve_image :: "image_row snapshot option \<Rightarrow> image_request \<Rightarrow> image_resolution" where
  "resolve_image snap req =
     (if \<not> snapshot_available snap then refused ResolutionCatalogUnavailable []
      else if trim_space (ir_id req) \<noteq> [] then
        (case image_by_id snap (trim_space (ir_id req)) of
           None \<Rightarrow> refused ResolutionNotFound []
         | Some e \<Rightarrow> if viable req e then resolved (selection_from ProvenanceCatalogExactID e) []
                     else refused ResolutionNotFound [])
      else
        (let vs = viable_entries (scope_by_source (image_entries snap) (ir_source req)) req in
         case vs of
           [] \<Rightarrow> refused ResolutionNotFound []
         | first # _ \<Rightarrow>
             (case sort_by_version_ladder (exact_name_matches vs (ir_name req)) of
                e # es \<Rightarrow>
                  if es \<noteq> [] \<and> cross_framework_collision e (hd es)
                  then refused ResolutionAmbiguous (selections (e # es) ProvenanceCatalogExactName)
                  else resolved (selection_from ProvenanceCatalogExactName e)
                         (selections es ProvenanceCatalogExactName)
              | [] \<Rightarrow>
                  if \<not> has_specific_request req
                  then resolved (selection_from ProvenanceStructuredRecommendation first) []
                  else refused ResolutionNotFound
                         (selections (rank_recommendations vs req (ir_prefiltered req))
                            ProvenanceStructuredRecommendation))))"

section \<open>Facts\<close>

text \<open>A stored row is stored under its own id, in canonical form.\<close>

lemma new_image_entry:
  assumes "snapshot_entry (Some (new_image_snapshot av rows)) i = Some e"
  shows "to_lower (trim_space i) = to_lower (im_id e)" "trim_space (im_id e) = im_id e" "im_id e \<noteq> []" "av"
proof -
  from assms obtain r where r: "find (keyed_row im_id (to_lower (trim_space i))) (rev rows) = Some r"
    and e: "e = canonical_image_row r" and "av"
    by (auto simp: new_image_snapshot_def freeze_entry split: if_splits)
  from r have "keyed_row im_id (to_lower (trim_space i)) r" by (auto dest: find_Some_iff_first)
  with e \<open>av\<close> show "to_lower (trim_space i) = to_lower (im_id e)" "trim_space (im_id e) = im_id e" "im_id e \<noteq> []" "av"
    by (simp_all add: keyed_row_def canonical_image_row_def)
qed

lemma new_image_entry_self:
  assumes "snapshot_entry (Some (new_image_snapshot av rows)) i = Some e"
  shows "image_by_id (Some (new_image_snapshot av rows)) (im_id e) = Some e"
  using assms new_image_entry [OF assms]
  by (simp add: image_by_id_def snapshot_entry_def split: if_splits)

lemma image_entries_member: "e \<in> set (image_entries s) \<Longrightarrow> \<exists>i. snapshot_entry s i = Some e"
  by (auto simp: image_entries_def List.map_filter_def)

lemma viable_entries_member:
  "e \<in> set (viable_entries (scope_by_source es src) req) \<Longrightarrow> e \<in> set es \<and> viable req e"
  by (auto simp: viable_entries_def scope_by_source_def split: if_splits)

lemma exact_name_member:
  "e \<in> set (exact_name_matches es name) \<Longrightarrow>
   e \<in> set es \<and> trim_space name \<noteq> [] \<and> to_lower (trim_space (im_name e)) = to_lower (trim_space name)"
  by (auto simp: exact_name_matches_def Let_def to_lower_def split: if_splits)

lemma resolve_image_cases:
  assumes "rn_selection (resolve_image snap req) = Some sel"
  obtains
    (by_id) e where "trim_space (ir_id req) \<noteq> []" "image_by_id snap (trim_space (ir_id req)) = Some e"
      "viable req e" "sel = selection_from ProvenanceCatalogExactID e"
  | (by_name) e where "trim_space (ir_id req) = []" "e \<in> set (image_entries snap)" "viable req e"
      "trim_space (ir_name req) \<noteq> []" "to_lower (trim_space (im_name e)) = to_lower (trim_space (ir_name req))"
      "sel = selection_from ProvenanceCatalogExactName e"
  | (default) e where "trim_space (ir_id req) = []" "e \<in> set (image_entries snap)" "viable req e"
      "\<not> has_specific_request req" "sel = selection_from ProvenanceStructuredRecommendation e"
proof -
  let ?vs = "viable_entries (scope_by_source (image_entries snap) (ir_source req)) req"
  show thesis
  proof (cases "trim_space (ir_id req) = []")
    case False
    with assms show thesis
      by (auto simp: resolve_image_def refused_def resolved_def split: if_splits option.splits intro: by_id)
  next
    case True
    show thesis
    proof (cases "sort_by_version_ladder (exact_name_matches ?vs (ir_name req))")
      case Nil
      with True assms obtain e where "e \<in> set ?vs" "\<not> has_specific_request req"
        "sel = selection_from ProvenanceStructuredRecommendation e"
        by (auto simp: resolve_image_def refused_def resolved_def Let_def split: if_splits list.splits)
      with True show thesis by (auto dest!: viable_entries_member intro: default)
    next
      case (Cons e es)
      then have "e \<in> set (exact_name_matches ?vs (ir_name req))"
        by (metis list.set_intros(1) set_slice_stable sort_by_version_ladder_def)
      moreover have "sel = selection_from ProvenanceCatalogExactName e"
        using True assms Cons
        by (auto simp: resolve_image_def refused_def resolved_def Let_def split: if_splits list.splits)
      ultimately show thesis
        using True by (auto dest!: exact_name_member viable_entries_member intro: by_name)
    qed
  qed
qed

lemma resolve_image_entry:
  assumes "rn_selection (resolve_image snap req) = Some sel"
  shows "\<exists>i e. snapshot_entry snap i = Some e \<and> viable req e \<and> sel = selection_from (se_provenance sel) e"
  using assms
proof (cases rule: resolve_image_cases)
  case (by_id e)
  then show ?thesis by (auto simp: image_by_id_def selection_from_def)
next
  case (by_name e)
  then show ?thesis using image_entries_member [of e snap] by (auto simp: selection_from_def)
next
  case (default e)
  then show ?thesis using image_entries_member [of e snap] by (auto simp: selection_from_def)
qed

lemma resolved_has_selection:
  assumes "rn_status (resolve_image snap req) = ResolutionResolved"
  shows "rn_selection (resolve_image snap req) \<noteq> None"
  using assms
  by (auto simp: resolve_image_def refused_def resolved_def Let_def split: if_splits option.splits list.splits)

lemma score_rows_idx: "sorted_wrt (\<lambda>a b. sc_idx a < sc_idx b) (score_rows es req keep_all)"
proof -
  have "sorted_wrt (\<lambda>a b. sc_idx a < sc_idx b)
      (map (\<lambda>(i, e). \<lparr>sc_row = e, sc_score = row_score req e, sc_idx = i\<rparr>) (enumerate n es))" for n
    by (induction es arbitrary: n) (auto simp: in_set_enumerate_eq)
  then show ?thesis by (simp add: score_rows_def sorted_wrt_filter)
qed

lemma scored_less_score:
  "sc_score b < sc_score a \<Longrightarrow> scored_less q a b" "scored_less q a b \<Longrightarrow> sc_score b \<le> sc_score a"
  by (auto simp: scored_less_def split: if_splits)

section \<open>Properties\<close>

text \<open>C22: what an image request resolves to is a row of this turn's catalog, whole and usable: the id,
  name, source and runtime form of the selection are those of the one row stored under that id, its
  status is usable and a pod gets a container image. An explicit id selects only itself, a request that
  names or describes an image selects only a row of exactly that name, and a value the caller supplied
  without verification is never a selection.\<close>

theorem resolved_image_verified:
  assumes "rn_selection (resolve_image (Some (new_image_snapshot av rows)) req) = Some sel"
  shows "\<exists>e. image_by_id (Some (new_image_snapshot av rows)) (se_id sel) = Some e \<and>
     sel = selection_from (se_provenance sel) e \<and> viable req e \<and>
     se_provenance sel \<noteq> ProvenanceCallerSuppliedUnverified \<and>
     (trim_space (ir_id req) \<noteq> [] \<longrightarrow> equal_fold (se_id sel) (trim_space (ir_id req))) \<and>
     (trim_space (ir_id req) = [] \<and> has_specific_request req \<longrightarrow>
        equal_fold (trim_space (se_name sel)) (trim_space (ir_name req)))"
  using assms
proof (cases rule: resolve_image_cases)
  case (by_id e)
  then show ?thesis
    using new_image_entry [of av rows "trim_space (ir_id req)" e] new_image_entry_self [of av rows "trim_space (ir_id req)" e]
    by (auto simp: selection_from_def equal_fold_def image_by_id_def)
next
  case (by_name e)
  then obtain i where "snapshot_entry (Some (new_image_snapshot av rows)) i = Some e"
    by (auto dest: image_entries_member)
  with by_name new_image_entry_self [OF this] show ?thesis by (auto simp: selection_from_def equal_fold_def)
next
  case (default e)
  then obtain i where "snapshot_entry (Some (new_image_snapshot av rows)) i = Some e"
    by (auto dest: image_entries_member)
  with default new_image_entry_self [OF this] show ?thesis by (auto simp: selection_from_def)
qed

definition demo_image :: image_row where
  "demo_image = \<lparr>im_id = '' img-1'', im_name = ''Torch'', im_family_id = [], im_family_name = [],
     im_version_name = [], im_source = ''platform'', im_type = ''App'', im_status = ''Available'',
     im_container = True, im_gpus = [], im_software = no_software, im_tags = [], im_description = [],
     im_size_mb = Fin 0, im_price = Fin 0, im_price_known = False, im_create_time = 0, im_pub_time = 1,
     im_zone = [], im_zone_id = 0\<rparr>"

definition demo_image_request :: image_request where
  "demo_image_request = \<lparr>ir_id = [], ir_name = ''torch'', ir_framework = [], ir_cuda = [], ir_os = [],
     ir_python = [], ir_tag = [], ir_gpu = [], ir_zone = [], ir_is_pod = True, ir_source = [],
     ir_prefiltered = False\<rparr>"

theorem resolved_image_verified_witness:
  "rn_selection (resolve_image (Some (new_image_snapshot True [demo_image])) demo_image_request)
     = Some \<lparr>se_id = ''img-1'', se_name = ''Torch'', se_source = ''platform'', se_container = True,
             se_provenance = ProvenanceCatalogExactName\<rparr> \<and>
   (\<exists>e. image_by_id (Some (new_image_snapshot True [demo_image])) ''img-1'' = Some e \<and> viable demo_image_request e)"
proof -
  have r: "rn_selection (resolve_image (Some (new_image_snapshot True [demo_image])) demo_image_request)
     = Some \<lparr>se_id = ''img-1'', se_name = ''Torch'', se_source = ''platform'', se_container = True,
             se_provenance = ProvenanceCatalogExactName\<rparr>" by code_simp
  from resolved_image_verified [OF r] r show ?thesis by auto
qed

lemma map_insort_key: "map f (insort_key (\<lambda>x. g (f x)) x xs) = insort_key g (f x) (map f xs)"
  by (induction xs) auto

lemma map_sort_key: "map f (sort_key (\<lambda>x. g (f x)) xs) = sort_key g (map f xs)"
  by (induction xs) (simp_all add: map_insort_key)

lemma score_rows_all: "map sc_row (score_rows es req True) = es"
proof -
  have "map sc_row (map (\<lambda>(i, e). \<lparr>sc_row = e, sc_score = row_score req e, sc_idx = i\<rparr>) (enumerate n es)) = es" for n
    by (induction es arbitrary: n) auto
  then show ?thesis by (simp add: score_rows_def)
qed

lemma score_rows_score: "s \<in> set (score_rows es req keep_all) \<Longrightarrow> sc_score s = row_score req (sc_row s)"
  by (auto simp: score_rows_def)

text \<open>When the request says nothing about the image (no name, no software, no tag), the ranking is the
  catalog's own order, stably sorted by the GPU hint alone: popularity order is never replaced by
  publication dates or versions.\<close>

theorem browse_keeps_catalog_order:
  assumes "\<forall>e \<in> set es. request_preference req e = 0"
  shows "rank_recommendations es req True = sort_key (\<lambda>e. - int (gpu_bump (ir_gpu req) (im_gpus e))) es"
proof -
  let ?out = "score_rows es req True"
  let ?g = "\<lambda>e. - int (gpu_bump (ir_gpu req) (im_gpus e))"
  have rows: "sc_row s \<in> set es" if "s \<in> set ?out" for s
    using that score_rows_all [of es req] by (metis image_eqI set_map)
  have none: "\<not> list_ex (\<lambda>s. 0 < request_preference req (sc_row s)) ?out"
    using rows assms by (auto simp: list_ex_iff)
  have score: "sc_score s = gpu_bump (ir_gpu req) (im_gpus (sc_row s))" if "s \<in> set ?out" for s
    using score_rows_score [OF that] rows [OF that] assms by (simp add: row_score_def)
  have "slice_stable (scored_less False) ?out = slice_stable (\<lambda>a b. ?g (sc_row a) < ?g (sc_row b)) ?out"
  proof (rule slice_stable_cong)
    show "sorted_wrt (\<lambda>y x. scored_less False x y = (?g (sc_row x) < ?g (sc_row y))) ?out"
      by (rule sorted_wrt_mono_rel [OF _ score_rows_idx]) (auto simp: scored_less_def score)
  qed
  also have "\<dots> = sort_key (\<lambda>s. ?g (sc_row s)) ?out" by (rule slice_stable_sort_key)
  finally have "rank_recommendations es req True = map sc_row (sort_key (\<lambda>s. ?g (sc_row s)) ?out)"
    using none by (simp add: rank_recommendations_def ranked_rows_def)
  then show ?thesis by (simp only: map_sort_key [of sc_row ?g] score_rows_all)
qed

theorem browse_keeps_catalog_order_witness:
  "rank_recommendations [demo_image, demo_image\<lparr>im_pub_time := 2\<rparr>] (demo_image_request\<lparr>ir_name := []\<rparr>) True
     = [demo_image, demo_image\<lparr>im_pub_time := 2\<rparr>]"
proof -
  let ?es = "[demo_image, demo_image\<lparr>im_pub_time := 2\<rparr>]" and ?req = "demo_image_request\<lparr>ir_name := []\<rparr>"
  have "\<forall>e \<in> set ?es. request_preference ?req e = 0"
    by (simp add: request_preference_def name_similarity_def structured_score_def demo_image_def
        demo_image_request_def no_software_def to_lower_def Let_def)
  from browse_keeps_catalog_order [OF this] show ?thesis
    by (simp add: gpu_bump_def demo_image_request_def)
qed

text \<open>Every ranking is ordered by score and drops a row only when it is unrelated to the request.\<close>

lemma ranked_rows_sorted:
  "sorted_wrt (\<lambda>a b. sc_score b \<le> sc_score a) (ranked_rows es req keep_all)"
  "mset (ranked_rows es req keep_all) = mset (score_rows es req keep_all)"
proof -
  have "sorted_wrt (\<lambda>a b. - int (sc_score a) \<le> - int (sc_score b)) (ranked_rows es req keep_all)"
    unfolding ranked_rows_def Let_def by (rule slice_stable_sorted) (auto intro: scored_less_score dest: scored_less_score)
  then show "sorted_wrt (\<lambda>a b. sc_score b \<le> sc_score a) (ranked_rows es req keep_all)" by simp
  show "mset (ranked_rows es req keep_all) = mset (score_rows es req keep_all)"
    by (simp add: ranked_rows_def Let_def)
qed

text \<open>
  The version ladder is not an order: versions decide between rows of one framework, publication
  times decide otherwise, and the two can disagree in a circle. What a name resolves to then depends
  on the order in which the catalog lists the rows.
\<close>

definition ladder_row :: "string \<Rightarrow> bool \<Rightarrow> 32 word \<Rightarrow> int \<Rightarrow> image_row" where
  "ladder_row i present idx pub = demo_image\<lparr>im_id := i, im_pub_time := pub,
     im_software := no_software\<lparr>sw_present := present, sw_version_index := idx\<rparr>\<rparr>"

lemma ladder_cycle:
  "ladder_less (ladder_row ''a'' True 2 1) (ladder_row ''c'' True 1 3)"
  "ladder_less (ladder_row ''c'' True 1 3) (ladder_row ''b'' False 0 2)"
  "ladder_less (ladder_row ''b'' False 0 2) (ladder_row ''a'' True 2 1)"
  by (simp_all add: ladder_less_def version_less_def same_framework_def ladder_row_def no_software_def)

lemma ladder_depends_on_catalog_order:
  "map im_id (sort_by_version_ladder [ladder_row ''a'' True 2 1, ladder_row ''b'' False 0 2, ladder_row ''c'' True 1 3])
     = [''b'', ''a'', ''c'']"
  "map im_id (sort_by_version_ladder [ladder_row ''a'' True 2 1, ladder_row ''c'' True 1 3, ladder_row ''b'' False 0 2])
     = [''a'', ''c'', ''b'']"
  by code_simp+

end
