(* ===== verification/CatalogWorkflows.thy ===== *)
theory CatalogWorkflows
  imports BillingWorkflows ImageResolve
begin

text \<open>
  The workflows that place something by the turn's catalogs: the network optimizer
  (\<open>workflow/net_optimizer.go\<close>), the shared file system (\<open>cfs.go\<close>, \<open>cfsbilling\<close>) and the clone of
  a custom image (\<open>clone_custom_image.go\<close>). The catalogs are the run's reference data, which no
  step can change. The texts of cards and refusals are glosses.
\<close>

section \<open>Reference data\<close>

record reference_data =
  rd_zones :: "zone_row snapshot option"
  rd_images :: "image_row snapshot option"

type_synonym rctx = "reference_data wctx"

definition zone_catalog :: "rctx \<Rightarrow> zone_row snapshot option" where
  "zone_catalog c = rd_zones (wp_reference_data (wc_pub c))"

definition image_catalog :: "rctx \<Rightarrow> image_row snapshot option" where
  "image_catalog c = rd_images (wp_reference_data (wc_pub c))"

definition workflow_zone_entry :: "rctx \<Rightarrow> string \<Rightarrow> zone_row res" where
  "workflow_zone_entry c zone =
     (if \<not> snapshot_available (zone_catalog c) then Inl (plain_err ''the zone catalog is not available'')
      else case snapshot_entry (zone_catalog c) zone of
        None \<Rightarrow> Inl (plain_err ''the zone is not in the catalog'') | Some e \<Rightarrow> Inr e)"

definition workflow_zone_placement :: "rctx \<Rightarrow> string \<Rightarrow> zone_placement res" where
  "workflow_zone_placement c zone = (case workflow_zone_entry c zone of
       Inl e \<Rightarrow> Inl e | Inr r \<Rightarrow> Inr (zr_placement r))"

definition add_workflow_identity_args :: "runtime_metadata \<Rightarrow> gmap \<Rightarrow> gmap" where
  "add_workflow_identity_args rt args =
     put_id ''organization_id'' (rt_org rt) (put_id ''top_organization_id'' (rt_top_org rt) args)"

definition with_identity :: "rctx \<Rightarrow> gmap \<Rightarrow> gmap" where
  "with_identity c args = add_workflow_identity_args (wp_runtime (wc_pub c)) args"

text \<open>Build a call after normalising the parameters: nothing is written when that fails.\<close>

definition normalized :: "(rctx \<Rightarrow> gmap res) \<Rightarrow> (gmap \<Rightarrow> gmap) \<Rightarrow> (reference_data, gmap res) hook" where
  "normalized prepare build c = (case prepare c of
       Inl e \<Rightarrow> (Inl e, wc_pub c)
     | Inr ps \<Rightarrow> (Inr (with_identity c (build ps)), set_params ps (wc_pub c)))"

section \<open>The network optimizer\<close>

definition q_optimizer :: string where "q_optimizer = ''query the network optimizer''"
definition q_optimizer_after :: string where "q_optimizer_after = ''query the network optimizer again''"

definition normalize_net_optimizer_params :: "rctx \<Rightarrow> gmap res" where
  "normalize_net_optimizer_params c =
     (let zone = trim_space (param_str (ctx_params c) ''Zone'' []) in
      if zone = [] then Inl (new_missing_slot_error ''a zone is needed'' [''zone''])
      else case workflow_zone_placement c zone of
        Inl e \<Rightarrow> Inl e
      | Inr p \<Rightarrow>
          if zp_region p = [] then Inl (plain_err ''the zone has no region'')
          else if zp_az_group p = 0 then Inl (plain_err ''the zone has no internal region id'')
          else Inr (mput ''NetOptimizerAzGroup'' (GUint32 (zp_az_group p))
            (mput ''Region'' (GStr (zp_region p)) (mput ''Zone'' (GStr zone) (ctx_params c)))))"

definition net_optimizer_args :: "gmap \<Rightarrow> gmap" where
  "net_optimizer_args ps = [(''Zone'', mval ps ''Zone''), (''Region'', mval ps ''Region''),
     (''az_group'', mval ps ''NetOptimizerAzGroup'')]"

text \<open>The call on the parameters as they are.\<close>

definition identified :: "(gmap \<Rightarrow> gmap) \<Rightarrow> (reference_data, gmap res) hook" where
  "identified build = reads (\<lambda>c. Inr (with_identity c (build (ctx_params c))))"

definition net_optimizer_enabled :: "gmap \<Rightarrow> bool" where
  "net_optimizer_enabled result \<longleftrightarrow> mval result ''Optimized'' = GBool True \<or>
     (case mval result ''Info'' of
        GList rows \<Rightarrow> rows \<noteq> [] \<and> list_all (\<lambda>row. case row of
            GMap m \<Rightarrow> mval m ''Optimized'' = GBool True | _ \<Rightarrow> False) rows
      | _ \<Rightarrow> False)"

definition already_optimized :: "rctx \<Rightarrow> bool" where
  "already_optimized c = net_optimizer_enabled (ctx_result c q_optimizer)"

definition enable_net_optimizer_card :: "rctx \<Rightarrow> gmap res" where
  "enable_net_optimizer_card c = Inr
     [(''Zone'', mval (ctx_params c) ''Zone''), (''Region'', mval (ctx_params c) ''Region''),
      (''optimized'', GBool (already_optimized c)), (''status'', GMap (ctx_result c q_optimizer)),
      (''warning'', GStr ''the network optimizer of the account is switched on; the agent cannot switch it off'')]"

definition result_value :: "rctx \<Rightarrow> string \<Rightarrow> gval" where
  "result_value c step = (case mget (wp_step_results (wc_pub c)) step of Some r \<Rightarrow> GMap r | None \<Rightarrow> GNil)"

definition enable_net_optimizer_result :: "rctx \<Rightarrow> gmap option" where
  "enable_net_optimizer_result c = Some [(''already_optimized'', GBool (already_optimized c)),
     (''before'', result_value c q_optimizer), (''after'', result_value c q_optimizer_after)]"

definition enable_net_optimizer_workflow :: "reference_data definition_" where
  "enable_net_optimizer_workflow = (plain_definition ''EnableNetOptimizerWorkflow''
     [tool_step q_optimizer ''CheckCompShareNetOptimizer''
        (normalized normalize_net_optimizer_params net_optimizer_args) None,
      (confirm_step ''confirm the network optimizer'' (reads enable_net_optimizer_card))
        \<lparr>st_skip_if := Some (reads (\<lambda>c. Inr (already_optimized c)))\<rparr>,
      (tool_step ''switch on the network optimizer'' ''SyncCompShareNetOptimizer'' (identified net_optimizer_args) None)
        \<lparr>st_skip_if := Some (reads (\<lambda>c. Inr (already_optimized c)))\<rparr>,
      (tool_step q_optimizer_after ''CheckCompShareNetOptimizer'' (identified net_optimizer_args) None)\<lparr>st_optional := True\<rparr>])
     \<lparr>def_result_data := Some enable_net_optimizer_result, def_mutation_committed := Some (\<lambda>c. \<not> already_optimized c)\<rparr>"

section \<open>Shared file systems\<close>

definition q_cfs_zone :: string where "q_cfs_zone = ''check the file system of the zone''"
definition q_cfs_price :: string where "q_cfs_price = ''query the file system price''"
definition q_create_cfs :: string where "q_create_cfs = ''create the file system''"
definition q_cfs :: string where "q_cfs = ''query the file system''"
definition q_cfs_resize_price :: string where "q_cfs_resize_price = ''query the file system resize price''"

definition cfs_size_in_range :: "int \<Rightarrow> bool" where
  "cfs_size_in_range gb \<longleftrightarrow> 50 \<le> gb \<and> gb \<le> 2048"

definition cfs_supports_new_purchase :: "string \<Rightarrow> bool" where
  "cfs_supports_new_purchase ct \<longleftrightarrow> ct \<in> {''Month'', ''Year'', ''Day''}"

definition cfs_display_label :: "string \<Rightarrow> string" where
  "cfs_display_label ct =
     (if ct = ''Day'' then ''by the day'' else if ct = ''Month'' then ''by the month'' else if ct = ''Year'' then ''by the year''
      else if ct = ''Dynamic'' then ''by the hour (legacy)'' else if ct = ''Postpay'' then ''postpaid (legacy)''
      else if ct = ''Spot'' then ''preemptible'' else ct)"

definition cfs_charge_type :: "gmap \<Rightarrow> string" where
  "cfs_charge_type ps =
     (let t = to_lower (trim_space (param_str ps ''ChargeType'' [])) in
      if t \<in> {''year'', ''yearly'', ''yearpay''} then ''Year''
      else if t \<in> {''day'', ''daypay''} then ''Day''
      else if t = ''dynamic'' then ''Dynamic''
      else if t \<in> {''month'', ''monthly'', ''monthpay'', []} then ''Month''
      else trim_space (param_str ps ''ChargeType'' ''Month''))"

definition cfs_charge_type_label :: "string \<Rightarrow> string" where
  "cfs_charge_type_label ct = cfs_display_label (trim_space ct)"

text \<open>A placement with every internal id, in a pod zone; nothing is guessed.\<close>

definition resolve_create_cfs_zone :: "rctx \<Rightarrow> string \<Rightarrow> zone_placement res" where
  "resolve_create_cfs_zone c requested = (case workflow_zone_placement c requested of
       Inl e \<Rightarrow> Inl e
     | Inr p \<Rightarrow>
         if \<not> zp_is_pod p then Inl (plain_err ''a file system needs a pod zone'')
         else if zp_zone_id p = 0 then Inl (plain_err ''no internal zone id'')
         else if zp_az_group p = 0 then Inl (plain_err ''no internal region id'')
         else if trim_space (zp_region p) = [] then Inl (plain_err ''the zone has no region'')
         else Inr p)"

definition normalize_create_cfs_params :: "rctx \<Rightarrow> gmap res" where
  "normalize_create_cfs_params c =
     (let ps = ctx_params c; name = trim_space (param_str ps ''Name'' []); gb = param_num ps ''Size'' (Fin 0);
          zone = trim_space (param_str ps ''Zone'' []); ct = cfs_charge_type ps; quantity = param_num ps ''Quantity'' (Fin 1)
      in if name = [] then Inl (new_missing_slot_error ''a name is needed'' [''name''])
         else if \<not> cfs_size_in_range (int64_of_float gb) then Inl (new_missing_slot_error ''the size is 50 to 2048 GB'' [''size_gb''])
         else if zone = [] then Inl (new_missing_slot_error ''a zone is needed'' [''zone''])
         else case resolve_create_cfs_zone c zone of
           Inl e \<Rightarrow> Inl e
         | Inr p \<Rightarrow>
             if \<not> cfs_supports_new_purchase ct then
               Inl (plain_err (if ct \<in> {''Dynamic'', ''Postpay''} then ''new file systems are not sold by the hour''
                 else ''no such billing mode''))
             else Inr (mput ''Quantity'' (GFloat (if flt_le quantity (Fin 0) then Fin 1 else quantity))
               (mput ''ChargeType'' (GStr ct) (mput ''CFSAzGroup'' (GUint32 (zp_az_group p))
               (mput ''CFSZoneId'' (GUint32 (zp_zone_id p)) (mput ''ZoneIsPod'' (GBool True)
               (mput ''Region'' (GStr (zp_region p)) (mput ''Zone'' (GStr (if zp_zone p \<noteq> [] then zp_zone p else zone))
               (mput ''Size'' (GFloat gb) (mput ''Name'' (GStr name) ps))))))))))"

fun cfs_string :: "gmap \<Rightarrow> string list \<Rightarrow> string" where
  "cfs_string m [] = []"
| "cfs_string m (k # ks) = (case mval m k of GStr s \<Rightarrow> trim_space s | _ \<Rightarrow> cfs_string m ks)"

fun cfs_number :: "gmap \<Rightarrow> string list \<Rightarrow> gfloat" where
  "cfs_number m [] = Fin 0"
| "cfs_number m (k # ks) = (case mval m k of
       GInt n \<Rightarrow> Fin (of_int n) | GInt32 n \<Rightarrow> Fin (of_int n) | GInt64 n \<Rightarrow> Fin (of_int n)
     | GUint32 w \<Rightarrow> Fin (of_int (uint w)) | GUint64 w \<Rightarrow> Fin (of_int (uint w))
     | GFloat32 x \<Rightarrow> x | GFloat x \<Rightarrow> x | _ \<Rightarrow> cfs_number m ks)"

definition first_cfs :: "gmap \<Rightarrow> gmap option" where
  "first_cfs result = (case mval result ''CFSSet'' of
       GList (GMap item # _) \<Rightarrow> Some item
     | _ \<Rightarrow> if cfs_string result [''CfsId'', ''CFSId''] \<noteq> [] then Some result else None)"

definition cfs_id_from_create_result :: "gmap \<Rightarrow> string" where
  "cfs_id_from_create_result result =
     (case filter (\<lambda>s. s \<noteq> []) (map (\<lambda>k. trim_space (as_str (mval result k))) [''CfsId'', ''CFSId'']) of
        [] \<Rightarrow> [] | s # _ \<Rightarrow> s)"

text \<open>The price of a creation: the first detail row's amount, rendered; empty when there is none.\<close>

definition cfs_create_price_text :: "gmap \<Rightarrow> string" where
  "cfs_create_price_text result = (case mval result ''PriceDetails'' of
       GList (GMap row # _) \<Rightarrow>
         (case List.map_filter (\<lambda>k. price_number (mval row k)) [''Disks'', ''Price'', ''TotalPrice''] of
            [] \<Rightarrow> [] | n # _ \<Rightarrow> ''CNY '' @ float_text_2 n)
     | _ \<Rightarrow> [])"

definition first_cfs_price :: "gmap \<Rightarrow> string list \<Rightarrow> gval" where
  "first_cfs_price result keys = (case List.map_filter (mget result) keys of
       v # _ \<Rightarrow> v
     | [] \<Rightarrow> (case filter (\<lambda>v. as_items v \<noteq> []) (map (mval result)
           [''PriceDetails'', ''OriginalPriceDetails'', ''ListPriceDetails'']) of v # _ \<Rightarrow> v | [] \<Rightarrow> GNil))"

subsection \<open>Creation\<close>

definition cfs_zone_args :: "gmap \<Rightarrow> gmap" where
  "cfs_zone_args ps = [(''Zone'', mval ps ''Zone''), (''Region'', mval ps ''Region''),
     (''zone_id'', mval ps ''CFSZoneId''), (''az_group'', mval ps ''CFSAzGroup'')]"

definition check_no_cfs :: "gmap \<Rightarrow> check_outcome" where
  "check_no_cfs result = (case first_cfs result of
       Some existing \<Rightarrow> check_failed (''the zone has a file system already: '' @
         cfs_string existing [''Name''] @ cfs_string existing [''CfsId'', ''CFSId''])
     | None \<Rightarrow> check_passed)"

definition cfs_price_args :: "gmap \<Rightarrow> gmap" where
  "cfs_price_args ps = [(''Name'', mval ps ''Name''), (''Size'', mval ps ''Size''), (''zone_id'', mval ps ''CFSZoneId''),
     (''az_group'', mval ps ''CFSAzGroup''), (''ChargeType'', GStr (cfs_charge_type ps)), (''Quantity'', mval ps ''Quantity'')]"

definition create_cfs_card :: "rctx \<Rightarrow> gmap res" where
  "create_cfs_card c =
     (let ps = ctx_params c; price = cfs_create_price_text (ctx_result c q_cfs_price) in
      if price = [] then Inl (plain_err ''no price'')
      else Inr [(''Name'', mval ps ''Name''), (''Size'', mval ps ''Size''), (''Zone'', mval ps ''Zone''),
        (''Region'', mval ps ''Region''), (''ChargeType'', GStr (cfs_charge_type_label (cfs_charge_type ps))),
        (''Quantity'', mval ps ''Quantity''),
        (''warning'', GStr ''a new file system is created and billed; the agent cannot delete it''), (''price'', GStr price)])"

definition create_cfs_args :: "gmap \<Rightarrow> gmap" where
  "create_cfs_args ps = [(''Name'', mval ps ''Name''), (''Size'', mval ps ''Size''), (''Zone'', mval ps ''Zone''),
     (''Region'', mval ps ''Region''), (''zone_id'', mval ps ''CFSZoneId''), (''az_group'', mval ps ''CFSAzGroup''),
     (''ChargeType'', GStr (cfs_charge_type ps)), (''Quantity'', mval ps ''Quantity'')]"

definition created_cfs_args :: "rctx \<Rightarrow> gmap res" where
  "created_cfs_args c = Inr (with_identity c [(''CfsId'', GStr (cfs_id_from_create_result (ctx_result c q_create_cfs)))])"

definition create_cfs_result :: "rctx \<Rightarrow> gmap option" where
  "create_cfs_result c =
     (let ps = ctx_params c; i = cfs_id_from_create_result (ctx_result c q_create_cfs) in
      Some ([(''Name'', mval ps ''Name''), (''Size'', mval ps ''Size''), (''Zone'', mval ps ''Zone''),
        (''ChargeType'', GStr (cfs_charge_type_label (cfs_charge_type ps))), (''created_cfs'', result_value c q_create_cfs)] @
        (if i = [] then [] else [(''CfsId'', GStr i)])))"

definition create_cfs_workflow :: "reference_data definition_" where
  "create_cfs_workflow = (plain_definition ''CreateCFSWorkflow''
     [tool_step q_cfs_zone ''DescribeCFS'' (normalized normalize_create_cfs_params cfs_zone_args) (Some (checks check_no_cfs)),
      tool_step q_cfs_price ''GetCompShareCFSPrice'' (normalized normalize_create_cfs_params cfs_price_args) None,
      confirm_step ''confirm the file system'' (reads create_cfs_card),
      tool_step q_create_cfs ''CreateCFS'' (identified create_cfs_args) None,
      (tool_step ''read back the file system'' ''DescribeCFS'' (reads created_cfs_args) None)
        \<lparr>st_optional := True,
         st_skip_if := Some (reads (\<lambda>c. Inr (cfs_id_from_create_result (ctx_result c q_create_cfs) = [])))\<rparr>])
     \<lparr>def_result_data := Some create_cfs_result\<rparr>"

subsection \<open>Resize\<close>

definition resize_cfs_query_args :: "(reference_data, gmap res) hook" where
  "resize_cfs_query_args c =
     (let ps = ctx_params c; i1 = trim_space (param_str ps ''CfsId'' []);
          i = (if i1 = [] then trim_space (param_str ps ''CFSId'' []) else i1); target = param_num ps ''Size'' (Fin 0);
          fail = (\<lambda>m slot. (Inl (new_missing_slot_error m [slot]), wc_pub c))
      in if i = [] then fail ''a file system is needed'' ''cfs_id''
         else if flt_le target (Fin 0) then fail ''a target size is needed'' ''target_size_gb''
         else if \<not> cfs_size_in_range (int64_of_float target) then fail ''the size is 50 to 2048 GB'' ''target_size_gb''
         else (Inr (with_identity c [(''CfsId'', GStr i)]),
           set_params (mput ''Size'' (GFloat target) (mput ''CfsId'' (GStr i) ps)) (wc_pub c)))"

definition check_cfs_resize :: "reference_data check" where
  "check_cfs_resize result c =
     (let fail = (\<lambda>m. ((check_failed m, result), wc_pub c)) in
      case first_cfs result of
        None \<Rightarrow> fail ''no such file system''
      | Some cfs \<Rightarrow>
          (let current = cfs_number cfs [''Size'']; target = param_num (ctx_params c) ''Size'' (Fin 0);
               zone_id = cfs_number cfs [''ZoneId'', ''ZoneID'']
           in if flt_le current (Fin 0) then fail ''the current size is not known''
              else if flt_le target current then fail ''the target must exceed the current size''
              else if flt_le zone_id (Fin 0) then fail ''no internal zone id''
              else ((check_passed, result), set_params (mput ''CFSZoneId'' (GFloat zone_id)
                (mput ''CFSName'' (GStr (cfs_string cfs [''Name'']))
                (mput ''CurrentCFSSize'' (GFloat current) (ctx_params c)))) (wc_pub c))))"

definition resize_cfs_args :: "gmap \<Rightarrow> gmap" where
  "resize_cfs_args ps = [(''CfsId'', mval ps ''CfsId''), (''Size'', mval ps ''Size''), (''zone_id'', mval ps ''CFSZoneId'')]"

definition resize_cfs_card :: "rctx \<Rightarrow> gmap res" where
  "resize_cfs_card c =
     (let ps = ctx_params c; priced = ctx_result c q_cfs_resize_price;
          original = first_cfs_price priced [''OriginalPrice'', ''ListPrice'']
      in case required_price_field priced ''Price'' of
           Inl e \<Rightarrow> Inl e
         | Inr price \<Rightarrow> Inr ([(''CfsId'', mval ps ''CfsId''), (''Name'', mval ps ''CFSName''),
             (''current_size_gb'', mval ps ''CurrentCFSSize''), (''target_size_gb'', mval ps ''Size''),
             (''warning'', GStr ''the size is the target, not an increment; a file system never shrinks''),
             (''price_delta'', GFloat price)] @ (if original = GNil then [] else [(''original_price_delta'', original)])))"

definition resize_cfs_result :: "rctx \<Rightarrow> gmap option" where
  "resize_cfs_result c = Some [(''CfsId'', mval (ctx_params c) ''CfsId''),
     (''current_size_gb'', mval (ctx_params c) ''CurrentCFSSize''), (''target_size_gb'', mval (ctx_params c) ''Size'')]"

definition resize_cfs_workflow :: "reference_data definition_" where
  "resize_cfs_workflow = (plain_definition ''ResizeCFSWorkflow''
     [tool_step q_cfs ''DescribeCFS'' resize_cfs_query_args (Some check_cfs_resize),
      tool_step q_cfs_resize_price ''GetCompShareCFSUpgradePrice'' (identified resize_cfs_args) None,
      confirm_step ''confirm the file system resize'' (reads resize_cfs_card),
      tool_step ''resize the file system'' ''ResizeCFS'' (identified resize_cfs_args) None])
     \<lparr>def_result_data := Some resize_cfs_result\<rparr>"

section \<open>Clone a custom image\<close>

definition q_clone :: string where "q_clone = ''clone the custom image''"
definition q_sync_progress :: string where "q_sync_progress = ''query the sync progress''"

definition workflow_zone_entry_by_numeric_id :: "rctx \<Rightarrow> 32 word \<Rightarrow> zone_row option" where
  "workflow_zone_entry_by_numeric_id c zone_id =
     (if zone_id = 0 \<or> \<not> snapshot_available (zone_catalog c) then None
      else find (\<lambda>e. zp_zone_id (zr_placement e) = zone_id)
        (List.map_filter (snapshot_entry (zone_catalog c)) (snapshot_ids (zone_catalog c))))"

definition clone_custom_image_selection :: "rctx \<Rightarrow> (image_row \<times> zone_row) res" where
  "clone_custom_image_selection c =
     (let fail = (\<lambda>m. Inl (plain_err m)); images = image_catalog c in
      if \<not> snapshot_available images then fail ''the image catalog is not available''
      else case image_by_id images (trim_space (param_str (ctx_params c) ''CompShareImageId'' [])) of
        None \<Rightarrow> fail ''the source image is not in the catalog''
      | Some source \<Rightarrow>
          if \<not> equal_fold (im_source source) ''custom'' then fail ''the source image is not in the catalog''
          else if im_status source \<noteq> [] \<and> \<not> equal_fold (im_status source) ''Available'' then fail ''the source image is not available''
          else (case workflow_zone_entry c (param_str (ctx_params c) ''Zone'' []) of
              Inl e \<Rightarrow> Inl e
            | Inr target \<Rightarrow>
                (let p = zr_placement target in
                 if zp_zone_id p = 0 then fail ''the target zone has no internal id''
                 else if \<not> im_container source \<and> zp_is_pod p then fail ''a host image cannot go to a pod zone''
                 else if im_container source \<and> zr_disable_image_sync target then fail ''the target zone takes no image sync''
                 else if im_container source \<and> (case workflow_zone_entry_by_numeric_id c (im_zone_id source) of
                     Some z \<Rightarrow> zr_disable_image_sync z | None \<Rightarrow> False) then fail ''the source zone gives no image sync''
                 else if im_zone_id source \<noteq> 0 \<and> im_zone_id source = zp_zone_id p \<or>
                     im_zone source \<noteq> [] \<and> equal_fold (im_zone source) (zp_zone p)
                 then fail ''the target is the source zone''
                 else Inr (source, target))))"

definition clone_description :: "gmap \<Rightarrow> gmap \<Rightarrow> gmap" where
  "clone_description ps m = put_text ''TargetImageDescription'' (trim_space (param_str ps ''TargetImageDescription'' [])) m"

definition clone_card :: "rctx \<Rightarrow> gmap res" where
  "clone_card c = (case clone_custom_image_selection c of
       Inl e \<Rightarrow> Inl e
     | Inr (source, target) \<Rightarrow>
         (let name = param_str (ctx_params c) ''TargetImageName'' [] in
          if name = [] then Inl (new_missing_slot_error ''a target name is needed'' [''target_image_name''])
          else case validated_resource_name name 50 of
            Inl e \<Rightarrow> Inl e
          | Inr n \<Rightarrow> Inr (clone_description (ctx_params c)
              [(''workflow'', GStr ''CloneCustomImageWorkflow''), (''SourceCompShareImageId'', GStr (im_id source)),
               (''SourceImageName'', GStr (im_name source)), (''SourceZone'', GStr (im_zone source)),
               (''TargetZone'', GStr (zp_zone (zr_placement target))), (''TargetZoneName'', GStr (zr_display target)),
               (''TargetImageName'', GStr n)])))"

definition clone_args :: "rctx \<Rightarrow> gmap res" where
  "clone_args c = (case clone_custom_image_selection c of
       Inl e \<Rightarrow> Inl e
     | Inr (source, target) \<Rightarrow>
         (case validated_resource_name (param_str (ctx_params c) ''TargetImageName'' []) 50 of
            Inl e \<Rightarrow> Inl e
          | Inr n \<Rightarrow> Inr (clone_description (ctx_params c)
              [(''SourceCompShareImageId'', GStr (im_id source)), (''TargetImageName'', GStr n),
               (''TargetZoneIds'', GList [GUint32 (zp_zone_id (zr_placement target))])])))"

definition int_value :: "gval \<Rightarrow> int" where
  "int_value v = (case v of GInt n \<Rightarrow> n | GInt64 n \<Rightarrow> n | GFloat x \<Rightarrow> int64_of_float x | _ \<Rightarrow> 0)"

definition first_sync_result_message :: "gmap \<Rightarrow> string" where
  "first_sync_result_message result =
     (case filter (\<lambda>s. s \<noteq> []) (map (\<lambda>row. trim_space (as_str (mval row ''Message''))) (object_rows (mval result ''Results''))) of
        [] \<Rightarrow> [] | s # _ \<Rightarrow> s)"

text \<open>The id of the first row without an error code, or the platform's message.\<close>

definition cloned_custom_image_result :: "gmap \<Rightarrow> string + string" where
  "cloned_custom_image_result result =
     (if int_value (mval result ''SuccessCount'') < 1 then Inl (first_sync_result_message result)
      else case find (\<lambda>row. int_value (mval row ''RetCode'') = 0) (object_rows (mval result ''Results'')) of
        Some row \<Rightarrow> Inr (trim_space (as_str (mval row ''CompShareImageId'')))
      | None \<Rightarrow> Inl (first_sync_result_message result))"

definition check_clone :: "gmap \<Rightarrow> check_outcome" where
  "check_clone result = (case cloned_custom_image_result result of
       Inl m \<Rightarrow> check_failed (if m = [] then ''no sync task was created'' else m)
     | Inr i \<Rightarrow> if i = [] then check_failed ''the clone has no image id'' else check_passed)"

definition sync_progress_args :: "rctx \<Rightarrow> gmap res" where
  "sync_progress_args c = (case cloned_custom_image_result (ctx_result c q_clone) of
       Inl _ \<Rightarrow> Inl (plain_err ''no target image'')
     | Inr i \<Rightarrow>
         if i = [] then Inl (plain_err ''no target image'')
         else (case clone_custom_image_selection c of
             Inl e \<Rightarrow> Inl e
           | Inr (_, target) \<Rightarrow> Inr [(''CompShareImageId'', GStr i), (''zone_id'', GUint32 (zp_zone_id (zr_placement target)))]))"

definition clone_result :: "rctx \<Rightarrow> gmap option" where
  "clone_result c = (case cloned_custom_image_result (ctx_result c q_clone) of
       Inl _ \<Rightarrow> None
     | Inr i \<Rightarrow>
         if i = [] then None
         else (let progress = ctx_result c q_sync_progress in
           Some (if progress = [] then [(''CompShareImageId'', GStr i), (''DeliveryState'', GStr ''submitted'')]
             else [(''CompShareImageId'', GStr i), (''DeliveryState'', GStr ''pending''), (''Progress'', GMap progress)])))"

definition clone_custom_image_workflow :: "reference_data definition_" where
  "clone_custom_image_workflow = (plain_definition ''CloneCustomImageWorkflow''
     [confirm_step ''confirm the clone'' (reads clone_card),
      tool_step q_clone ''SyncCompShareCustomImage'' (reads clone_args) (Some (checks check_clone)),
      (tool_step q_sync_progress ''DescribeCompShareCustomImageSyncDetail'' (reads sync_progress_args) None)
        \<lparr>st_optional := True\<rparr>])
     \<lparr>def_result_data := Some clone_result\<rparr>"

end
