(* ===== verification/ImageWorkflows.thy ===== *)
theory ImageWorkflows
  imports CatalogWorkflows
begin

text \<open>
  The workflows between an instance and an image: making a custom image of an instance
  (\<open>workflow/create_custom_image.go\<close>) and reinstalling an instance from an image
  (\<open>workflow/reinstall_instance.go\<close>). The texts of cards and refusals are glosses.
\<close>

section \<open>Make a custom image\<close>

definition q_image_source :: string where "q_image_source = ''query the source instance''"
definition q_image_zones :: string where "q_image_zones = ''query the zone of the source instance''"
definition q_make_image :: string where "q_make_image = ''make the custom image''"
definition q_image_status :: string where "q_image_status = ''query the image status''"

definition source_custom_image_unsupported_without_gpu :: "gmap \<Rightarrow> bool" where
  "source_custom_image_unsupported_without_gpu result =
     (if is_container_instance_result result then False
      else case first_instance result of
        None \<Rightarrow> False
      | Some host \<Rightarrow>
          (let spec = (case mval host ''WithoutGpuSpec'' of GMap m \<Rightarrow> as_str (mval m ''Spec'') | _ \<Rightarrow> []);
               is = (\<lambda>k n. flt_eq (param_num host k (Fin (-1))) (Fin n))
           in if spec \<noteq> [] then spec = ''A'' else is ''GPU'' 0 \<and> is ''CPU'' 2 \<and> is ''Memory'' 4096))"

definition source_custom_image_is_container :: "gmap \<Rightarrow> bool" where
  "source_custom_image_is_container result \<longleftrightarrow> is_pod_instance_result result \<or> is_container_instance_result result"

definition image_source_args :: "rctx \<Rightarrow> gmap res" where
  "image_source_args c =
     (let i = param_str (ctx_params c) ''UHostId'' [] in
      if i = [] then Inl (plain_err ''UHostId is required before creating a custom image'')
      else Inr [(''UHostIds'', GList [GStr i])])"

definition check_image_source :: "gmap \<Rightarrow> check_outcome" where
  "check_image_source result =
     (let state = extract_instance_state result in
      if state = ''Running'' \<or> state = ''Stopped'' then
        (if extract_instance_zone result [] = [] then check_failed ''the source has no zone''
         else if source_custom_image_unsupported_without_gpu result then check_failed ''a small host without GPU makes no image''
         else if source_custom_image_is_container result \<and> state \<noteq> ''Running'' then check_failed ''start the container first''
         else check_passed)
      else if state = [] then check_failed ''instance not found''
      else check_failed (''no image in state '' @ state))"

definition custom_image_source_instance_note :: "gmap \<Rightarrow> string" where
  "custom_image_source_instance_note source =
     (if is_pod_instance_result source then ''the source shows ImageMaking meanwhile''
      else ''the source is in ImageMaking meanwhile: no public address, no lifecycle operation'')"

definition source_custom_image_placement :: "rctx \<Rightarrow> (string \<times> string) option" where
  "source_custom_image_placement c =
     (case extract_required_instance_location (ctx_result c q_image_source) (ctx_result c q_image_zones) of
        Inl _ \<Rightarrow> None | Inr p \<Rightarrow> Some p)"

definition create_custom_image_card :: "rctx \<Rightarrow> gmap res" where
  "create_custom_image_card c =
     (let ps = ctx_params c; name = param_str ps ''Name'' []; source = ctx_result c q_image_source in
      if name = [] then Inl (new_missing_slot_error ''a name is needed'' [''name''])
      else case validated_resource_name name 50 of
        Inl e \<Rightarrow> Inl e
      | Inr n \<Rightarrow> (case source_custom_image_placement c of
            None \<Rightarrow> Inl (plain_err ''the source has no zone or region'')
          | Some (region, zone) \<Rightarrow> Inr
              (mput ''warning'' (GStr (''an image is made; '' @ custom_image_source_instance_note source))
              (put_text ''Description'' (param_str ps ''Description'' [])
              (mput ''Zone'' (GStr zone) (mput ''Region'' (GStr region) (mput ''Name'' (GStr n)
              (mput ''UHostId'' (GStr (param_str ps ''UHostId'' [])) (mput ''workflow'' (GStr ''CreateCustomImageWorkflow'')
              (extract_instance_summary source))))))))))"

definition add_custom_image_placement_args :: "rctx \<Rightarrow> gmap \<Rightarrow> gmap res" where
  "add_custom_image_placement_args c args = (case source_custom_image_placement c of
       None \<Rightarrow> Inl (plain_err ''the source has no zone or region'')
     | Some (region, zone) \<Rightarrow>
         (case support_zone_placement_for_zone (ctx_result c q_image_zones) zone of
            None \<Rightarrow> Inl (plain_err ''no internal zone id'')
          | Some p \<Rightarrow>
              if sz_az_group p = 0 then Inl (plain_err ''no internal zone id'')
              else Inr (put_id ''zone_id'' (sz_zone_id p) (mput ''az_group'' (GUint32 (sz_az_group p))
                (mput ''Zone'' (GStr zone) (mput ''Region'' (GStr region) args))))))"

definition create_custom_image_args :: "rctx \<Rightarrow> gmap res" where
  "create_custom_image_args c =
     (let ps = ctx_params c; i = param_str ps ''UHostId'' []; name = param_str ps ''Name'' [] in
      if i = [] then Inl (plain_err ''UHostId is required before creating a custom image'')
      else if name = [] then Inl (new_missing_slot_error ''a name is needed'' [''name''])
      else case validated_resource_name name 50 of
        Inl e \<Rightarrow> Inl e
      | Inr n \<Rightarrow> add_custom_image_placement_args c
          (put_text ''Description'' (param_str ps ''Description'' []) [(''UHostId'', GStr i), (''Name'', GStr n)]))"

definition custom_image_id :: "gmap \<Rightarrow> string" where
  "custom_image_id result = as_str (mval result ''CompShareImageId'')"

definition check_image_made :: "gmap \<Rightarrow> check_outcome" where
  "check_image_made result = (if custom_image_id result = [] then check_failed ''no image id was returned'' else check_passed)"

definition image_status_tool :: "rctx \<Rightarrow> string" where
  "image_status_tool c = (if source_custom_image_is_container (ctx_result c q_image_source)
     then ''DescribeCompShareCustomImages'' else ''GetCompShareImageCreateProgress'')"

definition image_status_args :: "rctx \<Rightarrow> gmap res" where
  "image_status_args c =
     (let i = custom_image_id (ctx_result c q_make_image) in
      if i = [] then Inl (plain_err ''CompShareImageId is empty; skip creation-status query'')
      else if source_custom_image_is_container (ctx_result c q_image_source)
      then Inr [(''CompShareImageId'', GStr i), (''Limit'', GInt 1)]
      else add_custom_image_placement_args c [(''CompShareImageId'', GStr i)])"

definition custom_image_catalog_status :: "gmap \<Rightarrow> string \<Rightarrow> string" where
  "custom_image_catalog_status result i =
     (case find (\<lambda>row. as_str (mval row ''CompShareImageId'') = i) (object_rows (mval result ''ImageSet'')) of
        Some row \<Rightarrow> as_str (mval row ''Status'') | None \<Rightarrow> [])"

definition custom_image_result :: "rctx \<Rightarrow> gmap option" where
  "custom_image_result c =
     (let i = custom_image_id (ctx_result c q_make_image); readback = ctx_result c q_image_status;
          source = ctx_result c q_image_source; m1 = put_text ''CompShareImageId'' i [];
          m2 = (if readback = [] then m1
            else if source_custom_image_is_container source
            then put_text ''Status'' (custom_image_catalog_status readback i) m1
            else mput ''Progress'' (GMap readback) m1)
      in if m2 = [] then None
         else Some (mput ''SourceInstanceNote'' (GStr (custom_image_source_instance_note source)) m2))"

definition create_custom_image_workflow :: "reference_data definition_" where
  "create_custom_image_workflow = (plain_definition ''CreateCustomImageWorkflow''
     [tool_step q_image_source ''DescribeCompShareInstance'' (reads image_source_args) (Some (checks check_image_source)),
      tool_step q_image_zones ''DescribeCompShareSupportZone'' (reads (\<lambda>c. Inr [])) None,
      confirm_step ''confirm the custom image'' (reads create_custom_image_card),
      tool_step q_make_image ''CreateCompShareCustomImage'' (reads create_custom_image_args) (Some (checks check_image_made)),
      (tool_step q_image_status [] (reads image_status_args) None)
        \<lparr>st_tool_func := Some (reads image_status_tool), st_optional := True\<rparr>])
     \<lparr>def_result_data := Some custom_image_result\<rparr>"

section \<open>Reinstall\<close>

datatype image_lookup = LookupPlatform | LookupCommunity | LookupCustom | LookupSharing

definition lookup_text :: "image_lookup \<Rightarrow> string" where
  "lookup_text l = (case l of LookupPlatform \<Rightarrow> ''platform'' | LookupCommunity \<Rightarrow> ''community''
     | LookupCustom \<Rightarrow> ''custom'' | LookupSharing \<Rightarrow> ''sharing'')"

definition lookup_step :: "image_lookup \<Rightarrow> string" where
  "lookup_step l = ''query the target image: '' @ lookup_text l"

definition lookup_tool :: "image_lookup \<Rightarrow> string" where
  "lookup_tool l = (case l of LookupPlatform \<Rightarrow> ''DescribeCompShareImages'' | LookupCommunity \<Rightarrow> ''DescribeCommunityImages''
     | LookupCustom \<Rightarrow> ''DescribeCompShareCustomImages'' | LookupSharing \<Rightarrow> ''DescribeCompShareSharingImages'')"

definition all_lookups :: "image_lookup list" where
  "all_lookups = [LookupPlatform, LookupCommunity, LookupCustom, LookupSharing]"

text \<open>The catalog a request names, if it names one; another word names none.\<close>

definition reinstall_selected_image_source :: "gmap \<Rightarrow> image_lookup option" where
  "reinstall_selected_image_source ps =
     (let source = to_lower (trim_space (param_str ps ''ImageSource'' [])) in
      if source = ''platform'' then Some LookupPlatform
      else if source = ''community'' then Some LookupCommunity
      else if source = ''custom'' then Some LookupCustom
      else if source \<in> {''shared'', ''sharing''} then Some LookupSharing else None)"

definition reinstall_should_skip_source :: "gmap \<Rightarrow> image_lookup \<Rightarrow> bool" where
  "reinstall_should_skip_source ps l =
     (case reinstall_selected_image_source ps of None \<Rightarrow> False | Some s \<Rightarrow> s \<noteq> l)"

definition max_custom_image_query_limit :: int where "max_custom_image_query_limit = 100"

definition reinstall_image_lookup_args :: "gmap \<Rightarrow> image_lookup \<Rightarrow> gmap option" where
  "reinstall_image_lookup_args ps l =
     (let i = trim_space (param_str ps ''CompShareImageId'' []); name = trim_space (param_str ps ''ImageName'' []) in
      if l = LookupCustom \<or> l = LookupSharing
      then (if i = [] \<and> name = [] then None else Some [(''Limit'', GInt max_custom_image_query_limit)])
      else if i \<noteq> [] then Some [(''CompShareImageId'', GStr i)]
      else if name = [] then None
      else if l = LookupPlatform then Some [(''Name'', GStr name), (''Limit'', GInt 100)]
      else Some [(''FuzzySearch'', GStr name), (''Limit'', GInt 30)])"

definition lookup_args :: "image_lookup \<Rightarrow> rctx \<Rightarrow> gmap res" where
  "lookup_args l c = (case reinstall_image_lookup_args (ctx_params c) l of
       None \<Rightarrow> Inl (new_missing_slot_error ''a target image is needed'' [''image_id'']) | Some args \<Rightarrow> Inr args)"

definition step_query_target_image :: "image_lookup \<Rightarrow> reference_data wstep" where
  "step_query_target_image l = (tool_step (lookup_step l) (lookup_tool l) (reads (lookup_args l)) None)
     \<lparr>st_optional := True, st_skip_if := Some (reads (\<lambda>c. Inr (reinstall_should_skip_source (ctx_params c) l)))\<rparr>"

definition check_reinstall_query :: "gmap \<Rightarrow> check_outcome" where
  "check_reinstall_query result =
     (let state = extract_instance_state result in
      if state \<in> {''Running'', ''Stopping'', ''Stopped''} then check_passed
      else if state = [] then check_failed ''instance not found''
      else check_failed (''no reinstall in state '' @ state))"

record reinstall_image_info =
  ri_id :: string
  ri_name :: string
  ri_source :: string
  ri_type :: string
  ri_container :: bool
  ri_gpus :: "string list"
  ri_size_mb :: gfloat
  ri_price :: gfloat
  ri_price_known :: bool

text \<open>\<open>math.Ceil\<close> of the size in GB, for a host image of a known size.\<close>

definition required_system_disk_gb :: "reinstall_image_info \<Rightarrow> gfloat" where
  "required_system_disk_gb info =
     (if ri_container info \<or> flt_le (ri_size_mb info) (Fin 0) then Fin 0
      else case flt_times (1 / 1024) (ri_size_mb info) of Fin r \<Rightarrow> Fin (of_int \<lceil>r\<rceil>) | x \<Rightarrow> x)"

definition reinstall_snapshot :: "gmap \<Rightarrow> image_lookup \<Rightarrow> image_row snapshot" where
  "reinstall_snapshot result l = new_image_snapshot True
     (if l = LookupCommunity then parse_community_image_entries result
      else parse_platform_image_entries result (lookup_text l))"

definition reinstall_selection :: "image_resolution \<Rightarrow> image_selection option" where
  "reinstall_selection r = (if rn_status r = ResolutionResolved then rn_selection r
     else case rn_candidates r of [] \<Rightarrow> None | s # _ \<Rightarrow> Some s)"

definition reinstall_image_request :: "string \<Rightarrow> string \<Rightarrow> image_lookup \<Rightarrow> bool \<Rightarrow> image_request" where
  "reinstall_image_request i name l prefiltered = \<lparr>ir_id = i, ir_name = name, ir_framework = [], ir_cuda = [], ir_os = [],
     ir_python = [], ir_tag = [], ir_gpu = [], ir_zone = [], ir_is_pod = False, ir_source = lookup_text l,
     ir_prefiltered = prefiltered\<rparr>"

definition normalized_image_source :: "string \<Rightarrow> image_lookup" where
  "normalized_image_source v =
     (let t = to_lower (trim_space v) in
      if t = ''community'' then LookupCommunity else if t = ''custom'' then LookupCustom
      else if t \<in> {''shared'', ''sharing''} then LookupSharing else LookupPlatform)"

text \<open>One catalog's answer to the request; for a tenant's own images also the turn's verified catalog.\<close>

definition image_in_lookup :: "rctx \<Rightarrow> image_lookup \<Rightarrow> gmap \<Rightarrow> (image_selection \<times> image_row snapshot option) option" where
  "image_in_lookup c l result =
     (let i = param_str (ctx_params c) ''CompShareImageId'' []; name = param_str (ctx_params c) ''ImageName'' [];
          snap = Some (reinstall_snapshot result l);
          first = reinstall_selection (resolve_image snap (reinstall_image_request i name l (l \<in> {LookupPlatform, LookupCommunity})))
      in case first of
           Some s \<Rightarrow> Some (s, snap)
         | None \<Rightarrow>
             if i = [] \<or> l \<notin> {LookupCustom, LookupSharing} then None
             else (case image_by_id (image_catalog c) i of
                 None \<Rightarrow> None
               | Some entry \<Rightarrow>
                   if normalized_image_source (im_source entry) \<noteq> l then None
                   else map_option (\<lambda>s. (s, image_catalog c))
                     (reinstall_selection (resolve_image (image_catalog c) (reinstall_image_request i [] l False)))))"

definition no_image_row :: image_row where
  "no_image_row = \<lparr>im_id = [], im_name = [], im_family_id = [], im_family_name = [], im_version_name = [], im_source = [],
     im_type = [], im_status = [], im_container = False, im_gpus = [], im_software = no_software, im_tags = [],
     im_description = [], im_size_mb = Fin 0, im_price = Fin 0, im_price_known = False, im_create_time = 0, im_pub_time = 0,
     im_zone = [], im_zone_id = 0\<rparr>"

definition image_info :: "image_lookup \<Rightarrow> image_selection \<Rightarrow> image_row snapshot option \<Rightarrow> reinstall_image_info" where
  "image_info l s snap =
     (let e = (case image_by_id snap (se_id s) of Some e \<Rightarrow> e | None \<Rightarrow> no_image_row) in
      \<lparr>ri_id = se_id s, ri_name = se_name s, ri_source = lookup_text l, ri_type = im_type e, ri_container = se_container s,
       ri_gpus = im_gpus e, ri_size_mb = im_size_mb e, ri_price = im_price e, ri_price_known = im_price_known e\<rparr>)"

text \<open>The first catalog, in order, that was queried, answered and has the image.\<close>

definition target_reinstall_image :: "rctx \<Rightarrow> reinstall_image_info option" where
  "target_reinstall_image c =
     (case List.map_filter (\<lambda>l. if reinstall_should_skip_source (ctx_params c) l then None
          else case mget (wp_step_results (wc_pub c)) (lookup_step l) of
            None \<Rightarrow> None
          | Some result \<Rightarrow> map_option (\<lambda>(s, snap). image_info l s snap) (image_in_lookup c l result)) all_lookups of
        [] \<Rightarrow> None | info # _ \<Rightarrow> Some info)"

definition validate_reinstall_state_for_path :: "gmap \<Rightarrow> reinstall_image_info \<Rightarrow> gerr option" where
  "validate_reinstall_state_for_path queried img =
     (let state = extract_instance_state queried in
      if is_pod_instance_result queried
      then (if state \<in> {''Running'', ''Stopping'', ''Stopped''} then None else Some (plain_err ''no reinstall of a pod in this state''))
      else if is_container_instance_result queried \<and> ri_container img
      then (if state = ''Running'' then None else Some (plain_err ''the container must be running''))
      else if state = ''Stopped'' then None else Some (plain_err ''stop the host first''))"

definition reinstall_impact_warning :: "gmap \<Rightarrow> reinstall_image_info \<Rightarrow> string" where
  "reinstall_impact_warning queried img =
     (if is_pod_instance_result queried then
        (let state = extract_instance_state queried in
         (if state = ''Running'' then ''the pod is stopped, rebuilt and restarted''
          else if state = ''Stopping'' then ''the pod stops, is rebuilt and restarted''
          else ''the pod is rebuilt and restarted'') @ ''; disks are kept, custom ports are not'')
      else if is_container_instance_result queried \<and> ri_container img
      then ''the container and its file system are replaced; disks are kept''
      else ''all data on the system disk is lost; data disks are kept'')"

definition reinstall_current_gpu_type :: "gmap \<Rightarrow> string" where
  "reinstall_current_gpu_type result = (case first_instance result of
       None \<Rightarrow> []
     | Some host \<Rightarrow>
         (let text = (\<lambda>m k. trim_space (as_str (mval m k)));
              src = (case source_instance_config host of Some m \<Rightarrow> m | None \<Rightarrow> [])
          in first_nonempty [text host ''GpuType'', text host ''GPUType'', text src ''GpuType'', text src ''GPUType'']))"

definition current_system_disk_gb :: "gmap \<Rightarrow> gfloat" where
  "current_system_disk_gb result = (case find is_boot_disk (extract_disk_set result) of
       Some d \<Rightarrow> disk_number d [''Size'', ''DiskSize'', ''Capacity''] | None \<Rightarrow> Fin 0)"

definition contains_fold :: "string list \<Rightarrow> string \<Rightarrow> bool" where
  "contains_fold ss s = list_ex (\<lambda>x. equal_fold x s) ss"

text \<open>The first reason an image cannot go on the instance.\<close>

definition reinstall_zone_refusal :: "rctx \<Rightarrow> reinstall_image_info \<Rightarrow> gerr option" where
  "reinstall_zone_refusal c img =
     (if trim_space (ri_type img) = [] then None
      else case workflow_zone_entry c (extract_field (ctx_result c q_instance) ''Zone'') of
        Inl e \<Rightarrow> Some e
      | Inr zone \<Rightarrow> if supports_image_type zone (ri_type img) then None
          else Some (plain_err ''the zone does not take this type of image''))"

definition reinstall_refusal :: "rctx \<Rightarrow> reinstall_image_info \<Rightarrow> gerr option" where
  "reinstall_refusal c img =
     (let queried = ctx_result c q_instance; gpu = reinstall_current_gpu_type queried;
          need = required_system_disk_gb img; cur = current_system_disk_gb queried; no = (\<lambda>m. Some (plain_err m))
      in if is_pod_instance_result queried \<and> \<not> ri_container img then no ''a pod takes a container image''
         else if reinstall_zone_refusal c img \<noteq> None then reinstall_zone_refusal c img
         else if validate_reinstall_state_for_path queried img \<noteq> None then validate_reinstall_state_for_path queried img
         else if equal_fold (extract_field queried ''MachineType'') ''O'' then no ''without GPU the compatibility is not known''
         else if gpu \<noteq> [] \<and> ri_gpus img \<noteq> [] \<and> \<not> contains_fold (ri_gpus img) gpu then no ''the image does not support the GPU''
         else if flt_less (Fin 0) need \<and> flt_less (Fin 0) cur \<and> flt_less cur need then no ''the system disk is too small''
         else if equal_fold (ri_source img) ''community'' \<and> \<not> ri_price_known img then no ''the price of the image is not known''
         else None)"

definition reinstall_summary :: "gmap \<Rightarrow> reinstall_image_info \<Rightarrow> gmap" where
  "reinstall_summary queried img =
     (let s1 = mput ''target_image_container'' (GBool (ri_container img))
            (mput ''target_image_source'' (GStr (ri_source img)) (mput ''target_image_name'' (GStr (ri_name img))
            (mput ''target_image_id'' (GStr (ri_id img)) (extract_instance_summary queried))));
          s2 = (if equal_fold (ri_source img) ''community''
            then mput ''target_image_price'' (GStr (if flt_less (Fin 0) (ri_price img)
              then ''CNY '' @ float_text_2 (ri_price img) @ '' (list price)'' else ''free'')) s1
            else s1)
      in mput ''warning'' (GStr (reinstall_impact_warning queried img))
         (mput ''credential_handling'' (GStr ''kept or generated by the platform'') s2))"

text \<open>The card writes the resolved image into the parameters before it is shown.\<close>

definition reinstall_card :: "(reference_data, gmap res) hook" where
  "reinstall_card c =
     (let ps = ctx_params c in
      if trim_space (param_str ps ''CompShareImageId'' []) = [] \<and> trim_space (param_str ps ''ImageName'' []) = []
      then (Inl (new_missing_slot_error ''a target image is needed'' [''image_id'']), wc_pub c)
      else case target_reinstall_image c of
        None \<Rightarrow> (Inl (plain_err ''the target image was not found''), wc_pub c)
      | Some img \<Rightarrow>
          ((case reinstall_refusal c img of
              Some e \<Rightarrow> Inl e | None \<Rightarrow> Inr (reinstall_summary (ctx_result c q_instance) img)),
           set_params (mput ''CompShareImageId'' (GStr (ri_id img)) ps) (wc_pub c)))"

definition reinstall_args :: "rctx \<Rightarrow> gmap res" where
  "reinstall_args c = add_required_pod_placement_args
     [(''UHostId'', mval (ctx_params c) ''UHostId''), (''CompShareImageId'', mval (ctx_params c) ''CompShareImageId'')]
     (ctx_result c q_instance) (ctx_result c q_zones)"

definition reinstall_failure_draft :: "rctx \<Rightarrow> gmap option" where
  "reinstall_failure_draft c =
     (let queried = ctx_result c q_instance; host = (case first_instance queried of Some h \<Rightarrow> h | None \<Rightarrow> []);
          text = (\<lambda>k. trim_space (param_str host k []));
          img = target_reinstall_image c; pick = (\<lambda>f. case img of Some i \<Rightarrow> f i | None \<Rightarrow> [])
      in Some [(''UHostId'', GStr (trim_space (param_str (ctx_params c) ''UHostId'' []))),
        (''InitialState'', GStr (extract_instance_state queried)), (''InitialImageId'', GStr (text ''CompShareImageId'')),
        (''InitialImageName'', GStr (first_nonempty [text ''CompShareImageName'', text ''ImageName''])),
        (''IsPod'', GBool (is_pod_instance_result queried)), (''TargetImageId'', GStr (pick ri_id)),
        (''TargetImageName'', GStr (pick ri_name))])"

definition reinstall_instance_workflow :: "reference_data definition_" where
  "reinstall_instance_workflow = (plain_definition ''ReinstallInstanceWorkflow''
     ([step_query_instance (Some (checks check_reinstall_query)), step_query_support_zones] @
      map step_query_target_image all_lookups @
      [confirm_step ''confirm the reinstall'' reinstall_card,
       tool_step ''reinstall'' ''ReinstallCompShareInstance'' (reads reinstall_args) None]))
     \<lparr>def_failure_draft := Some reinstall_failure_draft\<rparr>"

end
