(* ===== verification/CreateDraft.thy ===== *)
theory CreateDraft
  imports BillingWorkflows
begin

text \<open>
  What a creation seals: the execution draft and the price shown for it, their stored form and the
  three requests built from them (\<open>workflow/create_draft.go\<close>, \<open>workflow/create_instance_price.go\<close>).
  The labels inside the price text are glosses; its amounts are rendered.
\<close>

section \<open>The draft\<close>

record create_instance_args =
  ca_zone :: string
  ca_gpu_type :: string
  ca_gpu :: gfloat
  ca_cpu :: gfloat
  ca_memory :: gfloat
  ca_image_id :: string
  ca_charge_type :: string
  ca_machine_type :: string
  ca_min_cpu_platform :: string
  ca_login_mode :: string
  ca_disks :: "gval list"
  ca_name :: string

record selected_image =
  sg_id :: string
  sg_name :: string
  sg_source :: string

record create_draft =
  cd_args :: create_instance_args
  cd_image :: selected_image
  cd_placement :: zone_placement

text \<open>The estimate the card shows: no list price is not a list price of zero.\<close>

record estimated_price =
  ep_charge_type :: string
  ep_payable :: gfloat
  ep_list :: "gfloat option"
  ep_text :: string
  ep_request_id :: string
  ep_locked :: bool

record create_confirmation =
  cc_execution :: create_draft
  cc_price :: "estimated_price option"

section \<open>The stored form\<close>

definition create_args_map :: "create_instance_args \<Rightarrow> gmap" where
  "create_args_map a =
     [(''Zone'', GStr (ca_zone a)), (''GpuType'', GStr (ca_gpu_type a)), (''GPU'', GFloat (ca_gpu a)),
      (''CPU'', GFloat (ca_cpu a)), (''Memory'', GFloat (ca_memory a)), (''CompShareImageId'', GStr (ca_image_id a)),
      (''ChargeType'', GStr (ca_charge_type a)), (''MachineType'', GStr (ca_machine_type a)),
      (''MinimalCpuPlatform'', GStr (ca_min_cpu_platform a)), (''LoginMode'', GStr (ca_login_mode a))] @
     (if ca_disks a = [] then [] else [(''Disks'', GList (ca_disks a))]) @
     (if ca_name a = [] then [] else [(''Name'', GStr (ca_name a))])"

definition draft_to_contract_map :: "create_draft \<Rightarrow> gmap" where
  "draft_to_contract_map d =
     [(''args'', GMap (create_args_map (cd_args d))),
      (''image'', GMap [(''id'', GStr (sg_id (cd_image d))), (''name'', GStr (sg_name (cd_image d))),
         (''source'', GStr (sg_source (cd_image d)))]),
      (''placement'', GMap [(''zone'', GStr (zp_zone (cd_placement d))), (''region'', GStr (zp_region (cd_placement d))),
         (''zone_id'', GUint32 (zp_zone_id (cd_placement d))), (''az_group'', GUint32 (zp_az_group (cd_placement d))),
         (''is_pod'', GBool (zp_is_pod (cd_placement d)))])]"

definition price_map :: "estimated_price \<Rightarrow> gmap" where
  "price_map p =
     [(''charge_type'', GStr (ep_charge_type p)), (''payable_amount'', GFloat (ep_payable p)),
      (''display_text'', GStr (ep_text p)), (''source_request_id'', GStr (ep_request_id p)),
      (''locked'', GBool (ep_locked p))] @
     (case ep_list p of None \<Rightarrow> [] | Some x \<Rightarrow> [(''list_amount'', GFloat x)])"

definition confirmation_to_contract_map :: "create_confirmation \<Rightarrow> gmap" where
  "confirmation_to_contract_map s =
     [(''execution'', GMap (draft_to_contract_map (cc_execution s)))] @
     (case cc_price s of None \<Rightarrow> [] | Some p \<Rightarrow> [(''estimated_price'', GMap (price_map p))])"

definition parsed_id :: "gval \<Rightarrow> 32 word" where
  "parsed_id v = (case parse_uint32_any v of Some w \<Rightarrow> w | None \<Rightarrow> 0)"

definition parse_create_args :: "gmap \<Rightarrow> create_instance_args" where
  "parse_create_args m =
     \<lparr>ca_zone = param_str m ''Zone'' [], ca_gpu_type = param_str m ''GpuType'' [],
      ca_gpu = param_num m ''GPU'' (Fin 0), ca_cpu = param_num m ''CPU'' (Fin 0), ca_memory = param_num m ''Memory'' (Fin 0),
      ca_image_id = param_str m ''CompShareImageId'' [], ca_charge_type = param_str m ''ChargeType'' [],
      ca_machine_type = param_str m ''MachineType'' [], ca_min_cpu_platform = param_str m ''MinimalCpuPlatform'' [],
      ca_login_mode = param_str m ''LoginMode'' [], ca_disks = as_items (mval m ''Disks''), ca_name = param_str m ''Name'' []\<rparr>"

definition parse_create_execution_draft :: "gmap \<Rightarrow> create_draft res" where
  "parse_create_execution_draft m =
     (let bad = (\<lambda>t. Inl (plain_err t)) in
      if m = [] then bad ''the draft is empty''
      else case mval m ''args'' of
        GMap args \<Rightarrow>
          if args = [] then bad ''the draft has no arguments''
          else (case mval m ''image'' of
            GMap img \<Rightarrow> (case mval m ''placement'' of
                GMap p \<Rightarrow> Inr \<lparr>cd_args = parse_create_args args,
                   cd_image = \<lparr>sg_id = param_str img ''id'' [], sg_name = param_str img ''name'' [],
                     sg_source = param_str img ''source'' []\<rparr>,
                   cd_placement = \<lparr>zp_zone = param_str p ''zone'' [], zp_region = param_str p ''region'' [],
                     zp_zone_id = parsed_id (mval p ''zone_id''), zp_az_group = parsed_id (mval p ''az_group''),
                     zp_is_pod = (mval p ''is_pod'' = GBool True)\<rparr>\<rparr>
              | _ \<Rightarrow> bad ''the draft has no placement'')
          | _ \<Rightarrow> bad ''the draft has no image'')
      | _ \<Rightarrow> bad ''the draft has no arguments'')"

text \<open>A price section is all or nothing: a missing or wrong field is damage, not zero.\<close>

definition parse_estimated_price :: "gmap \<Rightarrow> estimated_price res" where
  "parse_estimated_price m =
     (let damaged = (\<lambda>k. Inl (plain_err (''the price record is damaged: '' @ k))) in
      case (mval m ''charge_type'', price_number (mval m ''payable_amount''), mval m ''display_text'',
          mval m ''source_request_id'', mval m ''locked'') of
        (GStr ct, Some pay, GStr text, GStr req, GBool locked) \<Rightarrow>
          (let p = (\<lambda>l. \<lparr>ep_charge_type = ct, ep_payable = pay, ep_list = l, ep_text = text, ep_request_id = req, ep_locked = locked\<rparr>)
           in case mget m ''list_amount'' of
                None \<Rightarrow> Inr (p None)
              | Some v \<Rightarrow> (case price_number v of Some x \<Rightarrow> Inr (p (Some x)) | None \<Rightarrow> damaged ''list_amount''))
      | (GStr ct, Some pay, GStr text, GStr req, _) \<Rightarrow> damaged ''locked''
      | (GStr ct, Some pay, GStr text, _, _) \<Rightarrow> damaged ''source_request_id''
      | (GStr ct, Some pay, _, _, _) \<Rightarrow> damaged ''display_text''
      | (GStr ct, None, _, _, _) \<Rightarrow> damaged ''payable_amount''
      | _ \<Rightarrow> damaged ''charge_type'')"

definition parse_create_confirmation_snapshot :: "gmap \<Rightarrow> create_confirmation res" where
  "parse_create_confirmation_snapshot m =
     (if m = [] then Inl (plain_err ''the confirmation is empty'')
      else case mval m ''execution'' of
        GMap e \<Rightarrow> (case parse_create_execution_draft e of
            Inl err \<Rightarrow> Inl err
          | Inr d \<Rightarrow> (case mget m ''estimated_price'' of
                None \<Rightarrow> Inr \<lparr>cc_execution = d, cc_price = None\<rparr>
              | Some (GMap pm) \<Rightarrow> (case parse_estimated_price pm of
                    Inl err \<Rightarrow> Inl err | Inr p \<Rightarrow> Inr \<lparr>cc_execution = d, cc_price = Some p\<rparr>)
              | Some _ \<Rightarrow> Inl (plain_err ''the price record is damaged'')))
      | _ \<Rightarrow> Inl (plain_err ''the confirmation has no draft''))"

section \<open>The three requests\<close>

definition upstream_create_args :: "create_draft \<Rightarrow> gmap" where
  "upstream_create_args d = apply_purchase_placement_args (create_args_map (cd_args d)) (cd_placement d)"

definition upstream_capacity_args :: "create_draft \<Rightarrow> gmap" where
  "upstream_capacity_args d = apply_capacity_placement_args (build_capacity_args
     \<lparr>dd_zone = ca_zone (cd_args d), dd_gpu_type = ca_gpu_type (cd_args d), dd_image_id = ca_image_id (cd_args d),
      dd_charge_type = ca_charge_type (cd_args d), dd_disks = ca_disks (cd_args d),
      dd_min_cpu_platform = ca_min_cpu_platform (cd_args d)\<rparr>) (cd_placement d)"

definition upstream_price_args :: "create_draft \<Rightarrow> gmap" where
  "upstream_price_args d = (let a = cd_args d in apply_purchase_placement_args
     ([(''Zone'', GStr (ca_zone a)), (''GpuType'', GStr (ca_gpu_type a)), (''GPU'', GFloat (ca_gpu a)),
       (''CPU'', GFloat (ca_cpu a)), (''Memory'', GFloat (ca_memory a)), (''ChargeType'', GStr (ca_charge_type a)),
       (''CompShareImageId'', GStr (ca_image_id a))] @
      (if ca_disks a = [] then [] else [(''Disks'', GList (ca_disks a))])) (cd_placement d))"

section \<open>The price of a draft\<close>

text \<open>
  The amount of one row: its components added, or its all-in price. \<open>SystemDisks\<close> stands in when
  \<open>Disks\<close>, which contains it, is absent.
\<close>

definition price_row_amount :: "gmap \<Rightarrow> gfloat option" where
  "price_row_amount m =
     (let n = (\<lambda>k. price_number (mval m k));
          parts = List.map_filter n [''Instance'', ''CompShareImage''] @
            (case n ''Disks'' of Some x \<Rightarrow> [x] | None \<Rightarrow> (case n ''SystemDisks'' of Some x \<Rightarrow> [x] | None \<Rightarrow> []))
      in if parts \<noteq> [] then Some (fold (\<lambda>x t. flt_plus t x) parts (Fin 0)) else n ''Price'')"

definition price_amount_for :: "gmap \<Rightarrow> string \<Rightarrow> string \<Rightarrow> gfloat option" where
  "price_amount_for raw key ct =
     (case List.map_filter price_row_amount (filter (\<lambda>m. as_str (mval m ''ChargeType'') = ct) (object_rows (mval raw key))) of
        [] \<Rightarrow> None | x # _ \<Rightarrow> Some x)"

definition price_list_amount_for :: "gmap \<Rightarrow> string \<Rightarrow> gfloat option" where
  "price_list_amount_for raw ct = (case price_amount_for raw ''ListPriceDetails'' ct of
       Some x \<Rightarrow> Some x | None \<Rightarrow> price_amount_for raw ''OriginalPriceDetails'' ct)"

definition extract_estimated_price :: "gmap \<Rightarrow> string \<Rightarrow> estimated_price option" where
  "extract_estimated_price raw ct = (case price_amount_for raw ''PriceDetails'' ct of
       None \<Rightarrow> None
     | Some pay \<Rightarrow>
         (let list = price_list_amount_for raw ct;
              text = ''CNY '' @ float_text_2 pay @ charge_period_unit ct;
              discount = (case list of Some l \<Rightarrow> if flt_less pay l then '' (list price CNY '' @ float_text_2 l @ '')'' else [] | None \<Rightarrow> [])
          in Some \<lparr>ep_charge_type = ct, ep_payable = pay, ep_list = list, ep_text = text @ discount @ estimated_price_suffix,
             ep_request_id = param_str raw ''request_uuid'' [], ep_locked = False\<rparr>))"

section \<open>What is stored is read back\<close>

lemma parsed_id_word [simp]: "parsed_id (GUint32 w) = w"
  by (simp add: parsed_id_def parse_uint32_any_def)

lemma parse_create_args_map [simp]: "parse_create_args (create_args_map a) = a"
  by (cases a) (simp add: parse_create_args_def create_args_map_def param_str_def param_num_def as_items_def mval_def)

lemma parse_draft_map: "parse_create_execution_draft (draft_to_contract_map d) = Inr d"
proof -
  have "create_args_map (cd_args d) \<noteq> []" by (simp add: create_args_map_def)
  then show ?thesis
    by (simp add: parse_create_execution_draft_def draft_to_contract_map_def mval_def param_str_def)
qed

lemma parse_price_map: "parse_estimated_price (price_map p) = Inr p"
  by (cases "ep_list p")
    (simp_all add: parse_estimated_price_def price_map_def mval_def price_number_def)

lemma parse_confirmation_map: "parse_create_confirmation_snapshot (confirmation_to_contract_map s) = Inr s"
proof (cases "cc_price s")
  case None
  then show ?thesis
    by (simp add: parse_create_confirmation_snapshot_def confirmation_to_contract_map_def mval_def parse_draft_map)
next
  case (Some p)
  then show ?thesis
    by (simp add: parse_create_confirmation_snapshot_def confirmation_to_contract_map_def mval_def parse_draft_map parse_price_map)
qed

text \<open>C38: the codec of a confirmation loses nothing: what the card shows and the seal freezes is, decoded,
  the very execution draft and price that were encoded, with or without a price, a list price, disks and
  a name.\<close>

theorem confirmation_roundtrip:
  "parse_create_confirmation_snapshot (confirmation_to_contract_map s) = Inr s"
  by (rule parse_confirmation_map)

text \<open>C39: a damaged price is never read as a price: a stored price section without one of the five fields
  the encoder always writes is refused, whatever else it holds.\<close>

theorem damaged_price_refused:
  assumes "mget m ''estimated_price'' = Some (GMap pm)"
    and "k \<in> {''charge_type'', ''payable_amount'', ''display_text'', ''source_request_id'', ''locked''}"
    and "mget pm k = None"
  shows "\<exists>e. parse_create_confirmation_snapshot m = Inl e"
proof -
  from assms(2,3) have "\<exists>e. parse_estimated_price pm = Inl e"
    by (auto simp: parse_estimated_price_def Let_def mval_def price_number_def split: gval.splits option.splits prod.splits)
  with assms(1) show ?thesis
    by (auto simp: parse_create_confirmation_snapshot_def split: gval.splits sum.splits)
qed

theorem damaged_price_refused_witness:
  "\<exists>e. parse_create_confirmation_snapshot [(''execution'', GMap [(''args'', GMap [(''Zone'', GStr ''z'')]), (''image'', GMap []),
     (''placement'', GMap [])]), (''estimated_price'', GMap [(''charge_type'', GStr ''Month''), (''payable_amount'', GFloat (Fin 0)),
     (''display_text'', GStr []), (''source_request_id'', GStr [])])] = Inl e"
  by (rule damaged_price_refused [where k = "''locked''"], simp, simp, simp)

end
