(* ===== verification/GpuInventory.thy ===== *)
theory GpuInventory
  imports Catalogs GoFmt
begin

text \<open>
  The merged view of the two GPU inventory backends (\<open>deployment/gpu_inventory.go\<close>): an official and
  a pod response, each trusted only for the zones the live zone catalog gives it. A Go map that is
  ranged over is its list here; the code's answer is the same in every order unless two keys of a map
  differ only in case or blanks.
\<close>

section \<open>Reading a payload\<close>

text \<open>A conversion of a float64 to \<open>uint64\<close>: truncation, and \<open>1 << 63\<close> out of range, as on amd64.\<close>

definition uint64_of_float :: "gfloat \<Rightarrow> int" where
  "uint64_of_float x = (case x of
       Fin r \<Rightarrow> if rat_trunc r < 2 ^ 64 then rat_trunc r else 2 ^ 63
     | _ \<Rightarrow> 2 ^ 63)"

definition inventory_uint64 :: "gval \<Rightarrow> int option" where
  "inventory_uint64 v = (case v of
       GUint32 w \<Rightarrow> Some (uint w) | GUint64 w \<Rightarrow> Some (uint w)
     | GInt n \<Rightarrow> if n < 0 then None else Some n
     | GInt32 n \<Rightarrow> if n < 0 then None else Some n
     | GInt64 n \<Rightarrow> if n < 0 then None else Some n
     | GFloat x \<Rightarrow> if flt_less x (Fin 0) then None else Some (uint64_of_float x)
     | GFloat32 x \<Rightarrow> if flt_less x (Fin 0) then None else Some (uint64_of_float x)
     | GNumber s \<Rightarrow> map_option int (parse_uint 64 (trim_space s))
     | GStr s \<Rightarrow> map_option int (parse_uint 64 (trim_space s))
     | _ \<Rightarrow> None)"

text \<open>The first key of an object that is the wanted one up to case and blanks; nil reads as absent.\<close>

definition map_value_fold :: "gval \<Rightarrow> string \<Rightarrow> gval option" where
  "map_value_fold v key = (case v of
       GMap m \<Rightarrow> (case find (\<lambda>e. equal_fold (trim_space (fst e)) key) m of
           Some (_, GNil) \<Rightarrow> None | Some (_, x) \<Rightarrow> Some x | None \<Rightarrow> None)
     | _ \<Rightarrow> None)"

type_synonym gpu_counts = "(string \<times> 32 word) list"
type_synonym inventory_pools = "(32 word \<times> gpu_counts) list"

definition uint32_id :: "int option \<Rightarrow> 32 word option" where
  "uint32_id n = (case n of None \<Rightarrow> None | Some k \<Rightarrow> if k < 2 ^ 32 then Some (word_of_int k) else None)"

definition inventory_row :: "gmap \<Rightarrow> gpu_counts" where
  "inventory_row m = fold (\<lambda>(k, v) row.
       (case uint32_id (inventory_uint64 v) of
          Some c \<Rightarrow> if trim_space k = [] then row else mput (trim_space k) c row | None \<Rightarrow> row)) m []"

definition inventory_pool :: "gmap \<Rightarrow> string \<Rightarrow> inventory_pools" where
  "inventory_pool raw pool = (case map_value_fold (mval raw ''GpuInventory'') pool of
       Some (GMap zones) \<Rightarrow> fold (\<lambda>(k, v) out.
         (case (uint32_id (inventory_uint64 (GStr k)), v) of
            (Some z, GMap row) \<Rightarrow> if z = 0 then out else mput z (inventory_row row) out | _ \<Rightarrow> out)) zones []
     | _ \<Rightarrow> [])"

text \<open>A set of names, in lower case.\<close>

definition inventory_string_set :: "gval \<Rightarrow> string list" where
  "inventory_string_set v =
     (let names = (case v of GList vs \<Rightarrow> map sprint (filter (\<lambda>x. x \<noteq> GNil) vs) | GStrs ss \<Rightarrow> ss | _ \<Rightarrow> [])
      in remdups (filter (\<lambda>n. n \<noteq> []) (map (\<lambda>n. to_lower (trim_space n)) names)))"

definition inventory_update_time :: "gmap \<Rightarrow> int" where
  "inventory_update_time raw = (case inventory_uint64 (mval raw ''UpdateTime'') of
       None \<Rightarrow> 0 | Some n \<Rightarrow> if n < 2 ^ 63 then n else n - 2 ^ 64)"

text \<open>An empty object is a successful empty answer; a missing or other field is no answer.\<close>

definition gpu_inventory_payload_available :: "gmap \<Rightarrow> bool" where
  "gpu_inventory_payload_available raw = (case mval raw ''GpuInventory'' of GMap _ \<Rightarrow> True | _ \<Rightarrow> False)"

section \<open>The merged snapshot\<close>

datatype gpu_pool = PoolExclusive | PoolSpot
datatype gpu_source = SourceOfficial | SourcePod

definition pool_text :: "gpu_pool \<Rightarrow> string" where
  "pool_text p = (case p of PoolExclusive \<Rightarrow> ''Exclusive'' | PoolSpot \<Rightarrow> ''Spot'')"

definition source_text :: "gpu_source \<Rightarrow> string" where
  "source_text s = (case s of SourceOfficial \<Rightarrow> ''official'' | SourcePod \<Rightarrow> ''pod'')"

record inventory_source =
  ss_attempted :: bool
  ss_available :: bool
  ss_update_time :: int

record gpu_inventory =
  gi_catalog :: "zone_row snapshot option"
  gi_exclusive :: inventory_pools
  gi_spot :: inventory_pools
  gi_official :: inventory_source
  gi_pod :: inventory_source
  gi_spot_unsupported :: "string list"

definition gi_counts :: "gpu_inventory \<Rightarrow> gpu_pool \<Rightarrow> inventory_pools" where
  "gi_counts s p = (case p of PoolExclusive \<Rightarrow> gi_exclusive s | PoolSpot \<Rightarrow> gi_spot s)"

definition inventory_placement_by_id :: "zone_row snapshot option \<Rightarrow> 32 word \<Rightarrow> zone_placement option" where
  "inventory_placement_by_id cat z =
     (if \<not> snapshot_available cat \<or> z = 0 then None
      else find (\<lambda>p. zp_zone_id p = z) (List.map_filter (zone_placement_of cat) (snapshot_ids cat)))"

text \<open>The rows of the zones this backend owns go in, count by count.\<close>

definition merge_rows :: "zone_row snapshot option \<Rightarrow> bool \<Rightarrow> inventory_pools \<Rightarrow> inventory_pools \<Rightarrow> inventory_pools" where
  "merge_rows cat pod rows out = fold (\<lambda>(z, row) out.
       (case inventory_placement_by_id cat z of
          Some p \<Rightarrow>
            if zp_is_pod p = pod
            then mput z (fold (\<lambda>(g, n) m. if trim_space g = [] then m else mput (trim_space g) n m) row
                   (case mget out z of Some m \<Rightarrow> m | None \<Rightarrow> [])) out
            else out
        | None \<Rightarrow> out)) rows out"

definition merge_source :: "gmap \<Rightarrow> bool \<Rightarrow> gpu_inventory \<Rightarrow> gpu_inventory" where
  "merge_source raw pod s =
     s\<lparr>gi_exclusive := merge_rows (gi_catalog s) pod (inventory_pool raw (pool_text PoolExclusive)) (gi_exclusive s),
       gi_spot := merge_rows (gi_catalog s) pod (inventory_pool raw (pool_text PoolSpot)) (gi_spot s)\<rparr>"

definition new_gpu_inventory_snapshot :: "zone_row snapshot option \<Rightarrow> gmap \<Rightarrow> bool \<Rightarrow> bool \<Rightarrow> gmap \<Rightarrow> bool \<Rightarrow> bool
    \<Rightarrow> gpu_inventory" where
  "new_gpu_inventory_snapshot cat official official_attempted official_available pod pod_attempted pod_available =
     (let s = \<lparr>gi_catalog = cat, gi_exclusive = [], gi_spot = [],
            gi_official = \<lparr>ss_attempted = official_attempted, ss_available = official_available,
              ss_update_time = inventory_update_time official\<rparr>,
            gi_pod = \<lparr>ss_attempted = pod_attempted, ss_available = pod_available,
              ss_update_time = inventory_update_time pod\<rparr>,
            gi_spot_unsupported = inventory_string_set (mval official ''SpotUnsupportedGpuTypes'')\<rparr>;
          s1 = (if official_available then merge_source official False s else s)
      in if \<not> snapshot_available cat then s
         else if pod_available then merge_source pod True s1 else s1)"

text \<open>Any live pod zone's id: it only selects the pod backend.\<close>

definition pod_selector_zone_id :: "zone_row snapshot option \<Rightarrow> 32 word option" where
  "pod_selector_zone_id cat =
     (if \<not> snapshot_available cat then None
      else map_option zp_zone_id (find (\<lambda>p. zp_is_pod p \<and> zp_zone_id p \<noteq> 0)
        (List.map_filter (zone_placement_of cat) (snapshot_ids cat))))"

definition source_state :: "gpu_inventory \<Rightarrow> gpu_source \<Rightarrow> inventory_source" where
  "source_state s src = (case src of SourceOfficial \<Rightarrow> gi_official s | SourcePod \<Rightarrow> gi_pod s)"

definition owner_of :: "zone_placement \<Rightarrow> gpu_source" where
  "owner_of p = (if zp_is_pod p then SourcePod else SourceOfficial)"

definition canonical_inventory_pool :: "string \<Rightarrow> gpu_pool option" where
  "canonical_inventory_pool pool =
     (if equal_fold (trim_space pool) ''Exclusive'' then Some PoolExclusive
      else if equal_fold (trim_space pool) ''Spot'' then Some PoolSpot else None)"

definition inventory_gpu_count :: "inventory_pools \<Rightarrow> 32 word \<Rightarrow> string \<Rightarrow> 32 word option" where
  "inventory_gpu_count pools z gpu =
     map_option snd (find (\<lambda>e. equal_fold (trim_space (fst e)) (trim_space gpu)) (case mget pools z of Some row \<Rightarrow> row | None \<Rightarrow> []))"

text \<open>A count and whether its backend answered at all.\<close>

definition pool_count :: "gpu_inventory \<Rightarrow> string \<Rightarrow> string \<Rightarrow> string \<Rightarrow> 32 word option \<times> bool" where
  "pool_count s zone gpu pool =
     (if \<not> snapshot_available (gi_catalog s) then (None, False)
      else case zone_placement_of (gi_catalog s) zone of
        None \<Rightarrow> (None, False)
      | Some p \<Rightarrow>
          if zp_zone_id p = 0 \<or> \<not> ss_available (source_state s (owner_of p)) then (None, False)
          else (case canonical_inventory_pool pool of
              None \<Rightarrow> (None, True)
            | Some k \<Rightarrow> (inventory_gpu_count (gi_counts s k) (zp_zone_id p) gpu, True)))"

definition counts_of :: "gpu_inventory \<Rightarrow> string \<Rightarrow> string \<Rightarrow> 32 word \<times> 32 word \<times> bool \<times> bool" where
  "counts_of s zone gpu =
     (let e = pool_count s zone gpu ''Exclusive''; t = pool_count s zone gpu ''Spot''; n = (\<lambda>x. case x of None \<Rightarrow> 0 | Some c \<Rightarrow> c)
      in (n (fst e), n (fst t), fst e \<noteq> None \<or> fst t \<noteq> None, snd e \<and> snd t))"

section \<open>The snapshot as a step result\<close>

definition inventory_pool_to_map :: "inventory_pools \<Rightarrow> gval" where
  "inventory_pool_to_map pools =
     GMap (fold (\<lambda>(z, row) m. mput (nat_text (unat z)) (GMap (fold (\<lambda>(g, n) r. mput g (GUint32 n) r) row [])) m) pools [])"

definition source_state_map :: "inventory_source \<Rightarrow> gval" where
  "source_state_map st = GMap [(''Attempted'', GBool (ss_attempted st)), (''Available'', GBool (ss_available st)),
     (''UpdateTime'', GInt64 (ss_update_time st))]"

definition gpu_inventory_map :: "gpu_inventory \<Rightarrow> gmap" where
  "gpu_inventory_map s =
     [(''GpuInventory'', GMap [(''Exclusive'', inventory_pool_to_map (gi_exclusive s)), (''Spot'', inventory_pool_to_map (gi_spot s))]),
      (''InventorySources'', GMap [(''official'', source_state_map (gi_official s)), (''pod'', source_state_map (gi_pod s))]),
      (''SpotUnsupportedGpuTypes'', GStrs (sort (gi_spot_unsupported s)))]"

definition inventory_source_available :: "gmap \<Rightarrow> gpu_source \<Rightarrow> bool" where
  "inventory_source_available result src =
     (case map_value_fold (mval result ''InventorySources'') (source_text src) of
        Some entry \<Rightarrow> map_value_fold entry ''Available'' = Some (GBool True)
      | None \<Rightarrow> False)"

text \<open>
  Whether a purchase mode is a product of the zone and model: \<open>None\<close> when it is not known. A count of
  zero says nothing; in a pod zone the presence of a row decides.
\<close>

definition inventory_pool_support :: "gmap \<Rightarrow> zone_placement \<Rightarrow> string \<Rightarrow> string \<Rightarrow> bool option" where
  "inventory_pool_support result placement gpu pool = (case canonical_inventory_pool pool of
       None \<Rightarrow> None
     | Some k \<Rightarrow>
         if zp_zone_id placement = 0 \<or> trim_space gpu = [] \<or> \<not> inventory_source_available result (owner_of placement) then None
         else if \<not> zp_is_pod placement
         then Some (k = PoolExclusive \<or>
           to_lower (trim_space gpu) \<notin> set (inventory_string_set (mval result ''SpotUnsupportedGpuTypes'')))
         else (let here = (\<lambda>p. inventory_gpu_count (inventory_pool result (pool_text p)) (zp_zone_id placement) gpu \<noteq> None);
                   other = (if k = PoolExclusive then PoolSpot else PoolExclusive)
               in if here k then Some True else if here other then Some False else None))"

definition pool_supported :: "gpu_inventory \<Rightarrow> string \<Rightarrow> string \<Rightarrow> string \<Rightarrow> bool option" where
  "pool_supported s zone gpu pool =
     (if \<not> snapshot_available (gi_catalog s) then None
      else case zone_placement_of (gi_catalog s) zone of
        None \<Rightarrow> None | Some p \<Rightarrow> inventory_pool_support (gpu_inventory_map s) p gpu pool)"

section \<open>Every count comes from the backend that owns its zone\<close>

definition owned_by :: "zone_row snapshot option \<Rightarrow> 32 word \<Rightarrow> bool \<Rightarrow> bool" where
  "owned_by cat z pod \<longleftrightarrow> (\<exists>p. inventory_placement_by_id cat z = Some p \<and> zp_is_pod p = pod)"

text \<open>A count of the pools is one of the rows, in a zone of the backend.\<close>

definition from_rows :: "zone_row snapshot option \<Rightarrow> bool \<Rightarrow> inventory_pools \<Rightarrow> 32 word \<Rightarrow> string \<Rightarrow> 32 word \<Rightarrow> bool" where
  "from_rows cat pod rows z g n \<longleftrightarrow> owned_by cat z pod \<and>
     (\<exists>row k. (z, row) \<in> set rows \<and> (k, n) \<in> set row \<and> trim_space k = g)"

definition count_in :: "inventory_pools \<Rightarrow> 32 word \<Rightarrow> string \<Rightarrow> 32 word \<Rightarrow> bool" where
  "count_in pools z g n \<longleftrightarrow> (\<exists>row. mget pools z = Some row \<and> (g, n) \<in> set row)"

lemma set_mput: "x \<in> set (mput k v m) \<Longrightarrow> x = (k, v) \<or> x \<in> set m"
  by (induction m) (auto split: if_splits prod.splits)

lemma merge_row_counts:
  "(g, n) \<in> set (fold (\<lambda>(g, n) m. if trim_space g = [] then m else mput (trim_space g) n m) row m0) \<Longrightarrow>
     (g, n) \<in> set m0 \<or> (\<exists>k. (k, n) \<in> set row \<and> trim_space k = g)"
proof (induction row arbitrary: m0)
  case (Cons e row)
  obtain k c where e: "e = (k, c)" by (cases e)
  from Cons.IH [of "if trim_space k = [] then m0 else mput (trim_space k) c m0"] Cons.prems
  show ?case by (auto simp: e split: if_splits dest: set_mput)
qed simp

lemma merge_rows_counts:
  "count_in (merge_rows cat pod rows out) z g n \<Longrightarrow> count_in out z g n \<or> from_rows cat pod rows z g n"
proof (induction rows arbitrary: out)
  case Nil
  then show ?case by (simp add: merge_rows_def)
next
  case (Cons e rows)
  obtain z0 row where e: "e = (z0, row)" by (cases e)
  define out1 where "out1 = merge_rows cat pod [(z0, row)] out"
  have "merge_rows cat pod (e # rows) out = merge_rows cat pod rows out1" by (simp add: out1_def merge_rows_def e)
  with Cons have "count_in out1 z g n \<or> from_rows cat pod rows z g n" by simp
  moreover have "count_in out z g n \<or> from_rows cat pod [(z0, row)] z g n" if "count_in out1 z g n"
  proof (cases "z = z0 \<and> owned_by cat z0 pod")
    case True
    then have "out1 = mput z0 (fold (\<lambda>(g, n) m. if trim_space g = [] then m else mput (trim_space g) n m) row
        (case mget out z0 of Some m \<Rightarrow> m | None \<Rightarrow> [])) out"
      by (auto simp: out1_def merge_rows_def owned_by_def)
    with that True show ?thesis
      by (auto simp: count_in_def from_rows_def mget_mput split: option.splits dest!: merge_row_counts)
  next
    case False
    then have "mget out1 z = mget out z"
      by (auto simp: out1_def merge_rows_def owned_by_def mget_mput split: option.splits)
    with that show ?thesis by (simp add: count_in_def)
  qed
  ultimately show ?case by (auto simp: e from_rows_def)
qed

lemma merged_counts:
  assumes "count_in (gi_counts (new_gpu_inventory_snapshot cat official oa ov pod pa pv) p) z g n"
  shows "(ov \<and> from_rows cat False (inventory_pool official (pool_text p)) z g n) \<or>
    (pv \<and> from_rows cat True (inventory_pool pod (pool_text p)) z g n)"
proof -
  have none: "\<not> count_in [] z g n" by (simp add: count_in_def)
  from assms show ?thesis
    by (cases p) (auto simp: new_gpu_inventory_snapshot_def gi_counts_def merge_source_def pool_text_def none Let_def
        split: if_splits dest!: merge_rows_counts)
qed

lemma inventory_gpu_count_in:
  assumes "inventory_gpu_count pools z gpu = Some n"
  obtains g where "count_in pools z g n" and "equal_fold (trim_space g) (trim_space gpu)"
  using assms by (auto simp: inventory_gpu_count_def count_in_def split: option.splits dest!: find_Some_iff_first)


lemma parse_uint_int [code]:
  "parse_uint bits s = (if s = [] then None else case digits_val 0 s of
     None \<Rightarrow> None | Some n \<Rightarrow> if int n < 2 ^ bits then Some n else None)"
proof -
  have "int n < 2 ^ bits \<longleftrightarrow> n < 2 ^ bits" for n by (metis of_nat_less_iff of_nat_numeral of_nat_power)
  then show ?thesis by (simp add: parse_uint_def split: option.splits)
qed

definition two_zones :: "zone_row snapshot" where
  "two_zones = \<lparr>sn_available = True, sn_order = [''cn-a'', ''cn-p''],
     sn_entries = [(''cn-a'', \<lparr>zr_placement = \<lparr>zp_zone = ''cn-a'', zp_region = ''cn'', zp_zone_id = 1, zp_az_group = 1, zp_is_pod = False\<rparr>, zr_display = ''A'', zr_disable_image_sync = False, zr_unsupported = []\<rparr>),
       (''cn-p'', \<lparr>zr_placement = \<lparr>zp_zone = ''cn-p'', zp_region = ''cn'', zp_zone_id = 2, zp_az_group = 2, zp_is_pod = True\<rparr>, zr_display = ''P'', zr_disable_image_sync = False, zr_unsupported = []\<rparr>)]\<rparr>"

definition two_answers :: "gval \<Rightarrow> gmap" where
  "two_answers n = [(''GpuInventory'', GMap [(''Exclusive'', GMap [(''1'', GMap [(''4090'', n)]), (''2'', GMap [(''4090'', n)])])])]"


end
