(* ===== verification/CreateImages.thy ===== *)
theory CreateImages
  imports ImageWorkflows CreateDraft GpuInventory
begin

text \<open>
  Which image and which place a creation gets: the platform's classification of images
  (\<open>deployment/image_taxonomy.go\<close>), the image lookups and the one image decision of the creation
  (\<open>workflow/create_instance.go\<close>, \<open>create_instance_form_options.go\<close>,
  \<open>create_instance_guided_forms.go\<close>), and the placement rules (\<open>create_instance_placement.go\<close>).
  A stored nil result reads like an empty one. The texts of refusals are glosses.
\<close>

section \<open>The classification of images\<close>

record image_taxonomy =
  tx_order :: "string list"
  tx_by_tag :: "(string \<times> string) list"

definition no_taxonomy :: image_taxonomy where
  "no_taxonomy = \<lparr>tx_order = [], tx_by_tag = []\<rparr>"

text \<open>The tags of a category that no earlier category has, or an earlier tag of this one.\<close>

definition fresh_tags :: "(string \<times> string) list \<Rightarrow> string list \<Rightarrow> string list" where
  "fresh_tags by_tag tags =
     filter (\<lambda>k. mget by_tag k = None) (uniq_by id [] (filter (\<lambda>k. k \<noteq> []) (map (\<lambda>t. to_lower (trim_space t)) tags)))"

definition add_category :: "gmap \<Rightarrow> string \<Rightarrow> image_taxonomy \<Rightarrow> image_taxonomy" where
  "add_category tags_map name t =
     (let cat = trim_space name in
      if cat = [] then t
      else case mget tags_map cat of
        None \<Rightarrow> t
      | Some raw \<Rightarrow>
          (let new = fresh_tags (tx_by_tag t) (as_string_slice raw) in
           if new = [] then t
           else \<lparr>tx_order = tx_order t @ [cat], tx_by_tag = tx_by_tag t @ map (\<lambda>k. (k, cat)) new\<rparr>))"

text \<open>The platform's order, or the order of the map when there is none.\<close>

definition parse_image_taxonomy :: "gmap \<Rightarrow> image_taxonomy" where
  "parse_image_taxonomy result = (case mval result ''TagsMap'' of
       GMap tags_map \<Rightarrow>
         (let names = (case mval result ''TagIndex'' of
              GList (i # is) \<Rightarrow> uniq_by id [] (filter (\<lambda>n. n \<noteq> []) (map as_str (i # is)))
            | _ \<Rightarrow> map fst tags_map)
          in fold (add_category tags_map) names no_taxonomy)
     | _ \<Rightarrow> no_taxonomy)"

definition taxonomy_available :: "image_taxonomy \<Rightarrow> bool" where
  "taxonomy_available t \<longleftrightarrow> tx_order t \<noteq> []"

definition category_of :: "image_taxonomy \<Rightarrow> string \<Rightarrow> string" where
  "category_of t tag = (if taxonomy_available t
     then (case mget (tx_by_tag t) (to_lower (trim_space tag)) of Some c \<Rightarrow> c | None \<Rightarrow> []) else [])"

definition categories_of :: "image_taxonomy \<Rightarrow> string list \<Rightarrow> string list" where
  "categories_of t tags = filter (\<lambda>c. list_ex (\<lambda>tag. category_of t tag = c) tags) (tx_order t)"

section \<open>Images of an answer\<close>

definition grouped_rows :: "gval list \<Rightarrow> (gmap \<times> gmap) list" where
  "grouped_rows groups = concat (map (\<lambda>g. map (Pair g) (object_rows (mval g ''Data''))) (List.map_filter as_map groups))"

text \<open>The name of a community image is the name of its group.\<close>

definition image_name_by_id :: "gmap \<Rightarrow> string \<Rightarrow> string" where
  "image_name_by_id images i =
     (if i = [] then []
      else case mval images ''CompshareImageGroup'' of
        GList groups \<Rightarrow> (case find (\<lambda>(g, d). named_image i d) (grouped_rows groups) of
            Some (g, d) \<Rightarrow> as_str (mval g ''ImageName'') | None \<Rightarrow> [])
      | _ \<Rightarrow> (case find (named_image i) (object_rows (mval images ''ImageSet'')) of
            Some d \<Rightarrow> as_str (mval d ''Name'') | None \<Rightarrow> []))"

definition form_string_slice :: "gval \<Rightarrow> string list" where
  "form_string_slice v = uniq_by id [] (filter (\<lambda>s. s \<noteq> []) (map as_str (as_items v)))"

text \<open>Only asked for an image that has an id.\<close>

definition image_supported_by_id :: "gmap \<Rightarrow> string \<Rightarrow> string list" where
  "image_supported_by_id images i = (case image_map_by_id images i of
       Some row \<Rightarrow> form_string_slice (mval row ''SupportedGpuTypes'') | None \<Rightarrow> [])"

definition image_container_by_id :: "gmap \<Rightarrow> string \<Rightarrow> bool" where
  "image_container_by_id images i = (case image_map_by_id images i of
       Some row \<Rightarrow> param_bool row ''Container'' False \<or> param_bool row ''IsContainer'' False | None \<Rightarrow> False)"

definition image_source_param :: "gmap \<Rightarrow> string" where
  "image_source_param ps = param_str ps ''ImageSource'' ''platform''"

definition form_image_catalog :: "gmap option \<Rightarrow> string \<Rightarrow> image_row snapshot" where
  "form_image_catalog images source = (case images of
       None \<Rightarrow> new_image_snapshot False []
     | Some m \<Rightarrow>
         if mhas m ''CompshareImageGroup'' then new_image_snapshot True (parse_community_image_entries m)
         else (let l = normalized_image_source source in
           new_image_snapshot True (parse_platform_image_entries m (lookup_text (if l = LookupCommunity then LookupPlatform else l)))))"

section \<open>The image of the creation\<close>

definition q_images :: string where "q_images = ''query images''"

definition image_catalog_entry_as_result_row :: "image_row \<Rightarrow> gmap" where
  "image_catalog_entry_as_result_row e =
     [(''CompShareImageId'', GStr (im_id e)), (''Name'', GStr (if im_version_name e = [] then im_name e else im_version_name e)),
      (''ImageType'', GStr (im_type e)), (''Status'', GStr (im_status e)),
      (''Container'', GStr (if im_container e then ''true'' else ''false'')), (''Size'', GFloat (im_size_mb e))] @
     (if im_version_name e = [] then [] else [(''VersionName'', GStr (im_version_name e))]) @
     (if im_description e = [] then [] else [(''Description'', GStr (im_description e))]) @
     (if im_gpus e = [] then [] else [(''SupportedGpuTypes'', GList (map GStr (im_gpus e)))]) @
     (if im_tags e = [] then [] else [(''Tags'', GList (map GStr (im_tags e)))])"

text \<open>The answer with one more row: in a group of its own, where the answer has groups.\<close>

definition with_image_row :: "image_row \<Rightarrow> gmap \<Rightarrow> gmap" where
  "with_image_row e out =
     (let row = GMap (image_catalog_entry_as_result_row e);
          grp = GMap ([(''ImageName'', GStr (im_name e)), (''Data'', GList [row])] @
            (if im_family_id e = [] then [] else [(''GroupId'', GStr (im_family_id e))]));
          flat = mput ''ImageSet'' (GList (row # as_items (mval out ''ImageSet''))) out
      in case mval out ''CompshareImageGroup'' of
           GList groups \<Rightarrow> mput ''CompshareImageGroup'' (GList (grp # groups)) out
         | _ \<Rightarrow> if normalized_image_source (im_source e) = LookupCommunity \<and> mval out ''ImageSet'' = GNil
             then mput ''CompshareImageGroup'' (GList [grp]) out else flat)"

text \<open>
  This run's images, with the verified image the request names when the page does not show it, and only
  if it comes from the source the request is about.
\<close>

definition create_image_result :: "rctx \<Rightarrow> gmap option" where
  "create_image_result c =
     (let result = mget (wp_step_results (wc_pub c)) q_images; i = trim_space (param_str (ctx_params c) ''CompShareImageId'' []);
          shown = (case result of Some m \<Rightarrow> m | None \<Rightarrow> [])
      in if i = [] \<or> image_map_by_id shown i \<noteq> None then result
         else case image_by_id (image_catalog c) i of
           None \<Rightarrow> result
         | Some e \<Rightarrow>
             if normalized_image_source (im_source e) \<noteq> normalized_image_source (image_source_param (ctx_params c)) then result
             else Some (with_image_row e shown))"

definition create_images :: "rctx \<Rightarrow> gmap" where
  "create_images c = (case create_image_result c of Some m \<Rightarrow> m | None \<Rightarrow> [])"

definition create_image_catalog :: "rctx \<Rightarrow> image_row snapshot option" where
  "create_image_catalog c = (case create_image_result c of
       Some m \<Rightarrow> Some (form_image_catalog (Some m) (image_source_param (ctx_params c)))
     | None \<Rightarrow> if snapshot_available (image_catalog c) then image_catalog c else Some (new_image_snapshot False []))"

definition selected_image_from :: "image_selection \<Rightarrow> string \<Rightarrow> selected_image" where
  "selected_image_from s source = \<lparr>sg_id = se_id s, sg_name = (if se_name s = [] then ''unknown'' else se_name s), sg_source = source\<rparr>"

definition zone_is_pod_param :: "gmap \<Rightarrow> bool" where
  "zone_is_pod_param ps \<longleftrightarrow> param_bool ps ''ZoneIsPod'' False \<or> param_bool ps ''IsPodZone'' False"

definition no_image_request :: image_request where
  "no_image_request = \<lparr>ir_id = [], ir_name = [], ir_framework = [], ir_cuda = [], ir_os = [], ir_python = [], ir_tag = [],
     ir_gpu = [], ir_zone = [], ir_is_pod = False, ir_source = [], ir_prefiltered = False\<rparr>"

text \<open>A named id is that image or none; a name may still be answered by the best recommendation.\<close>

definition resolve_selected_image :: "gmap \<Rightarrow> image_row snapshot option \<Rightarrow> selected_image" where
  "resolve_selected_image ps snap =
     (let l = normalized_image_source (image_source_param ps); source = lookup_text l;
          none = \<lparr>sg_id = [], sg_name = [], sg_source = source\<rparr>;
          i = param_str ps ''CompShareImageId'' []; name = param_str ps ''ImageName'' []
      in if i \<noteq> [] then
           (case rn_selection (resolve_image snap (no_image_request\<lparr>ir_id := i\<rparr>)) of
              Some s \<Rightarrow> selected_image_from s source | None \<Rightarrow> none)
         else
           (let r = resolve_image snap (no_image_request\<lparr>ir_name := name, ir_gpu := param_str ps ''GpuType'' [],
                  ir_zone := param_str ps ''Zone'' [], ir_is_pod := zone_is_pod_param ps, ir_source := source,
                  ir_prefiltered := l = LookupCommunity \<and> trim_space name \<noteq> []\<rparr>)
            in case reinstall_selection r of Some s \<Rightarrow> selected_image_from s source | None \<Rightarrow> none))"

definition select_create_image :: "rctx \<Rightarrow> selected_image" where
  "select_create_image c = resolve_selected_image (ctx_params c) (create_image_catalog c)"

definition pick_image_id :: "gmap \<Rightarrow> gmap option \<Rightarrow> string" where
  "pick_image_id ps images =
     (let i = param_str ps ''CompShareImageId'' [] in
      if i \<noteq> [] then i else sg_id (resolve_selected_image ps (Some (form_image_catalog images (image_source_param ps)))))"

definition create_image_unavailable_error :: "gmap \<Rightarrow> gerr" where
  "create_image_unavailable_error ps =
     (let name = trim_space (param_str ps ''ImageName'' []) in
      plain_err (if name = [] then ''no usable image'' else ''no usable image '' @ name))"

definition current_image_supported_gpus :: "gmap \<Rightarrow> gmap option \<Rightarrow> string list" where
  "current_image_supported_gpus ps images = (case images of
       None \<Rightarrow> []
     | Some m \<Rightarrow>
         if normalized_image_source (image_source_param ps) \<noteq> LookupPlatform \<and>
            trim_space (param_str ps ''CompShareImageId'' []) = [] \<and> trim_space (param_str ps ''ImageName'' []) = []
         then [] else image_supported_by_id m (pick_image_id ps images))"

section \<open>Facets\<close>

definition image_selection_matches_facets :: "image_row snapshot option \<Rightarrow> string \<Rightarrow> string \<Rightarrow> string \<Rightarrow> bool" where
  "image_selection_matches_facets snap i want_type want_tag \<longleftrightarrow> (want_type = [] \<and> want_tag = []) \<or>
     (case image_by_id snap i of
        None \<Rightarrow> False
      | Some e \<Rightarrow> (want_type = [] \<or> equal_fold (trim_space (im_type e)) want_type) \<and>
          (want_tag = [] \<or> contains_fold (im_tags e) want_tag))"

text \<open>A category that cannot be read filters nothing.\<close>

definition image_selection_matches_category :: "image_row snapshot option \<Rightarrow> image_taxonomy \<Rightarrow> string \<Rightarrow> string \<Rightarrow> bool" where
  "image_selection_matches_category snap t i want \<longleftrightarrow> want = [] \<or> \<not> taxonomy_available t \<or>
     (case image_by_id snap i of None \<Rightarrow> False | Some e \<Rightarrow> contains_fold (categories_of t (im_tags e)) want)"

definition image_selection_matches_family :: "image_row snapshot option \<Rightarrow> string \<Rightarrow> string \<Rightarrow> bool" where
  "image_selection_matches_family snap i want \<longleftrightarrow> want = [] \<or>
     (case image_by_id snap i of None \<Rightarrow> False | Some e \<Rightarrow> family_key e = want)"

definition facet :: "gmap \<Rightarrow> string \<Rightarrow> string" where
  "facet ps k = trim_space (param_str ps k [])"

definition filter_images_by_facets :: "image_row snapshot option \<Rightarrow> image_selection list \<Rightarrow> gmap \<Rightarrow> image_taxonomy
    \<Rightarrow> image_selection list" where
  "filter_images_by_facets snap ranked ps t = filter (\<lambda>s.
     image_selection_matches_facets snap (se_id s) (facet ps ''ImageType'') (facet ps ''ImageTag'') \<and>
     image_selection_matches_category snap t (se_id s) (facet ps ''ImageCategory'') \<and>
     image_selection_matches_family snap (se_id s) (facet ps ''ImageFamily'')) ranked"

section \<open>Placement\<close>

definition q_types :: string where "q_types = ''query the machine types''"
definition q_gpu_inventory :: string where "q_gpu_inventory = ''query the GPU inventory''"

definition create_charge_type :: "gmap \<Rightarrow> string" where
  "create_charge_type ps = normalize_charge_type (param_str ps ''ChargeType'' [])"

definition zone_display_label :: "rctx \<Rightarrow> string \<Rightarrow> string" where
  "zone_display_label c zone = (case workflow_zone_entry c zone of
       Inr e \<Rightarrow> if trim_space (zr_display e) \<noteq> [] then zr_display e else zone | Inl _ \<Rightarrow> zone)"

definition create_inventory_pool :: "string \<Rightarrow> gpu_pool" where
  "create_inventory_pool ct = (if equal_fold ct ''Spot'' then PoolSpot else PoolExclusive)"

definition create_inventory_pool_label :: "gpu_pool \<Rightarrow> string" where
  "create_inventory_pool_label p = (case p of PoolSpot \<Rightarrow> ''preemptible'' | PoolExclusive \<Rightarrow> ''exclusive'')"

text \<open>The one fact about a purchase mode; \<open>None\<close>: not known. Official zones always sell the exclusive one.\<close>

definition create_inventory_pool_support_for :: "rctx \<Rightarrow> zone_placement \<Rightarrow> string \<Rightarrow> gpu_pool \<Rightarrow> bool option" where
  "create_inventory_pool_support_for c p gpu pool =
     (case inventory_pool_support (ctx_result c q_gpu_inventory) p gpu (pool_text pool) of
        Some b \<Rightarrow> Some b
      | None \<Rightarrow> if \<not> zp_is_pod p \<and> pool = PoolExclusive then Some True else None)"

definition create_inventory_pool_support :: "rctx \<Rightarrow> zone_placement \<Rightarrow> gpu_pool \<Rightarrow> bool option" where
  "create_inventory_pool_support c p pool = create_inventory_pool_support_for c p (param_str (ctx_params c) ''GpuType'' []) pool"

definition validate_create_placement :: "rctx \<Rightarrow> zone_placement \<Rightarrow> bool \<Rightarrow> gerr option" where
  "validate_create_placement c p purchase =
     (let no = (\<lambda>t. Some (plain_err (zone_display_label c (zp_zone p) @ t)));
          pool = create_inventory_pool (create_charge_type (ctx_params c))
      in if zp_is_pod p \<and> zp_zone_id p = 0 then no '' has no internal zone id''
         else if zp_is_pod p \<and> purchase \<and> zp_az_group p = 0 then no '' has no internal region id''
         else if purchase \<and> create_inventory_pool_support c p pool = Some False
         then no ('' does not sell '' @ create_inventory_pool_label pool @ '' instances of this model'')
         else None)"

datatype image_container_fit = ContainerFitOK | ContainerFitNeedsContainerImage | ContainerFitUnverifiable

definition image_container_fit_for_zone :: "gmap \<Rightarrow> string \<Rightarrow> zone_placement \<Rightarrow> image_container_fit" where
  "image_container_fit_for_zone images i p =
     (if \<not> zp_is_pod p \<or> trim_space i = [] then ContainerFitOK
      else if image_map_by_id images i = None then ContainerFitUnverifiable
      else if image_container_by_id images i then ContainerFitOK else ContainerFitNeedsContainerImage)"

definition validate_selected_image_compatibility :: "rctx \<Rightarrow> string \<Rightarrow> zone_placement \<Rightarrow> gerr option" where
  "validate_selected_image_compatibility c i p =
     (let images = create_images c; ps = ctx_params c; gpu = param_str ps ''GpuType'' [];
          supported = image_supported_by_id images i; no = (\<lambda>t. Some (plain_err t))
      in case image_container_fit_for_zone images i p of
           ContainerFitUnverifiable \<Rightarrow> no ''the image is not known to be a container image''
         | ContainerFitNeedsContainerImage \<Rightarrow> no ''the image is no container image''
         | ContainerFitOK \<Rightarrow>
             (case image_map_by_id images i of
                None \<Rightarrow> None
              | Some row \<Rightarrow> (case workflow_zone_entry c (zp_zone p) of
                    Inl e \<Rightarrow> Some e
                  | Inr zone \<Rightarrow>
                      if \<not> supports_image_type zone (trim_space (param_str row ''ImageType'' []))
                      then no ''the zone does not take this type of image''
                      else if \<not> image_status_usable (image_source_param ps) (trim_space (param_str row ''Status'' []))
                      then no ''the image is not available''
                      else if gpu = [] \<or> supported = [] \<or> contains_fold supported gpu then None
                      else no ''the image does not support the GPU'')))"

definition workflow_create_disks :: "rctx \<Rightarrow> string \<Rightarrow> string \<Rightarrow> string \<Rightarrow> zone_placement \<Rightarrow> gval list res" where
  "workflow_create_disks c i zone gpu p =
     (let catalog = ctx_result c q_types;
          disks = resolve_boot_disk (create_images c) catalog i gpu zone (parsed_id (mval (ctx_params c) ''SystemDiskSize''));
          no = (\<lambda>t. Inl (plain_err t))
      in case parse_uint32_any (mval (ctx_params c) ''DataDiskSize'') of
           None \<Rightarrow> Inr disks
         | Some want \<Rightarrow>
             if zp_is_pod p then no ''a pod zone takes no data disk''
             else (case catalog_data_disk_range catalog gpu zone disk_type_cloud_ssd of
                 None \<Rightarrow> no ''no SSD data disk here''
               | Some r \<Rightarrow>
                   if dr_minimum_gb r > 0 \<and> want < dr_minimum_gb r then no ''the data disk is too small''
                   else if dr_maximum_gb r > 0 \<and> dr_maximum_gb r < want then no ''the data disk is too large''
                   else Inr (disks @ [GMap [(''IsBoot'', GBool False), (''Type'', GStr (dr_type r)), (''Size'', GUint32 want)]])))"

text \<open>The row of a model and zone is found as in \<open>deployment/disks.go\<close>.\<close>

definition workflow_catalog_entry :: "gmap \<Rightarrow> string \<Rightarrow> string \<Rightarrow> gmap option" where
  "workflow_catalog_entry catalog gpu zone =
     (let rows = filter (\<lambda>e. as_str (mval e ''Name'') = gpu) (object_rows (mval catalog ''AvailableInstanceTypes''));
          here = (\<lambda>e. let z = as_str (mval e ''Zone'') in zone = [] \<or> z = [] \<or> equal_fold z zone)
      in if gpu = [] then None
         else case (find here rows, rows) of
           (Some e, _) \<Rightarrow> Some e | (None, e # _) \<Rightarrow> Some e | (None, []) \<Rightarrow> None)"

definition workflow_first_cpu_platform :: "gmap \<Rightarrow> string \<Rightarrow> string \<Rightarrow> string" where
  "workflow_first_cpu_platform catalog gpu zone =
     (case map_option (\<lambda>e. mval e ''CpuPlatforms'') (workflow_catalog_entry catalog gpu zone) of
        Some (GMap raw) \<Rightarrow>
          if mhas raw ''Amd'' then ''Amd'' else if mhas raw ''Intel'' then ''Intel''
          else (case sort (filter (\<lambda>k. trim_space k \<noteq> []) (map fst raw)) of [] \<Rightarrow> [] | k # _ \<Rightarrow> k)
      | _ \<Rightarrow> [])"

definition workflow_minimal_cpu_platform :: "rctx \<Rightarrow> string \<Rightarrow> string \<Rightarrow> string" where
  "workflow_minimal_cpu_platform c gpu zone =
     (let v = trim_space (param_str (ctx_params c) ''MinimalCpuPlatform'' []);
          first = workflow_first_cpu_platform (ctx_result c q_types) gpu zone
      in if v \<noteq> [] \<and> \<not> (equal_fold v ''Auto'' \<and> first \<noteq> []) then v
         else if first \<noteq> [] then first @ ''/Auto'' else ''Auto'')"

text \<open>The zones by numeric id; of two zones with one id the later counts.\<close>

definition workflow_zone_id_index :: "rctx \<Rightarrow> (32 word \<times> string) list" where
  "workflow_zone_id_index c = fold (\<lambda>zone m. (case zone_placement_of (zone_catalog c) zone of
       Some p \<Rightarrow> if zp_zone_id p = 0 then m else mput (zp_zone_id p) zone m | None \<Rightarrow> m)) (snapshot_ids (zone_catalog c)) []"

definition add_zone_region_and_id :: "rctx \<Rightarrow> string \<Rightarrow> gmap \<Rightarrow> gmap" where
  "add_zone_region_and_id c zone args = (case workflow_zone_entry c zone of
       Inl _ \<Rightarrow> args
     | Inr e \<Rightarrow> put_id ''zone_id'' (zp_zone_id (zr_placement e)) (put_text ''Region'' (trim_space (zp_region (zr_placement e))) args))"

end
