(* ===== verification/CreateInstance.thy ===== *)
theory CreateInstance
  imports CreateImages
begin

text \<open>
  The creation of an instance from a complete request (\<open>workflow/create_instance.go\<close>,
  \<open>create_instance_form_options.go\<close>, \<open>create_instance_readback.go\<close>): the request is resolved once
  into a draft, stock and price are asked about the draft, the card shows draft and price, the
  confirmation seals them, and the creation sends the sealed draft. The texts of cards and refusals are
  glosses.
\<close>

section \<open>Resolving the specification\<close>

definition available_types :: "gmap \<Rightarrow> gmap list" where
  "available_types catalog = map as_object (as_items (mval catalog ''AvailableInstanceTypes''))"

text \<open>A zone of the user's, or the first that sells the model, or the first that has it.\<close>

definition resolve_target_zone :: "gmap \<Rightarrow> string \<Rightarrow> string \<Rightarrow> string" where
  "resolve_target_zone catalog gpu user_zone =
     (let rows = filter (\<lambda>m. as_str (mval m ''Name'') = gpu \<and> as_str (mval m ''Zone'') \<noteq> []) (available_types catalog);
          sold = filter (\<lambda>m. as_str (mval m ''Status'') \<in> {[], ''Normal''}) rows
      in if trim_space user_zone \<noteq> [] then trim_space user_zone
         else case sold @ rows of [] \<Rightarrow> [] | m # _ \<Rightarrow> as_str (mval m ''Zone''))"

definition catalog_carries_gpu_type :: "gmap \<Rightarrow> string \<Rightarrow> bool" where
  "catalog_carries_gpu_type catalog gpu =
     list_ex (\<lambda>m. equal_fold (trim_space (as_str (mval m ''Name''))) (trim_space gpu)) (available_types catalog)"

definition available_type_names :: "gmap \<Rightarrow> string" where
  "available_type_names catalog =
     (let names = uniq_by id [] (map (\<lambda>m. as_str (mval m ''Name'')) (filter (\<lambda>m. as_str (mval m ''Name'') \<noteq> [] \<and>
          as_str (mval m ''Status'') \<in> {[], ''Normal''}) (available_types catalog)))
      in if names = [] then ''(none)'' else join_with '', '' names)"

definition format_candidates :: "spec_candidate list \<Rightarrow> string" where
  "format_candidates cs = join_with '', ''
     (map (\<lambda>s. float_text_0 (sc_cpu s) @ ''C/'' @ float_text_0 (flt_times (1 / 1024) (sc_memory_mb s)) @ ''GB'') cs)"

text \<open>
  The candidate the request singles out: the first one when it names neither CPU nor memory, the exact
  one when it names both, and the only one left when it names one of them.
\<close>

definition narrow_candidates :: "gmap \<Rightarrow> spec_candidate list \<Rightarrow> spec_candidate res" where
  "narrow_candidates ps cs =
     (let has_cpu = mhas ps ''Cpu''; has_mem = mhas ps ''Memory'';
          cpu = param_num ps ''Cpu'' (Fin 0); mem = param_num ps ''Memory'' (Fin 0);
          fits = (\<lambda>s. (has_cpu \<longrightarrow> flt_eq (sc_cpu s) cpu) \<and> (has_mem \<longrightarrow> flt_eq (sc_memory_mb s) mem));
          no = (\<lambda>t ss. Inl (plain_err (t @ format_candidates ss)))
      in case filter fits cs of
           [] \<Rightarrow> no ''this combination is not offered; legal ones: '' cs
         | s # ss \<Rightarrow> if has_cpu = has_mem \<or> ss = [] then Inr s else no ''choose one of: '' (s # ss))"

definition resolve_target_spec :: "rctx \<Rightarrow> (gfloat \<times> spec_candidate \<times> string) res" where
  "resolve_target_spec c = (case mget (wp_step_results (wc_pub c)) q_types of
       None \<Rightarrow> Inl (plain_err ''no machine types'')
     | Some catalog \<Rightarrow>
         (let ps = ctx_params c; gpu_type = as_str (mval ps ''GpuType''); gpu = param_num ps ''Gpu'' (Fin 1);
              zone = resolve_target_zone catalog gpu_type (param_str ps ''Zone'' []);
              cs = list_spec_candidates catalog gpu_type gpu zone;
              unknown = Inl (plain_err (''no spec of '' @ gpu_type @ '' x '' @ float_text_0 gpu @ ''; offered: '' @ available_type_names catalog))
          in if zone = [] then (if catalog_carries_gpu_type catalog gpu_type then Inl (plain_err ''no zone is known'') else unknown)
             else if cs = [] then unknown
             else (case narrow_candidates ps cs of Inl e \<Rightarrow> Inl e | Inr s \<Rightarrow> Inr (gpu, s, zone))))"

section \<open>Queries\<close>

definition q_official_inventory :: string where "q_official_inventory = ''query the official GPU inventory''"
definition q_pod_inventory :: string where "q_pod_inventory = ''query the pod GPU inventory''"
definition q_draft :: string where "q_draft = ''form the execution draft''"
definition q_capacity :: string where "q_capacity = ''check the stock''"
definition q_price :: string where "q_price = ''query the price''"
definition q_confirmation :: string where "q_confirmation = ''form the confirmation''"
definition q_create :: string where "q_create = ''create the instance''"
definition q_status :: string where "q_status = ''read the state''"

definition image_catalog_tool :: "rctx \<Rightarrow> string" where
  "image_catalog_tool c = lookup_tool (normalized_image_source (image_source_param (ctx_params c)))"

definition community_image_exact_args :: "string \<Rightarrow> gmap" where
  "community_image_exact_args i = [(''CompShareImageId'', GStr (trim_space i)), (''Limit'', GInt 100), (''ExcludeReadme'', GBool True)]"

definition community_image_browse_args :: "string \<Rightarrow> gmap" where
  "community_image_browse_args name = put_text ''FuzzySearch'' (trim_space name)
     [(''Limit'', GInt 100), (''ExcludeReadme'', GBool True),
      (''SortCondition'', GMap [(''Field'', GStr ''CreatedCount''), (''ASC'', GBool False)])]"

definition custom_image_browse_args :: gmap where
  "custom_image_browse_args = [(''Limit'', GInt max_custom_image_query_limit)]"

definition query_images_args :: "bool \<Rightarrow> rctx \<Rightarrow> gmap res" where
  "query_images_args allow_browse c =
     (let ps = ctx_params c; i = param_str ps ''CompShareImageId'' []; name = param_str ps ''ImageName'' [] in
      case normalized_image_source (image_source_param ps) of
        LookupCommunity \<Rightarrow>
          if trim_space i \<noteq> [] then Inr (community_image_exact_args (trim_space i))
          else if name \<noteq> [] then Inr [(''FuzzySearch'', GStr name)]
          else if allow_browse then Inr (community_image_browse_args [])
          else Inl (plain_err ''a community image needs a name'')
      | LookupPlatform \<Rightarrow> Inr (put_text ''CompShareImageId'' i [(''Limit'', GInt 100)])
      | _ \<Rightarrow> Inr custom_image_browse_args)"

definition step_query_images :: "bool \<Rightarrow> reference_data wstep" where
  "step_query_images allow_browse = (tool_step q_images [] (reads (query_images_args allow_browse)) None)
     \<lparr>st_tool_func := Some (reads image_catalog_tool)\<rparr>"

definition query_types_args :: "rctx \<Rightarrow> gmap res" where
  "query_types_args c =
     (let z = param_str (ctx_params c) ''Zone'' [] in
      Inr (if z = [] then [] else add_zone_region_and_id c z [(''Zone'', GStr z)]))"

definition step_query_instance_types :: "reference_data wstep" where
  "step_query_instance_types = tool_step q_types ''DescribeAvailableCompShareInstanceTypes'' (reads query_types_args) None"

definition official_inventory_args :: "rctx \<Rightarrow> gmap res" where
  "official_inventory_args c = Inr (with_identity c [])"

definition step_query_official_gpu_inventory :: "reference_data wstep" where
  "step_query_official_gpu_inventory = (tool_step q_official_inventory ''DescribeCompShareGpuInventory''
     (reads official_inventory_args) None)\<lparr>st_optional := True\<rparr>"

definition pod_inventory_args :: "rctx \<Rightarrow> gmap res" where
  "pod_inventory_args c = (case pod_selector_zone_id (zone_catalog c) of
       None \<Rightarrow> Inl (plain_err ''the zone catalog has no pod zone'')
     | Some z \<Rightarrow> Inr (with_identity c [(''zone_id'', GUint32 z)]))"

definition no_pod_selector :: "rctx \<Rightarrow> bool res" where
  "no_pod_selector c = Inr (pod_selector_zone_id (zone_catalog c) = None)"

definition step_query_pod_gpu_inventory :: "reference_data wstep" where
  "step_query_pod_gpu_inventory = (tool_step q_pod_inventory ''DescribeCompShareGpuInventory'' (reads pod_inventory_args) None)
     \<lparr>st_optional := True, st_skip_if := Some (reads no_pod_selector)\<rparr>"

definition merge_gpu_inventory :: "rctx \<Rightarrow> gmap res" where
  "merge_gpu_inventory c =
     (let official = ctx_result c q_official_inventory; pod = ctx_result c q_pod_inventory in
      Inr (gpu_inventory_map (new_gpu_inventory_snapshot (zone_catalog c)
        official True (gpu_inventory_payload_available official)
        pod (pod_selector_zone_id (zone_catalog c) \<noteq> None) (gpu_inventory_payload_available pod))))"

definition step_resolve_gpu_inventory_snapshot :: "reference_data wstep" where
  "step_resolve_gpu_inventory_snapshot = resolve_step q_gpu_inventory (reads merge_gpu_inventory)"

section \<open>The draft, its stock and its price\<close>

definition draft_image_refusal :: "rctx \<Rightarrow> gerr" where
  "draft_image_refusal c = (if image_source_param (ctx_params c) = ''community''
     then plain_err ''the community image has no id'' else create_image_unavailable_error (ctx_params c))"

definition draft_name :: "rctx \<Rightarrow> string res" where
  "draft_name c = (let n = param_str (ctx_params c) ''Name'' [] in if n = [] then Inr [] else validated_resource_name n 63)"

definition materialize_create_draft :: "rctx \<Rightarrow> create_draft res" where
  "materialize_create_draft c = (case resolve_target_spec c of
       Inl e \<Rightarrow> Inl e
     | Inr (gpu, spec, zone) \<Rightarrow>
         (let img = select_create_image c; gt = as_str (mval (ctx_params c) ''GpuType'') in
          if sg_id img = [] then Inl (draft_image_refusal c)
          else case draft_name c of
            Inl e \<Rightarrow> Inl e
          | Inr name \<Rightarrow> (case workflow_zone_placement c zone of
                Inl e \<Rightarrow> Inl e
              | Inr p \<Rightarrow> (case validate_create_placement c p True of
                    Some e \<Rightarrow> Inl e
                  | None \<Rightarrow> (case validate_selected_image_compatibility c (sg_id img) p of
                        Some e \<Rightarrow> Inl e
                      | None \<Rightarrow> (case workflow_create_disks c (sg_id img) zone gt p of
                            Inl e \<Rightarrow> Inl e
                          | Inr disks \<Rightarrow> Inr
                              \<lparr>cd_args = \<lparr>ca_zone = zone, ca_gpu_type = gt, ca_gpu = gpu, ca_cpu = sc_cpu spec,
                                 ca_memory = sc_memory_mb spec, ca_image_id = sg_id img,
                                 ca_charge_type = create_charge_type (ctx_params c), ca_machine_type = ''G'',
                                 ca_min_cpu_platform = workflow_minimal_cpu_platform c gt zone, ca_login_mode = ''Password'',
                                 ca_disks = disks, ca_name = name\<rparr>,
                               cd_image = img, cd_placement = p\<rparr>))))))"

definition candidate_create_draft :: "rctx \<Rightarrow> create_draft res" where
  "candidate_create_draft c = (if ctx_result c q_draft = [] then Inl (plain_err ''there is no draft'')
     else parse_create_execution_draft (ctx_result c q_draft))"

definition resolve_create_draft :: "rctx \<Rightarrow> gmap res" where
  "resolve_create_draft c = map_sum id draft_to_contract_map (materialize_create_draft c)"

definition step_resolve_create_draft :: "reference_data wstep" where
  "step_resolve_create_draft = resolve_step q_draft (reads resolve_create_draft)"

definition exact_spec :: "create_draft \<Rightarrow> gmap \<Rightarrow> bool" where
  "exact_spec d m \<longleftrightarrow> flt_eq (as_float64 (mval m ''Gpu'')) (ca_gpu (cd_args d)) \<and>
     flt_eq (as_float64 (mval m ''Cpu'')) (ca_cpu (cd_args d)) \<and>
     flt_eq (as_float64 (mval m ''Mem'')) (flt_times (1 / 1024) (ca_memory (cd_args d)))"

text \<open>The first row of exactly the drafted specification decides.\<close>

definition check_exact_create_capacity :: "create_draft \<Rightarrow> gmap \<Rightarrow> check_outcome" where
  "check_exact_create_capacity d result =
     (let specs = map as_object (as_items (mval result ''Specs'')) in
      if specs = [] then check_failed ''the stock check returned no specs''
      else case find (exact_spec d) specs of
        None \<Rightarrow> check_failed ''the stock check does not know this combination''
      | Some m \<Rightarrow> if as_bool (mval m ''ResourceEnough'') then check_passed
          else check_failed_because reason_capacity_sold_out ''sold out'')"

definition check_create_capacity :: "reference_data check" where
  "check_create_capacity result c = (case candidate_create_draft c of
       Inl e \<Rightarrow> ((check_failed (err_text e), result), wc_pub c)
     | Inr d \<Rightarrow> ((check_exact_create_capacity d result, result), wc_pub c))"

definition of_draft :: "(create_draft \<Rightarrow> gmap) \<Rightarrow> rctx \<Rightarrow> gmap res" where
  "of_draft f c = map_sum id f (candidate_create_draft c)"

definition step_check_capacity :: "reference_data wstep" where
  "step_check_capacity = tool_step q_capacity ''CheckCompShareResourceCapacity'' (reads (of_draft upstream_capacity_args))
     (Some check_create_capacity)"

definition step_get_price :: "reference_data wstep" where
  "step_get_price = tool_step q_price ''GetCompShareInstanceUserPrice'' (reads (of_draft upstream_price_args)) None"

section \<open>The confirmation\<close>

definition materialize_create_confirmation :: "rctx \<Rightarrow> gmap res" where
  "materialize_create_confirmation c = (case candidate_create_draft c of
       Inl e \<Rightarrow> Inl e
     | Inr d \<Rightarrow> Inr (confirmation_to_contract_map
         \<lparr>cc_execution = d, cc_price = extract_estimated_price (ctx_result c q_price) (ca_charge_type (cd_args d))\<rparr>))"

definition step_resolve_create_confirmation :: "reference_data wstep" where
  "step_resolve_create_confirmation = resolve_step q_confirmation (reads materialize_create_confirmation)"

definition candidate_create_confirmation :: "rctx \<Rightarrow> create_confirmation res" where
  "candidate_create_confirmation c = (if ctx_result c q_confirmation = [] then Inl (plain_err ''there is no confirmation'')
     else parse_create_confirmation_snapshot (ctx_result c q_confirmation))"

definition create_draft_key :: string where "create_draft_key = ''__create_draft''"

text \<open>Only a confirmed candidate reaches the parameters, which the seal then covers.\<close>

definition promote_create_draft :: "(reference_data, gerr option) hook" where
  "promote_create_draft c = (case candidate_create_confirmation c of
       Inl e \<Rightarrow> (Some e, wc_pub c)
     | Inr s \<Rightarrow> (None, set_params (mput create_draft_key (GMap (confirmation_to_contract_map s)) (ctx_params c)) (wc_pub c)))"

definition create_disk_size_gb :: "gval \<Rightarrow> gfloat option" where
  "create_disk_size_gb v =
     (let pos = (\<lambda>x. if flt_less (Fin 0) x then Some x else None) in
      case v of GUint32 w \<Rightarrow> pos (Fin (of_int (uint w))) | GInt n \<Rightarrow> pos (Fin (of_int n)) | GFloat x \<Rightarrow> pos x | _ \<Rightarrow> None)"

text \<open>The first disk of the role.\<close>

definition create_disk_summary :: "gval list \<Rightarrow> bool \<Rightarrow> string" where
  "create_disk_summary disks boot =
     (case find (\<lambda>d. param_bool d ''IsBoot'' False = boot) (List.map_filter as_map disks) of
        None \<Rightarrow> []
      | Some d \<Rightarrow>
          (let ty = trim_space (param_str d ''Type'' []);
               name = (if equal_fold ty disk_type_cloud_ssd then (if boot then ''SSD cloud disk'' else ''SSD cloud data disk'') else ty);
               gb = (case create_disk_size_gb (mval d ''Size'') of Some x \<Rightarrow> float_text_0 x @ ''GB'' | None \<Rightarrow> [])
           in if name \<noteq> [] \<and> gb \<noteq> [] then name @ '' '' @ gb else name @ gb))"

definition create_card :: "rctx \<Rightarrow> create_draft \<Rightarrow> estimated_price \<Rightarrow> gmap" where
  "create_card c d price =
     (let a = cd_args d; sys = create_disk_summary (ca_disks a) True; data = create_disk_summary (ca_disks a) False in
      [(''workflow'', GStr ''CreateInstanceWorkflow''), (''GpuType'', GStr (ca_gpu_type a)), (''Gpu'', GFloat (ca_gpu a)),
       (''CPU'', GFloat (ca_cpu a)), (''Memory'', GFloat (ca_memory a)), (''Zone'', GStr (ca_zone a)),
       (''ZoneLabel'', GStr (zone_display_label c (ca_zone a))), (''ChargeType'', GStr (ca_charge_type a)),
       (''image'', GStr (sg_name (cd_image d))), (''price'', GStr (ep_text price)),
       (''PriceNote'', GStr ''the final cost is what is settled'')] @
      (if trim_space (ca_name a) = [] then [] else [(''Name'', GStr (trim_space (ca_name a)))]) @
      (if sys = [] then [] else [(''SystemDisk'', GStr sys)]) @
      (if data = [] then [] else [(''DataDisk'', GStr (data @ '' (created and attached once the instance runs)''))]))"

text \<open>No price, no card.\<close>

definition build_create_confirm_args :: "rctx \<Rightarrow> gmap res" where
  "build_create_confirm_args c = (case candidate_create_confirmation c of
       Inl e \<Rightarrow> Inl e
     | Inr s \<Rightarrow> (case cc_price s of
           None \<Rightarrow> Inl (plain_err ''there is no price'')
         | Some price \<Rightarrow> Inr (create_card c (cc_execution s) price)))"

section \<open>The editable form of the card\<close>

definition form_choice :: "string \<Rightarrow> string \<Rightarrow> form_option" where
  "form_choice value label = \<lparr>fo_value = value, fo_label = label, fo_note = [], fo_reason = [], fo_disabled = False, fo_meta = []\<rparr>"

definition gpu_option_label :: "gmap \<Rightarrow> string \<Rightarrow> string" where
  "gpu_option_label catalog gpu =
     (case find (\<lambda>m. as_str (mval m ''Name'') = gpu) (available_types catalog) of
        None \<Rightarrow> gpu
      | Some m \<Rightarrow> (let v = as_float64 (mval (as_object (mval m ''GraphicsMemory'')) ''Value'') in
          if flt_less (Fin 0) v then gpu @ '' ('' @ float_text_0 v @ ''G)'' else gpu))"

definition max_form_gpu_options :: nat where "max_form_gpu_options = 5"
definition max_form_image_options :: nat where "max_form_image_options = 3"

definition sold_type :: "gmap \<Rightarrow> bool" where
  "sold_type m \<longleftrightarrow> as_str (mval m ''Status'') \<in> {[], ''Normal''}"

definition gpu_form_options :: "gmap option \<Rightarrow> string list \<Rightarrow> string \<Rightarrow> form_option list" where
  "gpu_form_options catalog supported current = (case catalog of
       None \<Rightarrow> []
     | Some m \<Rightarrow>
         (let names = map (\<lambda>r. as_str (mval r ''Name'')) (filter (\<lambda>r. as_str (mval r ''Name'') \<noteq> [] \<and> sold_type r \<and>
              (supported = [] \<or> contains_fold supported (as_str (mval r ''Name'')))) (available_types m))
          in take max_form_gpu_options (map (\<lambda>n. form_choice n (gpu_option_label m n)) (current # uniq_by id [current] names))))"

definition zone_form_options :: "rctx \<Rightarrow> gmap option \<Rightarrow> string \<Rightarrow> string \<Rightarrow> form_option list" where
  "zone_form_options c catalog gpu current = (case catalog of
       None \<Rightarrow> []
     | Some m \<Rightarrow>
         (let zones = map (\<lambda>r. as_str (mval r ''Zone'')) (filter (\<lambda>r. as_str (mval r ''Name'') = gpu \<and>
              as_str (mval r ''Zone'') \<noteq> [] \<and> sold_type r) (available_types m))
          in map (\<lambda>z. form_choice z (zone_display_label c z)) (current # uniq_by id [current] zones)))"

text \<open>An image that can be offered for the GPU and the kind of zone, and is not offered yet.\<close>

definition append_image_option :: "bool \<Rightarrow> string \<Rightarrow> string \<times> string \<times> string list \<times> bool \<Rightarrow> form_option list \<Rightarrow> form_option list" where
  "append_image_option pod gpu row opts = (case row of (i, label, supported, container) \<Rightarrow>
     if i = [] \<or> i \<in> fo_value ` set opts \<or> max_form_image_options \<le> length opts \<or> (pod \<and> \<not> container) \<or>
        (supported \<noteq> [] \<and> \<not> contains_fold supported gpu)
     then opts else opts @ [form_choice i label])"

definition ranked_option :: "image_row snapshot option \<Rightarrow> image_selection \<Rightarrow> string \<times> string \<times> string list \<times> bool" where
  "ranked_option snap s = (se_id s, se_name s, (case image_by_id snap (se_id s) of
       Some e \<Rightarrow> (im_gpus e, im_container e) | None \<Rightarrow> ([], False)))"

definition image_form_options :: "gmap \<Rightarrow> gmap option \<Rightarrow> string \<Rightarrow> image_taxonomy \<Rightarrow> string \<times> form_option list" where
  "image_form_options ps images gpu t =
     (let current0 = pick_image_id ps images; snap = Some (form_image_catalog images (image_source_param ps));
          pod = zone_is_pod_param ps;
          ranked = filter_images_by_facets snap (rank_images snap (no_image_request\<lparr>ir_name := param_str ps ''ImageName'' [],
            ir_gpu := gpu, ir_zone := param_str ps ''Zone'' [], ir_is_pod := pod\<rparr>)) ps t;
          first = (if image_selection_matches_facets snap current0 (facet ps ''ImageType'') (facet ps ''ImageTag'')
            then (case image_by_id snap current0 of
                Some e \<Rightarrow> append_image_option pod gpu (im_id e, im_name e, im_gpus e, im_container e) []
              | None \<Rightarrow> []) else []);
          current = (if current0 \<in> fo_value ` set first then current0 else []);
          opts = fold (\<lambda>s. append_image_option pod gpu (ranked_option snap s)) ranked first
      in if current0 = [] \<or> images = None then ([], [])
         else (if current = [] \<and> opts \<noteq> [] then fo_value (hd opts) else current, opts))"

definition create_charge_type_options :: "rctx \<Rightarrow> string \<Rightarrow> form_option list" where
  "create_charge_type_options c zone =
     map (\<lambda>(v, label).
       (let pool = create_inventory_pool v; opt = form_choice v label;
            reason = ''the zone does not sell '' @ create_inventory_pool_label pool @ '' instances of this model''
        in case workflow_zone_placement c zone of
             Inl _ \<Rightarrow> opt
           | Inr p \<Rightarrow> if create_inventory_pool_support c p pool = Some False
               then opt\<lparr>fo_disabled := True, fo_reason := reason, fo_note := reason\<rparr> else opt))
       create_form_charge_types"

definition select_field :: "string \<Rightarrow> string \<Rightarrow> string \<Rightarrow> form_option list \<Rightarrow> form_field" where
  "select_field key label value opts = \<lparr>ff_key = key, ff_label = label, ff_type = ''select'', ff_value = value, ff_render = [],
     ff_editable = True, ff_options = opts\<rparr>"

definition q_image_taxonomy :: string where "q_image_taxonomy = ''query the image classification''"

definition create_image_taxonomy :: "rctx \<Rightarrow> image_taxonomy" where
  "create_image_taxonomy c = parse_image_taxonomy (ctx_result c q_image_taxonomy)"

definition build_create_confirm_form :: "rctx \<Rightarrow> confirm_form res" where
  "build_create_confirm_form c = (case resolve_target_spec c of
       Inl e \<Rightarrow> Inl e
     | Inr (_, _, zone) \<Rightarrow>
         (let ps = ctx_params c; gpu = as_str (mval ps ''GpuType''); catalog = mget (wp_step_results (wc_pub c)) q_types;
              images = create_image_result c; gpus = gpu_form_options catalog (current_image_supported_gpus ps images) gpu;
              zones = zone_form_options c catalog gpu zone;
              imgs = image_form_options ps images gpu (create_image_taxonomy c);
              several = (\<lambda>opts. 1 < length opts)
          in Inr \<lparr>cf_version = 1, cf_step = None, cf_fields =
               (if several gpus then [select_field ''GpuType'' ''GPU model'' gpu gpus] else []) @
               (if several zones then [select_field ''Zone'' ''zone'' zone zones] else []) @
               (if fst imgs \<noteq> [] \<and> several (snd imgs) then [select_field ''ImageId'' ''image'' (fst imgs) (snd imgs)] else []) @
               [select_field ''ChargeType'' ''billing mode'' (create_charge_type ps) (create_charge_type_options c zone)]\<rparr>))"

text \<open>One edit of the card. A new model drops the specification, and the zone unless it is edited too.\<close>

definition apply_create_override :: "rctx \<Rightarrow> bool \<Rightarrow> string \<times> string \<Rightarrow> gmap \<Rightarrow> gmap res" where
  "apply_create_override c zone_edited kv ps = (case kv of (k, v) \<Rightarrow>
     if k = ''GpuType'' then
       (let ps1 = mdel ''Memory'' (mdel ''Cpu'' (mput ''GpuType'' (GStr v) ps)) in
        Inr (if zone_edited then ps1 else mdel ''Zone'' ps1))
     else if k = ''Zone'' then Inr (mput ''Zone'' (GStr v) ps)
     else if k = ''ChargeType'' then Inr (mput ''ChargeType'' (GStr v) ps)
     else if k = ''ImageId'' then
       (let ps1 = mput ''CompShareImageId'' (GStr v) ps;
            c1 = c\<lparr>wc_pub := set_params ps1 (wc_pub c)\<rparr>
        in Inr (put_text ''ImageName'' (image_name_by_id (create_images c1) v) ps1))
     else Inl (plain_err (''this field cannot be edited: '' @ k)))"

fun apply_create_edits :: "rctx \<Rightarrow> bool \<Rightarrow> overrides \<Rightarrow> gmap \<Rightarrow> gerr option \<times> gmap" where
  "apply_create_edits c z [] ps = (None, ps)"
| "apply_create_edits c z (kv # kvs) ps = (case apply_create_override c z kv ps of
       Inl e \<Rightarrow> (Some e, ps) | Inr ps1 \<Rightarrow> apply_create_edits c z kvs ps1)"

definition apply_create_overrides :: "overrides \<Rightarrow> (reference_data, gerr option) hook" where
  "apply_create_overrides os c =
     (let r = apply_create_edits c (mhas os ''Zone'') os (ctx_params c) in (fst r, set_params (snd r) (wc_pub c)))"

definition step_confirm_create :: "reference_data wstep" where
  "step_confirm_create = (confirm_step ''confirm the creation'' (reads build_create_confirm_args))
     \<lparr>st_build_form := Some (reads build_create_confirm_form), st_apply_overrides := Some apply_create_overrides,
      st_revalidate_from := q_draft, st_promote := Some promote_create_draft\<rparr>"

section \<open>The creation\<close>

text \<open>What was sealed, and nothing that is not.\<close>

definition sealed_create_confirmation :: "rctx \<Rightarrow> create_confirmation res" where
  "sealed_create_confirmation c = (case wc_sealed c of
       None \<Rightarrow> Inl (plain_err ''nothing was confirmed'')
     | Some s \<Rightarrow>
         if sc_operation s \<noteq> ''CreateInstanceWorkflow'' then Inl (plain_err ''nothing was confirmed'')
         else (case mval (sc_business_params s) create_draft_key of
             GMap m \<Rightarrow>
               if m = [] then Inl (plain_err ''the contract has no draft'')
               else (case parse_create_confirmation_snapshot m of
                   Inl e \<Rightarrow> Inl (plain_err (''the contract cannot be read: '' @ err_text e)) | Inr x \<Rightarrow> Inr x)
           | _ \<Rightarrow> Inl (plain_err ''the contract has no draft'')))"

definition create_args_from_sealed_draft :: "rctx \<Rightarrow> gmap res" where
  "create_args_from_sealed_draft c = (case sealed_create_confirmation c of
       Inl e \<Rightarrow> Inl e
     | Inr s \<Rightarrow> if cc_price s = None then Inl (plain_err ''the contract has no price'')
         else Inr (upstream_create_args (cc_execution s)))"

definition step_create_instance :: "reference_data wstep" where
  "step_create_instance = tool_step q_create ''CreateCompShareInstance'' (reads create_args_from_sealed_draft) None"

definition describe_created_args :: "rctx \<Rightarrow> gmap res" where
  "describe_created_args c = (case mval (ctx_result c q_create) ''UHostIds'' of
       GList (i # is) \<Rightarrow> Inr [(''UHostIds'', GList (i # is))]
     | _ \<Rightarrow> Inl (plain_err ''the creation returned no ids''))"

definition step_describe_instance :: "reference_data wstep" where
  "step_describe_instance = (tool_step q_status ''DescribeCompShareInstance'' (reads describe_created_args) None)\<lparr>st_optional := True\<rparr>"

section \<open>What the creation delivered\<close>

definition create_returned_instance_ids :: "gval \<Rightarrow> string list" where
  "create_returned_instance_ids ids =
     (let names = (case ids of GStrs ss \<Rightarrow> ss | GList vs \<Rightarrow> map as_str vs | _ \<Rightarrow> []) in
      uniq_by id [] (map to_lower (filter (\<lambda>s. s \<noteq> []) (map trim_space names))))"

definition observed_row :: "gmap \<Rightarrow> gmap" where
  "observed_row row =
     (let n = (\<lambda>k. GInt (int64_of_float (param_num row k (Fin 0)))); t = (\<lambda>k. GStr (param_str row k [])) in
      [(''UHostId'', GStr (trim_space (param_str row ''UHostId'' []))), (''Name'', t ''Name''), (''State'', t ''State''),
       (''CPU'', n ''CPU''), (''Memory'', n ''Memory''), (''GPU'', n ''GPU''), (''GpuType'', t ''GpuType''), (''Zone'', t ''Zone'')])"

definition row_id :: "gmap \<Rightarrow> string" where
  "row_id row = to_lower (trim_space (param_str row ''UHostId'' []))"

definition create_observed_instances :: "rctx \<Rightarrow> gval \<Rightarrow> gmap list" where
  "create_observed_instances c ids = map observed_row
     (filter (\<lambda>row. row_id row \<in> set (create_returned_instance_ids ids)) (object_rows (mval (ctx_result c q_status) ''UHostSet'')))"

definition create_readback_covers_every_returned_instance :: "gval \<Rightarrow> gmap list \<Rightarrow> bool" where
  "create_readback_covers_every_returned_instance ids observed \<longleftrightarrow>
     (let wanted = create_returned_instance_ids ids in wanted \<noteq> [] \<and> set wanted \<subseteq> set (map row_id observed))"

definition create_intended_spec :: "rctx \<Rightarrow> gmap option" where
  "create_intended_spec c = (case sealed_create_confirmation c of
       Inl _ \<Rightarrow> None
     | Inr s \<Rightarrow> (let a = cd_args (cc_execution s); n = (\<lambda>x. GInt (int64_of_float x)) in
         Some [(''CPU'', n (ca_cpu a)), (''Memory'', n (ca_memory a)), (''GPU'', n (ca_gpu a)),
           (''GpuType'', GStr (ca_gpu_type a)), (''Zone'', GStr (ca_zone a))]))"

definition create_spec_value_unset :: "gval \<Rightarrow> bool" where
  "create_spec_value_unset v = (case v of
       GStr s \<Rightarrow> trim_space s = [] | GInt n \<Rightarrow> n = 0 | GFloat x \<Rightarrow> flt_eq x (Fin 0) | GNil \<Rightarrow> True | _ \<Rightarrow> False)"

definition spec_field_names :: "string list" where
  "spec_field_names = [''CPU'', ''Memory'', ''GPU'', ''GpuType'', ''Zone'']"

definition create_spec_mismatches :: "gmap \<Rightarrow> gmap list \<Rightarrow> gmap list" where
  "create_spec_mismatches intended observed = concat (map (\<lambda>inst. List.map_filter (\<lambda>k.
       (let want = mval intended k; got = mval inst k in
        if create_spec_value_unset want \<or> create_spec_value_unset got \<or> sprint want = sprint got then None
        else Some [(''UHostId'', mval inst ''UHostId''), (''Field'', GStr k), (''Intended'', want), (''Observed'', got)]))
     spec_field_names) observed)"

definition expected_create_data_disks :: "gval list \<Rightarrow> (gfloat \<times> string) list" where
  "expected_create_data_disks disks = List.map_filter (\<lambda>d.
     if param_bool d ''IsBoot'' False then None
     else map_option (\<lambda>x. (x, trim_space (param_str d ''Type'' []))) (create_disk_size_gb (mval d ''Size'')))
     (List.map_filter as_map disks)"

text \<open>One observed disk accounts for the first expected one of its size and type.\<close>

fun strike_disk :: "gfloat \<Rightarrow> string \<Rightarrow> (gfloat \<times> string) list \<Rightarrow> (gfloat \<times> string) list" where
  "strike_disk x ty [] = []"
| "strike_disk x ty ((y, want) # es) = (if flt_eq x y \<and> want \<noteq> [] \<and> equal_fold ty want then es else (y, want) # strike_disk x ty es)"

definition observed_disk_type :: "gmap \<Rightarrow> string" where
  "observed_disk_type d = first_nonempty [trim_space (param_str d ''DiskType'' []), trim_space (param_str d ''Type'' [])]"

definition create_data_disk_set_observed :: "gmap \<Rightarrow> (gfloat \<times> string) list \<Rightarrow> bool" where
  "create_data_disk_set_observed row expected \<longleftrightarrow>
     fold (\<lambda>d. strike_disk (disk_number d [''Size'', ''DiskSize'', ''Capacity'']) (observed_disk_type d))
       (filter (\<lambda>d. \<not> is_boot_disk d) (object_rows (mval row ''DiskSet''))) expected = []"

definition create_data_disks_observed :: "gmap \<Rightarrow> gval \<Rightarrow> (gfloat \<times> string) list \<Rightarrow> bool" where
  "create_data_disks_observed describe ids expected \<longleftrightarrow>
     (let wanted = create_returned_instance_ids ids;
          complete = map row_id (filter (\<lambda>row. create_data_disk_set_observed row expected) (object_rows (mval describe ''UHostSet'')))
      in expected \<noteq> [] \<and> wanted \<noteq> [] \<and> set wanted \<subseteq> set complete)"

definition data_disk_delivery :: "rctx \<Rightarrow> gval \<Rightarrow> gmap" where
  "data_disk_delivery c ids = (case sealed_create_confirmation c of
       Inl _ \<Rightarrow> []
     | Inr s \<Rightarrow> (let expected = expected_create_data_disks (ca_disks (cd_args (cc_execution s))) in
         if expected = [] then []
         else [(''DataDiskDelivery'', GMap
           [(''State'', GStr (if create_data_disks_observed (ctx_result c q_status) ids expected then ''verified'' else ''pending'')),
            (''Requested'', GList (map (\<lambda>(x, ty). GMap [(''SizeGB'', GFloat x), (''Type'', GStr ty)]) expected))])]))"

definition create_instance_result_data :: "rctx \<Rightarrow> gmap option" where
  "create_instance_result_data c = map_option (\<lambda>ids.
     (let observed = create_observed_instances c ids;
          head = [(''UHostIds'', ids)] @ data_disk_delivery c ids @
            [(''ActualReadbackAvailable'', GBool (create_readback_covers_every_returned_instance ids observed))]
      in if observed = [] then head
         else head @ [(''Observed'', GList (map GMap observed))] @
           (case create_intended_spec c of
              None \<Rightarrow> []
            | Some intended \<Rightarrow> [(''Intended'', GMap intended)] @
                (let bad = create_spec_mismatches intended observed in
                 if bad = [] then [] else [(''SpecMismatch'', GList (map GMap bad))]))))
     (mget (ctx_result c q_create) ''UHostIds'')"

definition create_failure_draft :: "rctx \<Rightarrow> gmap option" where
  "create_failure_draft c = mget (wp_step_results (wc_pub c)) q_draft"

definition create_instance_workflow :: "reference_data definition_" where
  "create_instance_workflow = (plain_definition ''CreateInstanceWorkflow''
     [step_query_images False, step_query_instance_types, step_query_official_gpu_inventory, step_query_pod_gpu_inventory,
      step_resolve_gpu_inventory_snapshot, step_resolve_create_draft, step_check_capacity, step_get_price,
      step_resolve_create_confirmation, step_confirm_create, step_create_instance, step_describe_instance])
     \<lparr>def_result_data := Some create_instance_result_data, def_failure_draft := Some create_failure_draft\<rparr>"

end
