(* ===== verification/Registry.thy ===== *)
theory Registry
  imports PortWorkflow ScheduleWorkflow ImageWorkflows CreateInstance
begin

text \<open>
  The registry of workflows (\<open>workflow/registry.go\<close>) over the modelled definitions. The two
  clock readings of the scheduled stop are arguments. The Chinese labels are glosses.
\<close>

record registration =
  rg_action :: string
  rg_step_label :: string
  rg_reply_label :: string
  rg_definition :: "reference_data definition_"

definition registration_of :: "string \<Rightarrow> string \<Rightarrow> string \<Rightarrow> reference_data definition_ \<Rightarrow> registration" where
  "registration_of action stp reply d =
     \<lparr>rg_action = action, rg_step_label = stp, rg_reply_label = reply, rg_definition = d\<rparr>"

definition workflow_registrations :: "int \<Rightarrow> int \<Rightarrow> registration list" where
  "workflow_registrations t1 t2 =
     [registration_of ''CreateInstanceWorkflow'' ''create an instance'' ''creation'' create_instance_workflow,
      registration_of ''StopInstanceWorkflow'' ''stop the instance'' ''stop'' stop_instance_workflow,
      registration_of ''StartInstanceWorkflow'' ''start the instance'' ''start'' start_instance_workflow,
      registration_of ''RebootInstanceWorkflow'' ''reboot the instance'' ''reboot'' reboot_instance_workflow,
      registration_of ''RenameInstanceWorkflow'' ''rename the instance'' ''rename'' rename_instance_workflow,
      registration_of ''UpdateInstancePortsWorkflow'' ''update the ports'' ''ports'' update_instance_ports_workflow,
      registration_of ''ResetPasswordWorkflow'' ''reset the password'' ''password'' reset_password_workflow,
      registration_of ''SetStopSchedulerWorkflow'' ''schedule a stop'' ''scheduled stop'' (set_stop_scheduler_workflow t1 t2),
      registration_of ''CancelStopSchedulerWorkflow'' ''cancel the scheduled stop'' ''cancellation'' cancel_stop_scheduler_workflow,
      registration_of ''ResizeInstanceWorkflow'' ''adjust the configuration'' ''resize'' resize_instance_workflow,
      registration_of ''ResizeDiskWorkflow'' ''enlarge the data disk'' ''disk resize'' resize_disk_workflow,
      registration_of ''SwitchChargeTypeWorkflow'' ''switch the billing mode'' ''billing mode'' switch_charge_type_workflow,
      registration_of ''ReinstallInstanceWorkflow'' ''reinstall the system'' ''reinstall'' reinstall_instance_workflow,
      registration_of ''CreateDiskWorkflow'' ''create a data disk'' ''data disk'' create_disk_workflow,
      registration_of ''CreateCustomImageWorkflow'' ''make a custom image'' ''custom image'' create_custom_image_workflow,
      registration_of ''CloneCustomImageWorkflow'' ''copy a custom image'' ''image clone'' clone_custom_image_workflow,
      registration_of ''EnableNetOptimizerWorkflow'' ''switch on the network optimizer'' ''network optimizer'' enable_net_optimizer_workflow,
      registration_of ''CreateCFSWorkflow'' ''create a file system'' ''file system'' create_cfs_workflow,
      registration_of ''ResizeCFSWorkflow'' ''enlarge the file system'' ''file system resize'' resize_cfs_workflow]"

definition registered_workflow :: "registration list \<Rightarrow> string \<Rightarrow> registration option" where
  "registered_workflow regs action = find (\<lambda>r. rg_action r = action) regs"

definition registered_workflow_actions :: "registration list \<Rightarrow> string list" where
  "registered_workflow_actions regs = map rg_action regs"

definition is_workflow_tool :: "registration list \<Rightarrow> string \<Rightarrow> bool" where
  "is_workflow_tool regs action \<longleftrightarrow> registered_workflow regs action \<noteq> None"

definition get_workflow :: "registration list \<Rightarrow> string \<Rightarrow> reference_data definition_ option" where
  "get_workflow regs action = map_option rg_definition (registered_workflow regs action)"

definition step_label :: "registration list \<Rightarrow> string \<Rightarrow> string" where
  "step_label regs action = (case registered_workflow regs action of Some r \<Rightarrow> rg_step_label r | None \<Rightarrow> [])"

definition reply_label :: "registration list \<Rightarrow> string \<Rightarrow> string" where
  "reply_label regs action = (case registered_workflow regs action of Some r \<Rightarrow> rg_reply_label r | None \<Rightarrow> [])"

end
