(* ===== verification/RegistryProps.thy ===== *)
theory RegistryProps
  imports Registry InstanceProtocols WorkflowProps
begin

text \<open>
  What every registered workflow has in common: no call that changes anything is made before the
  user has accepted the run's card.
\<close>

section \<open>The discipline of a step list\<close>

definition read_only_tool :: "string \<Rightarrow> bool" where
  "read_only_tool t \<longleftrightarrow> check_level t = Inr L0"

text \<open>Up to the one gate, which cannot be skipped, only read-only tools.\<close>

fun disciplined :: "'r wstep list \<Rightarrow> bool" where
  "disciplined [] = True"
| "disciplined (s # ss) =
     (if st_type s = StepConfirm then st_skip_if s = None \<and> list_all (\<lambda>s. st_type s \<noteq> StepConfirm) ss
      else (st_type s = StepToolCall \<longrightarrow> (case st_tool_func s of None \<Rightarrow> read_only_tool (st_tool s)
        | Some f \<Rightarrow> \<forall>c. read_only_tool (fst (f c)))) \<and> disciplined ss)"

lemma disciplined_gate:
  assumes "disciplined ss" and "i < length ss" and "st_type (ss ! i) = StepToolCall"
    and "t \<in> step_tools (ss ! i)" and "\<not> read_only_tool t"
  shows "\<exists>g < i. st_type (ss ! g) = StepConfirm \<and> st_skip_if (ss ! g) = None \<and>
    (\<forall>j \<ge> i. j < length ss \<longrightarrow> st_type (ss ! j) \<noteq> StepConfirm)"
  using assms
proof (induction ss arbitrary: i)
  case (Cons s ss)
  show ?case
  proof (cases i)
    case 0
    with Cons.prems show ?thesis by (auto simp: step_tools_def split: if_splits option.splits)
  next
    case (Suc k)
    show ?thesis
    proof (cases "st_type s = StepConfirm")
      case True
      then have "st_skip_if s = None" "\<forall>j < length ss. st_type (ss ! j) \<noteq> StepConfirm"
        using Cons.prems(1) by (simp_all add: list_all_length)
      then show ?thesis
        using True Suc by (intro exI [of _ 0]) (auto simp: nth_Cons split: nat.split)
    next
      case False
      then obtain g where "g < k" "st_type (ss ! g) = StepConfirm" "st_skip_if (ss ! g) = None"
        "\<forall>j \<ge> k. j < length ss \<longrightarrow> st_type (ss ! j) \<noteq> StepConfirm"
        using Cons.IH [of k] Cons.prems Suc by auto
      then show ?thesis
        using Suc by (intro exI [of _ "Suc g"]) (auto simp: nth_Cons split: nat.split)
    qed
  qed
qed simp

lemma run_call_ok:
  "c \<in> set (s_calls (run_workflow env def ref w now ps)) \<Longrightarrow>
     call_ok (env_digest env) def (s_asks (run_workflow env def ref w now ps)) c"
  using run_workflow_settled [of env def ref w now ps] by (simp add: settled_def)

text \<open>A call a card was accepted for: before it, under a seal of this operation that still fits.\<close>

definition authorized_call :: "(jval \<Rightarrow> string) \<Rightarrow> string \<Rightarrow> ask_log list \<Rightarrow> call_log \<Rightarrow> bool" where
  "authorized_call dig action asks c \<longleftrightarrow>
     (\<exists>a \<in> set asks. al_yes a \<and> al_step a < cl_step c) \<and>
     (\<exists>k. cl_sealed c = Some k \<and> sc_operation k = action \<and>
        params_digest dig (cl_params c) = params_digest dig (sc_business_params k))"

lemma sealed_call_authorized:
  assumes "call_ok dig def asks c" and "cl_sealed c \<noteq> None"
  shows "authorized_call dig (def_name def) asks c"
  using assms unfolding call_ok_def authorized_call_def approved_def call_sound_def seal_wf_def verify_digest_def
  by fastforce

lemma disciplined_authorized:
  assumes "disciplined (def_steps def)" and "c \<in> set (s_calls (run_workflow env def ref w now ps))"
    and "\<not> read_only_tool (cl_tool c)"
  shows "authorized_call (env_digest env) (def_name def) (s_asks (run_workflow env def ref w now ps)) c"
proof -
  note ok = run_call_ok [OF assms(2)]
  then have c: "cl_step c < length (def_steps def)" "st_type (def_steps def ! cl_step c) = StepToolCall"
    "cl_tool c \<in> step_tools (def_steps def ! cl_step c)"
    by (auto simp: call_ok_def calls_before_def)
  obtain g where g: "g < cl_step c" "st_type (def_steps def ! g) = StepConfirm" "st_skip_if (def_steps def ! g) = None"
    "\<forall>j \<ge> cl_step c. j < length (def_steps def) \<longrightarrow> st_type (def_steps def ! j) \<noteq> StepConfirm"
    using disciplined_gate [OF assms(1) c assms(3)] by blast
  then have "gate_at def g" "\<not> confirm_gate_unpassed def (cl_step c)"
    using c by (auto simp: gate_at_def confirm_gate_unpassed_iff)
  then have "cl_sealed c \<noteq> None" using ok g(1) unfolding call_ok_def by blast
  then show ?thesis by (rule sealed_call_authorized [OF ok])
qed

section \<open>The registered definitions\<close>

lemma read_only_tools:
  "list_all read_only_tool [''DescribeCompShareInstance'', ''DescribeCompShareSupportZone'', ''GetCompShareInstancePrice'',
     ''CheckCompShareResizeAttachedDisk'', ''GetCompShareAttachedDiskUpgradePrice'', ''GetCompShareInstanceUserPrice'',
     ''DescribeAvailableCompShareInstanceTypes'', ''CheckCompShareResourceCapacity'', ''GetCompShareInstanceUpgradePrice'',
     ''CheckCompShareNetOptimizer'', ''DescribeCFS'', ''GetCompShareCFSPrice'', ''GetCompShareCFSUpgradePrice'',
     ''DescribeCompShareImages'', ''DescribeCommunityImages'', ''DescribeCompShareCustomImages'',
     ''DescribeCompShareSharingImages'', ''DescribeCompShareGpuInventory'']"
  unfolding read_only_tool_def by code_simp

lemmas read_only_simps = read_only_tools [unfolded list.pred_inject simp_thms]

lemmas step_kinds = tool_step_def confirm_step_def resolve_step_def plain_step_def step_query_instance_def
  step_query_support_zones_def plain_definition_def

lemma lifecycle_disciplined:
  "disciplined (def_steps stop_instance_workflow)" "disciplined (def_steps start_instance_workflow)"
  "disciplined (def_steps reboot_instance_workflow)" "disciplined (def_steps rename_instance_workflow)"
  "disciplined (def_steps update_instance_ports_workflow)" "disciplined (def_steps reset_password_workflow)"
  "disciplined (def_steps (set_stop_scheduler_workflow t1 t2))" "disciplined (def_steps cancel_stop_scheduler_workflow)"
  by (simp_all add: stop_instance_workflow_def start_instance_workflow_def reboot_instance_workflow_def
      rename_instance_workflow_def update_instance_ports_workflow_def reset_password_workflow_def
      set_stop_scheduler_workflow_def cancel_stop_scheduler_workflow_def step_kinds read_only_simps step_query_ports_def)

lemma resource_disciplined:
  "disciplined (def_steps resize_instance_workflow)" "disciplined (def_steps resize_disk_workflow)"
  "disciplined (def_steps switch_charge_type_workflow)" "disciplined (def_steps reinstall_instance_workflow)"
  "disciplined (def_steps create_disk_workflow)" "disciplined (def_steps create_custom_image_workflow)"
  "disciplined (def_steps clone_custom_image_workflow)" "disciplined (def_steps create_cfs_workflow)"
  "disciplined (def_steps resize_cfs_workflow)"
  by (simp_all add: resize_instance_workflow_def resize_disk_workflow_def switch_charge_type_workflow_def
      reinstall_instance_workflow_def create_disk_workflow_def create_custom_image_workflow_def
      clone_custom_image_workflow_def create_cfs_workflow_def resize_cfs_workflow_def step_kinds read_only_simps
      step_query_target_image_def all_lookups_def lookup_tool_def)

lemma create_disciplined: "disciplined (def_steps create_instance_workflow)"
proof -
  have "read_only_tool (lookup_tool l)" for l by (cases l) (simp_all add: lookup_tool_def read_only_simps)
  then show ?thesis
    by (simp add: create_instance_workflow_def step_kinds read_only_simps step_query_images_def reads_def image_catalog_tool_def
        step_query_instance_types_def step_query_official_gpu_inventory_def step_query_pod_gpu_inventory_def
        step_resolve_gpu_inventory_snapshot_def step_resolve_create_draft_def step_check_capacity_def step_get_price_def
        step_resolve_create_confirmation_def step_confirm_create_def step_create_instance_def step_describe_instance_def)
qed

lemma registered_name:
  assumes "r \<in> set (workflow_registrations t1 t2)"
  shows "def_name (rg_definition r) = rg_action r"
  using assms unfolding workflow_registrations_def list.set insert_iff empty_iff
  by (elim disjE) (simp_all add: registration_of_def step_kinds stop_instance_workflow_def start_instance_workflow_def
      reboot_instance_workflow_def rename_instance_workflow_def update_instance_ports_workflow_def
      reset_password_workflow_def set_stop_scheduler_workflow_def cancel_stop_scheduler_workflow_def
      resize_instance_workflow_def resize_disk_workflow_def switch_charge_type_workflow_def
      reinstall_instance_workflow_def create_disk_workflow_def create_custom_image_workflow_def
      clone_custom_image_workflow_def create_cfs_workflow_def resize_cfs_workflow_def enable_net_optimizer_workflow_def
      create_instance_workflow_def)

lemma registered_disciplined:
  assumes "r \<in> set (workflow_registrations t1 t2)"
    and "rg_action r \<noteq> ''EnableNetOptimizerWorkflow''"
  shows "disciplined (def_steps (rg_definition r))"
  using assms unfolding workflow_registrations_def list.set insert_iff empty_iff
  by (elim disjE) (simp_all add: registration_of_def lifecycle_disciplined resource_disciplined create_disciplined)

section \<open>The network optimizer: a gate and a write that are skipped together\<close>

lemma run_hook_reads: "run_hook (reads f) st = (f (s_ctx st), st)"
  by (simp add: run_hook_def reads_def upd_ctx_def)

definition sealed_at :: "nat \<Rightarrow> ('r, 'w) rstate \<Rightarrow> bool" where
  "sealed_at i st \<longleftrightarrow> (\<forall>c \<in> set (s_calls st). cl_step c = i \<longrightarrow> cl_sealed c \<noteq> None)"

lemma sealed_at_other:
  assumes "extends dig I J st st'" and "sealed_at i st" and "\<And>t. (i, t) \<notin> I"
  shows "sealed_at i st'"
  using assms unfolding extends_def sealed_at_def by (fastforce dest: bspec)

lemma sealed_at_sealed:
  assumes "extends dig I J st st'" and "sealed_at i st" and "wc_sealed (s_ctx st) \<noteq> None"
  shows "sealed_at i st'"
  using assms unfolding extends_def sealed_at_def by auto

lemma sealed_at_frame [simp]:
  "sealed_at i (record_step_failure def step j st) = sealed_at i st" "sealed_at i (stop_at step m st) = sealed_at i st"
  "sealed_at i (run_finished def st) = sealed_at i st" "sealed_at i (upd_res f st) = sealed_at i st"
  "sealed_at i (upd_ctx g st) = sealed_at i st"
  by (simp_all add: sealed_at_def run_finished_def)

lemma run_last_tool_sealed:
  assumes "st_type s = StepToolCall" and "st_skip_if s = None" and "j \<noteq> i" and "sealed_at i st"
  shows "sealed_at i (run_steps env def j tot [s] st)"
proof -
  have "sealed_at i (snd (run_tool_step env s j tot st))"
    by (rule sealed_at_other [OF run_tool_step_extends [of j s "{j} \<times> UNIV" env "{}"] assms(4)]) (use assms in auto)
  with assms show ?thesis by (simp add: Let_def run_one_def)
qed

lemma run_skipped_write_sealed:
  assumes "st_type s = StepToolCall" and "st_skip_if s = Some (reads (\<lambda>c. Inr (p c)))"
    and "st_type s' = StepToolCall" and "st_skip_if s' = None"
    and "sealed_at i st" and "wc_sealed (s_ctx st) \<noteq> None \<or> p (s_ctx st)"
  shows "sealed_at i (run_steps env def i tot [s, s'] st)"
proof -
  have rest: "sealed_at i (run_steps env def (Suc i) tot [s'] t)" if "sealed_at i t" for t :: "('a, 'b) rstate"
    using that assms(3,4) by (intro run_last_tool_sealed) simp_all
  have called: "sealed_at i (snd (run_tool_step env s i tot st))" if "wc_sealed (s_ctx st) \<noteq> None"
    using sealed_at_sealed [OF run_tool_step_extends [of i s UNIV env "{}"] assms(5) that] by simp
  have go: "sealed_at i (let ro = run_one env def i tot s st in if fst ro then run_steps env def (Suc i) tot [s'] (snd ro)
      else record_step_failure def s i (snd ro))" if "wc_sealed (s_ctx st) \<noteq> None"
    using rest [OF called [OF that]] called [OF that] assms(1) by (simp add: Let_def run_one_def del: run_steps.simps)
  show ?thesis
    by (subst run_steps.simps(2))
      (use rest [OF assms(5)] go assms in
        \<open>auto simp: run_hook_reads Let_def simp del: run_steps.simps split: sum.split bool.split\<close>)
qed

lemma run_skipped_gate_sealed:
  assumes "st_type g = StepConfirm" and "st_skip_if g = Some (reads (\<lambda>c. Inr (p c)))"
    and "st_type s = StepToolCall" and "st_skip_if s = Some (reads (\<lambda>c. Inr (p c)))"
    and "st_type s' = StepToolCall" and "st_skip_if s' = None" and "sealed_at (Suc i) st"
  shows "sealed_at (Suc i) (run_steps env def i tot [g, s, s'] st)"
proof -
  note tail = run_skipped_write_sealed [OF assms(3-6)]
  let ?rc = "run_confirm_step env def g i tot st"
  have "gate_run (env_digest env) def i (Suc max_confirm_edits) (upd_ctx unseal st) ?rc"
    using confirm_loop_gate_run [of 0 env def i "upd_ctx unseal st"] by (simp add: run_confirm_step_def)
  then have "extends (env_digest env) (calls_before def i) {i} (upd_ctx unseal st) (snd ?rc)"
    by (simp add: gate_run_def)
  then have gate: "sealed_at (Suc i) (snd ?rc)"
    by (rule sealed_at_other) (use assms(7) in \<open>simp_all add: calls_before_def\<close>)
  have sealed: "wc_sealed (s_ctx (upd_ctx (seal_ctx dig n) t)) \<noteq> None" for dig n and t :: "('a, 'b) rstate"
    by (simp add: upd_ctx_def)
  have go: "sealed_at (Suc i) (let ro = run_one env def i tot g st in
      if fst ro then run_steps env def (Suc i) tot [s, s'] (snd ro) else record_step_failure def g i (snd ro))"
    using gate tail [of "Suc i" "upd_ctx (seal_ctx (env_digest env) (def_name def)) (snd ?rc)" env def tot] sealed assms(1)
    by (simp add: Let_def run_one_def del: run_steps.simps)
  show ?thesis
    by (subst run_steps.simps(2))
      (use tail [OF assms(7)] go assms in
        \<open>auto simp: run_hook_reads Let_def simp del: run_steps.simps split: sum.split bool.split\<close>)
qed

lemma net_optimizer_sealed:
  "sealed_at 2 (run_workflow env enable_net_optimizer_workflow ref w now ps)"
proof -
  let ?def = "enable_net_optimizer_workflow"
  obtain q g s r where steps: "def_steps ?def = [q, g, s, r]"
    and q: "st_type q = StepToolCall" "st_skip_if q = None"
    and g: "st_type g = StepConfirm" "st_skip_if g = Some (reads (\<lambda>c. Inr (already_optimized c)))"
    and s: "st_type s = StepToolCall" "st_skip_if s = Some (reads (\<lambda>c. Inr (already_optimized c)))"
    and r: "st_type r = StepToolCall" "st_skip_if r = None"
    by (simp add: enable_net_optimizer_workflow_def step_kinds)
  let ?st = "init_state ref w now ps"
  have tail: "sealed_at 2 (run_steps env ?def 1 tot [g, s, r] st)" if "sealed_at 2 st"
    for st :: "(reference_data, 'a) rstate" and tot
    using run_skipped_gate_sealed [OF g s r, of 1 st env ?def tot] that by (simp add: numeral_2_eq_2)
  have init: "sealed_at 2 ?st" by (simp add: sealed_at_def init_state_def)
  have one: "sealed_at 2 (snd (run_tool_step env q 0 tot ?st))" for tot
    by (rule sealed_at_other [OF run_tool_step_extends [of 0 q "{0} \<times> UNIV" env "{}"] init]) auto
  have "sealed_at 2 (run_steps env ?def 0 tot [q, g, s, r] ?st)" for tot
    by (subst run_steps.simps(2))
      (use q init one tail [OF one] in \<open>simp add: Let_def run_one_def One_nat_def del: run_steps.simps\<close>)
  then show ?thesis by (simp add: run_workflow_def Let_def steps)
qed

lemma net_optimizer_authorized:
  assumes "c \<in> set (s_calls (run_workflow env enable_net_optimizer_workflow ref w now ps))"
    and "\<not> read_only_tool (cl_tool c)"
  shows "authorized_call (env_digest env) ''EnableNetOptimizerWorkflow''
    (s_asks (run_workflow env enable_net_optimizer_workflow ref w now ps)) c"
proof -
  note ok = run_call_ok [OF assms(1)]
  let ?steps = "def_steps enable_net_optimizer_workflow"
  have c: "cl_step c < 4" "cl_tool c \<in> step_tools (?steps ! cl_step c)" "st_type (?steps ! cl_step c) = StepToolCall"
    using ok by (auto simp: call_ok_def calls_before_def enable_net_optimizer_workflow_def step_kinds)
  then have "cl_step c = 0 \<or> cl_step c = 1 \<or> cl_step c = 2 \<or> cl_step c = 3" by linarith
  with c assms(2) have "cl_step c = 2"
    by (auto simp: enable_net_optimizer_workflow_def step_kinds step_tools_def read_only_simps)
  then have "cl_sealed c \<noteq> None" using net_optimizer_sealed [of env ref w now ps] assms(1) unfolding sealed_at_def by blast
  from sealed_call_authorized [OF ok this] show ?thesis
    by (simp add: enable_net_optimizer_workflow_def step_kinds)
qed

section \<open>The property\<close>

lemma get_workflow_registered:
  "get_workflow regs action = Some d \<Longrightarrow> \<exists>r \<in> set regs. rg_action r = action \<and> rg_definition r = d"
  by (auto simp: get_workflow_def registered_workflow_def find_Some_iff)

text \<open>C6: nothing is changed before the user agreed: in a run of any registered workflow every call of a tool that is not read-only is made after a card of this run was
  accepted, under the seal of that acceptance, which carries the workflow's name and still
  matches the parameters the call was built from.\<close>

theorem registered_write_authorized:
  assumes "get_workflow (workflow_registrations t1 t2) action = Some def"
    and "c \<in> set (s_calls (run_workflow env def ref w now ps))" and "\<not> read_only_tool (cl_tool c)"
  shows "authorized_call (env_digest env) action (s_asks (run_workflow env def ref w now ps)) c"
proof -
  obtain r where r: "r \<in> set (workflow_registrations t1 t2)" "rg_action r = action" "rg_definition r = def"
    using get_workflow_registered [OF assms(1)] by blast
  show ?thesis
  proof (cases "action = ''EnableNetOptimizerWorkflow''")
    case True
    then have "def = enable_net_optimizer_workflow"
      using assms(1) by (simp add: get_workflow_def registered_workflow_def workflow_registrations_def registration_of_def)
    then show ?thesis using net_optimizer_authorized [of c env ref w now ps] assms(2,3) True by simp
  next
    case False
    then have "disciplined (def_steps def)" "def_name def = action"
      using registered_disciplined [OF r(1)] registered_name [OF r(1)] r(2,3) by auto
    then show ?thesis using disciplined_authorized [OF _ assms(2,3)] by simp
  qed
qed

theorem registered_write_authorized_witness:
  "\<exists>c. cl_tool c = ''StopCompShareInstance'' \<and> authorized_call (env_digest demo_cloud) ''StopInstanceWorkflow''
     (s_asks (run_workflow demo_cloud stop_instance_workflow \<lparr>rd_zones = None, rd_images = None\<rparr> 0 0
        [(''UHostId'', GStr ''uhost-1'')])) c"
proof -
  let ?ref = "\<lparr>rd_zones = None, rd_images = None\<rparr>" and ?ps = "[(''UHostId'', GStr ''uhost-1'')]"
  obtain c where c: "c \<in> set (s_calls (run_workflow demo_cloud stop_instance_workflow ?ref 0 0 ?ps))"
    "cl_tool c = ''StopCompShareInstance''"
    using stop_workflow_runs [OF demo_cloud_cooperative demo_host_facts, of ?ref 0 0 ?ps] by blast
  have "get_workflow (workflow_registrations 0 0) ''StopInstanceWorkflow'' = Some stop_instance_workflow"
    by (simp add: get_workflow_def registered_workflow_def workflow_registrations_def registration_of_def)
  moreover have "\<not> read_only_tool ''StopCompShareInstance''" unfolding read_only_tool_def by code_simp
  ultimately show ?thesis using registered_write_authorized [of 0 0 _ _ c demo_cloud ?ref 0 0 ?ps] c
    by (intro exI [of _ c]) simp
qed

end
