(* ===== verification/EntityRegistry.thy ===== *)
theory EntityRegistry
  imports GoFmt
begin

text \<open>
  The entity registry (\<open>internal/entity\<close>): what the session has seen of the account's
  instances, how a mention of one resolves, and when a miss may be called an absence.

  The clock is an argument, in nanoseconds; the zero \<open>time.Time\<close> is \<open>None\<close>. Every operation
  holds the registry's lock, so an operation is one step. The letters and digits outside ASCII
  (the tables of package \<open>unicode\<close>) and the digest of a snapshot (JSON and SHA-256) are
  arguments of the definitions that use them.
\<close>

section \<open>Instances\<close>

record migration_progress =
  mp_present :: bool
  mp_id :: string
  mp_state :: string
  mp_reason :: string
  mp_current :: string
  mp_total :: string
  mp_speed :: string
  mp_eta :: int
  mp_percent :: int

record instance_snapshot =
  in_id :: string
  in_name :: string
  in_state :: string
  in_os_type :: string
  in_gpu :: int
  in_gpu_type :: string
  in_image_name :: string
  in_image_type :: string
  in_type :: string
  in_start_time :: int
  in_scheduler_stop_time :: int
  in_stop_time :: int
  in_release_time :: int
  in_cfs_id :: string
  in_migration :: migration_progress
  in_cpu :: int
  in_memory :: int
  in_zone :: string
  in_region :: string
  in_charge_type :: string
  in_is_spot :: bool
  in_expire_time :: int
  in_auto_renew :: string

definition string_field :: "gmap \<Rightarrow> string \<Rightarrow> string" where
  "string_field row key = (case mval row key of GStr s \<Rightarrow> s | GNil \<Rightarrow> [] | v \<Rightarrow> sprint v)"

text \<open>\<open>strconv.ParseInt\<close> with its error dropped: 0 for no number, the nearest bound out of range.\<close>

definition parse_int64_or_bound :: "string \<Rightarrow> int" where
  "parse_int64_or_bound s =
     (let (neg, r) = split_sign s in
      if r = [] then 0
      else case digits_val 0 r of
        None \<Rightarrow> 0
      | Some n \<Rightarrow> max min_int64 (min max_int64 (if neg then - int n else int n)))"

definition int64_field :: "gmap \<Rightarrow> string \<Rightarrow> int" where
  "int64_field row key = (case mval row key of
       GInt n \<Rightarrow> n
     | GInt64 n \<Rightarrow> n
     | GFloat x \<Rightarrow> int64_of_float x
     | GFloat32 x \<Rightarrow> int64_of_float x
     | GNumber s \<Rightarrow> (case parse_int64 s of
           Some n \<Rightarrow> n
         | None \<Rightarrow> (case parse_float s of Some x \<Rightarrow> int64_of_float x | None \<Rightarrow> 0))
     | GStr s \<Rightarrow> parse_int64_or_bound s
     | _ \<Rightarrow> 0)"

definition instance_is_spot :: "gmap \<Rightarrow> bool" where
  "instance_is_spot row = (case mval row ''IsSpot'' of GBool b \<Rightarrow> b | _ \<Rightarrow> False)"

definition no_migration :: migration_progress where
  "no_migration = \<lparr>mp_present = False, mp_id = [], mp_state = [], mp_reason = [], mp_current = [],
     mp_total = [], mp_speed = [], mp_eta = 0, mp_percent = 0\<rparr>"

definition migration_progress_field :: "gmap \<Rightarrow> migration_progress" where
  "migration_progress_field row = (case mval row ''MigrationProgress'' of
       GMap raw \<Rightarrow>
         if raw = [] then no_migration
         else \<lparr>mp_present = True, mp_id = string_field raw ''MigrationId'', mp_state = string_field raw ''State'',
               mp_reason = string_field raw ''Reason'', mp_current = string_field raw ''Current'',
               mp_total = string_field raw ''Total'', mp_speed = string_field raw ''Speed'',
               mp_eta = int64_field raw ''Eta'', mp_percent = int64_field raw ''Percent''\<rparr>
     | _ \<Rightarrow> no_migration)"

definition instance_from_map :: "gmap \<Rightarrow> instance_snapshot" where
  "instance_from_map row =
     \<lparr>in_id = string_field row ''UHostId'', in_name = string_field row ''Name'',
      in_state = string_field row ''State'', in_os_type = string_field row ''OsType'',
      in_gpu = int64_field row ''GPU'', in_gpu_type = string_field row ''GpuType'',
      in_image_name = string_field row ''CompShareImageName'', in_image_type = string_field row ''CompShareImageType'',
      in_type = string_field row ''InstanceType'', in_start_time = int64_field row ''StartTime'',
      in_scheduler_stop_time = int64_field row ''SchedulerStopTime'', in_stop_time = int64_field row ''StopTime'',
      in_release_time = int64_field row ''ReleaseTime'', in_cfs_id = string_field row ''CfsId'',
      in_migration = migration_progress_field row, in_cpu = int64_field row ''CPU'',
      in_memory = int64_field row ''Memory'', in_zone = string_field row ''Zone'',
      in_region = string_field row ''Region'', in_charge_type = string_field row ''ChargeType'',
      in_is_spot = instance_is_spot row, in_expire_time = int64_field row ''ExpireTime'',
      in_auto_renew = string_field row ''AutoRenew''\<rparr>"

section \<open>The registry\<close>

type_synonym instance_map = "(string \<times> instance_snapshot) list"
type_synonym name_index = "(string \<times> string list) list"

definition recently_released_ttl :: int where "recently_released_ttl = 24 * 3600 * 1000000000"
definition default_registry_freshness_ttl :: int where "default_registry_freshness_ttl = 30 * 1000000000"

definition sync_event_unavailable :: string where "sync_event_unavailable = ''unavailable''"
definition sync_event_sync_refresh :: string where "sync_event_sync_refresh = ''sync_refresh''"
definition sync_event_warm_cache :: string where "sync_event_warm_cache = ''warm_cache''"
definition sync_event_failed :: string where "sync_event_failed = ''failed''"

datatype refresh_reason = RefreshManual | RefreshTTL | RefreshWarmCache

record entity_registry =
  er_instances :: instance_map
  er_name_index :: name_index
  er_last_full_sync :: "int option"
  er_last_sync_event :: string
  er_last_sync_error :: string
  er_total_count :: int
  er_truncated :: bool
  er_released :: "(string \<times> int) list"
  er_invalidated :: bool
  er_invalidation :: string

record registry_snapshot =
  rs_snapshot_id :: string
  rs_instances :: instance_map
  rs_name_index :: name_index
  rs_last_full_sync :: "int option"
  rs_sync_event :: string
  rs_last_sync_error :: string
  rs_total_count :: int
  rs_truncated :: bool
  rs_invalidated :: bool

definition new_registry :: entity_registry where
  "new_registry = \<lparr>er_instances = [], er_name_index = [], er_last_full_sync = None,
     er_last_sync_event = sync_event_unavailable, er_last_sync_error = [], er_total_count = 0,
     er_truncated = False, er_released = [], er_invalidated = False, er_invalidation = []\<rparr>"

definition registry_age :: "entity_registry \<Rightarrow> int \<Rightarrow> int" where
  "registry_age r now = (case er_last_full_sync r of None \<Rightarrow> 0 | Some t \<Rightarrow> now - t)"

definition can_assert_absence_of :: "int option \<Rightarrow> string \<Rightarrow> bool \<Rightarrow> nat \<Rightarrow> int \<Rightarrow> bool" where
  "can_assert_absence_of synced event truncated known_count total_count =
     (if synced = None \<or> truncated then False
      else if event \<in> {sync_event_unavailable, sync_event_failed, []} then False
      else 0 < known_count \<or> total_count = 0)"

definition can_assert_absence :: "entity_registry \<Rightarrow> bool" where
  "can_assert_absence r = can_assert_absence_of (er_last_full_sync r) (er_last_sync_event r) (er_truncated r)
     (length (er_instances r)) (er_total_count r)"

definition snapshot_can_assert_absence :: "registry_snapshot \<Rightarrow> bool" where
  "snapshot_can_assert_absence s = can_assert_absence_of (rs_last_full_sync s) (rs_sync_event s) (rs_truncated s)
     (length (rs_instances s)) (rs_total_count s)"

text \<open>The digest of the sorted instances, the count and the flag.\<close>

definition compute_snapshot_id ::
    "(instance_snapshot list \<times> int \<times> bool \<Rightarrow> string) \<Rightarrow> instance_map \<Rightarrow> int \<Rightarrow> bool \<Rightarrow> string" where
  "compute_snapshot_id dig instances total_count truncated =
     ''sha256:'' @ dig (slice_stable (\<lambda>a b. in_id a < in_id b) (map snd instances), total_count, truncated)"

definition snapshot_of :: "(instance_snapshot list \<times> int \<times> bool \<Rightarrow> string) \<Rightarrow> entity_registry \<Rightarrow> registry_snapshot" where
  "snapshot_of dig r =
     \<lparr>rs_snapshot_id = (if er_last_full_sync r = None then []
        else compute_snapshot_id dig (er_instances r) (er_total_count r) (er_truncated r)),
      rs_instances = er_instances r, rs_name_index = er_name_index r, rs_last_full_sync = er_last_full_sync r,
      rs_sync_event = er_last_sync_event r, rs_last_sync_error = er_last_sync_error r,
      rs_total_count = er_total_count r, rs_truncated = er_truncated r, rs_invalidated = er_invalidated r\<rparr>"

record registry_trace_state =
  ts_snapshot_id :: string
  ts_age_seconds :: int
  ts_sync_event :: string

definition trace_state :: "(instance_snapshot list \<times> int \<times> bool \<Rightarrow> string) \<Rightarrow> entity_registry \<Rightarrow> int
    \<Rightarrow> registry_trace_state" where
  "trace_state dig r now =
     (let s = snapshot_of dig r in
      case rs_last_full_sync s of
        None \<Rightarrow> \<lparr>ts_snapshot_id = [], ts_age_seconds = 0,
          ts_sync_event = (if rs_sync_event s = [] then sync_event_unavailable else rs_sync_event s)\<rparr>
      | Some t \<Rightarrow> \<lparr>ts_snapshot_id = rs_snapshot_id s, ts_age_seconds = max 0 (now - t) div 1000000000,
          ts_sync_event = rs_sync_event s\<rparr>)"

text \<open>Freshness.\<close>

definition needs_refresh_of :: "int option \<Rightarrow> string \<Rightarrow> bool \<Rightarrow> int \<Rightarrow> bool" where
  "needs_refresh_of synced event invalidated at_time =
     (case synced of
        None \<Rightarrow> True
      | Some t \<Rightarrow> invalidated \<or> event = sync_event_failed \<or> default_registry_freshness_ttl < at_time - t)"

definition needs_refresh :: "entity_registry \<Rightarrow> int \<Rightarrow> bool" where
  "needs_refresh r at_time =
     needs_refresh_of (er_last_full_sync r) (er_last_sync_event r) (er_invalidated r) at_time"

definition needs_refresh_at :: "registry_snapshot \<Rightarrow> int \<Rightarrow> bool" where
  "needs_refresh_at s at_time =
     needs_refresh_of (rs_last_full_sync s) (rs_sync_event s) (rs_invalidated s) at_time"

definition fresh_and_complete_at :: "registry_snapshot \<Rightarrow> int \<Rightarrow> bool" where
  "fresh_and_complete_at s at_time \<longleftrightarrow> \<not> needs_refresh_at s at_time \<and> \<not> rs_truncated s"

definition can_assert_absence_at :: "registry_snapshot \<Rightarrow> int \<Rightarrow> bool" where
  "can_assert_absence_at s at_time \<longleftrightarrow>
     fresh_and_complete_at s at_time \<and> (rs_instances s \<noteq> [] \<or> rs_total_count s = 0)"

section \<open>Updates\<close>

definition invalidates_registry :: "string \<Rightarrow> bool" where
  "invalidates_registry action \<longleftrightarrow> action \<in>
     {''CreateCompShareInstance'', ''CreateInstanceWorkflow'', ''StartCompShareInstance'', ''StopCompShareInstance'',
      ''RebootCompShareInstance'', ''StartInstanceWorkflow'', ''StopInstanceWorkflow'', ''RebootInstanceWorkflow'',
      ''ModifyCompShareInstanceName'', ''RenameInstanceWorkflow'', ''UpdateCompShareStopScheduler'',
      ''DeleteCompShareStopScheduler'', ''SetStopSchedulerWorkflow'', ''CancelStopSchedulerWorkflow'',
      ''ResizeInstanceWorkflow'', ''ReinstallInstanceWorkflow'', ''SwitchChargeType'', ''SwitchChargeTypeWorkflow''}"

definition mark_invalidated :: "string \<Rightarrow> entity_registry \<Rightarrow> bool \<times> entity_registry" where
  "mark_invalidated action r =
     (if invalidates_registry action then (True, r\<lparr>er_invalidated := True, er_invalidation := action\<rparr>)
      else (False, r))"

text \<open>\<open>normalizeName\<close>: the letters and digits of the lower-case text.\<close>

definition ascii_alnum :: "char \<Rightarrow> bool" where
  "ascii_alnum c \<longleftrightarrow> byte_in 97 122 c \<or> byte_in 65 90 c \<or> byte_in 48 57 c"

definition name_rune :: "(string \<Rightarrow> bool) \<Rightarrow> string \<Rightarrow> bool" where
  "name_rune uni r = (case r of [c] \<Rightarrow> ascii_alnum c | _ \<Rightarrow> uni r)"

definition normalize_name :: "(string \<Rightarrow> bool) \<Rightarrow> string \<Rightarrow> string" where
  "normalize_name uni s = concat (filter (name_rune uni) (runes (to_lower (trim_space s))))"

definition rebuild_name_index :: "(string \<Rightarrow> bool) \<Rightarrow> instance_map \<Rightarrow> name_index" where
  "rebuild_name_index uni instances = map (\<lambda>(k, ids). (k, sort ids))
     (fold (\<lambda>(i, inst) ix.
        let key = normalize_name uni (in_name inst) in
        if key = [] then ix
        else mput key ((case mget ix key of None \<Rightarrow> [] | Some ids \<Rightarrow> ids) @ [i]) ix) instances [])"

definition prune_recently_released :: "int \<Rightarrow> (string \<times> int) list \<Rightarrow> (string \<times> int) list" where
  "prune_recently_released now released = filter (\<lambda>(i, t). now - t \<le> recently_released_ttl) released"

definition described_instances :: "gval list \<Rightarrow> instance_map" where
  "described_instances rows = fold (\<lambda>row m. case row of
       GMap r \<Rightarrow> (let inst = instance_from_map r in if in_id inst = [] then m else mput (in_id inst) inst m)
     | _ \<Rightarrow> m) rows []"

definition released_after :: "int \<Rightarrow> instance_map \<Rightarrow> instance_map \<Rightarrow> (string \<times> int) list \<Rightarrow> (string \<times> int) list" where
  "released_after now current nxt released = prune_recently_released now
     (filter (\<lambda>(i, t). \<not> mhas nxt i)
       (fold (\<lambda>(i, inst) m. if mhas nxt i then m else mput i now m) current released))"

definition sync_from_describe :: "(string \<Rightarrow> bool) \<Rightarrow> gmap \<Rightarrow> string \<Rightarrow> int \<Rightarrow> entity_registry \<Rightarrow> entity_registry res" where
  "sync_from_describe uni result event now r = (case mval result ''UHostSet'' of
       GList rows \<Rightarrow>
         (let nxt = described_instances rows; tot = int64_field result ''TotalCount'' in
          Inr \<lparr>er_instances = nxt, er_name_index = rebuild_name_index uni nxt, er_last_full_sync = Some now,
               er_last_sync_event = event, er_last_sync_error = [], er_total_count = tot,
               er_truncated = int (length nxt) < tot,
               er_released = released_after now (er_instances r) nxt (er_released r),
               er_invalidated = False, er_invalidation = []\<rparr>)
     | _ \<Rightarrow> Inl (plain_err ''DescribeCompShareInstance result missing UHostSet''))"

definition refresh_error_class :: "gerr \<Rightarrow> string" where
  "refresh_error_class e =
     (let msg = to_lower (err_text e); has = contains_text msg in
      if has ''timeout'' \<or> has ''deadline'' then ''timeout''
      else if has ''network'' \<or> has ''connection'' \<or> has ''eof'' then ''network''
      else if has ''uhostset'' \<or> has ''parse'' \<or> has ''decode'' then ''parse_error''
      else ''refresh_error'')"

definition record_refresh_failure :: "gerr \<Rightarrow> entity_registry \<Rightarrow> entity_registry" where
  "record_refresh_failure e r =
     r\<lparr>er_last_sync_event := sync_event_failed, er_last_sync_error := refresh_error_class e\<rparr>"

definition sync_event_for_reason :: "refresh_reason \<Rightarrow> string" where
  "sync_event_for_reason reason =
     (if reason = RefreshWarmCache then sync_event_warm_cache else sync_event_sync_refresh)"

text \<open>\<open>RefreshResult\<close>: the answer of the executor is an argument.\<close>

definition refresh_result :: "(string \<Rightarrow> bool) \<Rightarrow> gmap res \<Rightarrow> refresh_reason \<Rightarrow> int \<Rightarrow> entity_registry
    \<Rightarrow> gmap res \<times> entity_registry" where
  "refresh_result uni answer reason now r = (case answer of
       Inl e \<Rightarrow> (Inl e, record_refresh_failure e r)
     | Inr result \<Rightarrow> (case sync_from_describe uni result (sync_event_for_reason reason) now r of
           Inl e \<Rightarrow> (Inl e, record_refresh_failure e r)
         | Inr r' \<Rightarrow> (Inr result, r')))"

section \<open>Resolving a mention\<close>

datatype resolve_status = ResolveHit | ResolveNotFoundInAccount | ResolveRecentlyReleasedGuess | ResolveAmbiguous

record resolve_result =
  rr_status :: resolve_status
  rr_query :: string
  rr_candidates :: "string list"

definition resolved_as :: "resolve_status \<Rightarrow> string \<Rightarrow> instance_snapshot list
    \<Rightarrow> instance_snapshot list \<times> resolve_result" where
  "resolved_as status query found = (found, \<lparr>rr_status = status, rr_query = query, rr_candidates = map in_id found\<rparr>)"

text \<open>One match is a hit, several are ambiguous.\<close>

definition matches_result :: "string \<Rightarrow> instance_snapshot list \<Rightarrow> instance_snapshot list \<times> resolve_result" where
  "matches_result query found = resolved_as (if 1 < length found then ResolveAmbiguous else ResolveHit) query found"

definition resolve_by_id :: "int \<Rightarrow> entity_registry \<Rightarrow> string \<Rightarrow> instance_snapshot option \<times> resolve_result" where
  "resolve_by_id now r i =
     (let query = trim_space i; miss = (\<lambda>st. (None, \<lparr>rr_status = st, rr_query = query, rr_candidates = []\<rparr>)) in
      case mget (er_instances r) query of
        Some inst \<Rightarrow> (Some inst, \<lparr>rr_status = ResolveHit, rr_query = query, rr_candidates = [query]\<rparr>)
      | None \<Rightarrow> (case mget (er_released r) query of
            Some t \<Rightarrow> if now - t \<le> recently_released_ttl then miss ResolveRecentlyReleasedGuess
              else miss ResolveNotFoundInAccount
          | None \<Rightarrow> miss ResolveNotFoundInAccount))"

definition snapshot_resolve_by_id :: "registry_snapshot \<Rightarrow> string \<Rightarrow> instance_snapshot option \<times> resolve_result" where
  "snapshot_resolve_by_id s i =
     (let query = trim_space i in
      case mget (rs_instances s) query of
        Some inst \<Rightarrow> (Some inst, \<lparr>rr_status = ResolveHit, rr_query = query, rr_candidates = [query]\<rparr>)
      | None \<Rightarrow> (None, \<lparr>rr_status = ResolveNotFoundInAccount, rr_query = query, rr_candidates = []\<rparr>))"

definition instance_id_adjacent_byte :: "char \<Rightarrow> bool" where
  "instance_id_adjacent_byte c \<longleftrightarrow> ascii_alnum c \<or> c = CHR ''_''"

definition id_span_at :: "string \<Rightarrow> string \<Rightarrow> nat \<Rightarrow> bool" where
  "id_span_at text i start \<longleftrightarrow>
     (start = 0 \<or> \<not> instance_id_adjacent_byte (text ! (start - 1))) \<and>
     take (length i) (drop start text) = i \<and>
     (start + length i < length text \<longrightarrow> \<not> instance_id_adjacent_byte (text ! (start + length i)))"

definition contains_literal_instance_id_span :: "string \<Rightarrow> string \<Rightarrow> bool" where
  "contains_literal_instance_id_span text i =
     (let ft = to_lower (trim_space text); fi = to_lower (trim_space i) in
      fi \<noteq> [] \<and> length fi \<le> length ft \<and> list_ex (id_span_at ft fi) [0..<Suc (length ft - length fi)])"

definition instances_whose_id_appears_in_text :: "string \<Rightarrow> instance_map \<Rightarrow> instance_snapshot list" where
  "instances_whose_id_appears_in_text text instances =
     (let text = trim_space text in
      if text = [] \<or> instances = [] then []
      else map snd (sort_key fst
        (fold (\<lambda>(key, inst) m.
           let i = (if trim_space (in_id inst) \<noteq> [] then trim_space (in_id inst) else trim_space key) in
           if i = [] \<or> \<not> contains_literal_instance_id_span text i then m
           else mput (to_lower i) (inst\<lparr>in_id := i\<rparr>) m) instances [])))"

text \<open>\<open>strings.FieldsFunc\<close>: the maximal runs of name runes.\<close>

fun fields_by :: "(string \<Rightarrow> bool) \<Rightarrow> string \<Rightarrow> string list \<Rightarrow> string list" where
  "fields_by p acc [] = (if acc = [] then [] else [acc])"
| "fields_by p acc (r # rs) =
     (if p r then fields_by p (acc @ r) rs
      else if acc = [] then fields_by p [] rs else acc # fields_by p [] rs)"

definition normalize_terms :: "(string \<Rightarrow> bool) \<Rightarrow> string \<Rightarrow> string list" where
  "normalize_terms uni s = filter (\<lambda>t. t \<noteq> [])
     (map (normalize_name uni) (fields_by (name_rune uni) [] (runes (to_lower (trim_space s)))))"

definition fuzzy_score :: "string \<Rightarrow> string list \<Rightarrow> string \<Rightarrow> nat" where
  "fuzzy_score query terms name =
     (if query = [] \<or> name = [] then 0
      else if contains_text name query then 80
      else if terms \<noteq> [] \<and> list_all (contains_text name) terms then 70 else 0)"

definition scored_before :: "nat \<times> instance_snapshot \<Rightarrow> nat \<times> instance_snapshot \<Rightarrow> bool" where
  "scored_before a b =
     (if fst a \<noteq> fst b then fst b < fst a
      else if in_name (snd a) \<noteq> in_name (snd b) then in_name (snd a) < in_name (snd b)
      else in_id (snd a) < in_id (snd b))"

definition instances_for_ids :: "instance_map \<Rightarrow> string list \<Rightarrow> instance_snapshot list" where
  "instances_for_ids instances ids =
     slice_stable (\<lambda>a b. in_id a < in_id b) (List.map_filter (mget instances) ids)"

definition fuzzy_matches :: "(string \<Rightarrow> bool) \<Rightarrow> string \<Rightarrow> instance_map \<Rightarrow> instance_snapshot list" where
  "fuzzy_matches uni query instances = map snd (slice_stable scored_before
     (filter (\<lambda>si. 0 < fst si)
       (map (\<lambda>(k, inst). (fuzzy_score (normalize_name uni query) (normalize_terms uni query)
          (normalize_name uni (in_name inst)), inst)) instances)))"

text \<open>
  \<open>ResolveByName\<close>, of the registry and of a snapshot: exact name, then an id inside the text,
  then a fuzzy name.
\<close>

definition resolve_by_name_in :: "(string \<Rightarrow> bool) \<Rightarrow> instance_map \<Rightarrow> name_index \<Rightarrow> string
    \<Rightarrow> instance_snapshot list \<times> resolve_result" where
  "resolve_by_name_in uni instances index name =
     (let query = trim_space name; normalized = normalize_name uni query in
      if normalized = [] then resolved_as ResolveNotFoundInAccount query []
      else
        (let ids = (case mget index normalized of None \<Rightarrow> [] | Some ids \<Rightarrow> ids) in
         if ids \<noteq> [] then matches_result query (instances_for_ids instances ids)
         else
           (let by_id = instances_whose_id_appears_in_text query instances in
            if by_id \<noteq> [] then matches_result query by_id
            else
              (let fuzzy = fuzzy_matches uni query instances in
               if fuzzy = [] then resolved_as ResolveNotFoundInAccount query []
               else matches_result query fuzzy))))"

definition resolve_by_name :: "(string \<Rightarrow> bool) \<Rightarrow> entity_registry \<Rightarrow> string
    \<Rightarrow> instance_snapshot list \<times> resolve_result" where
  "resolve_by_name uni r name = resolve_by_name_in uni (er_instances r) (er_name_index r) name"

definition snapshot_resolve_by_name :: "(string \<Rightarrow> bool) \<Rightarrow> registry_snapshot \<Rightarrow> string
    \<Rightarrow> instance_snapshot list \<times> resolve_result" where
  "snapshot_resolve_by_name uni s name = resolve_by_name_in uni (rs_instances s) (rs_name_index s) name"

section \<open>Existence\<close>

datatype existence_verdict = ExistenceUnavailable | ExistenceVerified | ExistenceNotFound

definition describe_response_has_id :: "gmap \<Rightarrow> string \<Rightarrow> bool" where
  "describe_response_has_id raw i =
     (if trim_space i = [] then False
      else case mval raw ''UHostSet'' of
        GList rows \<Rightarrow> list_ex (\<lambda>row. case row of GMap m \<Rightarrow> mval m ''UHostId'' = GStr i | _ \<Rightarrow> False) rows
      | _ \<Rightarrow> False)"

text \<open>The point query is optional; a query that could not complete yields \<open>None\<close>.\<close>

definition verify_exact_target :: "registry_snapshot \<Rightarrow> string \<Rightarrow> int \<Rightarrow> (string \<Rightarrow> gmap option) option
    \<Rightarrow> existence_verdict" where
  "verify_exact_target s i at_time describe =
     (if trim_space i = [] then ExistenceNotFound
      else if fresh_and_complete_at s at_time
      then (if mhas (rs_instances s) i then ExistenceVerified else ExistenceNotFound)
      else case describe of
        None \<Rightarrow> ExistenceUnavailable
      | Some query \<Rightarrow> (case query i of
            None \<Rightarrow> ExistenceUnavailable
          | Some raw \<Rightarrow> if describe_response_has_id raw i then ExistenceVerified else ExistenceNotFound))"

end
