(* ===== verification/EntityProps.thy ===== *)
theory EntityProps
  imports EntityRegistry
begin

text \<open>
  Properties of the entity registry: its invariant, what a verdict about an instance is grounded
  in, and what a resolved mention is.
\<close>

section \<open>The invariant\<close>

datatype registry_op =
    OpRefresh "gmap res" refresh_reason int
  | OpMark string

definition registry_step :: "(string \<Rightarrow> bool) \<Rightarrow> entity_registry \<Rightarrow> registry_op \<Rightarrow> entity_registry" where
  "registry_step uni r x = (case x of
       OpRefresh answer reason now \<Rightarrow> snd (refresh_result uni answer reason now r)
     | OpMark action \<Rightarrow> snd (mark_invalidated action r))"

definition registry_ok :: "(string \<Rightarrow> bool) \<Rightarrow> entity_registry \<Rightarrow> bool" where
  "registry_ok uni r \<longleftrightarrow>
     distinct (map fst (er_instances r)) \<and>
     (\<forall>(i, inst) \<in> set (er_instances r). i = in_id inst \<and> i \<noteq> []) \<and>
     er_name_index r = rebuild_name_index uni (er_instances r) \<and>
     mkeys (er_instances r) \<inter> mkeys (er_released r) = {} \<and>
     er_truncated r = (int (length (er_instances r)) < er_total_count r) \<and>
     (er_last_full_sync r = None \<longrightarrow> er_instances r = [])"

lemma described_instances_ok:
  "distinct (map fst (described_instances rows)) \<and>
   (\<forall>(i, inst) \<in> set (described_instances rows). i = in_id inst \<and> i \<noteq> [])"
proof -
  let ?f = "\<lambda>row m. case row of
       GMap r \<Rightarrow> (let inst = instance_from_map r in if in_id inst = [] then m else mput (in_id inst) inst m)
     | _ \<Rightarrow> m"
  let ?ok = "\<lambda>m :: instance_map. distinct (map fst m) \<and> (\<forall>(i, inst) \<in> set m. i = in_id inst \<and> i \<noteq> [])"
  have upd: "?ok (mput k inst m)" if "?ok m" "k = in_id inst" "k \<noteq> []" for k inst m
  proof -
    have "set (mput k inst m) \<subseteq> insert (k, inst) (set m)" by (induction m) auto
    with that show ?thesis by (auto simp: distinct_update)
  qed
  have "?ok (fold ?f rows m)" if "?ok m" for m
    using that
  proof (induction rows arbitrary: m)
    case (Cons row rows)
    have "?ok (?f row m)" using Cons.prems by (cases row) (simp_all add: Let_def upd)
    from Cons.IH [OF this] show ?case by simp
  qed simp
  from this [of "[]"] show ?thesis by (simp add: described_instances_def)
qed

lemma released_after_fresh: "mkeys nxt \<inter> mkeys (released_after now current nxt released) = {}"
proof -
  have "i \<notin> mkeys nxt" if "i \<in> mkeys (released_after now current nxt released)" for i
    using that by (force simp: released_after_def prune_recently_released_def mhas_iff)
  then show ?thesis by blast
qed

lemma sync_from_describe_ok:
  assumes "sync_from_describe uni result event now r = Inr r'"
  shows "registry_ok uni r'"
proof -
  from assms obtain rows where "mval result ''UHostSet'' = GList rows"
    by (auto simp: sync_from_describe_def split: gval.splits)
  moreover have "mkeys (described_instances rows) \<inter> mkeys (released_after now (er_instances r) (described_instances rows)
      (er_released r)) = {}" by (rule released_after_fresh)
  ultimately show ?thesis
    using assms described_instances_ok [of rows]
    by (simp add: sync_from_describe_def registry_ok_def Let_def) (elim conjE, hypsubst, simp)
qed

lemma registry_step_ok: "registry_ok uni r \<Longrightarrow> registry_ok uni (registry_step uni r x)"
  by (auto simp: registry_step_def refresh_result_def mark_invalidated_def record_refresh_failure_def
      sync_from_describe_ok split: registry_op.split sum.split) (simp_all add: registry_ok_def)

lemma new_registry_ok: "registry_ok uni new_registry"
  by (simp add: registry_ok_def new_registry_def rebuild_name_index_def)

interpretation er: component new_registry "registry_step uni" "registry_ok uni" for uni
  by unfold_locales (rule new_registry_ok, rule registry_step_ok)

text \<open>C20: the registry is well formed in every reachable state: instances are kept under their own,
  non-empty id and once each, the name index is the one computed from them, an instance that is listed
  is not remembered as released, and the listing counts as truncated exactly when the account holds
  more instances than were read.\<close>

theorem registry_well_formed: "registry_ok uni (foldl (registry_step uni) new_registry ops)"
  by (rule er.inv_run)

section \<open>What a verdict is grounded in\<close>

definition row_lists :: "gval list \<Rightarrow> string \<Rightarrow> bool" where
  "row_lists rows i \<longleftrightarrow> (\<exists>r. GMap r \<in> set rows \<and> string_field r ''UHostId'' = i)"

text \<open>An operation that leaves a synced registry trustworthy.\<close>

definition quiet :: "registry_op \<Rightarrow> bool" where
  "quiet x \<longleftrightarrow> (case x of OpMark action \<Rightarrow> \<not> invalidates_registry action | OpRefresh _ _ _ \<Rightarrow> False)"

lemma described_instances_keys: "mkeys (described_instances rows) = {i. i \<noteq> [] \<and> row_lists rows i}"
proof -
  let ?f = "\<lambda>row m. case row of
       GMap r \<Rightarrow> (let inst = instance_from_map r in if in_id inst = [] then m else mput (in_id inst) inst m)
     | _ \<Rightarrow> m"
  have "mkeys (fold ?f rows m) = mkeys m \<union> {i. i \<noteq> [] \<and> row_lists rows i}" for m
  proof (induction rows arbitrary: m)
    case (Cons row rows)
    have "mkeys (?f row m) = mkeys m \<union> {i. i \<noteq> [] \<and> row_lists [row] i}"
      by (auto simp: row_lists_def Let_def instance_from_map_def split: gval.split)
    moreover have "row_lists (row # rows) i \<longleftrightarrow> row_lists [row] i \<or> row_lists rows i" for i
      by (auto simp: row_lists_def)
    ultimately show ?case using Cons.IH [of "?f row m"] by auto
  qed (simp add: row_lists_def)
  then show ?thesis by (simp add: described_instances_def)
qed

lemma trusted_history:
  assumes "er_last_full_sync (foldl (registry_step uni) new_registry ops) = Some t"
    and "er_last_sync_event (foldl (registry_step uni) new_registry ops) \<noteq> sync_event_failed"
    and "\<not> er_invalidated (foldl (registry_step uni) new_registry ops)"
  shows "\<exists>before result reason rows after. ops = before @ OpRefresh (Inr result) reason t # after \<and>
     mval result ''UHostSet'' = GList rows \<and> list_all quiet after \<and>
     er_instances (foldl (registry_step uni) new_registry ops) = described_instances rows \<and>
     er_truncated (foldl (registry_step uni) new_registry ops)
       = (int (length (described_instances rows)) < int64_field result ''TotalCount'')"
  using assms
proof (induction ops rule: rev_induct)
  case Nil
  then show ?case by (simp add: new_registry_def)
next
  case (snoc x ops)
  let ?r = "foldl (registry_step uni) new_registry ops"
  show ?case
  proof (cases x)
    case (OpMark action)
    then have same: "registry_step uni ?r x = ?r" "quiet x"
      using snoc.prems by (auto simp: registry_step_def mark_invalidated_def quiet_def split: if_splits)
    with snoc.prems have r: "er_last_full_sync ?r = Some t" "er_last_sync_event ?r \<noteq> sync_event_failed" "\<not> er_invalidated ?r"
      by simp_all
    from snoc.IH [OF r] obtain before result reason rows after where h: "ops = before @ OpRefresh (Inr result) reason t # after"
      "mval result ''UHostSet'' = GList rows" "list_all quiet after" "er_instances ?r = described_instances rows"
      "er_truncated ?r = (int (length (described_instances rows)) < int64_field result ''TotalCount'')" by blast
    then show ?thesis
      using same snoc.prems(1) by (intro exI [of _ before] exI [of _ result] exI [of _ reason] exI [of _ rows] exI [of _ "after @ [x]"]) simp
  next
    case (OpRefresh answer reason now)
    with snoc.prems obtain result rows where ok: "answer = Inr result" "mval result ''UHostSet'' = GList rows" "now = t"
      by (auto simp: registry_step_def refresh_result_def record_refresh_failure_def sync_from_describe_def Let_def
          split: sum.splits gval.splits)
    with OpRefresh snoc.prems(1) show ?thesis
      by (intro exI [of _ ops] exI [of _ result] exI [of _ reason] exI [of _ rows] exI [of _ "[]"])
        (simp add: registry_step_def refresh_result_def sync_from_describe_def Let_def)
  qed
qed

text \<open>C19: no verdict about an instance rests on a stale or partial view. Whatever refreshes,
  failures and state-changing actions have happened, a verdict is either what the point query's own
  answer shows, or what the last refresh showed: that refresh succeeded at most thirty seconds ago, read
  the whole account, and neither a failed refresh nor a state-changing action has followed it.\<close>

theorem verdict_grounded:
  assumes "verify_exact_target (snapshot_of dig (foldl (registry_step uni) new_registry ops)) i t describe = v"
    and "v \<noteq> ExistenceUnavailable" and "trim_space i \<noteq> []"
  shows "(\<exists>query raw. describe = Some query \<and> query i = Some raw \<and>
        v = (if describe_response_has_id raw i then ExistenceVerified else ExistenceNotFound)) \<or>
     (\<exists>before result reason now rows after. ops = before @ OpRefresh (Inr result) reason now # after \<and>
        mval result ''UHostSet'' = GList rows \<and> int64_field result ''TotalCount'' \<le> int (length (described_instances rows)) \<and>
        t - now \<le> 30 * 1000000000 \<and> list_all quiet after \<and>
        v = (if row_lists rows i then ExistenceVerified else ExistenceNotFound))"
proof (cases "fresh_and_complete_at (snapshot_of dig (foldl (registry_step uni) new_registry ops)) t")
  case False
  with assms show ?thesis by (auto simp: verify_exact_target_def split: if_splits option.splits)
next
  case True
  let ?r = "foldl (registry_step uni) new_registry ops"
  from True obtain now where now: "er_last_full_sync ?r = Some now" "er_last_sync_event ?r \<noteq> sync_event_failed"
      "\<not> er_invalidated ?r" "t - now \<le> default_registry_freshness_ttl" "\<not> er_truncated ?r"
    by (auto simp: fresh_and_complete_at_def needs_refresh_at_def needs_refresh_of_def snapshot_of_def split: option.splits)
  from trusted_history [OF now(1-3)] obtain before result reason rows after where
    h: "ops = before @ OpRefresh (Inr result) reason now # after" "mval result ''UHostSet'' = GList rows"
      "list_all quiet after" "er_instances ?r = described_instances rows"
      "er_truncated ?r = (int (length (described_instances rows)) < int64_field result ''TotalCount'')" by blast
  have "i \<noteq> []" using assms(3) by auto
  then have "v = (if row_lists rows i then ExistenceVerified else ExistenceNotFound)"
    using assms(1,3) True h(4)
    by (auto simp: verify_exact_target_def snapshot_of_def mhas_iff described_instances_keys)
  moreover have "int64_field result ''TotalCount'' \<le> int (length (described_instances rows))" using h(5) now(5) by simp
  moreover have "t - now \<le> 30 * 1000000000" using now(4) by (simp add: default_registry_freshness_ttl_def)
  ultimately show ?thesis using h(1-3) by blast
qed

definition demo_listing :: gmap where
  "demo_listing = [(''UHostSet'', GList [GMap [(''UHostId'', GStr ''u-1''), (''Name'', GStr ''Box A'')]]), (''TotalCount'', GInt 1)]"

theorem verdict_grounded_witness:
  "\<exists>before result reason now rows after.
     [OpRefresh (Inr demo_listing) RefreshManual 7, OpMark ''ResetPasswordWorkflow''] = before @ OpRefresh (Inr result) reason now # after \<and>
     mval result ''UHostSet'' = GList rows \<and> row_lists rows ''u-1''"
proof -
  let ?ops = "[OpRefresh (Inr demo_listing) RefreshManual 7, OpMark ''ResetPasswordWorkflow'']"
  have "verify_exact_target (snapshot_of (\<lambda>_. []) (foldl (registry_step (\<lambda>_. False)) new_registry ?ops)) ''u-1'' 8 None
      = ExistenceVerified" by code_simp
  moreover have "trim_space ''u-1'' \<noteq> []" by code_simp
  ultimately show ?thesis
    using verdict_grounded [of "\<lambda>_. []" "\<lambda>_. False" ?ops "''u-1''" 8 None ExistenceVerified] by (simp split: if_splits) blast
qed

section \<open>Names\<close>

definition name_owners :: "(string \<Rightarrow> bool) \<Rightarrow> instance_map \<Rightarrow> string \<Rightarrow> instance_snapshot list" where
  "name_owners uni instances n = map snd (filter (\<lambda>(i, inst). normalize_name uni (in_name inst) = n) instances)"

lemma sort_key_Nil_iff [simp]: "sort_key f xs = [] \<longleftrightarrow> xs = []"
  by (metis length_0_conv length_sort)

lemma name_index_get:
  "mget (rebuild_name_index uni instances) n =
     (let ids = map fst (filter (\<lambda>(i, inst). normalize_name uni (in_name inst) = n) instances) in
      if n = [] \<or> ids = [] then None else Some (sort ids))"
proof -
  let ?f = "\<lambda>(i, inst) ix. let key = normalize_name uni (in_name inst) in
        if key = [] then ix
        else mput key ((case mget ix key of None \<Rightarrow> [] | Some ids \<Rightarrow> ids) @ [i]) ix"
  have "mget (fold ?f instances ix) n =
     (let ids = map fst (filter (\<lambda>(i, inst). normalize_name uni (in_name inst) = n) instances) in
      if n = [] \<or> ids = [] then mget ix n
      else Some ((case mget ix n of None \<Rightarrow> [] | Some l \<Rightarrow> l) @ ids))" for ix
    by (induction instances arbitrary: ix) (auto simp: Let_def mget_mput split: option.split)
  then show ?thesis
    by (simp add: rebuild_name_index_def map_of_map comp_def Let_def)
qed

lemma map_filter_lookup:
  assumes "distinct (map fst m)" and "set sub \<subseteq> set m"
  shows "List.map_filter (mget m) (map fst sub) = map snd sub"
  using assms(2)
proof (induction sub)
  case (Cons p sub)
  then have "mget m (fst p) = Some (snd p)" using assms(1) by (simp add: map_of_is_SomeI)
  with Cons show ?case by (simp add: List.map_filter_simps)
qed (simp add: List.map_filter_simps)

lemma mset_map_filter_cong: "mset xs = mset ys \<Longrightarrow> mset (List.map_filter f xs) = mset (List.map_filter f ys)"
  by (simp add: List.map_filter_def)

lemma instances_for_owner_ids:
  assumes "distinct (map fst m)" and "\<forall>(i, inst) \<in> set m. i = in_id inst \<and> i \<noteq> []"
  shows "instances_for_ids m (sort (map fst (filter P m))) = sort_key in_id (map snd (filter P m))"
proof -
  let ?sub = "filter P m"
  have ids: "map in_id (map snd ?sub) = map fst ?sub" using assms(2) by (auto intro!: map_cong)
  have "mset (List.map_filter (mget m) (sort (map fst ?sub))) = mset (map snd ?sub)"
  proof -
    have "mset (List.map_filter (mget m) (sort (map fst ?sub))) = mset (List.map_filter (mget m) (map fst ?sub))"
      by (rule mset_map_filter_cong) simp
    then show ?thesis by (simp only: map_filter_lookup [OF assms(1) filter_is_subset])
  qed
  moreover have "inj_on in_id (set (map snd ?sub))"
  proof -
    have "distinct (map fst ?sub)" using assms(1) by (simp add: distinct_map_filter)
    with ids show ?thesis by (metis distinct_map)
  qed
  ultimately have "sort_key in_id (List.map_filter (mget m) (sort (map fst ?sub))) = sort_key in_id (map snd ?sub)"
    by (intro sort_key_inj_key_eq) (simp_all add: set_mset_mset [symmetric] del: set_mset_mset)
  then show ?thesis by (simp add: instances_for_ids_def slice_stable_sort_key)
qed

lemma exact_name:
  assumes "registry_ok uni r" and "normalize_name uni (trim_space name) = n" and "n \<noteq> []"
    and "name_owners uni (er_instances r) n \<noteq> []"
  shows "resolve_by_name uni r name = matches_result (trim_space name) (sort_key in_id (name_owners uni (er_instances r) n))"
proof -
  let ?P = "\<lambda>(i, inst). normalize_name uni (in_name inst) = n"
  from assms(1) have ok: "distinct (map fst (er_instances r))" "\<forall>(i, inst) \<in> set (er_instances r). i = in_id inst \<and> i \<noteq> []"
    and ix: "er_name_index r = rebuild_name_index uni (er_instances r)" by (simp_all add: registry_ok_def)
  have "mget (er_name_index r) n = Some (sort (map fst (filter ?P (er_instances r))))"
    using assms(3,4) unfolding ix by (simp add: name_index_get Let_def name_owners_def)
  moreover have "sort (map fst (filter ?P (er_instances r))) \<noteq> []"
    using assms(4) by (simp add: name_owners_def)
  ultimately show ?thesis
    using assms(2,3) instances_for_owner_ids [OF ok, of ?P]
    by (simp add: resolve_by_name_def resolve_by_name_in_def Let_def name_owners_def)
qed

text \<open>An exact name never resolves to a guess. In every reachable registry, when some instance's
  normalised name is the normalised mention, the candidates are exactly the instances of that name in
  the order of their ids: a hit when there is one, an ambiguity when there are several; ids that occur
  in the text and similar names play no part.\<close>

theorem exact_name_resolves:
  assumes "r = foldl (registry_step uni) new_registry ops" and "normalize_name uni (trim_space name) = n" and "n \<noteq> []"
    and "owners = sort_key in_id (name_owners uni (er_instances r) n)" and "owners \<noteq> []"
  shows "fst (resolve_by_name uni r name) = owners \<and>
     rr_candidates (snd (resolve_by_name uni r name)) = map in_id owners \<and> distinct (map in_id owners) \<and>
     (rr_status (snd (resolve_by_name uni r name)) = ResolveHit \<longleftrightarrow> length owners = 1) \<and>
     (rr_status (snd (resolve_by_name uni r name)) = ResolveAmbiguous \<longleftrightarrow> 1 < length owners)"
proof -
  have ok: "registry_ok uni r" unfolding assms(1) by (rule er.inv_run)
  have "resolve_by_name uni r name = matches_result (trim_space name) owners"
    using exact_name [OF ok assms(2,3)] assms(4,5) by simp
  moreover have "distinct (map in_id owners)"
  proof -
    have "map in_id (name_owners uni (er_instances r) n)
        = map fst (filter (\<lambda>(i, inst). normalize_name uni (in_name inst) = n) (er_instances r))"
      using ok by (auto simp: registry_ok_def name_owners_def intro!: map_cong)
    then have "distinct (map in_id (name_owners uni (er_instances r) n))"
      using ok by (simp add: registry_ok_def distinct_map_filter)
    then show ?thesis unfolding assms(4) by (simp add: distinct_map)
  qed
  ultimately show ?thesis using assms(5) by (cases owners) (auto simp: matches_result_def resolved_as_def)
qed

theorem exact_name_resolves_witness:
  "fst (resolve_by_name (\<lambda>_. False) (foldl (registry_step (\<lambda>_. False)) new_registry [OpRefresh (Inr demo_listing) RefreshManual 7]) '' box-a'')
     \<noteq> []"
proof -
  let ?r = "foldl (registry_step (\<lambda>_. False)) new_registry [OpRefresh (Inr demo_listing) RefreshManual 7]"
  have "normalize_name (\<lambda>_. False) (trim_space '' box-a'') = ''boxa''" by code_simp
  moreover have "sort_key in_id (name_owners (\<lambda>_. False) (er_instances ?r) ''boxa'') \<noteq> []" by code_simp
  ultimately show ?thesis
    using exact_name_resolves [of ?r "\<lambda>_. False" "[OpRefresh (Inr demo_listing) RefreshManual 7]" "'' box-a''" "''boxa''"] by simp
qed

section \<open>Ids inside a text\<close>

text \<open>C21: a text names an instance exactly when its id occurs, in any case, as a whole token: no ASCII
  letter, digit or underscore stands directly before or after the occurrence, so an id is never found
  as a part of a longer one.\<close>

theorem literal_span_iff:
  "contains_literal_instance_id_span text i \<longleftrightarrow> trim_space i \<noteq> [] \<and>
     (\<exists>a b. to_lower (trim_space text) = a @ to_lower (trim_space i) @ b \<and>
        (a = [] \<or> \<not> instance_id_adjacent_byte (last a)) \<and> (b = [] \<or> \<not> instance_id_adjacent_byte (hd b)))"
proof -
  let ?t = "to_lower (trim_space text)" and ?i = "to_lower (trim_space i)"
  have span: "id_span_at ?t ?i k \<longleftrightarrow> (\<exists>a b. length a = k \<and> ?t = a @ ?i @ b \<and>
      (a = [] \<or> \<not> instance_id_adjacent_byte (last a)) \<and> (b = [] \<or> \<not> instance_id_adjacent_byte (hd b)))"
    if "k + length ?i \<le> length ?t" for k
  proof
    assume s: "id_span_at ?t ?i k"
    have t: "?t = take k ?t @ ?i @ drop (k + length ?i) ?t"
      using s that unfolding id_span_at_def
      by (metis append_take_drop_id drop_drop add.commute)
    have "take k ?t = [] \<or> \<not> instance_id_adjacent_byte (last (take k ?t))"
    proof (cases "k = 0")
      case False
      have "k \<le> length ?t" using that by simp
      with False have "last (take k ?t) = ?t ! (k - 1)" by (subst last_conv_nth) (auto simp: min_absorb2)
      with s False show ?thesis by (simp add: id_span_at_def)
    qed simp
    moreover have "drop (k + length ?i) ?t = [] \<or> \<not> instance_id_adjacent_byte (hd (drop (k + length ?i) ?t))"
      using s by (auto simp: id_span_at_def hd_drop_conv_nth)
    ultimately show "\<exists>a b. length a = k \<and> ?t = a @ ?i @ b \<and>
      (a = [] \<or> \<not> instance_id_adjacent_byte (last a)) \<and> (b = [] \<or> \<not> instance_id_adjacent_byte (hd b))"
      using t that by (intro exI [of _ "take k ?t"] exI [of _ "drop (k + length ?i) ?t"]) simp
  next
    assume "\<exists>a b. length a = k \<and> ?t = a @ ?i @ b \<and>
      (a = [] \<or> \<not> instance_id_adjacent_byte (last a)) \<and> (b = [] \<or> \<not> instance_id_adjacent_byte (hd b))"
    then obtain a b where ab: "length a = k" "?t = a @ ?i @ b" "a = [] \<or> \<not> instance_id_adjacent_byte (last a)"
      "b = [] \<or> \<not> instance_id_adjacent_byte (hd b)" by blast
    have "k = 0 \<or> \<not> instance_id_adjacent_byte (?t ! (k - 1))"
      using ab by (cases a rule: rev_cases) (auto simp: nth_append)
    moreover have "k + length ?i < length ?t \<longrightarrow> \<not> instance_id_adjacent_byte (?t ! (k + length ?i))"
      using ab by (cases b) (auto simp: nth_append)
    ultimately show "id_span_at ?t ?i k" using ab by (simp add: id_span_at_def)
  qed
  have nonempty: "?i \<noteq> [] \<longleftrightarrow> trim_space i \<noteq> []" by (simp add: to_lower_def)
  show ?thesis
  proof (cases "?i \<noteq> [] \<and> length ?i \<le> length ?t")
    case True
    then have "contains_literal_instance_id_span text i \<longleftrightarrow> (\<exists>k \<le> length ?t - length ?i. id_span_at ?t ?i k)"
      by (auto simp: contains_literal_instance_id_span_def Let_def list_ex_iff less_Suc_eq_le simp del: upt_Suc)
    also have "\<dots> \<longleftrightarrow> (\<exists>a b. ?t = a @ ?i @ b \<and> (a = [] \<or> \<not> instance_id_adjacent_byte (last a)) \<and>
        (b = [] \<or> \<not> instance_id_adjacent_byte (hd b)))"
    proof
      assume "\<exists>k \<le> length ?t - length ?i. id_span_at ?t ?i k"
      then obtain k where k: "k + length ?i \<le> length ?t" "id_span_at ?t ?i k" using True by (auto simp: le_diff_conv2)
      from span [OF k(1)] k(2) show "\<exists>a b. ?t = a @ ?i @ b \<and> (a = [] \<or> \<not> instance_id_adjacent_byte (last a)) \<and>
        (b = [] \<or> \<not> instance_id_adjacent_byte (hd b))" by blast
    next
      assume "\<exists>a b. ?t = a @ ?i @ b \<and> (a = [] \<or> \<not> instance_id_adjacent_byte (last a)) \<and>
        (b = [] \<or> \<not> instance_id_adjacent_byte (hd b))"
      then obtain a b where ab: "?t = a @ ?i @ b" "(a = [] \<or> \<not> instance_id_adjacent_byte (last a)) \<and>
        (b = [] \<or> \<not> instance_id_adjacent_byte (hd b))" by blast
      then have len: "length a + length ?i \<le> length ?t" by (metis add.assoc le_add1 length_append)
      with span [OF this] ab have "id_span_at ?t ?i (length a)" by blast
      moreover have "length a \<le> length ?t - length ?i" using len by simp
      ultimately show "\<exists>k \<le> length ?t - length ?i. id_span_at ?t ?i k" by blast
    qed
    finally show ?thesis using True nonempty by simp
  next
    case False
    then show ?thesis using nonempty by (auto simp: contains_literal_instance_id_span_def Let_def)
  qed
qed

theorem literal_span_iff_witness:
  "contains_literal_instance_id_span ''8188-CPOD-abc-s1'' ''cpod-abc''"
proof -
  have "trim_space ''cpod-abc'' \<noteq> []" by code_simp
  moreover have "to_lower (trim_space ''8188-CPOD-abc-s1'') = ''8188-'' @ to_lower (trim_space ''cpod-abc'') @ ''-s1'' \<and>
    \<not> instance_id_adjacent_byte (last ''8188-'') \<and> \<not> instance_id_adjacent_byte (hd ''-s1'')" by code_simp
  ultimately show ?thesis unfolding literal_span_iff by blast
qed

end
