(* ===== verification/ActionResolver.thy ===== *)
theory ActionResolver
  imports Seal Security ImageResolve
begin

text \<open>
  The action resolver (\<open>internal/actionresolver\<close>): it adjudicates the model's proposal (an
  operation and slot values) against the operation's fields and the live catalogs of the turn,
  and sorts every problem into one of four refusal channels.

  The refusal texts are constructors that name the case. \<open>Rejected\<close> and \<open>RejectedProblems\<close>
  are one list here, as the source keeps them in lockstep; the order in which the texts are
  shown is not modelled. A Go map is iterated in some order; the results that depend on it are
  sorted by the source, and so they are here.
\<close>

section \<open>Types\<close>

record slot_candidate =
  sl_name :: string
  sl_value :: gval

record action_proposal =
  ap_turn_id :: string
  ap_operation :: string
  ap_slots :: "slot_candidate list"

datatype slot_codec =
    CodecResourceRef | CodecMachineType | CodecZone | CodecImage | CodecCapacity | CodecInteger
  | CodecNumber | CodecBoolean | CodecEnum | CodecTime | CodecConstrainedText | CodecSensitiveText
  | CodecStructured

record field_spec =
  fs_name :: string
  fs_required :: bool
  fs_codec :: slot_codec
  fs_enum :: "string list"
  fs_target :: bool
  fs_target_kind :: string

datatype intake_mode = IntakeNone | IntakeGuided

record intake_spec =
  in_mode :: intake_mode
  in_collectable :: "string list"

record operation_spec =
  os_operation :: string
  os_fields :: "(string \<times> field_spec) list"
  os_needs_zone_catalog :: bool
  os_needs_confirm :: bool
  os_risk :: level
  os_validate :: "(gmap \<Rightarrow> gerr option) option"
  os_intake :: intake_spec

record gate_contract =
  gc_executor :: string
  gc_risk :: level
  gc_requires_permission :: bool
  gc_requires_confirmation :: bool

datatype rejection_kind =
    RejectInvalidValue | RejectUnknownOperation | RejectUnknownField | RejectTargetNotExist
  | RejectOperationContract

datatype codec_reason =
    NotMachineTypeName | NotZoneName | NotImageId | NotResourceId | ResourceIdTooLong
  | ResourceIdHasSpace | NotText | TextTooLong | NotString | OutsideEnum | NotPositiveInteger
  | NotPositiveCapacity | NotNonNegative | NotBoolean | NotStructured
  | UnknownMachineType string | UnknownZone string | UnknownImage string

datatype reject_reason =
    UnknownOperation | UnknownSlot string | InvalidSlot string codec_reason
  | TargetUnconfirmed string | ContractFailed gerr

record rejected_problem =
  rj_slot :: string
  rj_kind :: rejection_kind
  rj_reason :: reject_reason

record conflict =
  cf_slot :: string
  cf_candidates :: "slot_candidate list"
  cf_catalog :: "string list"

datatype dependency = MachineTypesDown | ZonesDown | ImagesDown | TargetUnverifiable

record resolved_action =
  ra_turn_id :: string
  ra_operation :: string
  ra_arguments :: gmap
  ra_missing :: "string list"
  ra_conflicts :: "conflict list"
  ra_rejected :: "rejected_problem list"
  ra_dependencies :: "(string \<times> dependency) list"
  ra_needs_confirm :: bool
  ra_ready_confirm :: bool
  ra_ready_intake :: bool
  ra_confirmation :: "(string \<times> gmap) option"
  ra_gate :: "gate_contract option"

datatype target_verdict = TargetReject | TargetAccept | TargetDependencyFailure

record machine_types =
  mt_names :: "string list"
  mt_available :: bool

record resolver_env =
  rv_catalog :: "(string \<times> operation_spec) list"
  rv_verifier :: "(slot_candidate \<Rightarrow> target_verdict) option"
  rv_machine_types :: machine_types
  rv_zones :: "zone_row snapshot option"
  rv_images :: "image_row snapshot option"

section \<open>Live catalogs\<close>

datatype catalog_match = Matched string | AmbiguousMatch "string list" | UnknownMatch | CatalogDown

text \<open>Zero hits: unknown; one: it; several: ambiguous.\<close>

definition match_of_hits :: "string list \<Rightarrow> catalog_match" where
  "match_of_hits hits = (case hits of [] \<Rightarrow> UnknownMatch | [h] \<Rightarrow> Matched h | _ \<Rightarrow> AmbiguousMatch hits)"

definition zone_hit :: "zone_row snapshot option \<Rightarrow> string \<Rightarrow> string \<Rightarrow> bool" where
  "zone_hit snap value i \<longleftrightarrow> equal_fold i value \<or> equal_fold (snapshot_label snap i) value"

definition canonical_zone :: "string \<Rightarrow> zone_row snapshot option \<Rightarrow> catalog_match" where
  "canonical_zone raw snap =
     (let value = trim_space raw; ids = snapshot_ids snap in
      if \<not> snapshot_available snap then CatalogDown
      else if value = [] then UnknownMatch
      else if value \<in> set ids then Matched value
      else match_of_hits (filter (zone_hit snap value) (uniq_by (\<lambda>i. i) [] ids)))"

definition match_catalog :: "string \<Rightarrow> string list \<Rightarrow> (string \<Rightarrow> string \<Rightarrow> bool) \<Rightarrow> string list" where
  "match_catalog value names eq = uniq_by (\<lambda>n. n) [] (filter (\<lambda>n. n \<noteq> [] \<and> eq n value) names)"

definition fold_machine_type :: "string \<Rightarrow> string" where
  "fold_machine_type s =
     to_upper (filter (\<lambda>c. c \<noteq> CHR '' '' \<and> c \<noteq> CHR ''-'' \<and> c \<noteq> CHR ''_'') (trim_space s))"

definition canonical_machine_type :: "string \<Rightarrow> machine_types \<Rightarrow> catalog_match" where
  "canonical_machine_type raw mt =
     (let value = trim_space raw in
      if \<not> mt_available mt then CatalogDown
      else if value = [] then UnknownMatch
      else
        (let exact = match_catalog value (mt_names mt) (=);
             folded = match_catalog value (mt_names mt) equal_fold;
             loose = match_catalog value (mt_names mt) (\<lambda>a b. fold_machine_type a = fold_machine_type b)
         in if length exact = 1 then Matched (hd exact)
            else match_of_hits (if folded = [] then loose else folded)))"

section \<open>Codecs\<close>

datatype codec_result =
    CodecValue gval | CodecDependency dependency | CodecAmbiguity "string list" | CodecInvalid codec_reason

definition text_value :: "gval \<Rightarrow> string option" where
  "text_value v = (case v of GStr s \<Rightarrow> if trim_space s = [] then None else Some (trim_space s) | _ \<Rightarrow> None)"

definition matched_value :: "dependency \<Rightarrow> codec_reason \<Rightarrow> catalog_match \<Rightarrow> codec_result" where
  "matched_value down unknown m = (case m of
       Matched s \<Rightarrow> CodecValue (GStr s) | CatalogDown \<Rightarrow> CodecDependency down
     | AmbiguousMatch cs \<Rightarrow> CodecAmbiguity cs | UnknownMatch \<Rightarrow> CodecInvalid unknown)"

definition image_id_request :: "string \<Rightarrow> image_request" where
  "image_id_request i = \<lparr>ir_id = i, ir_name = [], ir_framework = [], ir_cuda = [], ir_os = [],
     ir_python = [], ir_tag = [], ir_gpu = [], ir_zone = [], ir_is_pod = False, ir_source = [],
     ir_prefiltered = False\<rparr>"

definition canonical_image_value :: "image_row snapshot option \<Rightarrow> string \<Rightarrow> codec_result" where
  "canonical_image_value snap text =
     (let res = resolve_image snap (image_id_request text) in
      case rn_status res of
        ResolutionResolved \<Rightarrow>
          CodecValue (GStr (case rn_selection res of None \<Rightarrow> [] | Some sel \<Rightarrow> se_id sel))
      | ResolutionCatalogUnavailable \<Rightarrow> CodecDependency ImagesDown
      | _ \<Rightarrow> CodecInvalid (UnknownImage text))"

definition as_number :: "gval \<Rightarrow> gfloat option" where
  "as_number v = (case v of
       GFloat x \<Rightarrow> Some x | GFloat32 x \<Rightarrow> Some x
     | GInt n \<Rightarrow> Some (Fin (of_int n)) | GInt64 n \<Rightarrow> Some (Fin (of_int n))
     | GNumber s \<Rightarrow> parse_float s | GStr s \<Rightarrow> parse_float (trim_space s) | _ \<Rightarrow> None)"

fun capacity_suffix :: "string list \<Rightarrow> string \<Rightarrow> gfloat option" where
  "capacity_suffix [] text = None"
| "capacity_suffix (suf # sufs) text = (case cut_suffix text suf of
       Some n \<Rightarrow> parse_float (trim_space n)
     | None \<Rightarrow> capacity_suffix sufs text)"

definition normalize_capacity_gb :: "gval \<Rightarrow> gfloat option" where
  "normalize_capacity_gb v = (case as_number v of
       Some x \<Rightarrow> Some x
     | None \<Rightarrow> (case v of
           GStr s \<Rightarrow> capacity_suffix [''GIB'', ''GB'', ''G''] (trim_space (to_upper s))
         | _ \<Rightarrow> None))"

definition positive_integer :: "gfloat option \<Rightarrow> bool" where
  "positive_integer x = (case x of None \<Rightarrow> False
     | Some f \<Rightarrow> \<not> flt_le f (Fin 0) \<and> flt_eq (flt_trunc f) f)"

definition number_value :: "gfloat option \<Rightarrow> gval" where
  "number_value x = (case x of None \<Rightarrow> GNil | Some f \<Rightarrow> GFloat f)"

definition normalize_value :: "resolver_env \<Rightarrow> field_spec \<Rightarrow> gval \<Rightarrow> codec_result" where
  "normalize_value r fd v = (case fs_codec fd of
       CodecMachineType \<Rightarrow> (case text_value v of
           None \<Rightarrow> CodecInvalid NotMachineTypeName
         | Some t \<Rightarrow> matched_value MachineTypesDown (UnknownMachineType t)
                       (canonical_machine_type t (rv_machine_types r)))
     | CodecZone \<Rightarrow> (case text_value v of
           None \<Rightarrow> CodecInvalid NotZoneName
         | Some t \<Rightarrow> matched_value ZonesDown (UnknownZone t) (canonical_zone t (rv_zones r)))
     | CodecImage \<Rightarrow> (case text_value v of
           None \<Rightarrow> CodecInvalid NotImageId
         | Some t \<Rightarrow> canonical_image_value (rv_images r) t)
     | CodecResourceRef \<Rightarrow> (case text_value v of
           None \<Rightarrow> CodecInvalid NotResourceId
         | Some t \<Rightarrow> if 128 < rune_count t then CodecInvalid ResourceIdTooLong
                     else if list_ex is_space t then CodecInvalid ResourceIdHasSpace
                     else CodecValue (GStr t))
     | CodecEnum \<Rightarrow> (case v of
           GStr s \<Rightarrow> if s \<in> set (fs_enum fd) then CodecValue v else CodecInvalid OutsideEnum
         | _ \<Rightarrow> CodecInvalid NotString)
     | CodecInteger \<Rightarrow> if positive_integer (as_number v) then CodecValue (number_value (as_number v))
                       else CodecInvalid NotPositiveInteger
     | CodecCapacity \<Rightarrow> if positive_integer (normalize_capacity_gb v)
                       then CodecValue (number_value (normalize_capacity_gb v))
                       else CodecInvalid NotPositiveCapacity
     | CodecNumber \<Rightarrow> (case as_number v of
           None \<Rightarrow> CodecInvalid NotNonNegative
         | Some x \<Rightarrow> if flt_less x (Fin 0) then CodecInvalid NotNonNegative else CodecValue (GFloat x))
     | CodecBoolean \<Rightarrow> (case v of GBool b \<Rightarrow> CodecValue v | _ \<Rightarrow> CodecInvalid NotBoolean)
     | CodecStructured \<Rightarrow> (case v of
           GList _ \<Rightarrow> CodecValue v | GMap _ \<Rightarrow> CodecValue v | _ \<Rightarrow> CodecInvalid NotStructured)
     | _ \<Rightarrow> (case text_value v of
           None \<Rightarrow> CodecInvalid NotText
         | Some t \<Rightarrow> if 512 < rune_count t then CodecInvalid TextTooLong else CodecValue (GStr t)))"

text \<open>Values are compared as JSON documents; a value JSON rejects marshals to the empty text.\<close>

definition marshal_value :: "gval \<Rightarrow> jval option" where
  "marshal_value v = (let j = jcanon v in if jbad j then None else Some j)"

definition same_value :: "gval \<Rightarrow> gval \<Rightarrow> bool" where
  "same_value a b = (marshal_value a = marshal_value b)"

section \<open>Resolve\<close>

definition adjudicate_target :: "resolver_env \<Rightarrow> slot_candidate \<Rightarrow> target_verdict" where
  "adjudicate_target r c = (case rv_verifier r of None \<Rightarrow> TargetReject | Some f \<Rightarrow> f c)"

text \<open>What the loop over the proposed slots collects.\<close>

record adjudication =
  aj_rejected :: "rejected_problem list"
  aj_conflicts :: "conflict list"
  aj_dependencies :: "(string \<times> dependency) list"
  aj_adjudicated :: "string list"
  aj_accepted :: "slot_candidate list"

definition no_adjudication :: adjudication where
  "no_adjudication = \<lparr>aj_rejected = [], aj_conflicts = [], aj_dependencies = [], aj_adjudicated = [],
     aj_accepted = []\<rparr>"

definition reject_slot :: "string \<Rightarrow> rejection_kind \<Rightarrow> reject_reason \<Rightarrow> adjudication \<Rightarrow> adjudication" where
  "reject_slot slot kind reason a =
     a\<lparr>aj_rejected := aj_rejected a @ [\<lparr>rj_slot = slot, rj_kind = kind, rj_reason = reason\<rparr>]\<rparr>"

definition mark_adjudicated :: "string \<Rightarrow> adjudication \<Rightarrow> adjudication" where
  "mark_adjudicated name a = a\<lparr>aj_adjudicated := name # aj_adjudicated a\<rparr>"

definition adjudicate_slot :: "resolver_env \<Rightarrow> operation_spec \<Rightarrow> slot_candidate \<Rightarrow> adjudication \<Rightarrow> adjudication" where
  "adjudicate_slot r spec c a =
     (let name = trim_space (sl_name c) in
      case mget (os_fields spec) name of
        None \<Rightarrow> reject_slot name RejectUnknownField (UnknownSlot name) a
      | Some fd \<Rightarrow>
          (case normalize_value r fd (sl_value c) of
             CodecDependency d \<Rightarrow>
               mark_adjudicated name (a\<lparr>aj_dependencies := aj_dependencies a @ [(name, d)]\<rparr>)
           | CodecAmbiguity cs \<Rightarrow>
               mark_adjudicated name (a\<lparr>aj_conflicts := aj_conflicts a @
                 [\<lparr>cf_slot = name, cf_candidates = [], cf_catalog = cs\<rparr>]\<rparr>)
           | CodecInvalid why \<Rightarrow>
               mark_adjudicated name (reject_slot name RejectInvalidValue (InvalidSlot name why) a)
           | CodecValue v \<Rightarrow>
               (let c' = \<lparr>sl_name = name, sl_value = v\<rparr>;
                    accept = a\<lparr>aj_accepted := aj_accepted a @ [c']\<rparr>
                in if \<not> fs_target fd then accept
                   else case adjudicate_target r c' of
                     TargetAccept \<Rightarrow> accept
                   | TargetDependencyFailure \<Rightarrow>
                       mark_adjudicated name
                         (a\<lparr>aj_dependencies := aj_dependencies a @ [(name, TargetUnverifiable)]\<rparr>)
                   | TargetReject \<Rightarrow>
                       mark_adjudicated name
                         (reject_slot name RejectTargetNotExist (TargetUnconfirmed name) a))))"

definition adjudicate_slots :: "resolver_env \<Rightarrow> operation_spec \<Rightarrow> slot_candidate list \<Rightarrow> adjudication" where
  "adjudicate_slots r spec cs = fold (adjudicate_slot r spec) cs no_adjudication"

text \<open>The group of a name, and its winner when the candidates agree.\<close>

definition slot_group :: "adjudication \<Rightarrow> string \<Rightarrow> slot_candidate list" where
  "slot_group a name = filter (\<lambda>c. sl_name c = name) (aj_accepted a)"

definition resolve_candidates :: "slot_candidate list \<Rightarrow> slot_candidate option" where
  "resolve_candidates cs = (case cs of
       [] \<Rightarrow> None
     | c # rest \<Rightarrow> if list_all (\<lambda>d. same_value (sl_value c) (sl_value d)) rest then Some c else None)"

definition group_names :: "adjudication \<Rightarrow> string list" where
  "group_names a = uniq_by (\<lambda>n. n) [] (map sl_name (aj_accepted a))"

definition decided_arguments :: "adjudication \<Rightarrow> gmap" where
  "decided_arguments a = List.map_filter
     (\<lambda>n. map_option (\<lambda>c. (n, sl_value c)) (resolve_candidates (slot_group a n))) (group_names a)"

definition disagreeing_names :: "adjudication \<Rightarrow> string list" where
  "disagreeing_names a = filter (\<lambda>n. resolve_candidates (slot_group a n) = None) (group_names a)"

definition all_conflicts :: "adjudication \<Rightarrow> conflict list" where
  "all_conflicts a = sort_key cf_slot (aj_conflicts a @
     map (\<lambda>n. \<lparr>cf_slot = n, cf_candidates = slot_group a n, cf_catalog = []\<rparr>) (disagreeing_names a))"

definition missing_fields :: "operation_spec \<Rightarrow> adjudication \<Rightarrow> string list" where
  "missing_fields spec a = sort (map fst (filter (\<lambda>(n, fd). fs_required fd \<and>
     \<not> mhas (decided_arguments a) n \<and> n \<notin> set (aj_adjudicated a) \<and> n \<notin> set (disagreeing_names a))
     (os_fields spec)))"

text \<open>The operation's own validator runs only on a proposal without other problems.\<close>

definition contract_rejection :: "operation_spec \<Rightarrow> adjudication \<Rightarrow> rejected_problem list" where
  "contract_rejection spec a =
     (if missing_fields spec a = [] \<and> all_conflicts a = [] \<and> aj_rejected a = [] \<and> aj_dependencies a = []
      then (case os_validate spec of
              None \<Rightarrow> []
            | Some f \<Rightarrow> (case f (decided_arguments a) of
                  None \<Rightarrow> []
                | Some e \<Rightarrow> [\<lparr>rj_slot = [], rj_kind = RejectOperationContract, rj_reason = ContractFailed e\<rparr>]))
      else [])"

definition every_missing_collectable :: "string list \<Rightarrow> string list \<Rightarrow> bool" where
  "every_missing_collectable missing collectable = list_all (\<lambda>n. n \<in> set collectable) missing"

definition every_rejection_form_correctable :: "rejected_problem list \<Rightarrow> string list \<Rightarrow> bool" where
  "every_rejection_form_correctable ps collectable =
     list_all (\<lambda>p. rj_kind p = RejectInvalidValue \<and> rj_slot p \<in> set collectable) ps"

definition every_conflict_collectable :: "conflict list \<Rightarrow> string list \<Rightarrow> bool" where
  "every_conflict_collectable cs collectable = list_all (\<lambda>c. cf_slot c \<in> set collectable) cs"

definition preview_arguments :: "operation_spec \<Rightarrow> gmap \<Rightarrow> gmap" where
  "preview_arguments spec args = map (\<lambda>(n, v).
     (n, case mget (os_fields spec) n of
           Some fd \<Rightarrow> if fs_codec fd = CodecSensitiveText then GStr ''[REDACTED]'' else v
         | None \<Rightarrow> v)) args"

definition unknown_operation :: "action_proposal \<Rightarrow> resolved_action" where
  "unknown_operation p =
     \<lparr>ra_turn_id = ap_turn_id p, ra_operation = ap_operation p, ra_arguments = [], ra_missing = [],
      ra_conflicts = [],
      ra_rejected = [\<lparr>rj_slot = [], rj_kind = RejectUnknownOperation, rj_reason = UnknownOperation\<rparr>],
      ra_dependencies = [], ra_needs_confirm = False, ra_ready_confirm = False, ra_ready_intake = False,
      ra_confirmation = None, ra_gate = None\<rparr>"

definition resolve_action :: "resolver_env \<Rightarrow> action_proposal \<Rightarrow> resolved_action" where
  "resolve_action r p = (case mget (rv_catalog r) (ap_operation p) of
       None \<Rightarrow> unknown_operation p
     | Some spec \<Rightarrow>
         (let a = adjudicate_slots r spec (ap_slots p);
              args = decided_arguments a; missing = missing_fields spec a; conflicts = all_conflicts a;
              rejected = aj_rejected a @ contract_rejection spec a; deps = aj_dependencies a;
              ready = (missing = [] \<and> conflicts = [] \<and> rejected = [] \<and> deps = []);
              collectable = in_collectable (os_intake spec)
          in \<lparr>ra_turn_id = ap_turn_id p, ra_operation = ap_operation p, ra_arguments = args,
              ra_missing = missing, ra_conflicts = conflicts, ra_rejected = rejected, ra_dependencies = deps,
              ra_needs_confirm = os_needs_confirm spec, ra_ready_confirm = ready,
              ra_ready_intake = (\<not> ready \<and> in_mode (os_intake spec) = IntakeGuided \<and> deps = [] \<and>
                (missing \<noteq> [] \<or> rejected \<noteq> [] \<or> conflicts \<noteq> []) \<and>
                every_missing_collectable missing collectable \<and>
                every_rejection_form_correctable rejected collectable \<and>
                every_conflict_collectable conflicts collectable),
              ra_confirmation = (if ready then Some (ap_operation p, preview_arguments spec args) else None),
              ra_gate = Some \<lparr>gc_executor = ''SafeToolExecutor'', gc_risk = os_risk spec,
                gc_requires_permission = True, gc_requires_confirmation = os_needs_confirm spec\<rparr>\<rparr>))"

section \<open>The operation catalog\<close>

definition string_slice :: "gval \<Rightarrow> string list" where
  "string_slice v = (case v of
       GStrs ss \<Rightarrow> ss
     | GList vs \<Rightarrow> List.map_filter (\<lambda>x. case x of GStr s \<Rightarrow> Some s | _ \<Rightarrow> None) vs
     | _ \<Rightarrow> [])"

definition target_kind_from_field :: "string \<Rightarrow> string" where
  "target_kind_from_field name =
     (if name = ''UHostId'' then ''instance''
      else if name = ''UDiskId'' \<or> name = ''DiskId'' then ''disk''
      else if name = ''CfsId'' then ''cfs''
      else [])"

definition is_target_field :: "string \<Rightarrow> bool" where
  "is_target_field name = (target_kind_from_field name \<noteq> [])"

definition codec_from_schema :: "string \<Rightarrow> gmap \<Rightarrow> bool \<Rightarrow> slot_codec" where
  "codec_from_schema name schema sensitive =
     (if sensitive then CodecSensitiveText
      else if is_target_field name then CodecResourceRef
      else if name = ''GpuType'' then CodecMachineType
      else if name = ''Zone'' then CodecZone
      else if name = ''CompShareImageId'' then CodecImage
      else if name \<in> {''Size'', ''Memory'', ''SystemDiskSize'', ''DataDiskSize''} then CodecCapacity
      else if string_slice (mval schema ''enum'') \<noteq> [] then CodecEnum
      else case mval schema ''type'' of
        GStr t \<Rightarrow>
          if t = ''integer'' then CodecInteger
          else if t = ''number'' then CodecNumber
          else if t = ''boolean'' then CodecBoolean
          else if t = ''string'' then CodecConstrainedText
          else CodecStructured
      | _ \<Rightarrow> CodecStructured)"

definition field_from_schema :: "string list \<Rightarrow> string list \<Rightarrow> string \<Rightarrow> gmap \<Rightarrow> field_spec" where
  "field_from_schema required sensitive name schema =
     \<lparr>fs_name = name, fs_required = (name \<in> set required),
      fs_codec = codec_from_schema name schema (name \<in> set sensitive),
      fs_enum = string_slice (mval schema ''enum''), fs_target = is_target_field name,
      fs_target_kind = target_kind_from_field name\<rparr>"

fun fields_from_properties :: "string list \<Rightarrow> string list \<Rightarrow> gmap \<Rightarrow> (string \<times> field_spec) list option" where
  "fields_from_properties required sensitive [] = Some []"
| "fields_from_properties required sensitive ((name, v) # ps) = (case v of
       GMap schema \<Rightarrow> map_option ((#) (name, field_from_schema required sensitive name schema))
                        (fields_from_properties required sensitive ps)
     | _ \<Rightarrow> None)"

text \<open>\<open>None\<close>: the parameters are no object schema, or a field's schema is invalid.\<close>

definition fields_from_parameters :: "gval \<Rightarrow> string list \<Rightarrow> (string \<times> field_spec) list option" where
  "fields_from_parameters raw sensitive = (case raw of
       GMap params \<Rightarrow> (case mval params ''properties'' of
           GMap props \<Rightarrow> fields_from_properties (string_slice (mval params ''required'')) sensitive props
         | _ \<Rightarrow> None)
     | _ \<Rightarrow> None)"

definition intake_spec_for_operation :: "bool \<Rightarrow> string list \<Rightarrow> (string \<times> field_spec) list \<Rightarrow> intake_spec option" where
  "intake_spec_for_operation guided collectable fds =
     (if \<not> guided then Some \<lparr>in_mode = IntakeNone, in_collectable = []\<rparr>
      else if collectable = [] then None
      else if list_all (\<lambda>n. case mget fds n of
             None \<Rightarrow> False
           | Some fd \<Rightarrow> \<not> fs_target fd \<and> fs_codec fd \<noteq> CodecSensitiveText) collectable
      then Some \<lparr>in_mode = IntakeGuided, in_collectable = sort collectable\<rparr>
      else None)"

definition spec_needs_zone_catalog :: "operation_spec \<Rightarrow> bool" where
  "spec_needs_zone_catalog spec =
     (os_needs_zone_catalog spec \<or> list_ex (\<lambda>(n, fd). fs_codec fd = CodecZone) (os_fields spec))"

definition spec_needs_machine_types :: "operation_spec \<Rightarrow> bool" where
  "spec_needs_machine_types spec = list_ex (\<lambda>(n, fd). fs_codec fd = CodecMachineType) (os_fields spec)"

definition spec_needs_image_catalog :: "operation_spec \<Rightarrow> bool" where
  "spec_needs_image_catalog spec = list_ex (\<lambda>(n, fd). fs_codec fd = CodecImage) (os_fields spec)"

text \<open>The validator of \<open>ResizeInstanceWorkflow\<close>; the other two are in the theories of their workflows.\<close>

definition validate_resize :: "gmap \<Rightarrow> gerr option" where
  "validate_resize args =
     (if list_ex (mhas args) [''Cpu'', ''Memory'', ''Gpu''] then None
      else Some (plain_err ''at least one target specification is required''))"

end
