(* ===== verification/ActionResolverProps.thy ===== *)
theory ActionResolverProps
  imports ActionResolver
begin

text \<open>
  Properties of the action resolver. \<open>accepted_slot\<close> is the specification of one slot: the
  value it contributes, when it contributes one. Everything the resolver reports is described
  through it, without the loop and its accumulators.
\<close>

section \<open>One slot\<close>

definition accepted_slot :: "resolver_env \<Rightarrow> operation_spec \<Rightarrow> slot_candidate \<Rightarrow> slot_candidate option" where
  "accepted_slot r spec c =
     (let name = trim_space (sl_name c) in
      case mget (os_fields spec) name of
        None \<Rightarrow> None
      | Some fd \<Rightarrow> (case normalize_value r fd (sl_value c) of
            CodecValue v \<Rightarrow>
              if fs_target fd \<longrightarrow> adjudicate_target r \<lparr>sl_name = name, sl_value = v\<rparr> = TargetAccept
              then Some \<lparr>sl_name = name, sl_value = v\<rparr> else None
          | _ \<Rightarrow> None))"

definition known_slot :: "operation_spec \<Rightarrow> slot_candidate \<Rightarrow> bool" where
  "known_slot spec c \<longleftrightarrow> mget (os_fields spec) (trim_space (sl_name c)) \<noteq> None"

lemma adjudicate_slots_snoc:
  "adjudicate_slots r spec (cs @ [c]) = adjudicate_slot r spec c (adjudicate_slots r spec cs)"
  by (simp add: adjudicate_slots_def)

lemmas adjudicate_slot_defs = adjudicate_slot_def accepted_slot_def known_slot_def reject_slot_def
  mark_adjudicated_def Let_def

lemma adjudicate_slot_accepted:
  "aj_accepted (adjudicate_slot r spec c a)
     = aj_accepted a @ (case accepted_slot r spec c of None \<Rightarrow> [] | Some d \<Rightarrow> [d])"
  by (auto simp: adjudicate_slot_defs split: option.split codec_result.split target_verdict.split)

lemma adjudicate_slot_adjudicated:
  "set (aj_adjudicated (adjudicate_slot r spec c a)) = set (aj_adjudicated a) \<union>
     (if known_slot spec c \<and> accepted_slot r spec c = None then {trim_space (sl_name c)} else {})"
  by (auto simp: adjudicate_slot_defs split: option.split codec_result.split target_verdict.split)

definition clean :: "adjudication \<Rightarrow> bool" where
  "clean a \<longleftrightarrow> aj_rejected a = [] \<and> aj_conflicts a = [] \<and> aj_dependencies a = []"

lemma adjudicate_slot_clean:
  "clean (adjudicate_slot r spec c a) \<longleftrightarrow> clean a \<and> accepted_slot r spec c \<noteq> None"
  by (auto simp: adjudicate_slot_defs clean_def split: option.split codec_result.split target_verdict.split)

lemma adjudicate_slots_accepted:
  "aj_accepted (adjudicate_slots r spec cs) = List.map_filter (accepted_slot r spec) cs"
proof (induction cs rule: rev_induct)
  case Nil
  show ?case by (simp add: adjudicate_slots_def no_adjudication_def map_filter_simps)
next
  case (snoc c cs)
  then show ?case
    by (simp add: adjudicate_slots_snoc adjudicate_slot_accepted List.map_filter_def split: option.split)
qed

lemma adjudicate_slots_adjudicated:
  "set (aj_adjudicated (adjudicate_slots r spec cs)) =
     {trim_space (sl_name c) |c. c \<in> set cs \<and> known_slot spec c \<and> accepted_slot r spec c = None}"
proof (induction cs rule: rev_induct)
  case Nil
  show ?case by (simp add: adjudicate_slots_def no_adjudication_def)
next
  case (snoc c cs)
  then show ?case by (auto simp: adjudicate_slots_snoc adjudicate_slot_adjudicated)
qed

lemma adjudicate_slots_clean:
  "clean (adjudicate_slots r spec cs) \<longleftrightarrow> (\<forall>c \<in> set cs. accepted_slot r spec c \<noteq> None)"
proof (induction cs rule: rev_induct)
  case Nil
  show ?case by (simp add: adjudicate_slots_def no_adjudication_def clean_def)
next
  case (snoc c cs)
  then show ?case by (auto simp: adjudicate_slots_snoc adjudicate_slot_clean)
qed

lemma accepted_slotD:
  assumes "accepted_slot r spec c = Some d"
  shows "sl_name d = trim_space (sl_name c)" "known_slot spec c"
    "\<exists>fd. mget (os_fields spec) (sl_name d) = Some fd \<and> normalize_value r fd (sl_value c) = CodecValue (sl_value d) \<and>
       (fs_target fd \<longrightarrow> adjudicate_target r d = TargetAccept)"
  using assms
  by (auto simp: accepted_slot_def known_slot_def Let_def split: option.splits codec_result.splits if_splits)

section \<open>Groups\<close>

lemma set_map_filter: "d \<in> set (List.map_filter f cs) \<longleftrightarrow> (\<exists>c. c \<in> set cs \<and> f c = Some d)"
  by (induction cs) (auto simp: map_filter_simps split: option.split)

lemma group_names_set: "set (group_names a) = sl_name ` set (aj_accepted a)"
  using uniq_by_image [of "\<lambda>n. n" "[]" "map sl_name (aj_accepted a)"] by (simp add: group_names_def)

lemma distinct_group_names: "distinct (group_names a)"
  using distinct_uniq_by [of "\<lambda>n. n" "[]" "map sl_name (aj_accepted a)"] by (simp add: group_names_def)

lemma decided_arguments_lookup:
  "mget (decided_arguments a) n =
     (if n \<in> set (group_names a) then map_option sl_value (resolve_candidates (slot_group a n)) else None)"
proof -
  have "mget (List.map_filter (\<lambda>n. map_option (\<lambda>c. (n, sl_value c)) (resolve_candidates (slot_group a n))) ns) n
      = (if n \<in> set ns then map_option sl_value (resolve_candidates (slot_group a n)) else None)"
    if "distinct ns" for ns
    using that by (induction ns) (auto simp: map_filter_simps split: option.split)
  from this [OF distinct_group_names] show ?thesis by (simp add: decided_arguments_def)
qed

lemma resolve_candidates_iff:
  assumes "cs \<noteq> []"
  shows "resolve_candidates cs \<noteq> None \<longleftrightarrow> (\<forall>c \<in> set cs. \<forall>d \<in> set cs. same_value (sl_value c) (sl_value d))"
proof (cases cs)
  case (Cons a rest)
  have "resolve_candidates cs \<noteq> None \<longleftrightarrow> (\<forall>d \<in> set rest. same_value (sl_value a) (sl_value d))"
    by (simp add: Cons resolve_candidates_def list_all_iff)
  also have "\<dots> \<longleftrightarrow> (\<forall>c \<in> set cs. \<forall>d \<in> set cs. same_value (sl_value c) (sl_value d))"
    unfolding Cons same_value_def by (metis insert_iff list.simps(15))
  finally show ?thesis .
qed (use assms in simp)

lemma resolve_candidates_member: "resolve_candidates cs = Some c \<Longrightarrow> c \<in> set cs"
  by (cases cs) (auto simp: resolve_candidates_def split: if_splits)

lemma slot_group_nonempty: "n \<in> set (group_names a) \<Longrightarrow> slot_group a n \<noteq> []"
  by (auto simp: group_names_set slot_group_def filter_empty_conv)

lemma disagreeing_iff:
  "set (disagreeing_names a) = {n \<in> set (group_names a). \<exists>c \<in> set (aj_accepted a). \<exists>d \<in> set (aj_accepted a).
     sl_name c = n \<and> sl_name d = n \<and> \<not> same_value (sl_value c) (sl_value d)}"
proof -
  have "resolve_candidates (slot_group a n) = None \<longleftrightarrow> (\<exists>c \<in> set (aj_accepted a). \<exists>d \<in> set (aj_accepted a).
     sl_name c = n \<and> sl_name d = n \<and> \<not> same_value (sl_value c) (sl_value d))" if "n \<in> set (group_names a)" for n
    using resolve_candidates_iff [OF slot_group_nonempty [OF that]] by (auto simp: slot_group_def)
  then show ?thesis by (auto simp: disagreeing_names_def)
qed

lemma missing_fields_set:
  "n \<in> set (missing_fields spec (adjudicate_slots r spec cs)) \<longleftrightarrow>
     (\<exists>fd. (n, fd) \<in> set (os_fields spec) \<and> fs_required fd) \<and> (\<forall>c \<in> set cs. trim_space (sl_name c) \<noteq> n)"
  (is "_ \<longleftrightarrow> ?req \<and> ?unsaid")
proof -
  let ?a = "adjudicate_slots r spec cs"
  have judged: "mhas (decided_arguments ?a) n \<or> n \<in> set (aj_adjudicated ?a) \<or> n \<in> set (disagreeing_names ?a)
      \<longleftrightarrow> \<not> ?unsaid" if "?req"
  proof -
    from that have known: "mget (os_fields spec) n \<noteq> None" by (auto dest: weak_map_of_SomeI)
    have "mhas (decided_arguments ?a) n \<or> n \<in> set (disagreeing_names ?a) \<longleftrightarrow> n \<in> set (group_names ?a)"
      by (auto simp: mhas_def decided_arguments_lookup disagreeing_names_def)
    moreover have "n \<in> set (group_names ?a) \<longleftrightarrow>
        (\<exists>c \<in> set cs. trim_space (sl_name c) = n \<and> accepted_slot r spec c \<noteq> None)"
      unfolding group_names_set adjudicate_slots_accepted image_iff Bex_def set_map_filter
      by (metis accepted_slotD(1) not_Some_eq)
    moreover have "n \<in> set (aj_adjudicated ?a) \<longleftrightarrow>
        (\<exists>c \<in> set cs. trim_space (sl_name c) = n \<and> accepted_slot r spec c = None)"
      using known by (auto simp: adjudicate_slots_adjudicated known_slot_def)
    ultimately show ?thesis by blast
  qed
  moreover have "n \<in> set (missing_fields spec ?a) \<longleftrightarrow> ?req \<and>
      \<not> (mhas (decided_arguments ?a) n \<or> n \<in> set (aj_adjudicated ?a) \<or> n \<in> set (disagreeing_names ?a))"
    by (force simp: missing_fields_def)
  ultimately show ?thesis by blast
qed

section \<open>When the card is shown\<close>

text \<open>The arguments of a proposal without disagreement: the first value of each name.\<close>

definition first_values :: "slot_candidate list \<Rightarrow> gmap" where
  "first_values cs = map (\<lambda>c. (sl_name c, sl_value c)) (uniq_by sl_name [] cs)"

definition consistent :: "slot_candidate list \<Rightarrow> bool" where
  "consistent cs \<longleftrightarrow>
     (\<forall>c \<in> set cs. \<forall>d \<in> set cs. sl_name c = sl_name d \<longrightarrow> same_value (sl_value c) (sl_value d))"

definition proposal_acceptable :: "resolver_env \<Rightarrow> action_proposal \<Rightarrow> bool" where
  "proposal_acceptable r p = (case mget (rv_catalog r) (ap_operation p) of
       None \<Rightarrow> False
     | Some spec \<Rightarrow>
         let accepted = List.map_filter (accepted_slot r spec) (ap_slots p) in
         (\<forall>c \<in> set (ap_slots p). accepted_slot r spec c \<noteq> None) \<and> consistent accepted \<and>
         (\<forall>(n, fd) \<in> set (os_fields spec). fs_required fd \<longrightarrow> n \<in> (\<lambda>c. trim_space (sl_name c)) ` set (ap_slots p)) \<and>
         (case os_validate spec of None \<Rightarrow> True | Some f \<Rightarrow> f (first_values accepted) = None))"

lemma uniq_by_map: "uniq_by (\<lambda>n. n) seen (map f cs) = map f (uniq_by f seen cs)"
  by (induction cs arbitrary: seen) (auto simp: Let_def)

lemma uniq_by_head:
  "c \<in> set (uniq_by f seen cs) \<Longrightarrow> \<exists>rest. filter (\<lambda>d. f d = f c) cs = c # rest \<and> f c \<notin> set seen"
  by (induction cs arbitrary: seen) (fastforce dest: uniq_by_fresh split: if_splits)+

lemma decided_arguments_consistent:
  assumes "consistent (aj_accepted a)"
  shows "decided_arguments a = first_values (aj_accepted a)"
proof -
  let ?u = "uniq_by sl_name [] (aj_accepted a)"
  have "resolve_candidates (slot_group a (sl_name c)) = Some c" if "c \<in> set ?u" for c
  proof -
    from uniq_by_head [OF that] obtain rest where g: "slot_group a (sl_name c) = c # rest"
      by (auto simp: slot_group_def)
    then have "set (c # rest) \<subseteq> {d \<in> set (aj_accepted a). sl_name d = sl_name c}"
      by (auto simp: slot_group_def filter_eq_Cons_iff)
    with assms have "list_all (\<lambda>d. same_value (sl_value c) (sl_value d)) rest"
      by (auto simp: list_all_iff consistent_def)
    then show ?thesis by (simp add: g resolve_candidates_def)
  qed
  then have "List.map_filter (\<lambda>n. map_option (\<lambda>c. (n, sl_value c)) (resolve_candidates (slot_group a n)))
      (map sl_name cs) = map (\<lambda>c. (sl_name c, sl_value c)) cs" if "set cs \<subseteq> set ?u" for cs
    using that by (induction cs) (auto simp: map_filter_simps)
  then show ?thesis
    by (simp add: decided_arguments_def first_values_def group_names_def uniq_by_map)
qed

lemma no_disagreement_iff: "disagreeing_names a = [] \<longleftrightarrow> consistent (aj_accepted a)"
proof -
  have "disagreeing_names a = [] \<longleftrightarrow> set (disagreeing_names a) = {}" by simp
  then show ?thesis
    unfolding disagreeing_iff consistent_def by (fastforce simp: group_names_set)
qed

lemma no_conflicts_iff: "all_conflicts a = [] \<longleftrightarrow> aj_conflicts a = [] \<and> consistent (aj_accepted a)"
proof -
  have "all_conflicts a = [] \<longleftrightarrow> set (all_conflicts a) = {}" by simp
  then show ?thesis by (simp add: all_conflicts_def no_disagreement_iff)
qed

text \<open>The four refusal channels are empty exactly on an acceptable proposal.\<close>

lemma no_missing_iff:
  "missing_fields spec (adjudicate_slots r spec cs) = [] \<longleftrightarrow>
     (\<forall>(n, fd) \<in> set (os_fields spec). fs_required fd \<longrightarrow> n \<in> (\<lambda>c. trim_space (sl_name c)) ` set cs)"
proof -
  have "missing_fields spec (adjudicate_slots r spec cs) = [] \<longleftrightarrow>
      (\<forall>n. n \<notin> set (missing_fields spec (adjudicate_slots r spec cs)))"
    by (metis all_not_in_conv set_empty)
  then show ?thesis unfolding missing_fields_set by force
qed

lemma no_contract_rejection_iff:
  assumes "missing_fields spec a = []" "all_conflicts a = []" "aj_rejected a = []" "aj_dependencies a = []"
  shows "contract_rejection spec a = [] \<longleftrightarrow>
     (case os_validate spec of None \<Rightarrow> True | Some f \<Rightarrow> f (first_values (aj_accepted a)) = None)"
proof -
  from assms(2) have "decided_arguments a = first_values (aj_accepted a)"
    by (simp add: no_conflicts_iff decided_arguments_consistent)
  with assms show ?thesis by (simp add: contract_rejection_def split: option.split)
qed

lemma resolve_action_known:
  assumes "mget (rv_catalog r) (ap_operation p) = Some spec"
  defines "a \<equiv> adjudicate_slots r spec (ap_slots p)"
  shows "ra_ready_confirm (resolve_action r p) \<longleftrightarrow> missing_fields spec a = [] \<and> all_conflicts a = [] \<and>
     aj_rejected a = [] \<and> contract_rejection spec a = [] \<and> aj_dependencies a = []"
    "ra_arguments (resolve_action r p) = decided_arguments a"
    "ra_missing (resolve_action r p) = missing_fields spec a"
    "ra_dependencies (resolve_action r p) = aj_dependencies a"
    "ra_rejected (resolve_action r p) = aj_rejected a @ contract_rejection spec a"
    "ra_conflicts (resolve_action r p) = all_conflicts a"
  unfolding a_def using assms(1) by (auto simp: resolve_action_def Let_def)

text \<open>C16: the resolver declares a proposal ready for the confirmation card exactly when it is
  acceptable: the operation is known, every slot names one of its fields with a value its codec
  accepts and, for a target, the verifier confirmed; repeated slots agree; every required field is
  there; and the operation's own validator passes.\<close>

theorem ready_iff_acceptable: "ra_ready_confirm (resolve_action r p) = proposal_acceptable r p"
proof (cases "mget (rv_catalog r) (ap_operation p)")
  case None
  then show ?thesis by (simp add: resolve_action_def proposal_acceptable_def unknown_operation_def)
next
  case (Some spec)
  let ?a = "adjudicate_slots r spec (ap_slots p)"
  have "ra_ready_confirm (resolve_action r p) \<longleftrightarrow> clean ?a \<and> consistent (aj_accepted ?a) \<and>
      missing_fields spec ?a = [] \<and>
      (case os_validate spec of None \<Rightarrow> True | Some f \<Rightarrow> f (first_values (aj_accepted ?a)) = None)"
    unfolding resolve_action_known (1) [OF Some] clean_def
    using no_contract_rejection_iff [of spec ?a] no_conflicts_iff [of ?a] by blast
  then show ?thesis
    unfolding adjudicate_slots_clean adjudicate_slots_accepted no_missing_iff
    by (simp add: proposal_acceptable_def Some Let_def)
qed

section \<open>What a codec guarantees\<close>

text \<open>The type of an argument, by the codec of its field.\<close>

definition codec_typed :: "resolver_env \<Rightarrow> field_spec \<Rightarrow> gval \<Rightarrow> bool" where
  "codec_typed r fd v = (case fs_codec fd of
       CodecMachineType \<Rightarrow> mt_available (rv_machine_types r) \<and>
         (\<exists>s. v = GStr s \<and> s \<noteq> [] \<and> s \<in> set (mt_names (rv_machine_types r)))
     | CodecZone \<Rightarrow> snapshot_available (rv_zones r) \<and> (\<exists>s. v = GStr s \<and> s \<in> set (snapshot_ids (rv_zones r)))
     | CodecImage \<Rightarrow> (\<exists>i e. snapshot_entry (rv_images r) i = Some e \<and> v = GStr (im_id e) \<and>
         image_status_usable (im_source e) (im_status e))
     | CodecResourceRef \<Rightarrow> (\<exists>s. v = GStr s \<and> s \<noteq> [] \<and> rune_count s \<le> 128 \<and> \<not> list_ex is_space s)
     | CodecEnum \<Rightarrow> (\<exists>s. v = GStr s \<and> s \<in> set (fs_enum fd))
     | CodecInteger \<Rightarrow> v = GFloat PosInf \<or> (\<exists>n. 0 < n \<and> v = GFloat (Fin (of_int n)))
     | CodecCapacity \<Rightarrow> v = GFloat PosInf \<or> (\<exists>n. 0 < n \<and> v = GFloat (Fin (of_int n)))
     | CodecNumber \<Rightarrow> v = GFloat PosInf \<or> v = GFloat NotANumber \<or> (\<exists>q. 0 \<le> q \<and> v = GFloat (Fin q))
     | CodecBoolean \<Rightarrow> (\<exists>b. v = GBool b)
     | CodecStructured \<Rightarrow> (\<exists>vs. v = GList vs) \<or> (\<exists>m. v = GMap m)
     | _ \<Rightarrow> (\<exists>s. v = GStr s \<and> s \<noteq> [] \<and> rune_count s \<le> 512 \<and> trim_space s = s))"

lemma match_of_hits_member: "match_of_hits hits = Matched s \<Longrightarrow> s \<in> set hits"
  by (auto simp: match_of_hits_def split: list.splits)

lemma canonical_zone_matched:
  assumes "canonical_zone raw snap = Matched s"
  shows "snapshot_available snap \<and> s \<in> set (snapshot_ids snap)"
  using assms uniq_by_subset [of "\<lambda>i. i" "[]" "snapshot_ids snap"]
  by (auto simp: canonical_zone_def Let_def dest!: match_of_hits_member split: if_splits)

lemma match_catalog_member: "s \<in> set (match_catalog value names eq) \<Longrightarrow> s \<in> set names \<and> s \<noteq> []"
  using uniq_by_subset [of "\<lambda>n. n" "[]" "filter (\<lambda>n. n \<noteq> [] \<and> eq n value) names"]
  by (auto simp: match_catalog_def)

lemma canonical_machine_type_matched:
  assumes "canonical_machine_type raw mt = Matched s"
  shows "mt_available mt \<and> s \<in> set (mt_names mt) \<and> s \<noteq> []"
proof -
  let ?c = "match_catalog (trim_space raw) (mt_names mt)"
  from assms have "mt_available mt \<and> (s \<in> set (?c (=)) \<or> s \<in> set (?c equal_fold) \<or>
      s \<in> set (?c (\<lambda>a b. fold_machine_type a = fold_machine_type b)))"
    by (auto simp: canonical_machine_type_def Let_def length_Suc_conv dest!: match_of_hits_member split: if_splits)
  with match_catalog_member show ?thesis by blast
qed

lemma positive_integer_cases:
  assumes "positive_integer x"
  shows "x = Some PosInf \<or> (\<exists>n. 0 < n \<and> x = Some (Fin (of_int n)))"
proof (cases x)
  case (Some f)
  show ?thesis
  proof (cases f)
    case (Fin q)
    with assms Some have "0 < q" "q = of_int (rat_trunc q)"
      by (auto simp: positive_integer_def flt_le_def)
    moreover from this have "0 < rat_trunc q" by (metis of_int_0_less_iff)
    ultimately show ?thesis using Some Fin by blast
  qed (use assms Some in \<open>auto simp: positive_integer_def flt_le_def\<close>)
qed (use assms in \<open>simp add: positive_integer_def\<close>)

lemma text_value_some: "text_value v = Some t \<Longrightarrow> t \<noteq> [] \<and> trim_space t = t"
  by (auto simp: text_value_def split: gval.splits if_splits)

lemma matched_value_value: "matched_value d u m = CodecValue v \<longleftrightarrow> (\<exists>s. m = Matched s \<and> v = GStr s)"
  by (auto simp: matched_value_def split: catalog_match.split)

lemma canonical_image_value_typed:
  assumes "canonical_image_value snap t = CodecValue v"
  shows "\<exists>i e. snapshot_entry snap i = Some e \<and> v = GStr (im_id e) \<and> image_status_usable (im_source e) (im_status e)"
proof -
  from assms obtain sel where "rn_selection (resolve_image snap (image_id_request t)) = Some sel"
    and v: "v = GStr (se_id sel)"
    using resolved_has_selection [of snap "image_id_request t"]
    by (auto simp: canonical_image_value_def Let_def split: resolution_status.splits option.splits)
  from resolve_image_entry [OF this(1)] v show ?thesis
    by (metis image_selection.select_convs(1) selection_from_def viable_def)
qed

lemma normalize_value_typed:
  assumes "normalize_value r fd v = CodecValue w"
  shows "codec_typed r fd w"
proof (cases "fs_codec fd")
  case CodecInteger
  with assms show ?thesis using positive_integer_cases [of "as_number v"]
    by (auto simp: normalize_value_def codec_typed_def number_value_def split: if_splits)
next
  case CodecCapacity
  with assms show ?thesis using positive_integer_cases [of "normalize_capacity_gb v"]
    by (auto simp: normalize_value_def codec_typed_def number_value_def split: if_splits)
next
  case CodecNumber
  with assms obtain x where "w = GFloat x" "\<not> flt_less x (Fin 0)"
    by (auto simp: normalize_value_def split: option.splits if_splits)
  with CodecNumber show ?thesis by (cases x) (auto simp: codec_typed_def)
next
  case CodecImage
  with assms show ?thesis
    by (auto simp: normalize_value_def codec_typed_def split: option.splits dest: canonical_image_value_typed)
qed (use assms in \<open>auto simp: normalize_value_def codec_typed_def matched_value_value
       dest!: text_value_some canonical_zone_matched canonical_machine_type_matched
       split: option.splits if_splits gval.splits\<close>)

section \<open>Arguments, missing fields and intake\<close>

lemma resolve_action_unknown:
  "mget (rv_catalog r) (ap_operation p) = None \<Longrightarrow> resolve_action r p = unknown_operation p"
  by (simp add: resolve_action_def)

text \<open>C17: no argument is invented. Every argument of a resolved action is the normalised value of a
  slot the proposal names, for a field of the operation; it has the type its codec promises (a
  machine type or zone of this turn's catalog, the id of a usable image, a member of the enum, a
  positive integer); and a target was confirmed by the verifier.\<close>

theorem arguments_typed:
  assumes "mget (ra_arguments (resolve_action r p)) n = Some v"
  shows "\<exists>spec fd. mget (rv_catalog r) (ap_operation p) = Some spec \<and> mget (os_fields spec) n = Some fd \<and>
     (\<exists>c. c \<in> set (ap_slots p) \<and> trim_space (sl_name c) = n \<and> normalize_value r fd (sl_value c) = CodecValue v) \<and>
     codec_typed r fd v \<and> (fs_target fd \<longrightarrow> adjudicate_target r \<lparr>sl_name = n, sl_value = v\<rparr> = TargetAccept)"
proof (cases "mget (rv_catalog r) (ap_operation p)")
  case None
  with assms show ?thesis by (simp add: resolve_action_unknown unknown_operation_def)
next
  case (Some spec)
  let ?a = "adjudicate_slots r spec (ap_slots p)"
  from assms have "mget (decided_arguments ?a) n = Some v"
    by (simp add: resolve_action_known [OF Some])
  then obtain d where "resolve_candidates (slot_group ?a n) = Some d" and v: "v = sl_value d"
    by (auto simp: decided_arguments_lookup split: if_splits)
  then have d: "d \<in> set (aj_accepted ?a)" "sl_name d = n"
    by (auto simp: slot_group_def dest!: resolve_candidates_member)
  then obtain c where c: "c \<in> set (ap_slots p)" and acc: "accepted_slot r spec c = Some d"
    by (auto simp: adjudicate_slots_accepted set_map_filter)
  from accepted_slotD(3) [OF acc] obtain fd where "mget (os_fields spec) n = Some fd"
      "normalize_value r fd (sl_value c) = CodecValue v"
      "fs_target fd \<longrightarrow> adjudicate_target r d = TargetAccept"
    unfolding d(2) v by blast
  moreover from accepted_slotD(1) [OF acc] d(2) have "trim_space (sl_name c) = n" by simp
  moreover have "d = \<lparr>sl_name = n, sl_value = v\<rparr>" using d(2) v by simp
  ultimately show ?thesis using Some c normalize_value_typed by blast
qed

text \<open>The resolver asks for a field exactly when the operation requires it and no slot of the
  proposal names it: a field named with a bad value is reported in its own channel, never also as
  missing.\<close>

theorem missing_exactly_unnamed:
  assumes "mget (rv_catalog r) (ap_operation p) = Some spec"
  shows "set (ra_missing (resolve_action r p)) =
     {n. (\<exists>fd. (n, fd) \<in> set (os_fields spec) \<and> fs_required fd) \<and>
         (\<forall>c. c \<in> set (ap_slots p) \<longrightarrow> trim_space (sl_name c) \<noteq> n)}"
  unfolding resolve_action_known [OF assms] using missing_fields_set by (auto simp: set_eq_iff)

text \<open>A slot the intake form may correct: its field is collectable and its value is invalid or
  ambiguous. A target that was not confirmed and a catalog that is down are not correctable.\<close>

definition slot_correctable :: "resolver_env \<Rightarrow> operation_spec \<Rightarrow> slot_candidate \<Rightarrow> bool" where
  "slot_correctable r spec c \<longleftrightarrow> trim_space (sl_name c) \<in> set (in_collectable (os_intake spec)) \<and>
     (\<exists>fd. mget (os_fields spec) (trim_space (sl_name c)) = Some fd \<and>
        ((\<exists>why. normalize_value r fd (sl_value c) = CodecInvalid why) \<or>
         (\<exists>cs. normalize_value r fd (sl_value c) = CodecAmbiguity cs)))"

definition correctable :: "operation_spec \<Rightarrow> adjudication \<Rightarrow> bool" where
  "correctable spec a \<longleftrightarrow> (let cl = in_collectable (os_intake spec) in
     every_rejection_form_correctable (aj_rejected a) cl \<and> every_conflict_collectable (aj_conflicts a) cl \<and>
     aj_dependencies a = [])"

lemma adjudicate_slot_correctable:
  "correctable spec (adjudicate_slot r spec c a) \<longleftrightarrow>
     correctable spec a \<and> (accepted_slot r spec c \<noteq> None \<or> slot_correctable r spec c)"
proof (cases "mget (os_fields spec) (trim_space (sl_name c))")
  case None
  then show ?thesis
    by (simp add: adjudicate_slot_defs correctable_def slot_correctable_def every_rejection_form_correctable_def)
next
  case (Some fd)
  note defs = adjudicate_slot_defs correctable_def slot_correctable_def every_rejection_form_correctable_def
    every_conflict_collectable_def
  show ?thesis
  proof (cases "normalize_value r fd (sl_value c)")
    case (CodecValue v)
    with Some show ?thesis by (simp add: defs split: target_verdict.split)
  next
    case (CodecDependency d)
    with Some show ?thesis by (simp add: defs)
  next
    case (CodecAmbiguity cs)
    with Some show ?thesis by (simp add: defs conj_ac)
  next
    case (CodecInvalid why)
    with Some show ?thesis by (simp add: defs conj_ac)
  qed
qed

lemma adjudicate_slots_correctable:
  "correctable spec (adjudicate_slots r spec cs) \<longleftrightarrow>
     (\<forall>c \<in> set cs. accepted_slot r spec c \<noteq> None \<or> slot_correctable r spec c)"
proof (induction cs rule: rev_induct)
  case Nil
  show ?case
    by (simp add: adjudicate_slots_def no_adjudication_def correctable_def
        every_rejection_form_correctable_def every_conflict_collectable_def)
next
  case (snoc c cs)
  then show ?case by (auto simp: adjudicate_slots_snoc adjudicate_slot_correctable)
qed

text \<open>C18: an action goes to the intake form only when the form can repair all of it: the operation has
  a guided form, the action is not ready, nothing was confirmed, every slot is accepted or is a
  correctable value of a collectable field, and every missing field and every disagreement is
  collectable. A rejected target or a failed operation contract never reaches the form.\<close>

theorem intake_only_repairable:
  assumes "ra_ready_intake (resolve_action r p)"
  shows "\<exists>spec. mget (rv_catalog r) (ap_operation p) = Some spec \<and> in_mode (os_intake spec) = IntakeGuided \<and>
     \<not> ra_ready_confirm (resolve_action r p) \<and> ra_confirmation (resolve_action r p) = None \<and>
     ra_dependencies (resolve_action r p) = [] \<and>
     (\<forall>c \<in> set (ap_slots p). accepted_slot r spec c \<noteq> None \<or> slot_correctable r spec c) \<and>
     set (ra_missing (resolve_action r p)) \<union> cf_slot ` set (ra_conflicts (resolve_action r p))
       \<subseteq> set (in_collectable (os_intake spec)) \<and>
     (\<forall>j \<in> set (ra_rejected (resolve_action r p)). rj_kind j = RejectInvalidValue)"
proof (cases "mget (rv_catalog r) (ap_operation p)")
  case None
  with assms show ?thesis by (simp add: resolve_action_unknown unknown_operation_def)
next
  case (Some spec)
  let ?a = "adjudicate_slots r spec (ap_slots p)"
  let ?cl = "in_collectable (os_intake spec)"
  from assms have i: "\<not> ra_ready_confirm (resolve_action r p)" "in_mode (os_intake spec) = IntakeGuided"
      "aj_dependencies ?a = []" "every_missing_collectable (missing_fields spec ?a) ?cl"
      "every_rejection_form_correctable (aj_rejected ?a @ contract_rejection spec ?a) ?cl"
      "every_conflict_collectable (all_conflicts ?a) ?cl"
    by (auto simp: resolve_action_def Some Let_def)
  then have "correctable spec ?a"
    by (simp add: correctable_def every_rejection_form_correctable_def every_conflict_collectable_def
        all_conflicts_def list_all_iff)
  then have "\<forall>c \<in> set (ap_slots p). accepted_slot r spec c \<noteq> None \<or> slot_correctable r spec c"
    by (simp only: adjudicate_slots_correctable)
  moreover have "ra_confirmation (resolve_action r p) = None"
    using i(1) by (simp add: resolve_action_def Some Let_def)
  moreover have "set (missing_fields spec ?a) \<union> cf_slot ` set (all_conflicts ?a) \<subseteq> set ?cl"
      "\<forall>j \<in> set (aj_rejected ?a @ contract_rejection spec ?a). rj_kind j = RejectInvalidValue"
    using i by (auto simp: every_rejection_form_correctable_def every_conflict_collectable_def
        every_missing_collectable_def list_all_iff)
  ultimately show ?thesis using i Some by (simp add: resolve_action_known [OF Some])
qed

section \<open>A concrete operation\<close>

definition demo_operation :: operation_spec where
  "demo_operation = \<lparr>os_operation = ''Resize'', os_fields =
       [(''UHostId'', \<lparr>fs_name = ''UHostId'', fs_required = True, fs_codec = CodecResourceRef, fs_enum = [],
           fs_target = True, fs_target_kind = ''instance''\<rparr>),
        (''Gpu'', \<lparr>fs_name = ''Gpu'', fs_required = False, fs_codec = CodecInteger, fs_enum = [],
           fs_target = False, fs_target_kind = []\<rparr>)],
     os_needs_zone_catalog = False, os_needs_confirm = True, os_risk = L1, os_validate = None,
     os_intake = \<lparr>in_mode = IntakeGuided, in_collectable = [''Gpu'']\<rparr>\<rparr>"

definition demo_resolver :: resolver_env where
  "demo_resolver = \<lparr>rv_catalog = [(''Resize'', demo_operation)], rv_verifier = Some (\<lambda>c. TargetAccept),
     rv_machine_types = \<lparr>mt_names = [], mt_available = False\<rparr>, rv_zones = None, rv_images = None\<rparr>"

definition demo_proposal :: "gval \<Rightarrow> action_proposal" where
  "demo_proposal gpu = \<lparr>ap_turn_id = [], ap_operation = ''Resize'',
     ap_slots = [\<lparr>sl_name = ''UHostId'', sl_value = GStr '' uhost-1 ''\<rparr>,
                 \<lparr>sl_name = ''Gpu '', sl_value = gpu\<rparr>]\<rparr>"

theorem arguments_typed_witness:
  "mget (ra_arguments (resolve_action demo_resolver (demo_proposal (GInt 2)))) ''Gpu'' = Some (GFloat (Fin 2)) \<and>
   (\<exists>spec fd. mget (os_fields (spec :: operation_spec)) ''Gpu'' = Some (fd :: field_spec) \<and> codec_typed demo_resolver fd (GFloat (Fin 2)))"
proof -
  have a: "mget (ra_arguments (resolve_action demo_resolver (demo_proposal (GInt 2)))) ''Gpu'' = Some (GFloat (Fin 2))"
    by code_simp
  from arguments_typed [OF a] have "\<exists>spec fd. mget (os_fields (spec :: operation_spec)) ''Gpu'' = Some (fd :: field_spec) \<and>
      codec_typed demo_resolver fd (GFloat (Fin 2))" by blast
  with a show ?thesis by (rule conjI)
qed

definition empty_proposal :: action_proposal where
  "empty_proposal = \<lparr>ap_turn_id = [], ap_operation = ''Resize'', ap_slots = []\<rparr>"

theorem missing_exactly_unnamed_witness:
  "set (ra_missing (resolve_action demo_resolver empty_proposal)) = {''UHostId''}"
proof -
  have "mget (rv_catalog demo_resolver) (ap_operation empty_proposal) = Some demo_operation"
    by (simp add: demo_resolver_def empty_proposal_def)
  note m = missing_exactly_unnamed [OF this]
  show ?thesis
    unfolding m by (simp add: demo_operation_def empty_proposal_def conj_disj_distribR ex_disj_distrib)
qed

theorem intake_only_repairable_witness:
  "ra_ready_intake (resolve_action demo_resolver (demo_proposal (GStr ''many''))) \<and>
   \<not> ra_ready_confirm (resolve_action demo_resolver (demo_proposal (GStr ''many'')))"
proof -
  have i: "ra_ready_intake (resolve_action demo_resolver (demo_proposal (GStr ''many'')))" by code_simp
  from intake_only_repairable [OF i] i show ?thesis by blast
qed

text \<open>Numbers are read with \<open>strconv.ParseFloat\<close>, which accepts the word \<open>Inf\<close>: a proposal can name
  infinitely many GPUs, pass the codec and reach the confirmation card. The value has no JSON form.\<close>

lemma infinite_integer_accepted:
  "ra_ready_confirm (resolve_action demo_resolver (demo_proposal (GStr ''Inf'')))"
  "mget (ra_arguments (resolve_action demo_resolver (demo_proposal (GStr ''Inf'')))) ''Gpu'' = Some (GFloat PosInf)"
  "marshal_value (GFloat PosInf) = None"
  by code_simp+

end
