(* ===== verification/ToolPolicy.thy ===== *)
theory ToolPolicy
  imports Security
begin

text \<open>
  Execution policies of the tools (\<open>internal/tools/policies.go\<close>): for every action its route,
  class, security level, allowed arguments, redactions, caps and retry budget.

  \<open>AllowedParams\<close> is an option: nil and the empty slice differ, because the argument filter
  of the executor treats nil as ``no list''. The tool registry (\<open>Registry\<close>, a table of JSON
  schemas) enters as the list of its tool names with their sorted parameter names, an
  argument of \<open>build_policies\<close>; the theorems hold for every registry. The order of the
  policy map is not observable, so the map is built by folding over both tables.
\<close>

datatype action_class =
    ClassReadCheap | ClassReadExpensiveDefault | ClassReadExpensivePerTarget
  | ClassMutating | ClassDestructive

datatype error_class = ErrorClassNetwork | ErrorClassEOF | ErrorClassHTTP5xx

datatype action_route =
    RouteExternalAPI | RouteKnowledge | RouteWorkflow | RouteDiagnosis | RouteHandoff

record tool_policy =
  tp_action :: string
  tp_route :: action_route
  tp_class :: action_class
  tp_level :: level
  tp_needs_confirm :: bool
  tp_allowed :: "string list option"
  tp_internal_allowed :: "string list"
  tp_redact_in_result :: "string list"
  tp_sensitive_args :: "string list"
  tp_history_guard :: bool
  tp_max_targets :: int
  tp_max_window :: int
  tp_max_retries :: int
  tp_retry_on :: "error_class list"
  tp_timeout_ms :: int
  tp_backoff_ms :: int

definition customer_support_handoff_name :: string where
  "customer_support_handoff_name = ''HandoffToCustomerSupport''"

definition propose_action_name :: string where
  "propose_action_name = ''ProposeAction''"

section \<open>Classification\<close>

definition route_for_action :: "string \<Rightarrow> action_route" where
  "route_for_action action =
     (if action = customer_support_handoff_name then RouteHandoff
      else if action = ''SearchKnowledge'' \<or> action = ''ReadChunk'' then RouteKnowledge
      else if has_suffix action ''Workflow'' then RouteWorkflow
      else if has_prefix action ''Diagnose'' then RouteDiagnosis
      else RouteExternalAPI)"

definition inferred_registry_security_level :: "string \<Rightarrow> level" where
  "inferred_registry_security_level action = (if has_suffix action ''Workflow'' then L1 else L0)"

definition read_expensive_default_actions :: "string list" where
  "read_expensive_default_actions = [
     ''DescribeCompShareInstance'', ''GetCompShareInstancePrice'', ''GetCompShareInstanceUserPrice'',
     ''GetCompShareRefundPrice'', ''DescribeCompShareJupyterToken'', ''DescribeCFS'',
     ''GetCompShareCFSPrice'', ''GetCompShareCFSUpgradePrice'', ''GetCompShareCFSRefundPrice'',
     ''DescribeAvailableCompShareInstanceTypes'', ''DescribeCompShareGpuInventory'',
     ''CheckCompShareResourceCapacity'', ''GetCompShareInvoiceIssued'']"

definition class_for_action :: "string \<Rightarrow> level \<Rightarrow> action_class" where
  "class_for_action action l = (case l of
       L2 \<Rightarrow> ClassDestructive
     | L1 \<Rightarrow> ClassMutating
     | L0 \<Rightarrow>
         if action = ''GetCompShareInstanceMonitor'' then ClassReadExpensivePerTarget
         else if has_prefix action ''Diagnose'' then ClassReadExpensiveDefault
         else if action \<in> set read_expensive_default_actions then ClassReadExpensiveDefault
         else ClassReadCheap)"

section \<open>Arguments the server adds\<close>

definition internal_only_allowed_params :: "string \<Rightarrow> string list option" where
  "internal_only_allowed_params action =
     (if action = ''GetCompShareInvoiceIssued'' then Some [''Limit'', ''Offset'']
      else if action = ''CreateCFS'' then
        Some [''Name'', ''Size'', ''TotalFiles'', ''ChargeType'', ''Quantity'', ''CouponId'', ''Zone'', ''Region'']
      else if action = ''ResizeCFS'' then Some [''CfsId'', ''Size'', ''CouponId'']
      else if action \<in> {''GetCompShareAttachedDiskUpgradePrice'', ''CheckCompShareResizeAttachedDisk''} then
        Some [''UHostId'', ''DiskId'', ''DiskSpace'', ''Zone'', ''Region'']
      else if action = ''ResizeCompShareDisk'' then
        Some [''UHostId'', ''UDiskId'', ''Size'', ''Zone'', ''Region'']
      else if action = ''ResizeCompShareInstance'' then
        Some [''UHostId'', ''Cpu'', ''CPU'', ''Gpu'', ''GPU'', ''Memory'', ''DiskId'', ''DiskSpace'', ''Zone'', ''Region'']
      else if action = ''CreateCompShareInstance'' then
        Some [''Name'', ''Zone'', ''Region'', ''GpuType'', ''GPU'', ''Cpu'', ''CPU'', ''Memory'',
          ''CompShareImageId'', ''ChargeType'', ''MachineType'', ''MinimalCpuPlatform'', ''LoginMode'', ''Disks'']
      else if action = ''CreateCompShareCustomImage'' then
        Some [''UHostId'', ''Name'', ''Description'', ''Zone'', ''Region'']
      else if action = ''GetCompShareImageCreateProgress'' then
        Some [''CompShareImageId'', ''Zone'', ''Region'']
      else if action = ''SyncCompShareCustomImage'' then
        Some [''SourceCompShareImageId'', ''TargetImageName'', ''TargetImageDescription'']
      else if action = ''DescribeCompShareCustomImageSyncDetail'' then Some [''CompShareImageId'']
      else if action = ''StartCompShareInstance'' then
        Some [''UHostId'', ''WithoutGpuSpec'', ''Zone'', ''Region'']
      else if action = ''StopCompShareInstance'' then Some [''UHostId'', ''Zone'', ''Region'']
      else if action = ''SwitchChargeType'' then Some [''UHostId'', ''DestChargeType'', ''Zone'', ''Region'']
      else if action = ''UpdateCompShareInstancePorts'' then
        Some [''UHostId'', ''HttpPorts'', ''TcpPorts'', ''UdpPorts'', ''Zone'', ''Region'']
      else if action = ''DescribeCompShareJupyterToken'' then Some [''UHostIds'']
      else if action = ''DescribeCompshareDisk'' then Some [''HostId'', ''Region'']
      else None)"

definition backend_only_allowed_params :: "string \<Rightarrow> string list" where
  "backend_only_allowed_params action =
     (if action = ''CheckCompShareNetOptimizer'' then [''Region'']
      else if action = ''DescribeCompShareInstance'' then [''IncludeShareBandwidth'']
      else if action = ''CheckCompShareResourceCapacity'' then [''UHostId'']
      else [])"

definition allows_backend_zone_id :: "string \<Rightarrow> bool" where
  "allows_backend_zone_id action = (action \<in> {
     ''DescribeAvailableCompShareInstanceTypes'', ''DescribeCompShareGpuInventory'',
     ''CheckCompShareResourceCapacity'', ''CreateCompShareInstance'', ''GetCompShareInstancePrice'',
     ''GetCompShareInstanceUserPrice'', ''GetCompShareInstanceUpgradePrice'',
     ''GetCompShareAttachedDiskUpgradePrice'', ''CheckCompShareResizeAttachedDisk'',
     ''ResizeCompShareInstance'', ''ResizeCompShareDisk'', ''GetCompShareCFSPrice'',
     ''GetCompShareCFSUpgradePrice'', ''GetCompShareCFSRefundPrice'', ''DescribeCFS'', ''CreateCFS'',
     ''ResizeCFS'', ''StartCompShareInstance'', ''StopCompShareInstance'', ''SwitchChargeType'',
     ''CreateCompShareCustomImage'', ''GetCompShareImageCreateProgress'',
     ''DescribeCompShareCustomImageSyncDetail'', ''UpdateCompShareInstancePorts'',
     ''DescribeCompShareJupyterToken''})"

definition allows_backend_az_group :: "string \<Rightarrow> bool" where
  "allows_backend_az_group action = (action \<in> {
     ''CheckCompShareNetOptimizer'', ''SyncCompShareNetOptimizer'', ''CreateCompShareInstance'',
     ''GetCompShareInstancePrice'', ''GetCompShareInstanceUserPrice'', ''GetCompShareInstanceUpgradePrice'',
     ''GetCompShareAttachedDiskUpgradePrice'', ''CheckCompShareResizeAttachedDisk'',
     ''ResizeCompShareInstance'', ''ResizeCompShareDisk'', ''GetCompShareCFSPrice'', ''CreateCFS'',
     ''CreateCompShareCustomImage'', ''GetCompShareImageCreateProgress'', ''SwitchChargeType''})"

definition allows_backend_is_pod :: "string \<Rightarrow> bool" where
  "allows_backend_is_pod action = (action \<in> {
     ''CheckCompShareResourceCapacity'', ''CreateCompShareInstance'', ''GetCompShareInstancePrice'',
     ''GetCompShareInstanceUserPrice'', ''GetCompShareInstanceUpgradePrice'', ''ResizeCompShareInstance''})"

definition allows_backend_zone_region :: "string \<Rightarrow> bool" where
  "allows_backend_zone_region action =
     (action \<in> {''CheckCompShareNetOptimizer'', ''SyncCompShareNetOptimizer''})"

definition allows_backend_identity :: "string \<Rightarrow> bool" where
  "allows_backend_identity action = (action \<in> {
     ''CheckCompShareNetOptimizer'', ''SyncCompShareNetOptimizer'', ''DescribeCompShareSupportZone'',
     ''DescribeCompShareGpuInventory'', ''DescribeCFS'', ''GetCompShareCFSPrice'',
     ''GetCompShareCFSUpgradePrice'', ''GetCompShareCFSRefundPrice'', ''CreateCFS'', ''ResizeCFS''})"

definition append_allowed_param :: "string \<Rightarrow> string list \<Rightarrow> string list" where
  "append_allowed_param key params = (if key \<in> set params then params else params @ [key])"

section \<open>Policies\<close>

definition is_read_class :: "action_class \<Rightarrow> bool" where
  "is_read_class c = (c \<in> {ClassReadCheap, ClassReadExpensiveDefault, ClassReadExpensivePerTarget})"

definition class_timeout_ms :: "action_class \<Rightarrow> int" where
  "class_timeout_ms c = (case c of
       ClassReadCheap \<Rightarrow> 15000 | ClassReadExpensiveDefault \<Rightarrow> 15000
     | ClassReadExpensivePerTarget \<Rightarrow> 30000 | ClassMutating \<Rightarrow> 30000 | ClassDestructive \<Rightarrow> 30000)"

definition class_backoff_ms :: "action_class \<Rightarrow> int" where
  "class_backoff_ms c = (case c of
       ClassReadCheap \<Rightarrow> 300 | ClassReadExpensiveDefault \<Rightarrow> 500
     | ClassReadExpensivePerTarget \<Rightarrow> 500 | ClassMutating \<Rightarrow> 0 | ClassDestructive \<Rightarrow> 0)"

definition action_level :: "string \<Rightarrow> level" where
  "action_level action = (case mget action_levels action of
       Some l \<Rightarrow> l | None \<Rightarrow> inferred_registry_security_level action)"

text \<open>\<open>policyForAction\<close>: the defaults by class, the refusal of L2, then the special cases.\<close>

definition base_policy :: "string \<Rightarrow> tool_policy" where
  "base_policy action =
     (let l = action_level action; c = class_for_action action l; rd = is_read_class c in
      \<lparr>tp_action = action, tp_route = route_for_action action, tp_class = c, tp_level = l,
       tp_needs_confirm = (l = L1), tp_allowed = None, tp_internal_allowed = [],
       tp_redact_in_result = [], tp_sensitive_args = [], tp_history_guard = False,
       tp_max_targets = 0, tp_max_window = 0,
       tp_max_retries = (if rd then 1 else 0),
       tp_retry_on = (if rd then [ErrorClassNetwork, ErrorClassEOF, ErrorClassHTTP5xx] else []),
       tp_timeout_ms = class_timeout_ms c, tp_backoff_ms = class_backoff_ms c\<rparr>)"

definition refuse_destructive :: "tool_policy \<Rightarrow> tool_policy" where
  "refuse_destructive p =
     (if tp_level p = L2
      then p\<lparr>tp_class := ClassDestructive, tp_max_retries := 0, tp_retry_on := [], tp_backoff_ms := 0\<rparr>
      else p)"

definition invoice_redactions :: "string list" where
  "invoice_redactions = [''InvoiceTitle'', ''InvoiceNo'', ''InvoiceCode'', ''ExpressNo'', ''ExpressAddress'',
     ''ExpressAddressID'', ''ShipBillNos'', ''Contract'', ''Verity'', ''Remark'', ''ReceiveIds'',
     ''ReceiveEmail'', ''DownloadUrl'']"

definition special_cases :: "string \<Rightarrow> tool_policy \<Rightarrow> tool_policy" where
  "special_cases action p0 =
     (let p1 = (if action \<in> {''ResetCompShareInstancePassword'', ''ResetPasswordWorkflow''}
                then p0\<lparr>tp_sensitive_args := tp_sensitive_args p0 @ [''Password'']\<rparr> else p0);
          p2 = (if action = ''GetCompShareInvoiceIssued''
                then p1\<lparr>tp_redact_in_result := tp_redact_in_result p1 @ invoice_redactions\<rparr> else p1);
          p3 = (if action = ''GetCompShareInstanceMonitor''
                then p2\<lparr>tp_history_guard := True, tp_max_targets := 20, tp_max_window := 30 * 86400\<rparr>
                else p2)
      in if action \<in> {''GetCompShareInstancePrice'', ''GetCompShareInstanceUserPrice''}
         then p3\<lparr>tp_max_targets := 20\<rparr> else p3)"

definition policy_for_action :: "string \<Rightarrow> tool_policy" where
  "policy_for_action action = special_cases action (refuse_destructive (base_policy action))"

text \<open>The server-side arguments every policy gets, in the order the code appends them.\<close>

definition internal_params :: "string \<Rightarrow> string list \<Rightarrow> string list" where
  "internal_params action params =
     (let add = (\<lambda>c keys ps. if c then fold append_allowed_param keys ps else ps);
          p0 = params @ backend_only_allowed_params action;
          p1 = add (allows_backend_zone_id action) [''zone_id''] p0;
          p2 = add (allows_backend_az_group action) [''az_group''] p1;
          p3 = add (allows_backend_is_pod action) [''IsPod''] p2;
          p4 = add (allows_backend_zone_region action) [''Zone'', ''Region''] p3;
          p5 = add (allows_backend_identity action) [''top_organization_id'', ''organization_id''] p4
      in add (action = ''SyncCompShareCustomImage'') [''TargetZoneIds''] p5)"

definition registry_policy :: "string \<Rightarrow> string list option \<Rightarrow> tool_policy" where
  "registry_policy action allowed =
     (let p = policy_for_action action; ip = internal_params action (tp_internal_allowed p) in
      p\<lparr>tp_allowed := allowed,
        tp_internal_allowed := (if action = ''DescribeCompShareCustomImages''
          then append_allowed_param ''CompShareImageId'' ip else ip)\<rparr>)"

definition unregistered_policy :: "string \<Rightarrow> tool_policy" where
  "unregistered_policy action =
     (let p = policy_for_action action in
      p\<lparr>tp_allowed := internal_only_allowed_params action,
        tp_internal_allowed := internal_params action (tp_internal_allowed p)\<rparr>)"

definition build_policies :: "(string \<times> string list option) list \<Rightarrow> (string \<times> tool_policy) list" where
  "build_policies registry =
     (let from_registry = fold (\<lambda>(a, allowed) ps. mput a (registry_policy a allowed) ps) registry [];
          with_levels = fold (\<lambda>(a, l) ps. if mhas ps a then ps else mput a (unregistered_policy a) ps)
                          action_levels from_registry;
          with_projects = (if mhas with_levels ''GetProjectList'' then with_levels
                           else mput ''GetProjectList'' (policy_for_action ''GetProjectList'') with_levels)
      in mput propose_action_name
           ((policy_for_action propose_action_name)
              \<lparr>tp_allowed := Some [''turn_id'', ''operation'', ''slots'']\<rparr>)
           with_projects)"

section \<open>Facts\<close>

text \<open>Every policy of the map is the action's own policy with its argument lists filled in.\<close>

definition refines_base :: "string \<Rightarrow> tool_policy \<Rightarrow> bool" where
  "refines_base a p \<longleftrightarrow> (\<exists>al ip. p = (policy_for_action a)\<lparr>tp_allowed := al, tp_internal_allowed := ip\<rparr>)"

lemma refines_base_intros:
  "refines_base a (registry_policy a al)" "refines_base a (unregistered_policy a)"
  "refines_base a (policy_for_action a)" "refines_base a ((policy_for_action a)\<lparr>tp_allowed := al\<rparr>)"
proof -
  have id: "p = p\<lparr>tp_allowed := tp_allowed p, tp_internal_allowed := tp_internal_allowed p\<rparr>"
    and id': "p\<lparr>tp_allowed := al\<rparr> = p\<lparr>tp_allowed := al, tp_internal_allowed := tp_internal_allowed p\<rparr>"
    for p :: tool_policy by simp_all
  show "refines_base a (registry_policy a al)" "refines_base a (unregistered_policy a)"
    by (auto simp: refines_base_def registry_policy_def unregistered_policy_def Let_def)
  show "refines_base a (policy_for_action a)" "refines_base a ((policy_for_action a)\<lparr>tp_allowed := al\<rparr>)"
    unfolding refines_base_def using id id' by blast+
qed

definition all_refine :: "(string \<times> tool_policy) list \<Rightarrow> bool" where
  "all_refine ps \<longleftrightarrow> (\<forall>a p. mget ps a = Some p \<longrightarrow> refines_base a p)"

lemma all_refine_mput: "all_refine ps \<Longrightarrow> refines_base a p \<Longrightarrow> all_refine (mput a p ps)"
  by (auto simp: all_refine_def mget_mput)

lemma all_refine_registry:
  "all_refine ps \<Longrightarrow> all_refine (fold (\<lambda>(a, al) ps. mput a (registry_policy a al) ps) xs ps)"
  by (induction xs arbitrary: ps) (auto intro!: all_refine_mput refines_base_intros)

definition add_unregistered :: "string \<times> level \<Rightarrow> (string \<times> tool_policy) list \<Rightarrow> (string \<times> tool_policy) list" where
  "add_unregistered al ps = (if mhas ps (fst al) then ps else mput (fst al) (unregistered_policy (fst al)) ps)"

lemma add_unregistered_eq:
  "(\<lambda>(a, l) ps. if mhas ps a then ps else mput a (unregistered_policy a) ps) = add_unregistered"
  by (auto simp: add_unregistered_def fun_eq_iff)

lemma all_refine_levels: "all_refine ps \<Longrightarrow> all_refine (fold add_unregistered xs ps)"
proof (induction xs arbitrary: ps)
  case (Cons al xs)
  have "all_refine (add_unregistered al ps)"
    using Cons.prems by (simp add: add_unregistered_def all_refine_mput refines_base_intros)
  then show ?case by (simp add: Cons.IH)
qed simp

lemma build_policies_base:
  assumes "mget (build_policies registry) a = Some p"
  shows "refines_base a p"
proof -
  have "all_refine []" by (simp add: all_refine_def)
  then have "all_refine (build_policies registry)"
    unfolding build_policies_def Let_def add_unregistered_eq
    by (simp add: all_refine_mput refines_base_intros all_refine_registry all_refine_levels)
  then show ?thesis using assms by (simp add: all_refine_def)
qed

lemma special_cases_frame [simp]:
  "tp_level (special_cases a p) = tp_level p" "tp_class (special_cases a p) = tp_class p"
  "tp_needs_confirm (special_cases a p) = tp_needs_confirm p"
  "tp_route (special_cases a p) = tp_route p" "tp_max_retries (special_cases a p) = tp_max_retries p"
  unfolding special_cases_def Let_def by simp_all

lemma policy_for_action_simps:
  "tp_level (policy_for_action a) = action_level a"
  "tp_class (policy_for_action a) = class_for_action a (action_level a)"
  "tp_needs_confirm (policy_for_action a) = (action_level a = L1)"
  "tp_route (policy_for_action a) = route_for_action a"
  "tp_max_retries (policy_for_action a) = (if action_level a = L0 then 1 else 0)"
  by (auto simp: policy_for_action_def refuse_destructive_def base_policy_def Let_def
      class_for_action_def is_read_class_def split: level.split)

lemma class_by_level:
  "class_for_action a l = ClassDestructive \<longleftrightarrow> l = L2"
  "class_for_action a l = ClassMutating \<longleftrightarrow> l = L1"
  by (auto simp: class_for_action_def split: level.splits if_splits)

lemma refines_baseD:
  assumes "refines_base a p"
  shows "tp_level p = action_level a" "tp_class p = class_for_action a (action_level a)"
    "tp_needs_confirm p = (action_level a = L1)" "tp_route p = route_for_action a"
    "tp_max_retries p = (if action_level a = L0 then 1 else 0)"
  using assms by (auto simp: refines_base_def policy_for_action_simps)

section \<open>Policy lookup\<close>

lemma fold_registry_lookup:
  "mget (fold (\<lambda>(a, al) ps. mput a (registry_policy a al) ps) xs ps) a
     = (case mget (rev xs) a of Some al \<Rightarrow> Some (registry_policy a al) | None \<Rightarrow> mget ps a)"
proof (induction xs arbitrary: ps)
  case (Cons x xs)
  then show ?case by (cases x) (auto simp: mget_mput map_add_def split: option.split)
qed simp

lemma fold_unregistered_lookup:
  "mget (fold add_unregistered xs ps) a
     = (case mget ps a of Some p \<Rightarrow> Some p | None \<Rightarrow> if mhas xs a then Some (unregistered_policy a) else None)"
proof (induction xs arbitrary: ps)
  case (Cons x xs)
  then show ?case by (auto simp: add_unregistered_def mget_mput mhas_def split: option.split)
qed (simp add: mhas_def split: option.split)

lemma build_policies_lookup:
  "mget (build_policies registry) a =
     (if a = propose_action_name
      then Some ((policy_for_action a)\<lparr>tp_allowed := Some [''turn_id'', ''operation'', ''slots'']\<rparr>)
      else case mget (rev registry) a of
        Some allowed \<Rightarrow> Some (registry_policy a allowed)
      | None \<Rightarrow> if mhas action_levels a then Some (unregistered_policy a)
                else if a = ''GetProjectList'' then Some (policy_for_action a) else None)"
  unfolding build_policies_def Let_def add_unregistered_eq
  by (auto simp: mget_mput mhas_def [of "fold _ _ _"] fold_unregistered_lookup fold_registry_lookup
      split: option.split simp del: fold_simps)

end
