(* ===== verification/Zones.thy ===== *)
theory Zones
  imports GoText
begin

text \<open>
  The availability-zone catalog (\<open>internal/zones/catalog.go\<close>): parsing of the upstream
  response, literal lookup, and the process-wide TTL cache with its lenient and its strict
  read. The upstream call is an argument (\<open>fetch\<close>), which acts on the external world \<open>'w\<close>;
  instants and durations are nanoseconds.
\<close>

section \<open>Zones\<close>

record zone_info =
  zi_zone :: string
  zi_region :: string
  zi_region_id :: "32 word"
  zi_zone_id :: "32 word"
  zi_describe :: string
  zi_is_pod :: bool
  zi_disable_image_sync :: bool
  zi_unsupported_image_types :: "string list"

definition str_trim :: "gval \<Rightarrow> string" where
  "str_trim v = (case v of GStr s \<Rightarrow> trim_space s | _ \<Rightarrow> [])"

text \<open>A float64 outside the target range is converted as the platform does; here it wraps.\<close>

definition u32 :: "gval \<Rightarrow> 32 word" where
  "u32 v = (case v of
       GFloat (Fin r) \<Rightarrow> word_of_int (rat_trunc r)
     | GInt n \<Rightarrow> word_of_int n
     | GUint32 n \<Rightarrow> n
     | _ \<Rightarrow> 0)"

definition bool_val :: "gval \<Rightarrow> bool" where
  "bool_val v = (case v of GBool b \<Rightarrow> b | GStr s \<Rightarrow> equal_fold (trim_space s) ''true'' | _ \<Rightarrow> False)"

definition string_list :: "gval \<Rightarrow> string list" where
  "string_list v = (case v of
       GStrs ss \<Rightarrow> filter (\<lambda>s. s \<noteq> []) (map trim_space ss)
     | GList vs \<Rightarrow> filter (\<lambda>s. s \<noteq> [])
         (map trim_space (List.map_filter (\<lambda>x. case x of GStr s \<Rightarrow> Some s | _ \<Rightarrow> None) vs))
     | _ \<Rightarrow> [])"

definition parse_zone :: "gmap \<Rightarrow> zone_info" where
  "parse_zone m =
     \<lparr>zi_zone = str_trim (mval m ''Zone''), zi_region = str_trim (mval m ''Region''),
      zi_region_id = u32 (mval m ''RegionId''), zi_zone_id = u32 (mval m ''ZoneId''),
      zi_describe = str_trim (mval m ''Describe''), zi_is_pod = bool_val (mval m ''IsPod''),
      zi_disable_image_sync = bool_val (mval m ''DisableImageSync''),
      zi_unsupported_image_types = string_list (mval m ''UnsupportedImageTypes'')\<rparr>"

definition parse_support_zones :: "gmap \<Rightarrow> zone_info list" where
  "parse_support_zones res = (case mval res ''ZoneInfo'' of
       GList raw \<Rightarrow> filter (\<lambda>z. zi_zone z \<noteq> [])
         (map parse_zone (List.map_filter (\<lambda>x. case x of GMap m \<Rightarrow> Some m | _ \<Rightarrow> None) raw))
     | _ \<Rightarrow> [])"

text \<open>\<open>FetchSupportZones\<close>: identity fields are sent when present; \<open>exec\<close> is the executor.\<close>

definition fetch_support_zones :: "('w \<Rightarrow> string \<Rightarrow> gmap \<Rightarrow> ('e + gmap) \<times> 'w) \<Rightarrow> 32 word \<Rightarrow> 32 word
    \<Rightarrow> 'w \<Rightarrow> ('e + zone_info list) \<times> 'w" where
  "fetch_support_zones exec torg org w =
     (let a0 = (if torg \<noteq> 0 then mput ''top_organization_id'' (GUint32 torg) [] else []);
          a1 = (if org \<noteq> 0 then mput ''organization_id'' (GUint32 org) a0 else a0);
          (r, w') = exec w ''DescribeCompShareSupportZone'' a1
      in case r of Inl e \<Rightarrow> (Inl e, w') | Inr res \<Rightarrow> (Inr (parse_support_zones res), w'))"

definition squash_space :: "string \<Rightarrow> string" where
  "squash_space s = to_lower (filter (\<lambda>c. c \<noteq> CHR '' '') (trim_space s))"

definition describe_for :: "zone_info list \<Rightarrow> string \<Rightarrow> string" where
  "describe_for zs zone = (case find (\<lambda>z. equal_fold (zi_zone z) (trim_space zone)) zs of
       None \<Rightarrow> [] | Some z \<Rightarrow> zi_describe z)"

definition zone_label :: "zone_info list \<Rightarrow> string \<Rightarrow> string" where
  "zone_label zs zone =
     (let d = describe_for zs zone in if d \<noteq> [] then d @ '' ('' @ zone @ '')'' else zone)"

text \<open>\<open>ExactZone\<close>: the first zone whose id, or whose display name, occurs in the text.\<close>

definition zone_mentioned :: "string \<Rightarrow> zone_info \<Rightarrow> bool" where
  "zone_mentioned text z \<longleftrightarrow>
     (zi_zone z \<noteq> [] \<and> contains_text (to_lower text) (to_lower (zi_zone z))) \<or>
     (zi_describe z \<noteq> [] \<and> contains_text (squash_space text) (squash_space (zi_describe z)))"

definition exact_zone :: "zone_info list \<Rightarrow> string \<Rightarrow> string option" where
  "exact_zone zs text = map_option zi_zone (find (zone_mentioned text) zs)"

section \<open>The cache\<close>

record catalog =
  zc_ttl :: int
  zc_zones :: "zone_info list"
  zc_fetched_at :: int

definition new_catalog :: "int \<Rightarrow> catalog" where
  "new_catalog ttl = \<lparr>zc_ttl = ttl, zc_zones = [], zc_fetched_at = 0\<rparr>"

definition cache_fresh :: "int \<Rightarrow> catalog \<Rightarrow> bool" where
  "cache_fresh now c \<longleftrightarrow> zc_zones c \<noteq> [] \<and> 0 < zc_ttl c \<and> now - zc_fetched_at c < zc_ttl c"

definition store_zones :: "int \<Rightarrow> zone_info list \<Rightarrow> catalog \<Rightarrow> catalog" where
  "store_zones now z c = (if z \<noteq> [] then c\<lparr>zc_zones := z, zc_fetched_at := now\<rparr> else c)"

text \<open>
  The clock is read off the world: once before the fetch, for the freshness test, and once
  after it, when the answer is stored.
\<close>

definition catalog_get :: "('w \<Rightarrow> int) \<Rightarrow> ('w \<Rightarrow> ('e + zone_info list) \<times> 'w) \<Rightarrow> catalog \<Rightarrow> 'w
    \<Rightarrow> ('e + zone_info list) \<times> catalog \<times> 'w" where
  "catalog_get clock fetch c w =
     (if cache_fresh (clock w) c then (Inr (zc_zones c), c, w)
      else case fetch w of
        (Inl e, w') \<Rightarrow> (if zc_zones c \<noteq> [] then Inr (zc_zones c) else Inl e, c, w')
      | (Inr z, w') \<Rightarrow> (Inr z, store_zones (clock w') z c, w'))"

definition catalog_get_strict :: "('w \<Rightarrow> int) \<Rightarrow> ('w \<Rightarrow> ('e + zone_info list) \<times> 'w) \<Rightarrow> catalog \<Rightarrow> 'w
    \<Rightarrow> ('e + zone_info list) \<times> catalog \<times> 'w" where
  "catalog_get_strict clock fetch c w =
     (if cache_fresh (clock w) c then (Inr (zc_zones c), c, w)
      else case fetch w of
        (Inl e, w') \<Rightarrow> (Inl e, c, w')
      | (Inr z, w') \<Rightarrow> (Inr z, store_zones (clock w') z c, w'))"

text \<open>
  A run of reads. A read starts at one instant and has its upstream answer at another; the
  world is the time. The log records the successful answers with the time they were received.
\<close>

datatype zone_read =
    ReadLenient int int "zone_info list res" | ReadStrict int int "zone_info list res"

type_synonym fetch_log = "(int \<times> zone_info list) list"

definition answer_log :: "bool \<Rightarrow> int \<Rightarrow> zone_info list res \<Rightarrow> fetch_log \<Rightarrow> fetch_log" where
  "answer_log cached t ans lg = (if cached then lg else case ans of Inl _ \<Rightarrow> lg | Inr z \<Rightarrow> (t, z) # lg)"

definition zone_step :: "catalog \<times> fetch_log \<Rightarrow> zone_read \<Rightarrow> catalog \<times> fetch_log" where
  "zone_step s x = (case x of
       ReadLenient t t' ans \<Rightarrow>
         (fst (snd (catalog_get (\<lambda>w. w) (\<lambda>_. (ans, t')) (fst s) t)),
          answer_log (cache_fresh t (fst s)) t' ans (snd s))
     | ReadStrict t t' ans \<Rightarrow>
         (fst (snd (catalog_get_strict (\<lambda>w. w) (\<lambda>_. (ans, t')) (fst s) t)),
          answer_log (cache_fresh t (fst s)) t' ans (snd s)))"

definition zones_ok :: "catalog \<times> fetch_log \<Rightarrow> bool" where
  "zones_ok s \<longleftrightarrow> zc_zones (fst s) = [] \<or> (zc_fetched_at (fst s), zc_zones (fst s)) \<in> set (snd s)"

lemma zone_step_ok: "zones_ok s \<Longrightarrow> zones_ok (zone_step s x)"
  by (auto simp: zones_ok_def zone_step_def catalog_get_def catalog_get_strict_def answer_log_def
      store_zones_def split: zone_read.split sum.split)

interpretation zc: component "(new_catalog ttl, [])" zone_step zones_ok for ttl
  by unfold_locales (simp add: zones_ok_def new_catalog_def, rule zone_step_ok)

section \<open>Properties\<close>

text \<open>C35: the strict read never serves stale data: after any sequence of lenient and strict reads, what
  \<open>GetStrict\<close> returns is the answer of this very fetch, or the answer of an earlier successful fetch
  that is younger than the TTL; an expired cache whose refresh fails is an error.\<close>

theorem strict_read_never_stale:
  assumes "foldl zone_step (new_catalog ttl, []) xs = (c, lg)"
    and "fst (catalog_get_strict clock fetch c w) = Inr z"
  shows "fst (fetch w) = Inr z \<or> (\<exists>t. (t, z) \<in> set lg \<and> clock w - t < zc_ttl c)"
proof -
  have ok: "zones_ok (c, lg)" using zc.inv_run [of ttl xs] assms(1) by simp
  show ?thesis
  proof (cases "cache_fresh (clock w) c")
    case True
    then show ?thesis using ok assms(2)
      by (auto simp: catalog_get_strict_def cache_fresh_def zones_ok_def)
  next
    case False
    then show ?thesis using assms(2)
      by (auto simp: catalog_get_strict_def split: prod.splits sum.splits)
  qed
qed

definition demo_zone :: zone_info where
  "demo_zone = \<lparr>zi_zone = ''cn-bj2-03'', zi_region = ''cn-bj2'', zi_region_id = 1, zi_zone_id = 5001,
     zi_describe = ''North 1C'', zi_is_pod = False, zi_disable_image_sync = False,
     zi_unsupported_image_types = []\<rparr>"

theorem strict_read_never_stale_witness:
  "let s = foldl zone_step (new_catalog 10, []) [ReadLenient 3 5 (Inr [demo_zone])]
   in fst (catalog_get_strict (\<lambda>w. w) (\<lambda>w. (Inl (plain_err ''down''), w)) (fst s) 12) = Inr [demo_zone] \<and>
      (\<exists>t. (t, [demo_zone]) \<in> set (snd s) \<and> 12 - t < 10)"
proof -
  let ?s = "foldl zone_step (new_catalog 10, []) [ReadLenient 3 5 (Inr [demo_zone])]"
  have s: "?s = (\<lparr>zc_ttl = 10, zc_zones = [demo_zone], zc_fetched_at = 5\<rparr>, [(5, [demo_zone])])"
    by (simp add: zone_step_def catalog_get_def new_catalog_def cache_fresh_def store_zones_def answer_log_def)
  have r: "fst (catalog_get_strict (\<lambda>w. w) (\<lambda>w. (Inl (plain_err ''down''), w)) (fst ?s) 12) = Inr [demo_zone]"
    unfolding s by (simp add: catalog_get_strict_def cache_fresh_def)
  have "fst ((\<lambda>w. (Inl (plain_err ''down''), w)) (12 :: int)) = Inr [demo_zone] \<or>
      (\<exists>t. (t, [demo_zone]) \<in> set (snd ?s) \<and> 12 - t < zc_ttl (fst ?s))"
    by (rule strict_read_never_stale [OF surjective_pairing r])
  then have "\<exists>t. (t, [demo_zone]) \<in> set (snd ?s) \<and> 12 - t < 10" unfolding s by simp
  with r show ?thesis unfolding Let_def by blast
qed

text \<open>The lookup is not exact: a text that merely contains a zone id resolves to that zone.\<close>

lemma exact_zone_substring: "exact_zone [demo_zone] ''x-cn-bj2-035'' = Some ''cn-bj2-03''"
  by (simp add: exact_zone_def zone_mentioned_def demo_zone_def to_lower_def lower_char_def)

lemma exact_zone_member: "exact_zone zs text = Some z \<Longrightarrow> \<exists>i \<in> set zs. zi_zone i = z \<and> zone_mentioned text i"
  by (auto simp: exact_zone_def dest: find_Some_iff_first)

end
