(* ===== verification/SafeExecutor.thy ===== *)
theory SafeExecutor
  imports ToolPolicy Zones Platform
begin

text \<open>
  The guarded tool executor (\<open>internal/tools/safe_executor.go\<close>): every API call of the agent
  goes through \<open>ExecuteSafe\<close>, which looks the action's policy up, filters the arguments,
  resolves internal zone ids, enforces caps, asks for confirmation, retries and redacts.

  The environment holds what the executor is wired to: the inner executor, the confirmation
  callback, the clock, the tenant identity of the request context and the backoff sleep,
  acting on an external world \<open>'w\<close>. The state holds the shared zone catalog, and an event
  list that records the cards shown and the inner calls made; no operation reads it. The hooks of a request only observe and are left out, and so is the trace copy
  of a result (\<open>TraceResult\<close>). An error carries the sentinel it wraps and what
  \<open>errors.Is\<close> / \<open>errors.As\<close> find in it; \<open>te_text\<close> is the upstream text that is classified.
\<close>

section \<open>Requests, errors, state\<close>

datatype execution_origin =
    OriginDirectLLM | OriginWorkflowInternal | OriginDiagnosisInternal | OriginOther string

datatype tool_err_kind =
    ErrPolicyMissing | ErrDestructiveAction | ErrUserDeclined | ErrNonExternalAction
  | ErrToolCapExceeded | ErrHistoryWindowExceeded | ErrMutatingActionDisabled
  | ErrCFSZoneUnresolved | ErrZoneUnavailable | ErrRateLimited | ErrUpstream

record tool_err =
  te_kind :: tool_err_kind
  te_text :: string
  te_is_eof :: bool
  te_is_net :: bool

definition tool_error :: "tool_err_kind \<Rightarrow> string \<Rightarrow> tool_err" where
  "tool_error k t = \<lparr>te_kind = k, te_text = t, te_is_eof = False, te_is_net = False\<rparr>"

record safe_request =
  sq_action :: string
  sq_args :: gmap
  sq_origin :: execution_origin

datatype xevent = EvAsk string gmap bool | EvCall string gmap int

record 'w xstate =
  xs_world :: 'w
  xs_catalog :: catalog
  xs_events :: "xevent list"

record 'w xenv =
  xe_inner :: "'w \<Rightarrow> int \<Rightarrow> string \<Rightarrow> gmap \<Rightarrow> (tool_err + gmap option) \<times> 'w"
  xe_policies :: "(string \<times> tool_policy) list"
  xe_confirm :: "('w \<Rightarrow> string \<Rightarrow> gmap \<Rightarrow> bool \<times> 'w) option"
  xe_mutating :: bool
  xe_clock :: "'w \<Rightarrow> int"
  xe_top_org :: "32 word"
  xe_org :: "32 word"
  xe_backoff :: "'w \<Rightarrow> int \<Rightarrow> tool_err option \<times> 'w"

record safe_result =
  sr_action :: string
  sr_args :: gmap
  sr_raw :: "gmap option"
  sr_llm :: "gmap option"
  sr_attempts :: nat

section \<open>Arguments\<close>

definition is_internal :: "execution_origin \<Rightarrow> bool" where
  "is_internal orig = (orig = OriginWorkflowInternal \<or> orig = OriginDiagnosisInternal)"

definition allowed_params_for_origin :: "tool_policy \<Rightarrow> execution_origin \<Rightarrow> string list option" where
  "allowed_params_for_origin p origin =
     (if is_internal origin \<and> tp_internal_allowed p \<noteq> []
      then Some (fold append_allowed_param (tp_internal_allowed p)
                   (case tp_allowed p of None \<Rightarrow> [] | Some al \<Rightarrow> al))
      else tp_allowed p)"

definition filter_safe_args :: "gmap \<Rightarrow> string list option \<Rightarrow> gmap" where
  "filter_safe_args args allowed = (case allowed of
       None \<Rightarrow> args
     | Some al \<Rightarrow> fold (\<lambda>k out. case mget args k of None \<Rightarrow> out | Some v \<Rightarrow> mput k v out) al [])"

definition should_confirm :: "tool_policy \<Rightarrow> execution_origin \<Rightarrow> bool" where
  "should_confirm p origin = (tp_needs_confirm p \<and> \<not> is_internal origin)"

definition string_arg :: "gval \<Rightarrow> string" where
  "string_arg v = (case v of GStr s \<Rightarrow> s | _ \<Rightarrow> [])"

definition has_non_zero_uint :: "gval \<Rightarrow> bool" where
  "has_non_zero_uint v = (case v of
       GUint32 n \<Rightarrow> n \<noteq> 0 | GUint64 n \<Rightarrow> n \<noteq> 0 | GInt n \<Rightarrow> n \<noteq> 0 | GInt64 n \<Rightarrow> n \<noteq> 0
     | GFloat x \<Rightarrow> x \<noteq> Fin 0 | _ \<Rightarrow> False)"

definition string_slice_arg :: "gval \<Rightarrow> string list" where
  "string_slice_arg v = (case v of
       GStrs ss \<Rightarrow> ss
     | GList vs \<Rightarrow> List.map_filter (\<lambda>x. case x of GStr s \<Rightarrow> Some s | _ \<Rightarrow> None) vs
     | _ \<Rightarrow> [])"

definition first_pod_uhost_id :: "gval \<Rightarrow> string" where
  "first_pod_uhost_id v = (case find is_pod_instance_id (string_slice_arg v) of None \<Rightarrow> [] | Some s \<Rightarrow> s)"

section \<open>Caps\<close>

definition value_len :: "gval \<Rightarrow> nat" where
  "value_len v = (case v of GList xs \<Rightarrow> length xs | GStrs xs \<Rightarrow> length xs | _ \<Rightarrow> 0)"

definition count_requested_targets :: "gmap \<Rightarrow> nat" where
  "count_requested_targets args = (case mget args ''UHostIds'' of
       Some ids \<Rightarrow> value_len ids
     | None \<Rightarrow> (if mval args ''UHostId'' \<noteq> GNil then 1 else 0))"

definition is_safe_integer_float64 :: "gfloat \<Rightarrow> bool" where
  "is_safe_integer_float64 x = (case x of
       Fin r \<Rightarrow> of_int min_int64 \<le> r \<and> r < of_int (max_int64 + 1) \<and> of_int (rat_trunc r) = r
     | _ \<Rightarrow> False)"

definition float_seconds :: "gfloat \<Rightarrow> int option" where
  "float_seconds x = (if is_safe_integer_float64 x
     then (case x of Fin r \<Rightarrow> Some (rat_trunc r) | _ \<Rightarrow> None) else None)"

definition seconds_arg :: "gval \<Rightarrow> int option" where
  "seconds_arg v = (case v of
       GInt n \<Rightarrow> Some n | GInt64 n \<Rightarrow> Some n | GInt32 n \<Rightarrow> Some n
     | GFloat x \<Rightarrow> float_seconds x | GFloat32 x \<Rightarrow> float_seconds x
     | GStr s \<Rightarrow> parse_int64 (trim_space s)
     | GNumber s \<Rightarrow> parse_int64 s
     | _ \<Rightarrow> None)"

text \<open>\<open>None\<close>: no window requested. A malformed window is the largest one.\<close>

definition requested_history_window_seconds :: "gmap \<Rightarrow> int option" where
  "requested_history_window_seconds args =
     (case (mget args ''StartTime'', mget args ''EndTime'') of
        (None, None) \<Rightarrow> None
      | (Some sv, Some ev) \<Rightarrow>
          (case (seconds_arg sv, seconds_arg ev) of
             (Some s, Some e) \<Rightarrow>
               if s < 0 \<or> e < 0 then Some max_int64
               else if e \<le> s then Some max_int64
               else if max_int64 - s < e then Some max_int64
               else Some (e - s)
           | _ \<Rightarrow> Some max_int64)
      | _ \<Rightarrow> Some max_int64)"

definition check_policy_caps :: "tool_policy \<Rightarrow> gmap \<Rightarrow> tool_err option" where
  "check_policy_caps p args =
     (if 0 < tp_max_targets p \<and> tp_max_targets p < int (count_requested_targets args)
      then Some (tool_error ErrToolCapExceeded [])
      else if 0 < tp_max_window p then
        (case requested_history_window_seconds args of
           None \<Rightarrow> None
         | Some w \<Rightarrow>
             if count_requested_targets args < 1 then Some (tool_error ErrHistoryWindowExceeded [])
             else if tp_max_window p < w then Some (tool_error ErrHistoryWindowExceeded [])
             else None)
      else None)"

section \<open>Retries\<close>

text \<open>The expression \<open>(status|status code)\D*(\d{3})\<close>: the first digit of the leftmost match.\<close>

fun status_code_digit :: "string \<Rightarrow> char option" where
  "status_code_digit [] = None"
| "status_code_digit (c # s) =
     (if has_prefix (c # s) ''status''
      then (let ds = dropWhile (\<lambda>x. \<not> is_digit x) (drop 6 (c # s)) in
            if 3 \<le> length ds \<and> list_all is_digit (take 3 ds) then Some (hd ds)
            else status_code_digit s)
      else status_code_digit s)"

definition classify_error :: "tool_err \<Rightarrow> error_class list" where
  "classify_error e =
     (let msg = to_lower (te_text e) in
      (if te_is_eof e then [ErrorClassEOF] else []) @
      (if te_is_net e then [ErrorClassNetwork] else []) @
      (if contains_text msg ''connection reset'' \<or> contains_text msg ''connection refused''
       then [ErrorClassNetwork] else []) @
      (if contains_text msg ''eof'' then [ErrorClassEOF] else []) @
      (if status_code_digit msg = Some (CHR ''5'') then [ErrorClassHTTP5xx] else []))"

definition should_retry :: "tool_err \<Rightarrow> error_class list \<Rightarrow> bool" where
  "should_retry e retry_on =
     (te_kind e \<notin> {ErrToolCapExceeded, ErrHistoryWindowExceeded, ErrRateLimited} \<and>
      list_ex (\<lambda>c. c \<in> set retry_on) (classify_error e))"

definition inner_call :: "'w xenv \<Rightarrow> int \<Rightarrow> string \<Rightarrow> gmap \<Rightarrow> 'w xstate \<Rightarrow> (tool_err + gmap option) \<times> 'w xstate" where
  "inner_call env timeout action args st =
     (let (r, w) = xe_inner env (xs_world st) timeout action args in
      (r, st\<lparr>xs_world := w, xs_events := xs_events st @ [EvCall action args timeout]\<rparr>))"

fun retry_loop :: "'w xenv \<Rightarrow> tool_policy \<Rightarrow> string \<Rightarrow> gmap \<Rightarrow> nat \<Rightarrow> nat \<Rightarrow> 'w xstate
    \<Rightarrow> ((tool_err + gmap option) \<times> nat) \<times> 'w xstate" where
  "retry_loop env p action args left attempt st =
     (let rc = inner_call env (tp_timeout_ms p) action args st; st1 = snd rc in
      case fst rc of
        Inr raw \<Rightarrow> ((Inr raw, attempt), st1)
      | Inl e \<Rightarrow>
          (case left of
             0 \<Rightarrow> ((Inl e, attempt), st1)
           | Suc k \<Rightarrow>
               if \<not> should_retry e (tp_retry_on p) then ((Inl e, attempt), st1)
               else if 0 < tp_backoff_ms p then
                 (let (d, w) = xe_backoff env (xs_world st1) (tp_backoff_ms p * int attempt);
                      st2 = st1\<lparr>xs_world := w\<rparr>
                  in case d of
                       Some ce \<Rightarrow> ((Inl ce, attempt), st2)
                     | None \<Rightarrow> retry_loop env p action args k (Suc attempt) st2)
               else retry_loop env p action args k (Suc attempt) st1))"

declare retry_loop.simps [simp del]

definition execute_with_retry :: "'w xenv \<Rightarrow> tool_policy \<Rightarrow> string \<Rightarrow> gmap \<Rightarrow> 'w xstate
    \<Rightarrow> ((tool_err + gmap option) \<times> nat) \<times> 'w xstate" where
  "execute_with_retry env p action args st =
     retry_loop env p action args (nat (tp_max_retries p)) 1 st"

section \<open>Results\<close>

fun monitor_result_has_samples :: "gval \<Rightarrow> bool" where
  "monitor_result_has_samples (GMap kvs) =
     list_ex (\<lambda>kv. (fst kv = ''Value'' \<and> snd kv \<noteq> GNil) \<or> monitor_result_has_samples (snd kv)) kvs"
| "monitor_result_has_samples (GList vs) = list_ex monitor_result_has_samples vs"
| "monitor_result_has_samples v = False"

definition has_monitor_time_range_args :: "gmap \<Rightarrow> bool" where
  "has_monitor_time_range_args args = (mhas args ''StartTime'' \<or> mhas args ''EndTime'')"

text \<open>The guidance sentence of the source, as its UTF-8 bytes.\<close>

definition no_data_guidance :: string where
  "no_data_guidance = map char_of ([
     232, 175, 165, 232, 175, 183, 230, 177, 130, 230, 151, 182, 233, 151, 180, 231, 170, 151, 230, 178,
     161, 230, 156, 137, 232, 191, 148, 229, 155, 158, 230, 156, 137, 230, 149, 136, 231, 155, 145, 230,
     142, 167, 233, 135, 135, 230, 160, 183, 231, 130, 185, 239, 188, 155, 228, 184, 141, 232, 166, 129,
     228, 189, 191, 231, 148, 168, 229, 189, 147, 229, 137, 141, 229, 174, 158, 230, 151, 182, 230, 149,
     176, 230, 141, 174, 230, 155, 191, 228, 187, 163, 239, 188, 140, 228, 185, 159, 228, 184, 141, 232,
     166, 129, 231, 188, 150, 233, 128, 160, 32, 67, 80, 85, 47, 229, 134, 133, 229, 173, 152, 47,
     71, 80, 85, 32, 230, 149, 176, 229, 128, 188, 227, 128, 130] :: nat list)"

definition apply_history_guard :: "tool_policy \<Rightarrow> gmap \<Rightarrow> gmap option \<Rightarrow> gmap option" where
  "apply_history_guard p args raw = (case raw of
       None \<Rightarrow> None
     | Some r \<Rightarrow>
         if \<not> tp_history_guard p \<or> \<not> has_monitor_time_range_args args then Some r
         else if monitor_result_has_samples (GMap r) then Some r
         else Some (mput ''MonitorDataGuidance'' (GStr no_data_guidance)
                     (mput ''MonitorDataStatus'' (GStr ''NO_DATA_IN_REQUESTED_WINDOW'') r)))"

definition dedupe_csv_tags :: "string \<Rightarrow> string" where
  "dedupe_csv_tags value =
     join_with '','' (uniq_by to_lower [] (filter (\<lambda>s. s \<noteq> []) (map trim_space (split_on (CHR '','') value))))"

fun dedupe_any_strings :: "string list \<Rightarrow> gval list \<Rightarrow> gval list" where
  "dedupe_any_strings seen [] = []"
| "dedupe_any_strings seen (v # vs) = (case v of
       GStr s \<Rightarrow>
         (let key = to_lower (trim_space s) in
          if key \<in> set seen then dedupe_any_strings seen vs
          else v # dedupe_any_strings (key # seen) vs)
     | _ \<Rightarrow> v # dedupe_any_strings seen vs)"

definition dedupe_entry :: "gval \<Rightarrow> gval" where
  "dedupe_entry v = (case v of
       GMap m \<Rightarrow> (case mget m ''Tag'' of
           Some (GStr tag) \<Rightarrow> if tag \<noteq> [] then GMap (mput ''Tag'' (GStr (dedupe_csv_tags tag)) m) else v
         | _ \<Rightarrow> v)
     | _ \<Rightarrow> v)"

definition dedupe_model_repository_tags :: "string \<Rightarrow> gmap option \<Rightarrow> gmap option" where
  "dedupe_model_repository_tags action raw = (case raw of
       None \<Rightarrow> None
     | Some r \<Rightarrow>
         if action = ''DescribeModelRepositoryModels'' then
           (case mget r ''Models'' of
              Some (GList models) \<Rightarrow> Some (mput ''Models'' (GList (map dedupe_entry models)) r)
            | _ \<Rightarrow> Some r)
         else if action = ''DescribeModelRepositoryTags'' then
           (case mget r ''Tags'' of
              Some (GList tags) \<Rightarrow> Some (mput ''Tags'' (GList (dedupe_any_strings [] tags)) r)
            | _ \<Rightarrow> Some r)
         else Some r)"

text \<open>
  \<open>redactFieldByName\<close>: the field is overwritten wherever it is reached through maps and
  through lists of maps; a list directly inside a list is not entered.
\<close>

definition redacted :: gval where
  "redacted = GStr ''[REDACTED]''"

fun redact_value :: "string \<Rightarrow> gval \<Rightarrow> gval" where
  "redact_value field (GMap kvs) =
     GMap (map (\<lambda>kv. (fst kv, if fst kv = field then redacted else redact_value field (snd kv))) kvs)"
| "redact_value field (GList vs) =
     GList (map (\<lambda>v. case v of GMap m \<Rightarrow> redact_value field v | _ \<Rightarrow> v) vs)"
| "redact_value field v = v"

definition redact_field_by_name :: "string \<Rightarrow> gmap \<Rightarrow> gmap" where
  "redact_field_by_name field m = (case redact_value field (GMap m) of GMap m' \<Rightarrow> m' | _ \<Rightarrow> [])"

definition model_result :: "tool_policy \<Rightarrow> gmap option \<Rightarrow> gmap option" where
  "model_result p raw = map_option (fold redact_field_by_name (tp_redact_in_result p)) raw"

section \<open>ExecuteSafe\<close>

type_synonym 'w resolver = "string \<Rightarrow> gmap \<Rightarrow> 'w xstate \<Rightarrow> (tool_err + gmap) \<times> 'w xstate"

definition ask_user :: "'w xenv \<Rightarrow> string \<Rightarrow> gmap \<Rightarrow> 'w xstate \<Rightarrow> bool \<times> 'w xstate" where
  "ask_user env action args st = (case xe_confirm env of
       None \<Rightarrow> (False, st)
     | Some ask \<Rightarrow>
         (let (yes, w) = ask (xs_world st) action args in
          (yes, st\<lparr>xs_world := w, xs_events := xs_events st @ [EvAsk action args yes]\<rparr>)))"

definition run_allowed :: "'w xenv \<Rightarrow> tool_policy \<Rightarrow> safe_request \<Rightarrow> gmap \<Rightarrow> 'w xstate
    \<Rightarrow> (tool_err + safe_result) \<times> 'w xstate" where
  "run_allowed env p req args st =
     (let rr = execute_with_retry env p (sq_action req) args st in
      case fst (fst rr) of
        Inl e \<Rightarrow> (Inl e, snd rr)
      | Inr raw \<Rightarrow>
          (let guarded = dedupe_model_repository_tags (sq_action req) (apply_history_guard p args raw) in
           (Inr \<lparr>sr_action = sq_action req, sr_args = args, sr_raw = guarded,
                 sr_llm = model_result p guarded, sr_attempts = snd (fst rr)\<rparr>, snd rr)))"

text \<open>The guards that need the policy alone, in the order of the code.\<close>

definition policy_refusal :: "'w xenv \<Rightarrow> string \<Rightarrow> tool_policy \<Rightarrow> tool_err option" where
  "policy_refusal env action p =
     (if tp_route p \<noteq> RouteExternalAPI then Some (tool_error ErrNonExternalAction action)
      else if tp_level p = L2 \<or> tp_class p = ClassDestructive
      then Some (tool_error ErrDestructiveAction action)
      else if \<not> xe_mutating env \<and> tp_class p = ClassMutating
      then Some (tool_error ErrMutatingActionDisabled action)
      else None)"

definition execute_with :: "'w resolver \<Rightarrow> 'w xenv \<Rightarrow> safe_request \<Rightarrow> 'w xstate
    \<Rightarrow> (tool_err + safe_result) \<times> 'w xstate" where
  "execute_with resolve env req st = (case mget (xe_policies env) (sq_action req) of
       None \<Rightarrow> (Inl (tool_error ErrPolicyMissing (sq_action req)), st)
     | Some p \<Rightarrow>
         (case policy_refusal env (sq_action req) p of
            Some e \<Rightarrow> (Inl e, st)
          | None \<Rightarrow>
              (let rz = resolve (sq_action req)
                          (filter_safe_args (sq_args req) (allowed_params_for_origin p (sq_origin req))) st
               in case fst rz of
                    Inl e \<Rightarrow> (Inl e, snd rz)
                  | Inr args \<Rightarrow>
                      (case check_policy_caps p args of
                         Some e \<Rightarrow> (Inl e, snd rz)
                       | None \<Rightarrow>
                           if should_confirm p (sq_origin req) then
                             (let ra = ask_user env (sq_action req) args (snd rz) in
                              if fst ra then run_allowed env p req args (snd ra)
                              else (Inl (tool_error ErrUserDeclined (sq_action req)), snd ra))
                           else run_allowed env p req args (snd rz)))))"

section \<open>Zone resolution\<close>

definition zone_id_for_zone_string :: "zone_info list \<Rightarrow> string \<Rightarrow> 32 word" where
  "zone_id_for_zone_string zs zone =
     (let z = trim_space zone in
      if z = [] then 0
      else case find (\<lambda>i. equal_fold (zi_zone i) z) zs of None \<Rightarrow> 0 | Some i \<Rightarrow> zi_zone_id i)"

text \<open>
  \<open>zoneCatalog.Get\<close>, with the executor itself as the fetcher: the catalog asks for
  \<open>DescribeCompShareSupportZone\<close> with the diagnosis origin, an action that has no zone
  resolution of its own.
\<close>

definition no_resolution :: "'w resolver" where
  "no_resolution action args st = (Inr args, st)"

definition catalog_fetch :: "'w xenv \<Rightarrow> 'w xstate \<Rightarrow> (tool_err + zone_info list) \<times> 'w xstate" where
  "catalog_fetch env =
     fetch_support_zones (\<lambda>st action args.
         (let rx = execute_with no_resolution env
                     \<lparr>sq_action = action, sq_args = args, sq_origin = OriginDiagnosisInternal\<rparr> st
          in (case fst rx of Inl e \<Rightarrow> Inl e | Inr r \<Rightarrow> Inr (case sr_raw r of None \<Rightarrow> [] | Some m \<Rightarrow> m), snd rx)))
       (xe_top_org env) (xe_org env)"

definition catalog_zones :: "'w xenv \<Rightarrow> 'w xstate \<Rightarrow> (tool_err + zone_info list) \<times> 'w xstate" where
  "catalog_zones env st =
     (let (r, c, st') = catalog_get (\<lambda>s. xe_clock env (xs_world s)) (catalog_fetch env) (xs_catalog st) st
      in (r, st'\<lparr>xs_catalog := c\<rparr>))"

text \<open>
  The catalog lookup two resolvers share: the numeric id of the mentioned zone. The pod
  resolver wraps the catalog's error, the CFS resolver replaces it (\<open>wrap\<close>).
\<close>

definition resolve_catalog_zone :: "'w xenv \<Rightarrow> (tool_err option \<Rightarrow> tool_err) \<Rightarrow> gmap \<Rightarrow> string \<Rightarrow> 'w xstate
    \<Rightarrow> (tool_err + gmap) \<times> 'w xstate" where
  "resolve_catalog_zone env wrap args zone st =
     (let rz = catalog_zones env st in
      (case fst rz of
         Inl e \<Rightarrow> Inl (wrap (Some e))
       | Inr zs \<Rightarrow>
           (case exact_zone zs zone of
              None \<Rightarrow> Inl (wrap None)
            | Some canonical \<Rightarrow>
                (let zid = zone_id_for_zone_string zs canonical in
                 if zid = 0 then Inl (wrap None) else Inr (mput ''zone_id'' (GUint32 zid) args))),
       snd rz))"

definition resolve_pod_lifecycle_zone_id :: "'w xenv \<Rightarrow> 'w resolver" where
  "resolve_pod_lifecycle_zone_id env action args st =
     (if has_non_zero_uint (mval args ''zone_id'') \<or>
         \<not> is_pod_instance_id (string_arg (mval args ''UHostId''))
      then (Inr args, st)
      else
        (let zone = trim_space (string_arg (mval args ''Zone'')) in
         if zone = [] then (Inl (tool_error ErrZoneUnavailable action), st)
         else resolve_catalog_zone env
                (\<lambda>e. case e of Some e \<Rightarrow> e | None \<Rightarrow> tool_error ErrZoneUnavailable zone) args zone st))"

definition resolve_cfs_list_zone_id :: "'w xenv \<Rightarrow> 'w resolver" where
  "resolve_cfs_list_zone_id env action args st =
     (if has_non_zero_uint (mval args ''zone_id'') \<or>
         trim_space (string_arg (mval args ''CfsId'')) \<noteq> []
      then (Inr args, st)
      else
        (let zone = trim_space (string_arg (mval args ''Zone'')) in
         if zone = [] then (Inr args, st)
         else resolve_catalog_zone env (\<lambda>_. tool_error ErrCFSZoneUnresolved zone) args zone st))"

text \<open>
  The resolver as the nested requests see it: they ask for \<open>DescribeCFS\<close> and
  \<open>DescribeCompShareInstance\<close>, whose own resolution makes no further request.
\<close>

definition resolve_leaf :: "'w xenv \<Rightarrow> 'w resolver" where
  "resolve_leaf env action args st =
     (if action = ''DescribeCFS'' then resolve_cfs_list_zone_id env action args st
      else if action \<in> {''StartCompShareInstance'', ''StopCompShareInstance''}
      then resolve_pod_lifecycle_zone_id env action args st
      else (Inr args, st))"

fun uint32_field_any :: "gmap \<Rightarrow> string list \<Rightarrow> 32 word" where
  "uint32_field_any m [] = 0"
| "uint32_field_any m (k # ks) = (case mval m k of
       GInt n \<Rightarrow> if 0 < n then word_of_int n else uint32_field_any m ks
     | GInt32 n \<Rightarrow> if 0 < n then word_of_int n else uint32_field_any m ks
     | GInt64 n \<Rightarrow> if 0 < n then word_of_int n else uint32_field_any m ks
     | GUint32 n \<Rightarrow> if 0 < n then n else uint32_field_any m ks
     | GUint64 n \<Rightarrow> if 0 < n then ucast n else uint32_field_any m ks
     | GFloat (Fin r) \<Rightarrow> if 0 < r then word_of_int (rat_trunc r) else uint32_field_any m ks
     | GFloat PosInf \<Rightarrow> 0
     | _ \<Rightarrow> uint32_field_any m ks)"

definition zone_id_keys :: "string list" where
  "zone_id_keys = [''ZoneId'', ''ZoneID'', ''zone_id'']"

fun first_row_zone_id :: "gval list \<Rightarrow> 32 word" where
  "first_row_zone_id [] = 0"
| "first_row_zone_id (v # vs) =
     (let zid = (case v of GMap m \<Rightarrow> uint32_field_any m zone_id_keys | _ \<Rightarrow> 0) in
      if zid \<noteq> 0 then zid else first_row_zone_id vs)"

definition cfs_zone_id_from_describe_result :: "gmap option \<Rightarrow> 32 word" where
  "cfs_zone_id_from_describe_result raw = (case raw of
       None \<Rightarrow> 0
     | Some r \<Rightarrow>
         (let top = uint32_field_any r zone_id_keys in
          if top \<noteq> 0 then top
          else case mval r ''CFSSet'' of GList rows \<Rightarrow> first_row_zone_id rows | _ \<Rightarrow> 0))"

definition instance_zone_from_describe_result :: "gmap option \<Rightarrow> string" where
  "instance_zone_from_describe_result raw = (case raw of
       None \<Rightarrow> []
     | Some r \<Rightarrow> (case mval r ''UHostSet'' of
           GList (GMap host # _) \<Rightarrow> trim_space (string_arg (mval host ''Zone''))
         | _ \<Rightarrow> []))"

definition resolve_cfs_upgrade_zone_id :: "'w xenv \<Rightarrow> 'w resolver" where
  "resolve_cfs_upgrade_zone_id env action args st =
     (let cfs = trim_space (string_arg (mval args ''CfsId'')) in
      if has_non_zero_uint (mval args ''zone_id'') \<or> cfs = [] then (Inr args, st)
      else
        (let rx = execute_with (resolve_leaf env) env
                    \<lparr>sq_action = ''DescribeCFS'', sq_args = [(''CfsId'', GStr cfs)],
                     sq_origin = OriginDiagnosisInternal\<rparr> st;
             zid = (case fst rx of Inl _ \<Rightarrow> 0 | Inr r \<Rightarrow> cfs_zone_id_from_describe_result (sr_raw r))
         in if zid = 0 then (Inl (tool_error ErrCFSZoneUnresolved cfs), snd rx)
            else (Inr (mput ''zone_id'' (GUint32 zid) args), snd rx)))"

definition resolve_jupyter_token_zone_id :: "'w xenv \<Rightarrow> 'w resolver" where
  "resolve_jupyter_token_zone_id env action args st =
     (let pod = first_pod_uhost_id (mval args ''UHostIds'') in
      if has_non_zero_uint (mval args ''zone_id'') \<or> pod = [] then (Inr args, st)
      else
        (let rx = execute_with (resolve_leaf env) env
                    \<lparr>sq_action = ''DescribeCompShareInstance'', sq_args = [(''UHostIds'', GStrs [pod])],
                     sq_origin = OriginDiagnosisInternal\<rparr> st;
             zone = (case fst rx of Inl _ \<Rightarrow> [] | Inr r \<Rightarrow> instance_zone_from_describe_result (sr_raw r))
         in if zone = [] then (Inr args, snd rx)
            else
              (let rz = catalog_zones env (snd rx);
                   zid = (case fst rz of Inl _ \<Rightarrow> 0 | Inr zs \<Rightarrow> zone_id_for_zone_string zs zone)
               in (Inr (if zid = 0 then args else mput ''zone_id'' (GUint32 zid) args), snd rz))))"

definition resolve_backend_zone_id :: "'w xenv \<Rightarrow> 'w resolver" where
  "resolve_backend_zone_id env action args st =
     (if action = ''GetCompShareCFSUpgradePrice'' then resolve_cfs_upgrade_zone_id env action args st
      else if action = ''DescribeCFS'' then resolve_cfs_list_zone_id env action args st
      else if action \<in> {''StartCompShareInstance'', ''StopCompShareInstance''}
      then resolve_pod_lifecycle_zone_id env action args st
      else if action = ''DescribeCompShareJupyterToken'' then resolve_jupyter_token_zone_id env action args st
      else (Inr args, st))"

definition execute_safe :: "'w xenv \<Rightarrow> safe_request \<Rightarrow> 'w xstate \<Rightarrow> (tool_err + safe_result) \<times> 'w xstate" where
  "execute_safe env req st = execute_with (resolve_backend_zone_id env) env req st"

text \<open>\<open>Execute\<close>: a direct call, as the model makes it.\<close>

definition execute_direct :: "'w xenv \<Rightarrow> string \<Rightarrow> gmap \<Rightarrow> 'w xstate \<Rightarrow> (tool_err + gmap option) \<times> 'w xstate" where
  "execute_direct env action args st =
     (let rx = execute_safe env \<lparr>sq_action = action, sq_args = args, sq_origin = OriginDirectLLM\<rparr> st in
      (case fst rx of Inl e \<Rightarrow> Inl e | Inr r \<Rightarrow> Inr (sr_raw r), snd rx))"

end
