(* ===== verification/SafeExecutorFacts.thy ===== *)
theory SafeExecutorFacts
  imports SafeExecutor
begin

text \<open>
  What one request to the guarded executor does to the event list, for every environment:
  zone lookups first, then at most one confirmation card, then the attempts at the action.
  \<open>request_trace\<close> is the abstract specification; \<open>execute_safe_trace\<close> shows that
  \<open>ExecuteSafe\<close> implements it.
\<close>

definition zone_lookup_reads :: "string list" where
  "zone_lookup_reads = [''DescribeCFS'', ''DescribeCompShareInstance'', ''DescribeCompShareSupportZone'']"

fun lookup_event :: "xevent \<Rightarrow> bool" where
  "lookup_event (EvCall a _ _) = (a \<in> set zone_lookup_reads)"
| "lookup_event (EvAsk _ _ _) = False"

inductive request_trace :: "'w xenv \<Rightarrow> safe_request \<Rightarrow> nat \<Rightarrow> xevent list \<Rightarrow> bool"
  for env req n where
  refused: "\<lbrakk>list_all lookup_event pre; length pre \<le> n\<rbrakk> \<Longrightarrow> request_trace env req n pre"
| declined: "\<lbrakk>list_all lookup_event pre; length pre \<le> n; mget (xe_policies env) (sq_action req) = Some p;
     should_confirm p (sq_origin req)\<rbrakk>
    \<Longrightarrow> request_trace env req n (pre @ [EvAsk (sq_action req) args False])"
| called: "\<lbrakk>list_all lookup_event pre; length pre \<le> n; mget (xe_policies env) (sq_action req) = Some p;
     policy_refusal env (sq_action req) p = None; check_policy_caps p args = None;
     \<forall>key. key \<noteq> ''zone_id'' \<longrightarrow> mget args key
       = mget (filter_safe_args (sq_args req) (allowed_params_for_origin p (sq_origin req))) key;
     ask = (if should_confirm p (sq_origin req) then [EvAsk (sq_action req) args True] else []);
     0 < k; k \<le> Suc (nat (tp_max_retries p))\<rbrakk>
    \<Longrightarrow> request_trace env req n
          (pre @ ask @ replicate k (EvCall (sq_action req) args (tp_timeout_ms p)))"

inductive_cases request_traceE: "request_trace env req n evs"

section \<open>Event growth\<close>

definition grows :: "nat \<Rightarrow> 'w xstate \<Rightarrow> 'w xstate \<Rightarrow> bool" where
  "grows n st st' \<longleftrightarrow>
     (\<exists>evs. xs_events st' = xs_events st @ evs \<and> length evs \<le> n \<and> list_all lookup_event evs)"

lemma grows_refl [simp, intro]: "grows n st st"
  by (simp add: grows_def)

lemma grows_trans: "\<lbrakk>grows n a b; grows m b c\<rbrakk> \<Longrightarrow> grows (n + m) a c"
  by (fastforce simp: grows_def)

lemma grows_mono: "\<lbrakk>grows n a b; n \<le> m\<rbrakk> \<Longrightarrow> grows m a b"
  by (fastforce simp: grows_def)

lemma grows_catalog [simp]: "grows n st (st'\<lparr>xs_catalog := c\<rparr>) = grows n st st'"
  by (simp add: grows_def)

section \<open>Attempts\<close>

lemma retry_loop_events:
  "\<exists>k. 0 < k \<and> k \<le> Suc left \<and>
     xs_events (snd (retry_loop env p a args left attempt st))
       = xs_events st @ replicate k (EvCall a args (tp_timeout_ms p))"
proof (induction left arbitrary: attempt st)
  case 0
  show ?case
    by (rule exI [of _ 1])
      (subst retry_loop.simps, simp add: inner_call_def Let_def split: prod.split sum.split)
next
  case (Suc left)
  let ?ev = "EvCall a args (tp_timeout_ms p)"
  let ?st1 = "snd (inner_call env (tp_timeout_ms p) a args st)"
  have ev1: "xs_events ?st1 = xs_events st @ [?ev]"
    by (simp add: inner_call_def Let_def split: prod.split)
  have once: "\<exists>k>0. k \<le> Suc (Suc left) \<and> xs_events s = xs_events st @ replicate k ?ev"
    if "xs_events s = xs_events ?st1" for s :: "'a xstate"
    using that ev1 by (intro exI [of _ 1]) simp
  have again: "\<exists>k>0. k \<le> Suc (Suc left) \<and>
      xs_events (snd (retry_loop env p a args left n s)) = xs_events st @ replicate k ?ev"
    if s: "xs_events s = xs_events ?st1" for s n
  proof -
    obtain k where k: "0 < k" "k \<le> Suc left"
      "xs_events (snd (retry_loop env p a args left n s)) = xs_events s @ replicate k ?ev"
      using Suc.IH [of n s] by blast
    with s ev1 show ?thesis by (intro exI [of _ "Suc k"]) simp
  qed
  show ?case
    by (subst retry_loop.simps)
      (auto simp: Let_def intro!: once again split: sum.split prod.split option.split)
qed

lemma run_allowed_events:
  "\<exists>k. 0 < k \<and> k \<le> Suc (nat (tp_max_retries p)) \<and>
     xs_events (snd (run_allowed env p req args st))
       = xs_events st @ replicate k (EvCall (sq_action req) args (tp_timeout_ms p))"
  using retry_loop_events [of "nat (tp_max_retries p)" env p "sq_action req" args 1 st]
  by (simp add: run_allowed_def execute_with_retry_def Let_def split: sum.split)

section \<open>A request\<close>

text \<open>What \<open>ExecuteSafe\<close> needs from the zone resolution: only lookups, only \<open>zone_id\<close> is set.\<close>

definition resolver_ok :: "nat \<Rightarrow> 'w resolver \<Rightarrow> string \<Rightarrow> gmap \<Rightarrow> bool" where
  "resolver_ok n R a args \<longleftrightarrow>
     (\<forall>st. grows n st (snd (R a args st)) \<and>
        (\<forall>args'. fst (R a args st) = Inr args' \<longrightarrow>
           (\<forall>key. key \<noteq> ''zone_id'' \<longrightarrow> mget args' key = mget args key)))"

lemma ask_user_events:
  "(fst (ask_user env a args st) \<and> xs_events (snd (ask_user env a args st)) = xs_events st @ [EvAsk a args True]) \<or>
   (\<not> fst (ask_user env a args st) \<and>
     (xs_events (snd (ask_user env a args st)) = xs_events st \<or>
      xs_events (snd (ask_user env a args st)) = xs_events st @ [EvAsk a args False]))"
  by (auto simp: ask_user_def Let_def split: option.split prod.split)

lemma execute_with_trace:
  assumes R: "\<And>args. resolver_ok n R (sq_action req) args"
  shows "\<exists>evs. xs_events (snd (execute_with R env req st)) = xs_events st @ evs \<and> request_trace env req n evs"
proof (cases "mget (xe_policies env) (sq_action req)")
  case None
  then show ?thesis by (auto simp: execute_with_def intro: request_trace.refused)
next
  case (Some p)
  show ?thesis
  proof (cases "policy_refusal env (sq_action req) p")
    case (Some e)
    with \<open>mget (xe_policies env) (sq_action req) = Some p\<close> show ?thesis
      by (auto simp: execute_with_def intro: request_trace.refused)
  next
    case None
    let ?f = "filter_safe_args (sq_args req) (allowed_params_for_origin p (sq_origin req))"
    let ?rz = "R (sq_action req) ?f st"
    obtain pre where pre: "xs_events (snd ?rz) = xs_events st @ pre" "length pre \<le> n" "list_all lookup_event pre"
      using R [of ?f] unfolding resolver_ok_def grows_def by blast
    show ?thesis
    proof (cases "fst ?rz")
      case (Inl e)
      with Some None pre show ?thesis
        by (auto simp: execute_with_def Let_def intro: request_trace.refused)
    next
      case (Inr args)
      have keys: "\<forall>key. key \<noteq> ''zone_id'' \<longrightarrow> mget args key = mget ?f key"
        using R [of ?f] Inr unfolding resolver_ok_def by blast
      show ?thesis
      proof (cases "check_policy_caps p args")
        case (Some e)
        with \<open>mget _ _ = Some p\<close> None Inr pre show ?thesis
          by (auto simp: execute_with_def Let_def intro: request_trace.refused)
      next
        case caps: None
        note call = request_trace.called [OF pre(3,2) Some None caps keys]
        have run: "\<exists>evs. xs_events (snd (run_allowed env p req args s)) = xs_events st @ evs
              \<and> request_trace env req n evs"
          if "xs_events s = xs_events st @ pre @ ask"
            "ask = (if should_confirm p (sq_origin req) then [EvAsk (sq_action req) args True] else [])" for s ask
          using run_allowed_events [of p env req args s] call [OF that(2)] that(1) by auto
        show ?thesis
        proof (cases "should_confirm p (sq_origin req)")
          case False
          then show ?thesis using Some None Inr caps pre run [of "snd ?rz" "[]"]
            by (simp add: execute_with_def Let_def)
        next
          case True
          let ?ra = "ask_user env (sq_action req) args (snd ?rz)"
          show ?thesis
            using ask_user_events [of env "sq_action req" args "snd ?rz"]
              Some None Inr caps True pre run [of "snd ?ra" "[EvAsk (sq_action req) args True]"]
              request_trace.refused [OF pre(3,2), of env req]
              request_trace.declined [OF pre(3,2) Some True, of args]
            by (auto simp: execute_with_def Let_def)
        qed
      qed
    qed
  qed
qed

section \<open>Zone resolution\<close>

definition retries_bounded :: "'w xenv \<Rightarrow> bool" where
  "retries_bounded env \<longleftrightarrow> (\<forall>a p. mget (xe_policies env) a = Some p \<longrightarrow> tp_max_retries p \<le> 1)"

lemma lookup_request_grows:
  assumes R: "\<And>args. resolver_ok n R (sq_action req) args" and rb: "retries_bounded env"
    and a: "sq_action req \<in> set zone_lookup_reads" and i: "is_internal (sq_origin req)"
  shows "grows (n + 2) st (snd (execute_with R env req st))"
proof -
  obtain evs where evs: "xs_events (snd (execute_with R env req st)) = xs_events st @ evs"
    and tr: "request_trace env req n evs"
    using execute_with_trace [of n R req env st, OF R] by blast
  from tr have "length evs \<le> n + 2 \<and> list_all lookup_event evs"
  proof (cases rule: request_trace.cases)
    case (called pre p args ask k)
    have "tp_max_retries p \<le> 1" using rb called(4) by (auto simp: retries_bounded_def)
    with called i a show ?thesis
      by (auto simp: should_confirm_def list_all_iff)
  qed (use i in \<open>auto simp: should_confirm_def\<close>)
  with evs show ?thesis by (auto simp: grows_def)
qed

lemma no_resolution_ok [simp]: "resolver_ok n no_resolution a args"
  by (auto simp: resolver_ok_def no_resolution_def)

lemma fetch_support_zones_world:
  "snd (fetch_support_zones exec torg org w) = snd (exec w ''DescribeCompShareSupportZone''
     (let a0 = (if torg \<noteq> 0 then mput ''top_organization_id'' (GUint32 torg) [] else [])
      in if org \<noteq> 0 then mput ''organization_id'' (GUint32 org) a0 else a0))"
  by (simp add: fetch_support_zones_def Let_def split: prod.split sum.split del: update.simps)

lemma support_zone_request_grows:
  "retries_bounded env \<Longrightarrow> grows 2 st (snd (execute_with no_resolution env
     \<lparr>sq_action = ''DescribeCompShareSupportZone'', sq_args = a, sq_origin = OriginDiagnosisInternal\<rparr> st))"
  using lookup_request_grows [of 0 no_resolution "\<lparr>sq_action = ''DescribeCompShareSupportZone'', sq_args = a,
      sq_origin = OriginDiagnosisInternal\<rparr>" env st]
  by (simp add: zone_lookup_reads_def is_internal_def numeral_2_eq_2)

lemma catalog_fetch_grows: "retries_bounded env \<Longrightarrow> grows 2 st (snd (catalog_fetch env st))"
  unfolding catalog_fetch_def fetch_support_zones_world
  by (simp add: support_zone_request_grows Let_def del: update.simps)

lemma catalog_zones_grows: "retries_bounded env \<Longrightarrow> grows 2 st (snd (catalog_zones env st))"
  using catalog_fetch_grows [of env st]
  by (auto simp: catalog_zones_def catalog_get_def split: prod.splits sum.splits)

lemma resolve_catalog_zone_ok:
  assumes "retries_bounded env"
  shows "grows 2 st (snd (resolve_catalog_zone env wrap args zone st))"
    and "fst (resolve_catalog_zone env wrap args zone st) = Inr args' \<Longrightarrow> key \<noteq> ''zone_id'' \<Longrightarrow>
      mget args' key = mget args key"
  using catalog_zones_grows [OF assms, of st]
  by (auto simp: resolve_catalog_zone_def Let_def mget_mput split: sum.splits option.splits if_splits)

lemma pod_resolver_ok: "retries_bounded env \<Longrightarrow> resolver_ok 2 (resolve_pod_lifecycle_zone_id env) a args"
  unfolding resolver_ok_def resolve_pod_lifecycle_zone_id_def Let_def
  by (auto simp: resolve_catalog_zone_ok split: if_splits)

lemma cfs_list_resolver_ok: "retries_bounded env \<Longrightarrow> resolver_ok 2 (resolve_cfs_list_zone_id env) a args"
  unfolding resolver_ok_def resolve_cfs_list_zone_id_def Let_def
  by (auto simp: resolve_catalog_zone_ok split: if_splits)

text \<open>
  A nested \<open>DescribeCFS\<close> carries no \<open>Zone\<close>, so its own resolution makes no request: the
  nested request may resolve with \<open>no_resolution\<close>.
\<close>

lemma mget_filter_safe_args:
  "mget (filter_safe_args args allowed) k =
     (case allowed of None \<Rightarrow> mget args k | Some al \<Rightarrow> if k \<in> set al then mget args k else None)"
proof (cases allowed)
  case (Some al)
  have "filter_safe_args args allowed = gm.copy_keys al args []"
    by (simp add: Some filter_safe_args_def gm.copy_keys_def)
  then show ?thesis by (simp add: Some gm.get_copy_keys)
qed (simp add: filter_safe_args_def)

lemma filtered_no_key: "mget args k = None \<Longrightarrow> mval (filter_safe_args args al) k = GNil"
  by (simp add: mval_def mget_filter_safe_args split: option.split)

lemma trim_nil: "trim_space [] = []"
  by (simp add: trim_space_def trim_left_def)

lemma nested_cfs_resolution:
  "execute_with (resolve_leaf env) env \<lparr>sq_action = ''DescribeCFS'', sq_args = [(''CfsId'', v)], sq_origin = og\<rparr>
     = execute_with no_resolution env \<lparr>sq_action = ''DescribeCFS'', sq_args = [(''CfsId'', v)], sq_origin = og\<rparr>"
proof -
  have "resolve_leaf env ''DescribeCFS'' (filter_safe_args [(''CfsId'', v)] al) st
      = no_resolution ''DescribeCFS'' (filter_safe_args [(''CfsId'', v)] al) st" for al st
    by (simp add: resolve_leaf_def resolve_cfs_list_zone_id_def no_resolution_def filtered_no_key
        has_non_zero_uint_def string_arg_def trim_nil Let_def)
  then show ?thesis by (auto simp: execute_with_def fun_eq_iff split: option.split)
qed

lemma nested_instance_resolution:
  "execute_with (resolve_leaf env) env \<lparr>sq_action = ''DescribeCompShareInstance'', sq_args = a, sq_origin = og\<rparr>
     = execute_with no_resolution env \<lparr>sq_action = ''DescribeCompShareInstance'', sq_args = a, sq_origin = og\<rparr>"
  by (auto simp: execute_with_def fun_eq_iff resolve_leaf_def no_resolution_def split: option.split)

lemma nested_request_grows:
  assumes "retries_bounded env" and "action = ''DescribeCFS'' \<or> action = ''DescribeCompShareInstance''"
  shows "grows 2 st (snd (execute_with no_resolution env
     \<lparr>sq_action = action, sq_args = a, sq_origin = OriginDiagnosisInternal\<rparr> st))"
  using assms lookup_request_grows [of 0 no_resolution "\<lparr>sq_action = action, sq_args = a,
      sq_origin = OriginDiagnosisInternal\<rparr>" env st]
  by (auto simp: zone_lookup_reads_def is_internal_def numeral_2_eq_2)

lemma cfs_upgrade_resolver_ok: "retries_bounded env \<Longrightarrow> resolver_ok 2 (resolve_cfs_upgrade_zone_id env) a args"
  unfolding resolver_ok_def resolve_cfs_upgrade_zone_id_def nested_cfs_resolution Let_def
  by (auto simp: nested_request_grows mget_mput split: if_splits)

lemma jupyter_resolver_ok:
  assumes "retries_bounded env"
  shows "resolver_ok 4 (resolve_jupyter_token_zone_id env) a args"
proof -
  have both: "grows (2 + 2) st (snd (catalog_zones env (snd (execute_with no_resolution env
     \<lparr>sq_action = ''DescribeCompShareInstance'', sq_args = x, sq_origin = OriginDiagnosisInternal\<rparr> st))))"
    and one: "grows 4 st (snd (execute_with no_resolution env
     \<lparr>sq_action = ''DescribeCompShareInstance'', sq_args = x, sq_origin = OriginDiagnosisInternal\<rparr> st))" for x st
    using assms by (intro grows_trans [OF nested_request_grows catalog_zones_grows]
        grows_mono [OF nested_request_grows]; simp)+
  show ?thesis
    unfolding resolver_ok_def resolve_jupyter_token_zone_id_def nested_instance_resolution Let_def
    using both [simplified] one by (auto simp: mget_mput split: if_splits)
qed

lemma resolver_ok_mono: "\<lbrakk>resolver_ok n R a args; n \<le> m\<rbrakk> \<Longrightarrow> resolver_ok m R a args"
  unfolding resolver_ok_def using grows_mono by blast

lemma resolve_backend_ok:
  assumes "retries_bounded env"
  shows "resolver_ok 4 (resolve_backend_zone_id env) a args"
proof -
  note ok = resolver_ok_mono [OF cfs_upgrade_resolver_ok [OF assms]] resolver_ok_mono [OF cfs_list_resolver_ok [OF assms]]
    resolver_ok_mono [OF pod_resolver_ok [OF assms]] jupyter_resolver_ok [OF assms] no_resolution_ok
  consider "a = ''GetCompShareCFSUpgradePrice''" | "a = ''DescribeCFS''"
    | "a = ''StartCompShareInstance'' \<or> a = ''StopCompShareInstance''" | "a = ''DescribeCompShareJupyterToken''"
    | "a \<noteq> ''GetCompShareCFSUpgradePrice'' \<and> a \<noteq> ''DescribeCFS'' \<and> a \<noteq> ''StartCompShareInstance'' \<and>
         a \<noteq> ''StopCompShareInstance'' \<and> a \<noteq> ''DescribeCompShareJupyterToken''"
    by argo
  then show ?thesis
  proof cases
    case 1
    have "resolver_ok 4 (resolve_cfs_upgrade_zone_id env) a args" by (rule ok) simp
    with 1 show ?thesis by (simp add: resolver_ok_def resolve_backend_zone_id_def)
  next
    case 2
    have "resolver_ok 4 (resolve_cfs_list_zone_id env) a args" by (rule ok) simp
    with 2 show ?thesis by (simp add: resolver_ok_def resolve_backend_zone_id_def)
  next
    case 3
    have "resolver_ok 4 (resolve_pod_lifecycle_zone_id env) a args" by (rule ok) simp
    with 3 show ?thesis by (auto simp: resolver_ok_def resolve_backend_zone_id_def)
  next
    case 4
    then show ?thesis using ok(4) [of a args] by (simp add: resolver_ok_def resolve_backend_zone_id_def)
  next
    case 5
    then show ?thesis using ok(5) [of 4 a args]
      by (simp add: resolver_ok_def resolve_backend_zone_id_def no_resolution_def)
  qed
qed

text \<open>The refinement: a request to \<open>ExecuteSafe\<close> adds a trace of the specification.\<close>

lemma execute_safe_trace:
  assumes "retries_bounded env"
  obtains evs where "xs_events (snd (execute_safe env req st)) = xs_events st @ evs" "request_trace env req 4 evs"
  using execute_with_trace [of 4 "resolve_backend_zone_id env" req env st, OF resolve_backend_ok [OF assms]]
  by (auto simp: execute_safe_def)

section \<open>The default policies\<close>

text \<open>\<open>NewSafeToolExecutor\<close> wires the policies built from the tool registry.\<close>

definition default_executor :: "(string \<times> string list option) list \<Rightarrow> 'w xenv \<Rightarrow> 'w xenv" where
  "default_executor registry env = env\<lparr>xe_policies := build_policies registry\<rparr>"

lemma default_executor_policy:
  "mget (xe_policies (default_executor registry env)) a = Some p \<Longrightarrow> refines_base a p"
  by (auto simp: default_executor_def dest: build_policies_base)

lemma default_retries_bounded: "retries_bounded (default_executor registry env)"
  unfolding retries_bounded_def
proof (intro allI impI)
  fix a p
  assume "mget (xe_policies (default_executor registry env)) a = Some p"
  then have "refines_base a p" by (rule default_executor_policy)
  then show "tp_max_retries p \<le> 1" by (simp add: refines_baseD(5))
qed

lemma lookup_reads_level: "a \<in> set zone_lookup_reads \<Longrightarrow> action_level a = L0"
proof -
  have "list_all (\<lambda>a. action_level a = L0) zone_lookup_reads" by code_simp
  then show "a \<in> set zone_lookup_reads \<Longrightarrow> action_level a = L0" by (simp add: list_all_iff)
qed

lemma lookup_reads_route: "a \<in> set zone_lookup_reads \<Longrightarrow> route_for_action a = RouteExternalAPI"
proof -
  have "list_all (\<lambda>a. route_for_action a = RouteExternalAPI) zone_lookup_reads" by code_simp
  then show "a \<in> set zone_lookup_reads \<Longrightarrow> route_for_action a = RouteExternalAPI" by (simp add: list_all_iff)
qed

text \<open>Evaluating one action's request needs one action's policy.\<close>

lemma retry_loop_policies [simp]:
  "retry_loop (env\<lparr>xe_policies := ps\<rparr>) p a args left attempt st = retry_loop env p a args left attempt st"
proof (induction left arbitrary: attempt st)
  case 0
  show ?case by (subst (1 2) retry_loop.simps) (simp add: inner_call_def Let_def cong: sum.case_cong prod.case_cong option.case_cong if_cong)
next
  case (Suc left)
  then show ?case by (subst (1 2) retry_loop.simps) (simp add: inner_call_def Let_def cong: sum.case_cong prod.case_cong option.case_cong if_cong)
qed

lemma env_policies:
  "policy_refusal (env\<lparr>xe_policies := ps\<rparr>) a p = policy_refusal env a p"
  "ask_user (env\<lparr>xe_policies := ps\<rparr>) a args st = ask_user env a args st"
  "run_allowed (env\<lparr>xe_policies := ps\<rparr>) p req args st = run_allowed env p req args st"
  by (simp_all add: policy_refusal_def ask_user_def run_allowed_def execute_with_retry_def)

lemma execute_with_policies:
  "mget ps (sq_action req) = mget (xe_policies env) (sq_action req) \<Longrightarrow>
   execute_with R (env\<lparr>xe_policies := ps\<rparr>) req st = execute_with R env req st"
  by (simp add: execute_with_def env_policies Let_def cong: option.case_cong sum.case_cong if_cong)

lemma execute_with_resolver:
  "(\<And>x s. R (sq_action req) x s = R' (sq_action req) x s) \<Longrightarrow> execute_with R env req st = execute_with R' env req st"
  by (simp add: execute_with_def Let_def cong: option.case_cong)

end
