(* ===== verification/SafeExecutorProps.thy ===== *)
theory SafeExecutorProps
  imports SafeExecutorFacts
begin

text \<open>
  Properties of the guarded tool executor wired with the default policies, for every tool
  registry, every inner executor and every sequence of requests.
\<close>

section \<open>Sessions\<close>

definition fresh_executor :: "'w \<Rightarrow> catalog \<Rightarrow> 'w xstate" where
  "fresh_executor w c = \<lparr>xs_world = w, xs_catalog = c, xs_events = []\<rparr>"

definition session_step :: "(string \<times> string list option) list \<Rightarrow> 'w xenv \<Rightarrow> 'w xstate \<Rightarrow> safe_request \<Rightarrow> 'w xstate" where
  "session_step registry env st req = snd (execute_safe (default_executor registry env) req st)"

definition direct_step :: "(string \<times> string list option) list \<Rightarrow> 'w xenv \<Rightarrow> 'w xstate \<Rightarrow> string \<times> gmap \<Rightarrow> 'w xstate" where
  "direct_step registry env st c = snd (execute_direct (default_executor registry env) (fst c) (snd c) st)"

lemma direct_step_eq:
  "direct_step registry env st c =
     session_step registry env st \<lparr>sq_action = fst c, sq_args = snd c, sq_origin = OriginDirectLLM\<rparr>"
  by (simp add: direct_step_def session_step_def execute_direct_def Let_def)

fun guarded_event :: "xevent \<Rightarrow> bool" where
  "guarded_event (EvCall a _ _) = (route_for_action a = RouteExternalAPI \<and> action_level a \<noteq> L2)"
| "guarded_event (EvAsk _ _ _) = True"

definition asked_first :: "xevent list \<Rightarrow> bool" where
  "asked_first evs \<longleftrightarrow> (\<forall>pre a args t post. evs = pre @ EvCall a args t # post \<longrightarrow> action_level a = L1 \<longrightarrow>
     (\<exists>pre'. pre = pre' @ [EvAsk a args True]))"

lemma lookup_guarded: "lookup_event e \<Longrightarrow> guarded_event e"
  by (cases e) (simp_all add: lookup_reads_level lookup_reads_route)

lemma refusal_None:
  assumes "policy_refusal env a p = None" and "refines_base a p"
  shows "route_for_action a = RouteExternalAPI" "action_level a \<noteq> L2"
  using assms(1) refines_baseD [OF assms(2)] by (auto simp: policy_refusal_def split: if_splits)

lemma trace_guarded:
  assumes "request_trace (default_executor registry env) req n evs"
  shows "list_all guarded_event evs"
  using assms
proof (cases rule: request_trace.cases)
  case (called pre p args ask k)
  from default_executor_policy [OF called(4)]
  have "guarded_event (EvCall (sq_action req) args (tp_timeout_ms p))"
    using refusal_None [OF called(5)] by simp
  with called show ?thesis by (auto simp: list_all_iff lookup_guarded)
qed (auto simp: list_all_iff lookup_guarded)

lemma asked_first_append:
  assumes "asked_first xs" and "asked_first ys"
  shows "asked_first (xs @ ys)"
  unfolding asked_first_def
proof (intro allI impI)
  fix pre a args t post
  let ?e = "EvCall a args t"
  assume eq: "xs @ ys = pre @ ?e # post" and l1: "action_level a = L1"
  from eq consider (left) us where "xs = pre @ ?e # us" | (right) us where "pre = xs @ us" "ys = us @ ?e # post"
    by (auto simp: append_eq_append_conv2 append_eq_Cons_conv)
  then show "\<exists>pre'. pre = pre' @ [EvAsk a args True]"
  proof cases
    case left
    with assms(1) l1 show ?thesis by (simp add: asked_first_def)
  next
    case right
    with assms(2) l1 obtain pre' where "us = pre' @ [EvAsk a args True]" unfolding asked_first_def by blast
    with right show ?thesis by simp
  qed
qed

lemma asked_first_reads:
  assumes "\<And>a args t. EvCall a args t \<in> set evs \<Longrightarrow> action_level a \<noteq> L1"
  shows "asked_first evs"
  unfolding asked_first_def
proof (intro allI impI)
  fix pre a args t post
  assume "evs = pre @ EvCall a args t # post" "action_level a = L1"
  with assms [of a args t] show "\<exists>pre'. pre = pre' @ [EvAsk a args True]" by simp
qed

lemma lookups_not_L1: "list_all lookup_event pre \<Longrightarrow> EvCall a args t \<in> set pre \<Longrightarrow> action_level a \<noteq> L1"
  by (auto simp: list_all_iff dest!: bspec lookup_reads_level)

lemma asked_first_lookups: "list_all lookup_event pre \<Longrightarrow> asked_first pre"
  using lookups_not_L1 by (intro asked_first_reads)

lemma asked_first_ask: "asked_first [EvAsk a args b]" "asked_first []"
  by (rule asked_first_reads, simp)+

lemma asked_first_confirmed: "asked_first [EvAsk a args True, EvCall a args t]"
  by (auto simp: asked_first_def Cons_eq_append_conv)

lemma trace_asked:
  assumes "request_trace (default_executor registry env) req n evs" and "\<not> is_internal (sq_origin req)"
  shows "asked_first evs"
  using assms(1)
proof (cases rule: request_trace.cases)
  case refused
  then show ?thesis by (simp add: asked_first_lookups)
next
  case (declined pre p args)
  then show ?thesis by (simp add: asked_first_append asked_first_lookups asked_first_ask)
next
  case (called pre p args ask k)
  note p = refines_baseD [OF default_executor_policy [OF called(4)]]
  show ?thesis
  proof (cases "action_level (sq_action req) = L1")
    case True
    with called p have "k = 1" and "ask = [EvAsk (sq_action req) args True]"
      using assms(2) by (simp_all add: should_confirm_def)
    with called(1,2) show ?thesis
      by (simp add: asked_first_append asked_first_lookups asked_first_confirmed)
  next
    case False
    have "asked_first (replicate k (EvCall (sq_action req) args (tp_timeout_ms p)))"
      using False by (auto intro: asked_first_reads)
    with called(1,2,8) show ?thesis
      by (simp add: asked_first_append asked_first_lookups asked_first_ask)
  qed
qed

lemma session_trace:
  obtains evs where "xs_events (session_step registry env st req) = xs_events st @ evs"
    and "request_trace (default_executor registry env) req 4 evs"
  using execute_safe_trace [OF default_retries_bounded, of registry env req st]
  by (auto simp: session_step_def)

interpretation gs: component "fresh_executor w c" "session_step registry env"
  "\<lambda>st. list_all guarded_event (xs_events st)" for w c registry env
proof unfold_locales
  show "list_all guarded_event (xs_events (fresh_executor w c))" by (simp add: fresh_executor_def)
next
  fix st :: "'a xstate" and req
  assume inv: "list_all guarded_event (xs_events st)"
  obtain evs where "xs_events (session_step registry env st req) = xs_events st @ evs"
    and "request_trace (default_executor registry env) req 4 evs"
    by (rule session_trace [where registry = registry and env = env and st = st and req = req])
  with inv show "list_all guarded_event (xs_events (session_step registry env st req))"
    by (simp add: trace_guarded)
qed

interpretation ds: component "fresh_executor w c" "direct_step registry env"
  "\<lambda>st. asked_first (xs_events st)" for w c registry env
proof unfold_locales
  show "asked_first (xs_events (fresh_executor w c))" by (simp add: fresh_executor_def asked_first_ask)
next
  fix st :: "'a xstate" and c
  let ?req = "\<lparr>sq_action = fst c, sq_args = snd c, sq_origin = OriginDirectLLM\<rparr>"
  assume inv: "asked_first (xs_events st)"
  obtain evs where "xs_events (session_step registry env st ?req) = xs_events st @ evs"
    and "request_trace (default_executor registry env) ?req 4 evs"
    by (rule session_trace [where registry = registry and env = env and st = st and req = ?req])
  with inv show "asked_first (xs_events (direct_step registry env st c))"
    by (simp add: direct_step_eq asked_first_append trace_asked is_internal_def)
qed

section \<open>Helpers of the properties\<close>

fun is_call :: "xevent \<Rightarrow> bool" where
  "is_call (EvCall _ _ _) = True"
| "is_call (EvAsk _ _ _) = False"

fun calls_action :: "string \<Rightarrow> xevent \<Rightarrow> bool" where
  "calls_action a (EvCall b _ _) = (a = b)"
| "calls_action a (EvAsk _ _ _) = False"

definition permitted :: "tool_policy \<Rightarrow> execution_origin \<Rightarrow> string \<Rightarrow> bool" where
  "permitted p origin key \<longleftrightarrow>
     (case allowed_params_for_origin p origin of None \<Rightarrow> True | Some al \<Rightarrow> key \<in> set al)"

lemma session_request_trace:
  assumes "xs_events (session_step registry env st req) = xs_events st @ evs"
  shows "request_trace (default_executor registry env) req 4 evs"
proof -
  obtain evs' where "xs_events (session_step registry env st req) = xs_events st @ evs'"
    and "request_trace (default_executor registry env) req 4 evs'"
    by (rule session_trace [where registry = registry and env = env and st = st and req = req])
  with assms show ?thesis by simp
qed

lemma own_call:
  assumes "request_trace (default_executor registry env) req n evs"
    and "EvCall a args t \<in> set evs" and "a \<notin> set zone_lookup_reads"
  obtains p where "a = sq_action req" "mget (build_policies registry) a = Some p" "check_policy_caps p args = None"
    "\<forall>key. key \<noteq> ''zone_id'' \<longrightarrow> mget args key
       = (if permitted p (sq_origin req) key then mget (sq_args req) key else None)"
proof -
  have no: "EvCall a args t \<notin> set pre" if "list_all lookup_event pre" for pre
    using that assms(3) by (auto simp: list_all_iff)
  from assms(1) show thesis
  proof (cases rule: request_trace.cases)
    case (called pre p args' ask k)
    with assms(2) no [of pre] have "a = sq_action req" "args = args'" by (auto split: if_splits)
    with called show thesis
      by (intro that [of p]) (auto simp: default_executor_def mget_filter_safe_args permitted_def split: option.split)
  qed (use assms(2) no in auto)
qed

lemma filter_lookups:
  "list_all lookup_event pre \<Longrightarrow> a \<notin> set zone_lookup_reads \<Longrightarrow> filter (calls_action a) pre = []"
  by (auto simp: filter_empty_conv list_all_iff elim!: calls_action.elims)

lemma monitor_caps:
  assumes "check_policy_caps p args = None" and "tp_max_targets p = 20" and "tp_max_window p = 2592000"
  shows "count_requested_targets args \<le> 20"
    and "mhas args ''StartTime'' \<or> mhas args ''EndTime'' \<Longrightarrow> 1 \<le> count_requested_targets args \<and>
      (\<exists>s e. seconds_arg (mval args ''StartTime'') = Some s \<and> seconds_arg (mval args ''EndTime'') = Some e \<and>
         0 \<le> s \<and> s < e \<and> e - s \<le> 2592000)"
proof -
  show "count_requested_targets args \<le> 20"
    using assms by (auto simp: check_policy_caps_def split: if_splits)
  assume win: "mhas args ''StartTime'' \<or> mhas args ''EndTime''"
  then have "requested_history_window_seconds args \<noteq> None"
    unfolding requested_history_window_seconds_def mhas_def by (auto split: option.split)
  then obtain w where w: "requested_history_window_seconds args = Some w" by blast
  with assms have targets: "1 \<le> count_requested_targets args" and le: "w \<le> 2592000"
    by (auto simp: check_policy_caps_def split: if_splits)
  have "max_int64 > 2592000" by (simp add: max_int64_def)
  with w le win obtain sv ev s e where "mget args ''StartTime'' = Some sv" "mget args ''EndTime'' = Some ev"
    "seconds_arg sv = Some s" "seconds_arg ev = Some e" "\<not> (s < 0 \<or> e < 0)" "s < e" "w = e - s"
    by (auto simp: requested_history_window_seconds_def mhas_def split: option.splits if_splits)
  with targets le show "1 \<le> count_requested_targets args \<and>
      (\<exists>s e. seconds_arg (mval args ''StartTime'') = Some s \<and> seconds_arg (mval args ''EndTime'') = Some e \<and>
         0 \<le> s \<and> s < e \<and> e - s \<le> 2592000)"
    by (auto simp: mval_def)
qed

lemma monitor_policy:
  assumes "refines_base ''GetCompShareInstanceMonitor'' p"
  shows "tp_max_targets p = 20" "tp_max_window p = 2592000"
proof -
  have "tp_max_targets (policy_for_action ''GetCompShareInstanceMonitor'') = 20"
    "tp_max_window (policy_for_action ''GetCompShareInstanceMonitor'') = 2592000" by code_simp+
  with assms show "tp_max_targets p = 20" "tp_max_window p = 2592000" by (auto simp: refines_base_def)
qed

section \<open>Redaction\<close>

text \<open>\<open>hidden f v\<close>: every occurrence of the field the traversal reaches is overwritten.\<close>

fun hidden :: "string \<Rightarrow> gval \<Rightarrow> bool" where
  "hidden f (GMap kvs) = list_all (\<lambda>kv. if fst kv = f then snd kv = redacted else hidden f (snd kv)) kvs"
| "hidden f (GList vs) = list_all (\<lambda>v. case v of GMap m \<Rightarrow> hidden f v | _ \<Rightarrow> True) vs"
| "hidden f v = True"

lemma hidden_redact_value: "hidden f (redact_value f v)"
proof (induction v)
  case (GMap kvs)
  then show ?case by (auto simp: list_all_iff)
next
  case (GList vs)
  have "case (case v of GMap m \<Rightarrow> redact_value f v | _ \<Rightarrow> v) of
      GMap m \<Rightarrow> hidden f (case v of GMap m \<Rightarrow> redact_value f v | _ \<Rightarrow> v) | _ \<Rightarrow> True"
    if "v \<in> set vs" for v
    using GList [OF that] by (cases v) simp_all
  then show ?case by (simp add: list_all_iff)
qed simp_all

lemma hidden_preserved: "hidden f v \<Longrightarrow> hidden f (redact_value g v)"
proof (induction v)
  case (GMap kvs)
  then show ?case by (auto simp: list_all_iff redacted_def)
next
  case (GList vs)
  have "case (case v of GMap m \<Rightarrow> redact_value g v | _ \<Rightarrow> v) of
      GMap m \<Rightarrow> hidden f (case v of GMap m \<Rightarrow> redact_value g v | _ \<Rightarrow> v) | _ \<Rightarrow> True"
    if "v \<in> set vs" for v
  proof (cases v)
    case (GMap m)
    then have "hidden f v" using GList.prems that by (auto simp: list_all_iff simp del: hidden.simps(1))
    from GList.IH [OF that this] show ?thesis
      unfolding GMap by (simp del: hidden.simps)
  qed simp_all
  then show ?case by (simp add: list_all_iff)
qed simp_all

lemma redact_field_by_name_map: "GMap (redact_field_by_name f m) = redact_value f (GMap m)"
  by (simp add: redact_field_by_name_def)

lemma hidden_fold:
  "f \<in> set fs \<or> hidden f (GMap m) \<Longrightarrow> hidden f (GMap (fold redact_field_by_name fs m))"
proof (induction fs arbitrary: m)
  case (Cons g fs)
  then have "f \<in> set fs \<or> hidden f (GMap (redact_field_by_name g m))"
    unfolding redact_field_by_name_map using hidden_redact_value hidden_preserved by (metis set_ConsD)
  then show ?case by (simp add: Cons.IH del: hidden.simps)
qed simp

lemma redact_keys: "map fst (fold redact_field_by_name fs m) = map fst m"
  by (induction fs arbitrary: m) (simp_all add: redact_field_by_name_def o_def)

lemma session_step_single:
  assumes "mget (build_policies registry) (sq_action req) = Some p"
    and "sq_action req \<notin> {''GetCompShareCFSUpgradePrice'', ''DescribeCFS'', ''StartCompShareInstance'',
         ''StopCompShareInstance'', ''DescribeCompShareJupyterToken''}"
  shows "session_step registry env st req
    = snd (execute_with no_resolution (env\<lparr>xe_policies := [(sq_action req, p)]\<rparr>) req st)"
proof -
  have "execute_safe (default_executor registry env) req st
      = execute_with no_resolution (default_executor registry env) req st"
    unfolding execute_safe_def
    by (rule execute_with_resolver) (use assms(2) in \<open>simp add: resolve_backend_zone_id_def no_resolution_def\<close>)
  moreover have "execute_with no_resolution (env\<lparr>xe_policies := [(sq_action req, p)]\<rparr>) req st
      = execute_with no_resolution (default_executor registry env) req st"
    using assms(1) execute_with_policies [of "[(sq_action req, p)]" req "default_executor registry env" no_resolution st]
    by (simp add: default_executor_def)
  ultimately show ?thesis by (simp add: session_step_def)
qed

definition demo_env :: "unit xenv" where
  "demo_env = \<lparr>xe_inner = (\<lambda>w _ _ _. (Inr (Some []), w)), xe_policies = [],
     xe_confirm = Some (\<lambda>w _ _. (True, w)), xe_mutating = True, xe_clock = (\<lambda>_. 0),
     xe_top_org = 1, xe_org = 2, xe_backoff = (\<lambda>w _. (None, w))\<rparr>"

definition demo_start :: "unit xstate" where
  "demo_start = fresh_executor () (new_catalog 600)"

definition reboot_args :: gmap where
  "reboot_args = [(''UHostId'', GStr ''uhost-1''), (''Secret'', GStr ''x'')]"

definition demo_registry :: "(string \<times> string list option) list" where
  "demo_registry = [(''RebootCompShareInstance'', Some [''UHostId'', ''Zone'', ''Region'']),
          (''GetCompShareInstanceMonitor'', Some [''UHostIds'', ''StartTime'', ''EndTime''])]"

lemma demo_reboot_policy: "mget (build_policies demo_registry) ''RebootCompShareInstance''
   = Some (registry_policy ''RebootCompShareInstance'' (Some [''UHostId'', ''Zone'', ''Region'']))"
  by (simp add: build_policies_lookup demo_registry_def propose_action_name_def)

lemma demo_reboot_events:
  "xs_events (session_step demo_registry demo_env demo_start
     \<lparr>sq_action = ''RebootCompShareInstance'', sq_args = reboot_args, sq_origin = OriginDirectLLM\<rparr>)
   = [EvAsk ''RebootCompShareInstance'' [(''UHostId'', GStr ''uhost-1'')] True,
      EvCall ''RebootCompShareInstance'' [(''UHostId'', GStr ''uhost-1'')] 30000]"
proof -
  have "xs_events (snd (execute_with no_resolution
      (demo_env\<lparr>xe_policies := [(''RebootCompShareInstance'',
         registry_policy ''RebootCompShareInstance'' (Some [''UHostId'', ''Zone'', ''Region'']))]\<rparr>)
      \<lparr>sq_action = ''RebootCompShareInstance'', sq_args = reboot_args, sq_origin = OriginDirectLLM\<rparr> demo_start))
    = [EvAsk ''RebootCompShareInstance'' [(''UHostId'', GStr ''uhost-1'')] True,
       EvCall ''RebootCompShareInstance'' [(''UHostId'', GStr ''uhost-1'')] 30000]"
    by code_simp
  then show ?thesis by (subst session_step_single [where p = "registry_policy ''RebootCompShareInstance''
      (Some [''UHostId'', ''Zone'', ''Region''])"]) (simp_all add: demo_reboot_policy)
qed

section \<open>Properties\<close>

text \<open>C26: over any sequence of requests of any origin, with any tool registry, the inner executor is
  called only for actions that are routed to the external API and are not destructive (L2): deletions
  and terminations are refused before anything is sent.\<close>

theorem destructive_never_called:
  assumes "EvCall a args t \<in> set (xs_events (foldl (session_step registry env) (fresh_executor w c) reqs))"
  shows "route_for_action a = RouteExternalAPI \<and> action_level a \<noteq> L2"
  using assms gs.inv_run [of registry env w c reqs] by (auto simp: list_all_iff)

theorem destructive_never_called_witness:
  "let st = foldl (session_step demo_registry demo_env) (fresh_executor () (new_catalog 600))
     [\<lparr>sq_action = ''RebootCompShareInstance'', sq_args = reboot_args, sq_origin = OriginDirectLLM\<rparr>]
   in length (xs_events st) = 2 \<and> action_level ''RebootCompShareInstance'' \<noteq> L2"
  using destructive_never_called [of "''RebootCompShareInstance''" "[(''UHostId'', GStr ''uhost-1'')]" 30000
      demo_registry demo_env "()" "new_catalog 600"
      "[\<lparr>sq_action = ''RebootCompShareInstance'', sq_args = reboot_args, sq_origin = OriginDirectLLM\<rparr>]"]
    demo_reboot_events
  by (simp add: demo_start_def)

text \<open>C27: in a session of direct calls by the model, every call of a mutating (L1) action is immediately
  preceded by a confirmation card for that action with exactly the arguments that are sent, answered yes:
  one answer authorises one call.\<close>

theorem mutating_call_confirmed:
  assumes "xs_events (foldl (direct_step registry env) (fresh_executor w c) calls) = pre @ EvCall a args t # post"
    and "action_level a = L1"
  shows "\<exists>pre'. pre = pre' @ [EvAsk a args True]"
  using assms ds.inv_run [of registry env w c calls] by (simp add: asked_first_def)

theorem mutating_call_confirmed_witness:
  "\<exists>pre'. [EvAsk ''RebootCompShareInstance'' [(''UHostId'', GStr ''uhost-1'')] True]
     = pre' @ [EvAsk ''RebootCompShareInstance'' [(''UHostId'', GStr ''uhost-1'')] True]"
proof -
  have l: "action_level ''RebootCompShareInstance'' = L1" by code_simp
  show ?thesis
    by (rule mutating_call_confirmed [of demo_registry demo_env "()" "new_catalog 600"
          "[(''RebootCompShareInstance'', reboot_args)]" _ _ _ 30000 "[]", OF _ l])
      (use demo_reboot_events in \<open>simp add: direct_step_eq demo_start_def\<close>)
qed



text \<open>The calls of one request are bounded: at most six in all (zone lookups and retries included), and
  at most one call of the action itself when the action is mutating, which is never retried.\<close>

theorem calls_per_request_bounded:
  assumes "xs_events (session_step registry env st req) = xs_events st @ evs"
  shows "length (filter is_call evs) \<le> 6 \<and>
    (action_level (sq_action req) \<noteq> L0 \<longrightarrow> length (filter (calls_action (sq_action req)) evs) \<le> 1)"
  using session_request_trace [OF assms]
proof (cases rule: request_trace.cases)
  case refused
  then have "length (filter is_call evs) \<le> 4" by (meson le_trans length_filter_le)
  moreover have "action_level (sq_action req) \<noteq> L0 \<Longrightarrow> filter (calls_action (sq_action req)) evs = []"
    using refused by (intro filter_lookups) (auto dest: lookup_reads_level)
  ultimately show ?thesis by auto
next
  case (declined pre p args)
  then have "length (filter is_call pre) \<le> 4" by (meson le_trans length_filter_le)
  moreover have "action_level (sq_action req) \<noteq> L0 \<Longrightarrow> filter (calls_action (sq_action req)) pre = []"
    using declined by (intro filter_lookups) (auto dest: lookup_reads_level)
  ultimately show ?thesis using declined by auto
next
  case (called pre p args ask k)
  then have "length (filter is_call pre) \<le> 4" by (meson le_trans length_filter_le)
  moreover have "action_level (sq_action req) \<noteq> L0 \<Longrightarrow> filter (calls_action (sq_action req)) pre = []"
    using called by (intro filter_lookups) (auto dest: lookup_reads_level)
  moreover have "k \<le> (if action_level (sq_action req) = L0 then 2 else 1)"
    using called(10) refines_baseD(5) [OF default_executor_policy [OF called(4)]] by auto
  moreover have "filter is_call ask = []" "filter (calls_action (sq_action req)) ask = []"
    using called(8) by auto
  ultimately show ?thesis using called(1) by (cases "action_level (sq_action req) = L0") auto
qed

theorem calls_per_request_bounded_witness:
  "length (filter (calls_action ''RebootCompShareInstance'')
     (xs_events (session_step demo_registry demo_env demo_start
       \<lparr>sq_action = ''RebootCompShareInstance'', sq_args = reboot_args, sq_origin = OriginDirectLLM\<rparr>))) \<le> 1"
proof -
  let ?req = "\<lparr>sq_action = ''RebootCompShareInstance'', sq_args = reboot_args, sq_origin = OriginDirectLLM\<rparr>"
  have ev: "xs_events (session_step demo_registry demo_env demo_start ?req)
      = xs_events demo_start @ xs_events (session_step demo_registry demo_env demo_start ?req)"
    by (simp add: demo_start_def fresh_executor_def)
  have l: "action_level ''RebootCompShareInstance'' \<noteq> L0" by code_simp
  from calls_per_request_bounded [OF ev] l show ?thesis by simp
qed

text \<open>A monitor call that is sent names at most 20 instances; when it names a time window it names at
  least one instance, both ends parse as non-negative seconds, and the window is positive and at most
  30 days.\<close>

theorem monitor_call_capped:
  assumes "xs_events (session_step registry env st req) = xs_events st @ evs"
    and "EvCall ''GetCompShareInstanceMonitor'' args t \<in> set evs"
  shows "count_requested_targets args \<le> 20 \<and>
    (mhas args ''StartTime'' \<or> mhas args ''EndTime'' \<longrightarrow> 1 \<le> count_requested_targets args \<and>
      (\<exists>s e. seconds_arg (mval args ''StartTime'') = Some s \<and> seconds_arg (mval args ''EndTime'') = Some e \<and>
         0 \<le> s \<and> s < e \<and> e - s \<le> 30 * 86400))"
proof -
  have "''GetCompShareInstanceMonitor'' \<notin> set zone_lookup_reads" by (simp add: zone_lookup_reads_def)
  from own_call [OF session_request_trace [OF assms(1)] assms(2) this]
  obtain p where pol: "mget (build_policies registry) ''GetCompShareInstanceMonitor'' = Some p"
    and caps: "check_policy_caps p args = None" by blast
  note cap = monitor_caps [OF caps monitor_policy [OF build_policies_base [OF pol]]]
  show ?thesis using cap by simp
qed

definition monitor_args :: gmap where
  "monitor_args = [(''UHostIds'', GStrs [''a'']), (''StartTime'', GInt 5), (''EndTime'', GStr ''900'')]"

lemma demo_monitor_events:
  "EvCall ''GetCompShareInstanceMonitor'' monitor_args 30000 \<in> set (xs_events (session_step demo_registry demo_env demo_start
     \<lparr>sq_action = ''GetCompShareInstanceMonitor'', sq_args = monitor_args, sq_origin = OriginDirectLLM\<rparr>))"
proof -
  let ?req = "\<lparr>sq_action = ''GetCompShareInstanceMonitor'', sq_args = monitor_args, sq_origin = OriginDirectLLM\<rparr>"
  let ?p = "registry_policy ''GetCompShareInstanceMonitor'' (Some [''UHostIds'', ''StartTime'', ''EndTime''])"
  have "mget (build_policies demo_registry) ''GetCompShareInstanceMonitor'' = Some ?p"
    by (simp add: build_policies_lookup demo_registry_def propose_action_name_def)
  then have step: "session_step demo_registry demo_env demo_start ?req = snd (execute_with no_resolution
      (demo_env\<lparr>xe_policies := [(''GetCompShareInstanceMonitor'', ?p)]\<rparr>) ?req demo_start)"
    by (subst session_step_single [where p = ?p]) simp_all
  have "xs_events (snd (execute_with no_resolution
      (demo_env\<lparr>xe_policies := [(''GetCompShareInstanceMonitor'', ?p)]\<rparr>) ?req demo_start))
    = [EvCall ''GetCompShareInstanceMonitor'' monitor_args 30000]"
    by code_simp
  with step show ?thesis by simp
qed

theorem monitor_call_capped_witness:
  "count_requested_targets monitor_args \<le> 20 \<and>
   (\<exists>s e. seconds_arg (mval monitor_args ''StartTime'') = Some s \<and> seconds_arg (mval monitor_args ''EndTime'') = Some e \<and>
      0 \<le> s \<and> s < e \<and> e - s \<le> 30 * 86400)"
proof -
  let ?req = "\<lparr>sq_action = ''GetCompShareInstanceMonitor'', sq_args = monitor_args, sq_origin = OriginDirectLLM\<rparr>"
  have ev: "xs_events (session_step demo_registry demo_env demo_start ?req)
      = xs_events demo_start @ xs_events (session_step demo_registry demo_env demo_start ?req)"
    by (simp add: demo_start_def fresh_executor_def)
  have "mhas monitor_args ''StartTime''" by (simp add: monitor_args_def mhas_def)
  with monitor_call_capped [OF ev demo_monitor_events] show ?thesis by blast
qed

text \<open>C29: in the copy of a result the model sees, every field the policy redacts (the invoice fields) is
  overwritten at every depth that is reached through maps and lists of maps, and no key of the result is
  added or lost.\<close>

theorem model_copy_redacted:
  assumes "model_result p raw = Some out" and "f \<in> set (tp_redact_in_result p)"
  shows "hidden f (GMap out) \<and> (\<exists>r. raw = Some r \<and> map fst out = map fst r)"
  using assms hidden_fold [of f "tp_redact_in_result p"] redact_keys [of "tp_redact_in_result p"]
  by (auto simp: model_result_def simp del: hidden.simps)

theorem model_copy_redacted_witness:
  "hidden ''InvoiceNo'' (GMap [(''List'', GList [GMap [(''InvoiceNo'', GStr ''[REDACTED]''), (''Amount'', GInt 7)]])])"
proof -
  let ?p = "policy_for_action ''GetCompShareInvoiceIssued''"
  have m: "model_result ?p (Some [(''List'', GList [GMap [(''InvoiceNo'', GStr ''031''), (''Amount'', GInt 7)]])])
    = Some [(''List'', GList [GMap [(''InvoiceNo'', GStr ''[REDACTED]''), (''Amount'', GInt 7)]])]"
    by code_simp
  have "''InvoiceNo'' \<in> set (tp_redact_in_result ?p)" by code_simp
  from model_copy_redacted [OF m this] show ?thesis by blast
qed

text \<open>A list directly inside a list is not entered, so a field below it stays readable.\<close>

lemma nested_list_not_redacted:
  "redact_field_by_name f [(''Rows'', GList [GList [GMap [(f, v)]]])]
     = (if f = ''Rows'' then [(''Rows'', redacted)] else [(''Rows'', GList [GList [GMap [(f, v)]]])])"
  by (simp add: redact_field_by_name_def)

end
