(* ===== verification/Pool.thy ===== *)
theory Pool
  imports Prelude
begin

text \<open>
  The engine pool (\<open>internal/agentpool/pool.go\<close>): an LRU cache with one engine per
  (owner, session), shared by concurrent requests.

  The heap of \<open>entry\<close> objects is explicit (\<open>po_entries\<close>), because a caller keeps a pointer
  to its entry after the cache may have dropped it; \<open>po_lru\<close> (front first) and \<open>po_items\<close>
  hold entry addresses, as the linked list and the map of the source hold pointers. An
  operation is one critical section of the pool's mutex, so \<open>Lease\<close> is a lookup and, on a
  miss, an insertion made later: any operations of other goroutines may lie between the
  two. The per-entry mutex and the building of an engine touch no pool state.
\<close>

section \<open>State and critical sections\<close>

record owner =
  ow_top :: "32 word"
  ow_org :: "32 word"

type_synonym entry_key = "owner \<times> string"

record pool_entry =
  en_key :: entry_key
  en_leases :: nat
  en_touched :: int

record pool =
  po_capacity :: nat
  po_idle_ttl :: int
  po_lru :: "nat list"
  po_items :: "(entry_key \<times> nat) list"
  po_entries :: "nat \<Rightarrow> pool_entry"
  po_next :: nat

definition default_capacity :: nat where "default_capacity = 200"
definition default_idle_ttl :: int where "default_idle_ttl = 30 * 60 * 1000000000"

text \<open>\<open>NewWithDeps\<close>: non-positive options take the defaults.\<close>

definition new_pool :: "int \<Rightarrow> int \<Rightarrow> pool" where
  "new_pool opt_capacity opt_ttl =
     \<lparr>po_capacity = (if opt_capacity \<le> 0 then default_capacity else nat opt_capacity),
      po_idle_ttl = (if opt_ttl \<le> 0 then default_idle_ttl else opt_ttl),
      po_lru = [], po_items = [],
      po_entries = (\<lambda>_. \<lparr>en_key = (\<lparr>ow_top = 0, ow_org = 0\<rparr>, []), en_leases = 0, en_touched = 0\<rparr>),
      po_next = 0\<rparr>"

definition upd_entry :: "nat \<Rightarrow> (pool_entry \<Rightarrow> pool_entry) \<Rightarrow> pool \<Rightarrow> pool" where
  "upd_entry a f p = p\<lparr>po_entries := (po_entries p)(a := f (po_entries p a))\<rparr>"

definition move_to_front :: "nat \<Rightarrow> pool \<Rightarrow> pool" where
  "move_to_front a p = p\<lparr>po_lru := a # remove1 a (po_lru p)\<rparr>"

definition drop_entry :: "nat \<Rightarrow> pool \<Rightarrow> pool" where
  "drop_entry a p = p\<lparr>po_lru := remove1 a (po_lru p),
                      po_items := mdel (en_key (po_entries p a)) (po_items p)\<rparr>"

definition idle :: "pool \<Rightarrow> nat \<Rightarrow> bool" where
  "idle p a = (en_leases (po_entries p a) = 0)"

text \<open>\<open>evictOneIdleLRULocked\<close>: the least recently used entry without a lease.\<close>

definition evict_one :: "pool \<Rightarrow> pool option" where
  "evict_one p = map_option (\<lambda>a. drop_entry a p) (find (idle p) (rev (po_lru p)))"

lemma evict_one_Some:
  "evict_one p = Some p' \<Longrightarrow> \<exists>a \<in> set (po_lru p). idle p a \<and> p' = drop_entry a p"
  by (auto simp: evict_one_def dest!: find_Some_iff_first)

lemma evict_one_None: "evict_one p = None \<longleftrightarrow> (\<forall>a \<in> set (po_lru p). \<not> idle p a)"
  by (auto simp: evict_one_def find_None_iff)

function evict_while :: "nat \<Rightarrow> pool \<Rightarrow> pool" where
  "evict_while n p =
     (if n \<le> length (po_items p)
      then case evict_one p of None \<Rightarrow> p | Some p' \<Rightarrow> evict_while n p'
      else p)"
  by pat_completeness auto
termination
  by (relation "measure (\<lambda>(n, p). length (po_lru p))")
    (auto dest!: evict_one_Some simp: drop_entry_def length_remove1
      intro!: diff_less intro: length_pos_if_in_set)

declare evict_while.simps [simp del]

text \<open>The cache hit of \<open>getOrCreate\<close>: one more lease, touched, most recently used.\<close>

definition take_lease :: "nat \<Rightarrow> int \<Rightarrow> pool \<Rightarrow> pool" where
  "take_lease a now p =
     move_to_front a (upd_entry a (\<lambda>e. e\<lparr>en_leases := en_leases e + 1, en_touched := now\<rparr>) p)"

definition lookup_hit :: "entry_key \<Rightarrow> int \<Rightarrow> pool \<Rightarrow> nat option \<times> pool" where
  "lookup_hit k now p = (case mget (po_items p) k of
       None \<Rightarrow> (None, p)
     | Some a \<Rightarrow> (Some a, take_lease a now p))"

definition insert_entry :: "entry_key \<Rightarrow> int \<Rightarrow> pool \<Rightarrow> nat \<times> pool" where
  "insert_entry k now p = (case mget (po_items p) k of
       Some a \<Rightarrow> (a, take_lease a now p)
     | None \<Rightarrow>
         (let p1 = evict_while (po_capacity p) p; a = po_next p1 in
          (a, p1\<lparr>po_entries := (po_entries p1)(a := \<lparr>en_key = k, en_leases = 1, en_touched = now\<rparr>),
                 po_lru := a # po_lru p1,
                 po_items := mput k a (po_items p1),
                 po_next := Suc a\<rparr>)))"

definition release :: "nat \<Rightarrow> int \<Rightarrow> pool \<Rightarrow> pool" where
  "release a now p =
     (let p1 = upd_entry a (\<lambda>e. e\<lparr>en_leases := en_leases e - 1, en_touched := now\<rparr>) p;
          p2 = (if mget (po_items p1) (en_key (po_entries p1 a)) = Some a
                then move_to_front a p1 else p1)
      in evict_while (Suc (po_capacity p2)) p2)"

text \<open>
  \<open>evictIdle\<close>: from the back of the list to the front, stopping at the first entry touched
  after the deadline; entries in use are passed over.
\<close>

fun gc_scan :: "int \<Rightarrow> nat list \<Rightarrow> pool \<Rightarrow> pool" where
  "gc_scan deadline [] p = p"
| "gc_scan deadline (a # as) p =
     (if deadline < en_touched (po_entries p a) then p
      else gc_scan deadline as (if idle p a then drop_entry a p else p))"

definition evict_idle :: "int \<Rightarrow> pool \<Rightarrow> pool" where
  "evict_idle now p = gc_scan (now - po_idle_ttl p) (rev (po_lru p)) p"

section \<open>Goroutines\<close>

text \<open>
  The pool with the leases its callers hold (one list element per held lease). A caller
  releases only a lease it holds, once: the closure \<open>Lease\<close> returns is deferred.
\<close>

datatype pool_op =
    OpLookup entry_key int
  | OpInsert entry_key int
  | OpRelease nat int
  | OpGC int

definition pool_step :: "pool \<times> nat list \<Rightarrow> pool_op \<Rightarrow> pool \<times> nat list" where
  "pool_step s op = (case op of
       OpLookup k now \<Rightarrow>
         (let r = lookup_hit k now (fst s) in
          (snd r, case fst r of None \<Rightarrow> snd s | Some a \<Rightarrow> a # snd s))
     | OpInsert k now \<Rightarrow>
         (let r = insert_entry k now (fst s) in (snd r, fst r # snd s))
     | OpRelease a now \<Rightarrow>
         if a \<in> set (snd s) then (release a now (fst s), remove1 a (snd s)) else s
     | OpGC now \<Rightarrow> (evict_idle now (fst s), snd s))"

section \<open>The cache invariant\<close>

declare map_of_eq_Some_iff [simp del] split_paired_All [simp del]

definition pool_ok :: "pool \<times> nat list \<Rightarrow> bool" where
  "pool_ok s = (case s of (p, held) \<Rightarrow>
     distinct (po_lru p) \<and> distinct (map fst (po_items p)) \<and>
     (\<forall>k a. mget (po_items p) k = Some a \<longleftrightarrow> a \<in> set (po_lru p) \<and> en_key (po_entries p a) = k) \<and>
     (\<forall>a \<in> set (po_lru p). a < po_next p) \<and>
     (\<forall>a. en_leases (po_entries p a) = count_list held a) \<and>
     set held \<subseteq> set (po_lru p) \<and> 1 \<le> po_capacity p)"

lemma drop_entry_simps [simp]:
  "po_entries (drop_entry a p) = po_entries p" "po_next (drop_entry a p) = po_next p"
  "po_capacity (drop_entry a p) = po_capacity p" "po_idle_ttl (drop_entry a p) = po_idle_ttl p"
  "po_lru (drop_entry a p) = remove1 a (po_lru p)"
  "po_items (drop_entry a p) = mdel (en_key (po_entries p a)) (po_items p)"
  by (simp_all add: drop_entry_def)

lemma drop_entry_ok:
  assumes ok: "pool_ok (p, held)" and a: "a \<in> set (po_lru p)" "idle p a"
  shows "pool_ok (drop_entry a p, held)"
proof -
  have inj: "b = a" if "b \<in> set (po_lru p)" "en_key (po_entries p b) = en_key (po_entries p a)" for b
  proof -
    have "mget (po_items p) (en_key (po_entries p a)) = Some a"
      "mget (po_items p) (en_key (po_entries p a)) = Some b"
      using ok a that by (auto simp: pool_ok_def)
    then show ?thesis by simp
  qed
  have "a \<notin> set held" using ok a(2) by (auto simp: pool_ok_def idle_def count_list_0_iff)
  moreover have "mget (mdel (en_key (po_entries p a)) (po_items p)) k = Some b \<longleftrightarrow>
      b \<in> set (po_lru p) - {a} \<and> en_key (po_entries p b) = k" for k b
    using ok inj by (auto simp: pool_ok_def mget_mdel)
  ultimately show ?thesis
    using ok by (auto simp: pool_ok_def distinct_delete)
qed

lemma evict_while_induct:
  assumes step: "\<And>p a. a \<in> set (po_lru p) \<Longrightarrow> idle p a \<Longrightarrow> P p \<Longrightarrow> P (drop_entry a p)"
  shows "P p \<Longrightarrow> P (evict_while n p)"
proof (induction n p rule: evict_while.induct)
  case (1 n p)
  show ?case
  proof (cases "n \<le> length (po_items p) \<and> evict_one p \<noteq> None")
    case True
    then obtain p' where p': "evict_one p = Some p'" by blast
    then have "P p'" using evict_one_Some [OF p'] step "1.prems" by blast
    then show ?thesis
      using True p' "1.IH" by (subst evict_while.simps) simp
  next
    case False
    then show ?thesis using "1.prems" by (subst evict_while.simps) (auto split: option.split)
  qed
qed

lemma evict_while_ok: "pool_ok (p, held) \<Longrightarrow> pool_ok (evict_while n p, held)"
  by (rule evict_while_induct [where P = "\<lambda>p. pool_ok (p, held)"]) (rule drop_entry_ok)

lemma evict_while_frame [simp]:
  "po_entries (evict_while n p) = po_entries p" "po_next (evict_while n p) = po_next p"
  "po_capacity (evict_while n p) = po_capacity p" "po_idle_ttl (evict_while n p) = po_idle_ttl p"
  using evict_while_induct [where P = "\<lambda>q. po_entries q = po_entries p \<and> po_next q = po_next p \<and>
      po_capacity q = po_capacity p \<and> po_idle_ttl q = po_idle_ttl p" and p = p and n = n]
  by simp_all

lemma evict_while_absent:
  "mget (po_items p) k = None \<Longrightarrow> mget (po_items (evict_while n p)) k = None"
  by (rule evict_while_induct [where P = "\<lambda>q. mget (po_items q) k = None"]) (auto simp: mget_mdel)

lemma evict_while_bound:
  "length (po_items (evict_while n p)) < n \<or> (\<forall>a \<in> set (po_lru (evict_while n p)). \<not> idle p a)"
proof (induction n p rule: evict_while.induct)
  case (1 n p)
  show ?case
  proof (cases "n \<le> length (po_items p)")
    case True
    show ?thesis
    proof (cases "evict_one p")
      case None
      then have "evict_while n p = p" by (subst evict_while.simps) simp
      then show ?thesis using None by (simp add: evict_one_None)
    next
      case (Some p')
      then have "idle p' = idle p" by (auto dest!: evict_one_Some simp: idle_def fun_eq_iff)
      moreover have "evict_while n p = evict_while n p'"
        using True Some by (subst evict_while.simps) simp
      ultimately show ?thesis using "1.IH" [OF True Some] by simp
    qed
  next
    case False
    then show ?thesis by (subst evict_while.simps) simp
  qed
qed

lemma take_lease_ok:
  assumes "pool_ok (p, held)" and "a \<in> set (po_lru p)"
  shows "pool_ok (take_lease a now p, a # held)"
  using assms by (auto simp: pool_ok_def take_lease_def move_to_front_def upd_entry_def)

lemma pool_ok_mem:
  "pool_ok (p, held) \<Longrightarrow> mget (po_items p) k = Some a \<Longrightarrow> a \<in> set (po_lru p)"
  "pool_ok (p, held) \<Longrightarrow> mget (po_items p) k = None \<Longrightarrow> a \<in> set (po_lru p) \<Longrightarrow> en_key (po_entries p a) \<noteq> k"
  unfolding pool_ok_def by (auto, metis option.distinct(1))

lemma lookup_hit_ok:
  "pool_ok (p, held) \<Longrightarrow> pool_ok (snd (lookup_hit k now p),
     case fst (lookup_hit k now p) of None \<Rightarrow> held | Some a \<Rightarrow> a # held)"
  by (auto simp: lookup_hit_def pool_ok_mem intro!: take_lease_ok split: option.split)

lemma insert_entry_ok:
  assumes "pool_ok (p, held)"
  shows "pool_ok (snd (insert_entry k now p), fst (insert_entry k now p) # held)"
proof (cases "mget (po_items p) k")
  case None
  let ?p = "evict_while (po_capacity p) p"
  have ok: "pool_ok (?p, held)" using assms by (rule evict_while_ok)
  have absent: "mget (po_items ?p) k = None" using None by (rule evict_while_absent)
  have keys: "\<forall>a \<in> set (po_lru ?p). en_key (po_entries p a) \<noteq> k"
    using pool_ok_mem(2) [OF ok absent] by simp
  have fresh: "po_next p \<notin> set (po_lru ?p)" using ok by (auto simp: pool_ok_def)
  then have unheld: "po_next p \<notin> set held" using ok by (auto simp: pool_ok_def)
  then have "count_list held (po_next p) = 0" by (simp add: count_list_0_iff)
  then show ?thesis
    using None ok absent fresh unheld keys
    by (auto simp: insert_entry_def Let_def pool_ok_def mget_mput distinct_update)
next
  case (Some a)
  then show ?thesis using assms by (auto simp: insert_entry_def pool_ok_mem intro!: take_lease_ok)
qed

definition give_back :: "nat \<Rightarrow> int \<Rightarrow> pool \<Rightarrow> pool" where
  "give_back a now p =
     move_to_front a (upd_entry a (\<lambda>e. e\<lparr>en_leases := en_leases e - 1, en_touched := now\<rparr>) p)"

lemma release_held:
  assumes "pool_ok (p, held)" and "a \<in> set held"
  shows "release a now p = evict_while (Suc (po_capacity p)) (give_back a now p)"
proof -
  have "a \<in> set (po_lru p)" using assms by (auto simp: pool_ok_def)
  then have "mget (po_items p) (en_key (po_entries p a)) = Some a"
    using assms(1) by (auto simp: pool_ok_def)
  then show ?thesis
    by (simp add: release_def give_back_def Let_def upd_entry_def move_to_front_def)
qed

lemma give_back_ok:
  assumes "pool_ok (p, held)" and "a \<in> set held"
  shows "pool_ok (give_back a now p, remove1 a held)"
proof -
  have "a \<in> set (po_lru p)" using assms by (auto simp: pool_ok_def)
  moreover have "set (remove1 a held) \<subseteq> set held" by (rule set_remove1_subset)
  ultimately show ?thesis
    using assms by (auto simp: give_back_def upd_entry_def move_to_front_def pool_ok_def count_list_remove1)
qed

lemma release_ok:
  assumes "pool_ok (p, held)" and "a \<in> set held"
  shows "pool_ok (release a now p, remove1 a held)"
  unfolding release_held [OF assms] by (rule evict_while_ok, rule give_back_ok [OF assms])

lemma gc_scan_frame [simp]:
  "po_entries (gc_scan d as p) = po_entries p" "po_idle_ttl (gc_scan d as p) = po_idle_ttl p"
  by (induction d as p rule: gc_scan.induct) auto

lemma gc_scan_ok:
  "pool_ok (p, held) \<Longrightarrow> distinct as \<Longrightarrow> set as \<subseteq> set (po_lru p) \<Longrightarrow> pool_ok (gc_scan d as p, held)"
proof (induction d as p rule: gc_scan.induct)
  case (2 deadline a as p)
  let ?q = "if idle p a then drop_entry a p else p"
  have "pool_ok (?q, held)" using "2.prems" by (simp add: drop_entry_ok)
  moreover have "set as \<subseteq> set (po_lru ?q)"
    using "2.prems" by (auto simp: pool_ok_def)
  ultimately show ?case using "2.prems" "2.IH" by simp
qed simp

lemma evict_idle_ok: "pool_ok (p, held) \<Longrightarrow> pool_ok (evict_idle now p, held)"
  unfolding evict_idle_def by (rule gc_scan_ok) (auto simp: pool_ok_def)

lemma pool_step_ok: "pool_ok s \<Longrightarrow> pool_ok (pool_step s op)"
  using lookup_hit_ok [of "fst s" "snd s"] insert_entry_ok [of "fst s" "snd s"]
    release_ok [of "fst s" "snd s"] evict_idle_ok [of "fst s" "snd s"]
  by (cases op) (simp_all add: pool_step_def Let_def)

lemma new_pool_ok: "pool_ok (new_pool c ttl, [])"
  by (auto simp: pool_ok_def new_pool_def default_capacity_def Suc_le_eq)

interpretation po: component "(new_pool c ttl, [])" pool_step pool_ok for c ttl
  by unfold_locales (rule new_pool_ok, rule pool_step_ok)

section \<open>Recency\<close>

text \<open>The list is ordered by the time of the last touch, newest first.\<close>

definition by_recency :: "int \<Rightarrow> pool \<Rightarrow> bool" where
  "by_recency clk p \<longleftrightarrow>
     sorted_wrt (\<lambda>a b. en_touched (po_entries p b) \<le> en_touched (po_entries p a)) (po_lru p) \<and>
     (\<forall>a \<in> set (po_lru p). en_touched (po_entries p a) \<le> clk)"

lemma sorted_wrt_remove1: "sorted_wrt P xs \<Longrightarrow> sorted_wrt P (remove1 x xs)"
  by (induction xs) (auto dest: notin_set_remove1)

lemma set_remove1_in: "y \<in> set (remove1 x xs) \<Longrightarrow> y \<in> set xs"
  using set_remove1_subset by fast

lemma by_recency_drop: "by_recency clk p \<Longrightarrow> by_recency clk (drop_entry a p)"
  by (auto simp: by_recency_def sorted_wrt_remove1 dest: set_remove1_in)

lemma by_recency_front:
  assumes "by_recency clk p" and "clk \<le> now" and "distinct (po_lru p)"
    and "en_touched (f (po_entries p a)) = now"
  shows "by_recency now (move_to_front a (upd_entry a f p))"
proof -
  let ?P = "\<lambda>g a b. en_touched (g b) \<le> en_touched (g a)"
  let ?g = "(po_entries p)(a := f (po_entries p a))"
  let ?L = "remove1 a (po_lru p)"
  have notin: "a \<notin> set ?L" using assms(3) by simp
  have old: "\<forall>b \<in> set ?L. en_touched (po_entries p b) \<le> now"
    using assms(1,2) by (auto simp: by_recency_def dest!: set_remove1_in)
  have "sorted_wrt (?P (po_entries p)) ?L"
    using assms(1) by (simp add: by_recency_def sorted_wrt_remove1)
  then have "sorted_wrt (?P ?g) ?L"
    using notin by (auto elim!: sorted_wrt_mono_rel [rotated])
  then show ?thesis
    using assms(4) notin old by (auto simp: by_recency_def move_to_front_def upd_entry_def)
qed

lemma by_recency_later: "by_recency clk p \<Longrightarrow> clk \<le> now \<Longrightarrow> by_recency now p"
  by (auto simp: by_recency_def)

lemma by_recency_evict: "by_recency clk p \<Longrightarrow> by_recency clk (evict_while n p)"
  by (rule evict_while_induct [where P = "by_recency clk"]) (rule by_recency_drop)

lemma by_recency_gc: "by_recency clk p \<Longrightarrow> by_recency clk (gc_scan d as p)"
  by (induction d as p rule: gc_scan.induct) (auto simp: by_recency_drop)

fun op_now :: "pool_op \<Rightarrow> int" where
  "op_now (OpLookup k now) = now"
| "op_now (OpInsert k now) = now"
| "op_now (OpRelease a now) = now"
| "op_now (OpGC now) = now"

lemma by_recency_step:
  assumes ok: "pool_ok (p, held)" and rec: "by_recency clk p" and clk: "clk \<le> op_now op"
  shows "by_recency (op_now op) (fst (pool_step (p, held) op))"
proof -
  have dist: "distinct (po_lru p)" using ok by (simp add: pool_ok_def)
  have later: "by_recency (op_now op) p" using rec clk by (rule by_recency_later)
  have take: "by_recency (op_now op) (take_lease a (op_now op) p)" for a
    unfolding take_lease_def by (rule by_recency_front [OF rec clk dist]) simp
  show ?thesis
  proof (cases op)
    case (OpLookup k now)
    then show ?thesis using take later
      by (auto simp: pool_step_def lookup_hit_def Let_def split: option.split)
  next
    case (OpInsert k now)
    let ?p = "evict_while (po_capacity p) p"
    have "by_recency now ?p" using later OpInsert by (auto intro: by_recency_evict)
    moreover have "po_next p \<notin> set (po_lru ?p)"
      using evict_while_ok [OF ok, of "po_capacity p"] by (auto simp: pool_ok_def)
    ultimately show ?thesis using OpInsert take
      by (auto simp: pool_step_def insert_entry_def Let_def by_recency_def split: option.split
          elim!: sorted_wrt_mono_rel [rotated])
  next
    case (OpRelease a now)
    have "by_recency now (give_back a now p)"
      unfolding give_back_def by (rule by_recency_front [OF rec _ dist]) (use clk OpRelease in simp_all)
    then show ?thesis
      using OpRelease later by (auto simp: pool_step_def release_held [OF ok] intro: by_recency_evict)
  next
    case (OpGC now)
    then show ?thesis using later by (simp add: pool_step_def evict_idle_def by_recency_gc)
  qed
qed

lemma gc_scan_shrink: "b \<in> set (po_lru (gc_scan d as p)) \<Longrightarrow> b \<in> set (po_lru p)"
  by (induction d as p rule: gc_scan.induct) (auto split: if_splits dest: set_remove1_in)

lemma length_mput_new: "mget m k = None \<Longrightarrow> length (mput k v m) = Suc (length m)"
  by (induction m) (auto split: if_splits)

lemma gc_scan_complete:
  assumes "sorted_wrt (\<lambda>a b. en_touched (po_entries p a) \<le> en_touched (po_entries p b)) as"
    and "b \<in> set as" and "b \<in> set (po_lru (gc_scan d as p))" and "idle p b" and "distinct (po_lru p)"
  shows "d < en_touched (po_entries p b)"
  using assms
proof (induction d as p rule: gc_scan.induct)
  case (2 deadline a as p)
  let ?q = "if idle p a then drop_entry a p else p"
  have same: "po_entries ?q = po_entries p" "idle ?q = idle p" by (auto simp: idle_def fun_eq_iff)
  show ?case
  proof (cases "deadline < en_touched (po_entries p a)")
    case True
    then show ?thesis using "2.prems"(1,2) by auto
  next
    case False
    then have in_q: "b \<in> set (po_lru (gc_scan deadline as ?q))" using "2.prems"(3) by simp
    have "b \<noteq> a"
    proof
      assume "b = a"
      then have "b \<notin> set (po_lru ?q)" using "2.prems"(4,5) by simp
      with gc_scan_shrink [OF in_q] show False by blast
    qed
    then show ?thesis
      using "2.IH" [OF False] "2.prems" in_q same by (auto simp: distinct_remove1)
  qed
qed simp

lemma release_evicts:
  "\<exists>q. po_capacity q = po_capacity p \<and> release a now p = evict_while (Suc (po_capacity q)) q"
  unfolding release_def Let_def
  by (rule exI, rule conjI [rotated], rule refl) (simp add: upd_entry_def move_to_front_def)

section \<open>Properties\<close>

text \<open>C31: one engine per session: whatever requests, releases and garbage collections interleave, two
  leases held at the same time for the same owner and session are leases of the same entry.\<close>

theorem one_engine_per_session:
  assumes "foldl pool_step (new_pool c ttl, []) ops = (p, held)"
    and "a \<in> set held" and "b \<in> set held"
    and "en_key (po_entries p a) = en_key (po_entries p b)"
  shows "a = b"
proof -
  have "pool_ok (p, held)" using po.inv_run [of c ttl ops] assms(1) by simp
  then have "mget (po_items p) (en_key (po_entries p a)) = Some a"
    "mget (po_items p) (en_key (po_entries p a)) = Some b"
    using assms(2-4) by (auto simp: pool_ok_def)
  then show ?thesis by simp
qed

definition demo_key :: "string \<Rightarrow> entry_key" where
  "demo_key s = (\<lparr>ow_top = 1, ow_org = 2\<rparr>, s)"

text \<open>Two goroutines miss on the same session and both build; the second insert finds the first.\<close>

definition demo_race :: "pool_op list" where
  "demo_race = [OpLookup (demo_key ''s'') 1, OpLookup (demo_key ''s'') 2,
     OpInsert (demo_key ''s'') 3, OpInsert (demo_key ''s'') 4, OpInsert (demo_key ''t'') 5]"

lemmas pool_defs = pool_step_def lookup_hit_def insert_entry_def take_lease_def move_to_front_def
  upd_entry_def new_pool_def evict_while.simps evict_one_def idle_def drop_entry_def Let_def

lemma demo_race_held: "snd (foldl pool_step (new_pool 1 100, []) demo_race) = [1, 0, 0]"
  by (simp add: demo_race_def demo_key_def pool_defs)

theorem one_engine_per_session_witness:
  "let r = foldl pool_step (new_pool 1 100, []) demo_race
   in snd r = [1, 0, 0] \<and> en_key (po_entries (fst r) 1) \<noteq> en_key (po_entries (fst r) 0)"
  using one_engine_per_session [of 1 100 demo_race
      "fst (foldl pool_step (new_pool 1 100, []) demo_race)" "[1, 0, 0]" 1 0] demo_race_held
  by (auto simp: prod_eq_iff Let_def)

text \<open>C32: an entry somebody holds is never evicted: it stays in the list, the map leads from its key
  to it, and its lease count is the number of leases held on it.\<close>

theorem held_entry_stays_cached:
  assumes "foldl pool_step (new_pool c ttl, []) ops = (p, held)" and "a \<in> set held"
  shows "a \<in> set (po_lru p) \<and> mget (po_items p) (en_key (po_entries p a)) = Some a \<and>
     en_leases (po_entries p a) = count_list held a"
  using po.inv_run [of c ttl ops] assms by (auto simp: pool_ok_def)

theorem held_entry_stays_cached_witness:
  "0 \<in> set (po_lru (fst (foldl pool_step (new_pool 1 100, []) demo_race))) \<and>
   en_leases (po_entries (fst (foldl pool_step (new_pool 1 100, []) demo_race)) 0) = 2"
  using held_entry_stays_cached [of 1 100 demo_race
      "fst (foldl pool_step (new_pool 1 100, []) demo_race)" "[1, 0, 0]" 0] demo_race_held
  by (simp add: prod_eq_iff)

text \<open>The capacity is exceeded only by entries in use: after a release, and after the insertion
  of a new session, the cache holds at most \<open>capacity\<close> entries or every entry in it is leased.\<close>

theorem capacity_soft_limit:
  assumes "mget (po_items p) k = None" and "1 \<le> po_capacity p"
  shows "(length (po_items (release a now p)) \<le> po_capacity p \<or>
      (\<forall>b. b \<in> set (po_lru (release a now p)) \<longrightarrow> en_leases (po_entries (release a now p) b) \<noteq> 0)) \<and>
    (length (po_items (snd (insert_entry k now p))) \<le> po_capacity p \<or>
      (\<forall>b. b \<in> set (po_lru (snd (insert_entry k now p))) \<longrightarrow>
         en_leases (po_entries (snd (insert_entry k now p)) b) \<noteq> 0))"
proof
  obtain q where q: "release a now p = evict_while (Suc (po_capacity p)) q"
    using release_evicts [of p a now] by auto
  show "length (po_items (release a now p)) \<le> po_capacity p \<or>
      (\<forall>b. b \<in> set (po_lru (release a now p)) \<longrightarrow> en_leases (po_entries (release a now p) b) \<noteq> 0)"
    using evict_while_bound [of "Suc (po_capacity p)" q] unfolding q by (auto simp: idle_def)
next
  let ?p = "evict_while (po_capacity p) p"
  have "mget (po_items ?p) k = None" using assms(1) by (rule evict_while_absent)
  then have "length (mput k x (po_items ?p)) = Suc (length (po_items ?p))" for x
    by (rule length_mput_new)
  then show "length (po_items (snd (insert_entry k now p))) \<le> po_capacity p \<or>
      (\<forall>b. b \<in> set (po_lru (snd (insert_entry k now p))) \<longrightarrow>
         en_leases (po_entries (snd (insert_entry k now p)) b) \<noteq> 0)"
    using assms evict_while_bound [of "po_capacity p" p]
    by (auto simp: insert_entry_def Let_def idle_def Suc_le_eq)
qed

theorem capacity_soft_limit_witness:
  "length (po_items (snd (insert_entry (demo_key ''s'') 5 (new_pool 1 100)))) \<le> 1"
  using capacity_soft_limit [of "new_pool 1 100" "demo_key ''s''" 0 5]
  by (simp add: pool_defs demo_key_def)

text \<open>The garbage collector is complete although it stops early: in a run whose operations happen at
  non-decreasing times, an unleased entry that survives \<open>evictIdle\<close> was touched within \<open>IdleTTL\<close>.\<close>

theorem gc_leaves_no_stale_entry:
  assumes "foldl pool_step (new_pool c ttl, []) ops = (p, held)"
    and "sorted (map op_now ops)" and "\<forall>op \<in> set ops. op_now op \<le> now"
    and "b \<in> set (po_lru (evict_idle now p))" and "en_leases (po_entries p b) = 0"
  shows "now - po_idle_ttl p < en_touched (po_entries p b)"
proof -
  have rec: "\<exists>clk. by_recency clk p"
  proof -
    have run: "by_recency (last (clk # map op_now ops)) (fst (foldl pool_step s ops))"
      if "pool_ok s" "by_recency clk (fst s)" "sorted (clk # map op_now ops)" for s clk ops
      using that
    proof (induction ops arbitrary: s clk)
      case (Cons op ops)
      have "by_recency (op_now op) (fst (pool_step s op))"
        using Cons.prems by_recency_step [of "fst s" "snd s" clk op] by simp
      then show ?case
        using Cons.IH [of "pool_step s op" "op_now op"] Cons.prems pool_step_ok by simp
    qed simp
    show ?thesis
    proof (cases ops)
      case Nil
      then show ?thesis using assms(1) by (auto simp: by_recency_def new_pool_def)
    next
      case (Cons op rest)
      have "by_recency (op_now op) (fst (new_pool c ttl, []))"
        by (simp add: by_recency_def new_pool_def)
      from run [OF new_pool_ok this, of ops] show ?thesis using Cons assms(1,2) by auto
    qed
  qed
  have ok: "pool_ok (p, held)" using po.inv_run [of c ttl ops] assms(1) by simp
  have "b \<in> set (po_lru p)"
    using assms(4) by (auto simp: evict_idle_def dest!: gc_scan_shrink)
  moreover have "sorted_wrt (\<lambda>a b. en_touched (po_entries p a) \<le> en_touched (po_entries p b)) (rev (po_lru p))"
    using rec by (auto simp: by_recency_def sorted_wrt_rev)
  ultimately show ?thesis
    using gc_scan_complete [of p "rev (po_lru p)" b "now - po_idle_ttl p"] assms(4,5) ok
    by (simp add: evict_idle_def idle_def pool_ok_def)
qed

theorem gc_leaves_no_stale_entry_witness:
  "let s = foldl pool_step (new_pool 5 100, []) [OpInsert (demo_key ''s'') 1, OpRelease 0 2,
             OpInsert (demo_key ''t'') 150, OpRelease 1 150]
   in po_lru (evict_idle 200 (fst s)) = [1] \<and> 200 - 100 < en_touched (po_entries (fst s) 1)"
proof -
  let ?ops = "[OpInsert (demo_key ''s'') 1, OpRelease 0 2, OpInsert (demo_key ''t'') 150, OpRelease 1 150]"
  let ?s = "foldl pool_step (new_pool 5 100, []) ?ops"
  have facts: "po_lru (evict_idle 200 (fst ?s)) = [1]" "po_idle_ttl (fst ?s) = 100"
    "en_leases (po_entries (fst ?s) 1) = 0"
    by (simp_all add: demo_key_def pool_defs release_def evict_idle_def)
  have "200 - po_idle_ttl (fst ?s) < en_touched (po_entries (fst ?s) 1)"
    by (rule gc_leaves_no_stale_entry [of 5 100 ?ops "fst ?s" "snd ?s"]) (use facts in simp_all)
  with facts show ?thesis by (simp add: Let_def)
qed

end
