(* ===== verification/ConfirmBroker.thy ===== *)
theory ConfirmBroker
  imports ConfirmForm Pool
begin

text \<open>
  The confirmation broker (\<open>internal/httpapi/confirm_broker.go\<close>): the meeting point of the
  chat turn that waits for a confirmation and the request that answers it.

  Confirmation ids come from \<open>uuid.NewString\<close>, which is not code of this repository: the
  generator is the parameter \<open>gen\<close> (its n-th id), and the theorems that need it assume its
  documented behaviour, that ids do not repeat. A channel has capacity one, carries at most
  one decision and is closed; sending on or closing a closed channel panics, which the
  model records in \<open>br_panic\<close>. \<open>ClaimResolution\<close> returns a closure; a claim that has not
  been delivered yet is kept in \<open>br_claimed\<close>, and calling the closure is the operation
  \<open>OpDeliver\<close>. The lists \<open>br_registered\<close> and \<open>br_delivered\<close> are observations.
\<close>

section \<open>State\<close>

record confirm_decision =
  cd_confirmed :: bool
  cd_overrides :: overrides

definition no_decision :: confirm_decision where
  "no_decision = \<lparr>cd_confirmed = False, cd_overrides = []\<rparr>"

record pending_confirm =
  pc_session :: string
  pc_owner :: owner
  pc_form :: "confirm_form option"

datatype chan_state = ChanOpen | ChanSent confirm_decision | ChanClosed

datatype broker_error =
    ErrConfirmationNotFound
  | ErrConfirmationOwner
  | ErrOverridesNotAllowed
  | ErrOverrideInvalid override_error

record broker =
  br_pending :: "(string \<times> pending_confirm) list"
  br_chan :: "string \<Rightarrow> chan_state"
  br_next :: nat
  br_claimed :: "(string \<times> confirm_decision) list"
  br_panic :: bool
  br_registered :: "(string \<times> pending_confirm) list"
  br_delivered :: "(string \<times> owner \<times> confirm_decision) list"
  br_claims :: "(string \<times> owner) list"

definition new_broker :: broker where
  "new_broker = \<lparr>br_pending = [], br_chan = (\<lambda>_. ChanClosed), br_next = 0, br_claimed = [],
     br_panic = False, br_registered = [], br_delivered = [], br_claims = []\<rparr>"

section \<open>Operations\<close>

definition register :: "(nat \<Rightarrow> string) \<Rightarrow> string \<Rightarrow> owner \<Rightarrow> confirm_form option \<Rightarrow> broker
    \<Rightarrow> string \<times> broker" where
  "register gen session ow form b =
     (let cid = gen (br_next b); p = \<lparr>pc_session = session, pc_owner = ow, pc_form = form\<rparr> in
      (cid, b\<lparr>br_pending := mput cid p (br_pending b), br_chan := (br_chan b)(cid := ChanOpen),
             br_next := Suc (br_next b), br_registered := (cid, p) # br_registered b\<rparr>))"

text \<open>The checks of a claim, in the order the code makes them.\<close>

definition claim_error :: "broker \<Rightarrow> string \<Rightarrow> owner \<Rightarrow> confirm_decision \<Rightarrow> broker_error option" where
  "claim_error b cid ow d = (case mget (br_pending b) cid of
       None \<Rightarrow> Some ErrConfirmationNotFound
     | Some p \<Rightarrow>
         if pc_owner p \<noteq> ow then Some ErrConfirmationOwner
         else if cd_confirmed d \<and> cd_overrides d \<noteq> [] then
           (case pc_form p of
              None \<Rightarrow> Some ErrOverridesNotAllowed
            | Some form \<Rightarrow> map_option ErrOverrideInvalid (validate_overrides (Some form) (cd_overrides d)))
         else None)"

definition effective_decision :: "confirm_decision \<Rightarrow> confirm_decision" where
  "effective_decision d = (if cd_confirmed d then d else d\<lparr>cd_overrides := []\<rparr>)"

definition claim_resolution :: "string \<Rightarrow> string \<Rightarrow> owner \<Rightarrow> confirm_decision \<Rightarrow> broker
    \<Rightarrow> (broker_error + confirm_decision) \<times> broker" where
  "claim_resolution cid session ow d b = (case claim_error b cid ow d of
       Some e \<Rightarrow> (Inl e, b)
     | None \<Rightarrow>
         (Inr (effective_decision d),
          b\<lparr>br_pending := mdel cid (br_pending b),
            br_claimed := (cid, effective_decision d) # br_claimed b,
            br_claims := (cid, ow) # br_claims b\<rparr>))"

text \<open>The closure: send, then close. \<open>ow\<close> is the owner of the claim, for the log.\<close>

definition deliver :: "string \<Rightarrow> broker \<Rightarrow> broker" where
  "deliver cid b = (case (mget (br_claimed b) cid, mget (br_claims b) cid) of
       (Some d, Some ow) \<Rightarrow>
         if br_chan b cid = ChanOpen
         then b\<lparr>br_claimed := mdel cid (br_claimed b), br_chan := (br_chan b)(cid := ChanSent d),
                br_delivered := (cid, ow, d) # br_delivered b\<rparr>
         else b\<lparr>br_claimed := mdel cid (br_claimed b), br_panic := True\<rparr>
     | _ \<Rightarrow> b)"

definition resolve_confirmation :: "string \<Rightarrow> string \<Rightarrow> owner \<Rightarrow> confirm_decision \<Rightarrow> broker
    \<Rightarrow> broker_error option \<times> broker" where
  "resolve_confirmation cid session ow d b =
     (let r = claim_resolution cid session ow d b in
      case fst r of Inl e \<Rightarrow> (Some e, snd r) | Inr _ \<Rightarrow> (None, deliver cid (snd r)))"

definition cancel :: "string \<Rightarrow> broker \<Rightarrow> broker" where
  "cancel cid b = (case mget (br_pending b) cid of
       None \<Rightarrow> b
     | Some p \<Rightarrow>
         (let b1 = b\<lparr>br_pending := mdel cid (br_pending b)\<rparr> in
          if br_chan b1 cid = ChanOpen then b1\<lparr>br_chan := (br_chan b1)(cid := ChanClosed)\<rparr>
          else b1\<lparr>br_panic := True\<rparr>))"

text \<open>
  \<open>WaitForConfirmationOutcome\<close>: every result the \<open>select\<close> may take when it looks at the
  channel, the request context and the timer.
\<close>

definition reason_broker_cancelled :: string where "reason_broker_cancelled = ''broker_cancelled''"
definition reason_user_confirmed :: string where "reason_user_confirmed = ''user_confirmed''"
definition reason_user_declined :: string where "reason_user_declined = ''user_declined''"
definition reason_client_disconnect :: string where "reason_client_disconnect = ''client_disconnect''"
definition reason_timeout :: string where "reason_timeout = ''timeout''"

definition wait_outcomes :: "chan_state \<Rightarrow> bool \<Rightarrow> bool \<Rightarrow> (confirm_decision \<times> string) list" where
  "wait_outcomes ch disconnected timed_out =
     (case ch of
        ChanOpen \<Rightarrow> []
      | ChanClosed \<Rightarrow> [(no_decision, reason_broker_cancelled)]
      | ChanSent d \<Rightarrow> [(d, if cd_confirmed d then reason_user_confirmed else reason_user_declined)]) @
     (if disconnected then [(no_decision, reason_client_disconnect)] else []) @
     (if timed_out then [(no_decision, reason_timeout)] else [])"

datatype broker_op =
    OpRegister string owner "confirm_form option"
  | OpClaim string string owner confirm_decision
  | OpDeliver string
  | OpCancel string

definition broker_step :: "(nat \<Rightarrow> string) \<Rightarrow> broker \<Rightarrow> broker_op \<Rightarrow> broker" where
  "broker_step gen b op = (case op of
       OpRegister session ow form \<Rightarrow> snd (register gen session ow form b)
     | OpClaim cid session ow d \<Rightarrow> snd (claim_resolution cid session ow d b)
     | OpDeliver cid \<Rightarrow> deliver cid b
     | OpCancel cid \<Rightarrow> cancel cid b)"

section \<open>The invariant\<close>

text \<open>A decision the form of the confirmation allows.\<close>

definition decision_ok :: "pending_confirm \<Rightarrow> confirm_decision \<Rightarrow> bool" where
  "decision_ok p d \<longleftrightarrow>
     (if cd_confirmed d
      then cd_overrides d = [] \<or>
        (\<exists>form. pc_form p = Some form \<and> validate_overrides (Some form) (cd_overrides d) = None)
      else cd_overrides d = [])"

definition issued :: "(nat \<Rightarrow> string) \<Rightarrow> broker \<Rightarrow> string set" where
  "issued gen b = gen ` {..<br_next b}"

definition pending_ok :: "(nat \<Rightarrow> string) \<Rightarrow> broker \<Rightarrow> bool" where
  "pending_ok gen b \<longleftrightarrow> (\<forall>cid p. mget (br_pending b) cid = Some p \<longrightarrow>
     br_chan b cid = ChanOpen \<and> mget (br_claimed b) cid = None \<and> (cid, p) \<in> set (br_registered b) \<and>
     cid \<in> issued gen b \<and> cid \<notin> fst ` set (br_delivered b))"

definition claimed_ok :: "(nat \<Rightarrow> string) \<Rightarrow> broker \<Rightarrow> bool" where
  "claimed_ok gen b \<longleftrightarrow> (\<forall>cid d. mget (br_claimed b) cid = Some d \<longrightarrow>
     br_chan b cid = ChanOpen \<and> cid \<in> issued gen b \<and> cid \<notin> fst ` set (br_delivered b) \<and>
     (\<exists>p. (cid, p) \<in> set (br_registered b) \<and> mget (br_claims b) cid = Some (pc_owner p) \<and> decision_ok p d))"

definition delivered_ok :: "(nat \<Rightarrow> string) \<Rightarrow> broker \<Rightarrow> bool" where
  "delivered_ok gen b \<longleftrightarrow> distinct (map fst (br_delivered b)) \<and>
     (\<forall>cid ow d. (cid, ow, d) \<in> set (br_delivered b) \<longrightarrow> cid \<in> issued gen b \<and>
        (\<exists>p. (cid, p) \<in> set (br_registered b) \<and> pc_owner p = ow \<and> decision_ok p d))"

definition broker_ok :: "(nat \<Rightarrow> string) \<Rightarrow> broker \<Rightarrow> bool" where
  "broker_ok gen b \<longleftrightarrow> pending_ok gen b \<and> claimed_ok gen b \<and> delivered_ok gen b \<and> \<not> br_panic b"

lemmas broker_ok_defs = broker_ok_def pending_ok_def claimed_ok_def delivered_ok_def

lemma new_broker_ok: "broker_ok gen new_broker"
  by (simp add: broker_ok_defs new_broker_def)

lemma register_ok:
  assumes "inj gen" and ok: "broker_ok gen b"
  shows "broker_ok gen (snd (register gen session ow form b))"
proof -
  let ?b = "snd (register gen session ow form b)"
  have grow: "issued gen ?b = insert (gen (br_next b)) (issued gen b)"
    by (simp add: register_def Let_def issued_def lessThan_Suc)
  have fresh: "gen (br_next b) \<notin> issued gen b"
    using assms(1) by (auto simp: issued_def inj_def)
  then have "mget (br_claimed b) (gen (br_next b)) = None"
    "gen (br_next b) \<notin> fst ` set (br_delivered b)"
    using ok by (auto simp: broker_ok_defs) (metis not_None_eq)
  then show ?thesis
    using ok fresh unfolding broker_ok_defs grow
    by (auto simp: register_def Let_def mget_mput split: if_splits) blast
qed

lemma claim_error_None:
  "claim_error b cid ow d = None \<longleftrightarrow>
     (\<exists>p. mget (br_pending b) cid = Some p \<and> pc_owner p = ow \<and> decision_ok p (effective_decision d))"
  by (auto simp: claim_error_def decision_ok_def effective_decision_def split: option.splits)

lemma claim_ok:
  assumes "broker_ok gen b"
  shows "broker_ok gen (snd (claim_resolution cid session ow d b))"
proof (cases "claim_error b cid ow d")
  case None
  then obtain p where p: "mget (br_pending b) cid = Some p" "pc_owner p = ow"
      "decision_ok p (effective_decision d)"
    by (auto simp: claim_error_None)
  then have "br_chan b cid = ChanOpen" "(cid, p) \<in> set (br_registered b)" "cid \<in> issued gen b"
    "cid \<notin> fst ` set (br_delivered b)"
    using assms unfolding broker_ok_defs by blast+
  then show ?thesis
    using None assms p
    by (auto simp: claim_resolution_def broker_ok_defs mget_mdel issued_def split: if_splits)
next
  case (Some e)
  then show ?thesis using assms by (simp add: claim_resolution_def)
qed

lemma deliver_ok:
  assumes "broker_ok gen b"
  shows "broker_ok gen (deliver cid b)"
proof (cases "mget (br_claimed b) cid")
  case None
  then show ?thesis using assms by (simp add: deliver_def)
next
  case (Some d)
  then obtain p where "br_chan b cid = ChanOpen" "cid \<in> issued gen b" "cid \<notin> fst ` set (br_delivered b)"
      "(cid, p) \<in> set (br_registered b)" "mget (br_claims b) cid = Some (pc_owner p)" "decision_ok p d"
      "mget (br_pending b) cid = None"
    using assms unfolding broker_ok_defs by (metis not_None_eq option.distinct(1))
  then show ?thesis
    using Some assms
    by (auto simp: deliver_def broker_ok_defs mget_mdel issued_def split: if_splits)
qed

lemma cancel_ok:
  assumes "broker_ok gen b"
  shows "broker_ok gen (cancel cid b)"
  using assms
  by (auto simp: cancel_def broker_ok_defs mget_mdel issued_def Let_def split: option.split if_splits)

definition broker_inv :: "(nat \<Rightarrow> string) \<Rightarrow> broker \<Rightarrow> bool" where
  "broker_inv gen b \<longleftrightarrow> (inj gen \<longrightarrow> broker_ok gen b)"

interpretation br: component new_broker "broker_step gen" "broker_inv gen" for gen
  by unfold_locales
    (auto simp: broker_inv_def new_broker_ok broker_step_def register_ok claim_ok deliver_ok cancel_ok
      split: broker_op.split)

section \<open>Properties\<close>

text \<open>C30: whatever registrations, claims, deliveries and cancellations interleave, every confirmation
  is decided at most once, by a claim of the owner it was registered for, with overrides the form it
  was registered with allows (none without a form, none on a denial); and no channel is closed or
  sent on twice, so the broker never panics.\<close>

theorem broker_decisions_authorized:
  assumes "inj gen"
  shows "distinct (map fst (br_delivered (foldl (broker_step gen) new_broker ops))) \<and>
     (\<forall>cid ow d. (cid, ow, d) \<in> set (br_delivered (foldl (broker_step gen) new_broker ops)) \<longrightarrow>
        (\<exists>p. (cid, p) \<in> set (br_registered (foldl (broker_step gen) new_broker ops)) \<and>
             pc_owner p = ow \<and> decision_ok p d)) \<and>
     \<not> br_panic (foldl (broker_step gen) new_broker ops)"
  using br.inv_run [of gen ops] assms unfolding broker_inv_def broker_ok_defs by blast

definition demo_gen :: "nat \<Rightarrow> string" where
  "demo_gen n = replicate n (CHR ''i'')"

lemma demo_gen_inj: "inj demo_gen"
  by (rule injI) (metis demo_gen_def length_replicate)

definition demo_owner :: owner where
  "demo_owner = \<lparr>ow_top = 1, ow_org = 2\<rparr>"

definition demo_broker_ops :: "broker_op list" where
  "demo_broker_ops = [OpRegister ''s'' demo_owner None,
     OpClaim [] ''s2'' demo_owner \<lparr>cd_confirmed = True, cd_overrides = []\<rparr>,
     OpClaim [] ''s2'' demo_owner \<lparr>cd_confirmed = False, cd_overrides = []\<rparr>,
     OpCancel [], OpDeliver []]"

theorem broker_decisions_authorized_witness:
  "br_delivered (foldl (broker_step demo_gen) new_broker demo_broker_ops) =
     [([], demo_owner, \<lparr>cd_confirmed = True, cd_overrides = []\<rparr>)] \<and>
   \<not> br_panic (foldl (broker_step demo_gen) new_broker demo_broker_ops)"
  using broker_decisions_authorized [OF demo_gen_inj, of demo_broker_ops]
  by (simp add: demo_broker_ops_def broker_step_def register_def claim_resolution_def claim_error_def
      deliver_def cancel_def new_broker_def effective_decision_def demo_gen_def Let_def)

text \<open>A claim is accepted exactly when the confirmation is pending, belongs to the claiming owner and
  the decision, stripped of overrides when it is a denial, is one its form allows; a refused claim
  changes nothing, so the client may correct it and send it again.\<close>

theorem claim_accepted_iff:
  "claim_resolution cid session ow d b =
     (if \<exists>p. mget (br_pending b) cid = Some p \<and> pc_owner p = ow \<and> decision_ok p (effective_decision d)
      then (Inr (effective_decision d),
            b\<lparr>br_pending := mdel cid (br_pending b),
              br_claimed := (cid, effective_decision d) # br_claimed b,
              br_claims := (cid, ow) # br_claims b\<rparr>)
      else (Inl (the (claim_error b cid ow d)), b))"
  by (cases "claim_error b cid ow d")
    (use claim_error_None [of b cid ow d] in \<open>auto simp: claim_resolution_def\<close>)

text \<open>A turn that waits for a confirmation proceeds as confirmed only on a decision that was
  delivered to its own channel and says so; a timeout, a disconnect, a cancelled confirmation and a
  denial all read as not confirmed.\<close>

theorem wait_confirmed_only_by_decision:
  assumes "(d, reason) \<in> set (wait_outcomes ch disconnected timed_out)"
  shows "cd_confirmed d = (reason = reason_user_confirmed) \<and> (cd_confirmed d = (ch = ChanSent d \<and> reason = reason_user_confirmed))"
  using assms
  by (cases ch) (auto simp: wait_outcomes_def no_decision_def reason_user_confirmed_def
      reason_user_declined_def reason_timeout_def reason_client_disconnect_def
      reason_broker_cancelled_def split: if_splits)

theorem wait_confirmed_only_by_decision_witness:
  "(no_decision, reason_timeout) \<in> set (wait_outcomes ChanOpen False True) \<and> \<not> cd_confirmed no_decision"
  using wait_confirmed_only_by_decision [of no_decision reason_timeout ChanOpen False True]
  by (simp add: wait_outcomes_def no_decision_def)

end
