(* ===== verification/RateLimit.thy ===== *)
theory RateLimit
  imports GoText
begin

text \<open>
  The in-memory rate limiter (\<open>internal/governance/ratelimit.go\<close>): a token bucket and a
  daily counter per (subject, class).

  An instant is a number of nanoseconds with the offset of its location from UTC, so the
  local date is a day number (\<open>localDateKey\<close> formats that day; only equality of dates is
  used). The offset of a location is taken to be the one the instant carries. Token counts
  are exact rationals where the code uses float64. \<open>Request.Now\<close> is optional: the zero time
  falls back to the limiter's clock, an argument of \<open>allow\<close>.
\<close>

section \<open>Requests, decisions, limits\<close>

definition anonymous_subject_key :: string where
  "anonymous_subject_key = ''anonymous''"

type_synonym rl_class = string

definition class_llm :: rl_class where "class_llm = ''llm''"
definition class_mutating_tool :: rl_class where "class_mutating_tool = ''mutating_tool''"
definition class_read_expensive_tool :: rl_class where
  "class_read_expensive_tool = ''read_expensive_tool''"
definition class_ssh_exec :: rl_class where "class_ssh_exec = ''ssh_exec''"
definition class_user_turn :: rl_class where "class_user_turn = ''user_turn''"

datatype rl_reason = ReasonNone | ReasonQPSExceeded | ReasonDailyExceeded

record gtime =
  tm_ns :: int
  tm_offset :: int

record rl_request =
  rq_subject :: string
  rq_class :: rl_class
  rq_action :: string
  rq_now :: "gtime option"

record rl_decision =
  dc_allowed :: bool
  dc_class :: rl_class
  dc_action :: string
  dc_reason :: rl_reason
  dc_subject :: string
  dc_retry_after :: int
  dc_limited_err :: bool

record limits =
  llm_qps :: int
  llm_daily :: int
  mutating_qps :: int
  mutating_daily :: int
  read_expensive_qps :: int
  read_expensive_daily :: int
  ssh_exec_qps :: int
  ssh_exec_daily :: int
  user_turn_qps :: int
  user_turn_daily :: int

definition default_limits :: limits where
  "default_limits = \<lparr>llm_qps = 5, llm_daily = 5000, mutating_qps = 1, mutating_daily = 50,
     read_expensive_qps = 6, read_expensive_daily = 500, ssh_exec_qps = 1, ssh_exec_daily = 50,
     user_turn_qps = 0, user_turn_daily = 0\<rparr>"

definition or_default :: "int \<Rightarrow> int \<Rightarrow> int" where
  "or_default v d = (if v \<le> 0 then d else v)"

definition normalize_limits :: "limits \<Rightarrow> limits" where
  "normalize_limits l = l\<lparr>
     llm_qps := or_default (llm_qps l) (llm_qps default_limits),
     llm_daily := or_default (llm_daily l) (llm_daily default_limits),
     mutating_qps := or_default (mutating_qps l) (mutating_qps default_limits),
     mutating_daily := or_default (mutating_daily l) (mutating_daily default_limits),
     read_expensive_qps := or_default (read_expensive_qps l) (read_expensive_qps default_limits),
     read_expensive_daily := or_default (read_expensive_daily l) (read_expensive_daily default_limits),
     ssh_exec_qps := or_default (ssh_exec_qps l) (ssh_exec_qps default_limits),
     ssh_exec_daily := or_default (ssh_exec_daily l) (ssh_exec_daily default_limits)\<rparr>"

definition for_class :: "limits \<Rightarrow> rl_class \<Rightarrow> int \<times> int" where
  "for_class l c =
     (if c = class_mutating_tool then (mutating_qps l, mutating_daily l)
      else if c = class_read_expensive_tool then (read_expensive_qps l, read_expensive_daily l)
      else if c = class_ssh_exec then (ssh_exec_qps l, ssh_exec_daily l)
      else if c = class_llm then (llm_qps l, llm_daily l)
      else if c = class_user_turn then (user_turn_qps l, user_turn_daily l)
      else (llm_qps l, llm_daily l))"

section \<open>One counter\<close>

definition ns_per_second :: int where "ns_per_second = 1000000000"
definition ns_per_day :: int where "ns_per_day = 86400 * ns_per_second"

definition local_date_key :: "gtime \<Rightarrow> int" where
  "local_date_key t = (tm_ns t + tm_offset t) div ns_per_day"

record counter_state =
  ct_tokens :: rat
  ct_last_refill :: int
  ct_date_key :: int
  ct_daily_count :: int

definition new_counter :: "gtime \<Rightarrow> int \<Rightarrow> counter_state" where
  "new_counter now qps = \<lparr>ct_tokens = of_int qps, ct_last_refill = tm_ns now,
     ct_date_key = local_date_key now, ct_daily_count = 0\<rparr>"

definition reset_date_if_needed :: "gtime \<Rightarrow> counter_state \<Rightarrow> counter_state" where
  "reset_date_if_needed now c =
     (if ct_date_key c = local_date_key now then c
      else c\<lparr>ct_date_key := local_date_key now, ct_daily_count := 0\<rparr>)"

definition refill :: "gtime \<Rightarrow> int \<Rightarrow> counter_state \<Rightarrow> counter_state" where
  "refill now qps c =
     (if tm_ns now < ct_last_refill c then c\<lparr>ct_last_refill := tm_ns now\<rparr>
      else
        (let elapsed = of_int (tm_ns now - ct_last_refill c) / of_int ns_per_second in
         if elapsed \<le> 0 then c
         else c\<lparr>ct_tokens := min (of_int qps) (ct_tokens c + elapsed * of_int qps),
                ct_last_refill := tm_ns now\<rparr>))"

definition retry_after_qps :: "rat \<Rightarrow> int \<Rightarrow> int" where
  "retry_after_qps tokens qps =
     (if qps \<le> 0 then ns_per_second
      else if 1 - tokens \<le> 0 then 0
      else \<lceil>(1 - tokens) / of_int qps * 1000\<rceil> * 1000000)"

definition retry_after_daily :: "gtime \<Rightarrow> int" where
  "retry_after_daily now =
     (local_date_key now + 1) * ns_per_day - (tm_ns now + tm_offset now)"

text \<open>The counter as a request finds it: rolled over to the day, then refilled.\<close>

definition touch_counter :: "int \<Rightarrow> gtime \<Rightarrow> counter_state \<Rightarrow> counter_state" where
  "touch_counter qps now c =
     (let c1 = reset_date_if_needed now c in if qps > 0 then refill now qps c1 else c1)"

definition admit :: "int \<Rightarrow> int \<Rightarrow> gtime \<Rightarrow> counter_state \<Rightarrow> (rl_reason \<times> int) \<times> counter_state" where
  "admit qps daily now c =
     (if daily > 0 \<and> daily \<le> ct_daily_count c
      then ((ReasonDailyExceeded, retry_after_daily now), c)
      else if qps > 0 \<and> ct_tokens c < 1
      then ((ReasonQPSExceeded, retry_after_qps (ct_tokens c) qps), c)
      else ((ReasonNone, 0),
            c\<lparr>ct_tokens := (if qps > 0 then ct_tokens c - 1 else ct_tokens c),
              ct_daily_count := ct_daily_count c + 1\<rparr>))"

section \<open>The limiter\<close>

type_synonym limit_key = "string \<times> rl_class"
type_synonym limiter = "limit_key \<Rightarrow> counter_state option"

definition norm_subject :: "rl_request \<Rightarrow> string" where
  "norm_subject req = (if rq_subject req = [] then anonymous_subject_key else rq_subject req)"

definition request_key :: "rl_request \<Rightarrow> limit_key" where
  "request_key req = (norm_subject req, rq_class req)"

definition decision_of :: "rl_request \<Rightarrow> rl_reason \<times> int \<Rightarrow> rl_decision" where
  "decision_of req rr = \<lparr>dc_allowed = (fst rr = ReasonNone), dc_class = rq_class req,
     dc_action = rq_action req, dc_reason = fst rr, dc_subject = norm_subject req,
     dc_retry_after = snd rr, dc_limited_err = (fst rr \<noteq> ReasonNone)\<rparr>"

definition request_time :: "gtime \<Rightarrow> rl_request \<Rightarrow> gtime" where
  "request_time clock req = (case rq_now req of None \<Rightarrow> clock | Some t \<Rightarrow> t)"

definition allow :: "limits \<Rightarrow> gtime \<Rightarrow> rl_request \<Rightarrow> limiter \<Rightarrow> rl_decision \<times> limiter" where
  "allow l clock req s =
     (let now = request_time clock req;
          (qps, daily) = for_class l (rq_class req)
      in if qps \<le> 0 \<and> daily \<le> 0 then (decision_of req (ReasonNone, 0), s)
         else
           (let key = request_key req;
                st = (case s key of None \<Rightarrow> new_counter now qps | Some c \<Rightarrow> c);
                (rr, st') = admit qps daily now (touch_counter qps now st)
            in (decision_of req rr, s(key \<mapsto> st'))))"

section \<open>The counter invariant\<close>

definition counter_ok :: "int \<Rightarrow> int \<Rightarrow> counter_state \<Rightarrow> bool" where
  "counter_ok qps daily c \<longleftrightarrow> 0 \<le> ct_daily_count c \<and> (0 < daily \<longrightarrow> ct_daily_count c \<le> daily) \<and>
     (0 < qps \<longrightarrow> 0 \<le> ct_tokens c \<and> ct_tokens c \<le> of_int qps)"

lemma new_counter_ok: "counter_ok qps daily (new_counter now qps)"
  by (simp add: counter_ok_def new_counter_def)

lemma reset_date_ok: "counter_ok qps daily c \<Longrightarrow> counter_ok qps daily (reset_date_if_needed now c)"
  by (simp add: counter_ok_def reset_date_if_needed_def)

lemma refill_cases:
  assumes "0 < qps"
  obtains (past) "tm_ns now < ct_last_refill c" "refill now qps c = c\<lparr>ct_last_refill := tm_ns now\<rparr>"
  | (same) "tm_ns now = ct_last_refill c" "refill now qps c = c"
  | (on) e where "0 < e" "e = of_int (tm_ns now - ct_last_refill c) / of_int ns_per_second"
      "ct_last_refill c < tm_ns now"
      "refill now qps c = c\<lparr>ct_tokens := min (of_int qps) (ct_tokens c + e * of_int qps),
         ct_last_refill := tm_ns now\<rparr>"
proof -
  define e :: rat where "e = of_int (tm_ns now - ct_last_refill c) / of_int ns_per_second"
  have pos: "0 < e \<longleftrightarrow> ct_last_refill c < tm_ns now"
    by (simp add: e_def ns_per_second_def)
  have unf: "refill now qps c = (if tm_ns now < ct_last_refill c then c\<lparr>ct_last_refill := tm_ns now\<rparr>
      else if e \<le> 0 then c else c\<lparr>ct_tokens := min (of_int qps) (ct_tokens c + e * of_int qps),
         ct_last_refill := tm_ns now\<rparr>)"
    by (simp only: refill_def Let_def e_def)
  consider "tm_ns now < ct_last_refill c" | "tm_ns now = ct_last_refill c" | "ct_last_refill c < tm_ns now"
    by linarith
  then show ?thesis
    using past same on [OF _ e_def] unf pos by cases (auto simp: not_le)
qed

lemma refill_last [simp]: "0 < qps \<Longrightarrow> ct_last_refill (refill now qps c) = tm_ns now"
  by (rule refill_cases [of qps now c]) auto

lemma refill_count [simp]:
  "ct_daily_count (refill now qps c) = ct_daily_count c"
  "ct_date_key (refill now qps c) = ct_date_key c"
  by (auto simp: refill_def Let_def)

lemma refill_ok:
  assumes ok: "counter_ok qps daily c" and qps: "0 < qps"
  shows "counter_ok qps daily (refill now qps c)"
proof (cases rule: refill_cases [OF qps, of now c])
  case (3 e)
  have "0 \<le> ct_tokens c + e * of_int qps"
    using ok qps 3(1) by (simp add: counter_ok_def)
  then show ?thesis using ok qps 3(4) by (simp add: counter_ok_def)
qed (use ok in \<open>auto simp: counter_ok_def\<close>)

lemma touch_ok: "counter_ok qps daily c \<Longrightarrow> counter_ok qps daily (touch_counter qps now c)"
  by (simp add: touch_counter_def Let_def refill_ok reset_date_ok)

lemma admit_ok: "counter_ok qps daily c \<Longrightarrow> counter_ok qps daily (snd (admit qps daily now c))"
  by (auto simp: counter_ok_def admit_def)

lemmas counter_preserved [preserves] = new_counter_ok reset_date_ok refill_ok touch_ok admit_ok

definition limiter_ok :: "limits \<Rightarrow> limiter \<Rightarrow> bool" where
  "limiter_ok l s \<longleftrightarrow> (\<forall>k c. s k = Some c \<longrightarrow>
     counter_ok (fst (for_class l (snd k))) (snd (for_class l (snd k))) c)"

text \<open>The next counter of the request's key, as a function of the one stored there.\<close>

definition next_counter :: "limits \<Rightarrow> gtime \<Rightarrow> rl_request \<Rightarrow> counter_state option
    \<Rightarrow> (rl_reason \<times> int) \<times> counter_state" where
  "next_counter l clock req c =
     (let now = request_time clock req; qd = for_class l (rq_class req) in
      admit (fst qd) (snd qd) now (touch_counter (fst qd) now
        (case c of None \<Rightarrow> new_counter now (fst qd) | Some c \<Rightarrow> c)))"

definition enforced :: "limits \<Rightarrow> rl_class \<Rightarrow> bool" where
  "enforced l c \<longleftrightarrow> 0 < fst (for_class l c) \<or> 0 < snd (for_class l c)"

lemma allow_off: "\<not> enforced l (rq_class req) \<Longrightarrow>
    allow l clock req s = (decision_of req (ReasonNone, 0), s)"
  by (cases "for_class l (rq_class req)") (auto simp: allow_def enforced_def)

lemma allow_on: "enforced l (rq_class req) \<Longrightarrow> allow l clock req s =
    (decision_of req (fst (next_counter l clock req (s (request_key req)))),
     s(request_key req \<mapsto> snd (next_counter l clock req (s (request_key req)))))"
  by (cases "for_class l (rq_class req)"; cases "s (request_key req)")
    (auto simp: allow_def enforced_def next_counter_def Let_def split: prod.split)

lemma next_counter_ok:
  "\<forall>x. c = Some x \<longrightarrow> counter_ok (fst (for_class l (rq_class req))) (snd (for_class l (rq_class req))) x
   \<Longrightarrow> counter_ok (fst (for_class l (rq_class req))) (snd (for_class l (rq_class req)))
         (snd (next_counter l clock req c))"
  by (auto simp: next_counter_def Let_def intro!: preserves split: option.split)

lemma request_key_class: "snd (request_key req) = rq_class req"
  by (simp add: request_key_def)

definition limiter_step :: "limits \<Rightarrow> limiter \<Rightarrow> gtime \<times> rl_request \<Rightarrow> limiter" where
  "limiter_step l s x = snd (allow l (fst x) (snd x) s)"

lemma limiter_step_ok: "limiter_ok l s \<Longrightarrow> limiter_ok l (limiter_step l s x)"
proof (cases "enforced l (rq_class (snd x))")
  case True
  assume ok: "limiter_ok l s"
  have "counter_ok (fst (for_class l (rq_class (snd x)))) (snd (for_class l (rq_class (snd x))))
      (snd (next_counter l (fst x) (snd x) (s (request_key (snd x)))))"
    using ok by (intro next_counter_ok) (auto simp: limiter_ok_def request_key_def)
  then show ?thesis
    using True ok by (auto simp: limiter_step_def allow_on limiter_ok_def request_key_def)
qed (simp add: limiter_step_def allow_off)

interpretation rl: keyed_component "Map.empty :: limiter" "limiter_step l" "limiter_ok l"
  "\<lambda>x. request_key (snd x)" "\<lambda>s k. s k" for l
proof unfold_locales
  show "limiter_ok l Map.empty" by (simp add: limiter_ok_def)
  show "limiter_ok l (limiter_step l s x)" if "limiter_ok l s" for s x
    using that by (rule limiter_step_ok)
  show "limiter_step l s x k = s k" if "request_key (snd x) \<noteq> k" for s x k
    using that by (cases "enforced l (rq_class (snd x))") (auto simp: limiter_step_def allow_on allow_off)
  show "limiter_step l s x (request_key (snd x)) = limiter_step l s' x (request_key (snd x))"
    if "s (request_key (snd x)) = s' (request_key (snd x))" for s s' x
    using that by (cases "enforced l (rq_class (snd x))") (auto simp: limiter_step_def allow_on allow_off)
qed

section \<open>Runs\<close>

type_synonym rl_op = "gtime \<times> rl_request"

text \<open>How many requests of a key a sequence of requests is granted.\<close>

fun grants :: "limits \<Rightarrow> limiter \<Rightarrow> limit_key \<Rightarrow> rl_op list \<Rightarrow> int" where
  "grants l s k [] = 0"
| "grants l s k (x # xs) =
     (if request_key (snd x) = k \<and> dc_allowed (fst (allow l (fst x) (snd x) s)) then 1 else 0) +
     grants l (limiter_step l s x) k xs"

definition op_time :: "rl_op \<Rightarrow> gtime" where
  "op_time x = request_time (fst x) (snd x)"

lemma allow_result:
  assumes "enforced l (rq_class req)"
  shows "dc_allowed (fst (allow l clock req s)) \<longleftrightarrow>
      fst (fst (next_counter l clock req (s (request_key req)))) = ReasonNone"
    and "snd (allow l clock req s) (request_key req) = Some (snd (next_counter l clock req (s (request_key req))))"
  by (simp_all add: allow_on [OF assms] decision_of_def)

lemma step_other: "request_key (snd x) \<noteq> k \<Longrightarrow> limiter_step l s x k = s k"
  by (cases "enforced l (rq_class (snd x))") (auto simp: limiter_step_def allow_on allow_off)

text \<open>One counter, one request: the admission adds one to the day's count, or denies.\<close>

definition used_today :: "counter_state option \<Rightarrow> int \<Rightarrow> int" where
  "used_today c d = (case c of None \<Rightarrow> 0 | Some x \<Rightarrow> if ct_date_key x = d then ct_daily_count x else 0)"

lemma touch_count:
  "ct_daily_count (touch_counter qps now c) = used_today (Some c) (local_date_key now)"
  "ct_date_key (touch_counter qps now c) = local_date_key now"
  by (auto simp: touch_counter_def Let_def used_today_def reset_date_if_needed_def)

lemma next_counter_used:
  assumes "snd (for_class l (rq_class req)) = daily" and "0 < daily"
    and "d = local_date_key (request_time clock req)" and "used_today c d \<le> daily"
  shows "used_today (Some (snd (next_counter l clock req c))) d
      = used_today c d + (if fst (fst (next_counter l clock req c)) = ReasonNone then 1 else 0)"
    and "used_today (Some (snd (next_counter l clock req c))) d \<le> daily"
proof -
  let ?qps = "fst (for_class l (rq_class req))"
  let ?now = "request_time clock req"
  let ?c = "case c of None \<Rightarrow> new_counter ?now ?qps | Some c \<Rightarrow> c"
  have "used_today (Some ?c) d = used_today c d"
    by (auto simp: used_today_def new_counter_def split: option.split)
  then have count: "ct_daily_count (touch_counter ?qps ?now ?c) = used_today c d"
    "ct_date_key (touch_counter ?qps ?now ?c) = d"
    by (simp_all add: touch_count assms(3))
  have unf: "next_counter l clock req c = admit ?qps daily ?now (touch_counter ?qps ?now ?c)"
    by (simp add: next_counter_def Let_def assms(1))
  show "used_today (Some (snd (next_counter l clock req c))) d
      = used_today c d + (if fst (fst (next_counter l clock req c)) = ReasonNone then 1 else 0)"
    "used_today (Some (snd (next_counter l clock req c))) d \<le> daily"
    unfolding unf using count assms(2,4) by (auto simp: admit_def used_today_def)
qed

lemma grants_daily:
  assumes "snd (for_class l (snd k)) = daily" and "0 < daily"
    and "\<forall>x \<in> set xs. request_key (snd x) = k \<longrightarrow> local_date_key (op_time x) = d"
    and "used_today (s k) d \<le> daily"
  shows "grants l s k xs + used_today (s k) d \<le> daily"
  using assms(3,4)
proof (induction xs arbitrary: s)
  case (Cons x xs)
  show ?case
  proof (cases "request_key (snd x) = k")
    case True
    then have cls: "rq_class (snd x) = snd k" by (auto simp: request_key_def)
    then have enf: "enforced l (rq_class (snd x))" using assms(1,2) by (simp add: enforced_def)
    let ?n = "next_counter l (fst x) (snd x) (s k)"
    have d: "d = local_date_key (request_time (fst x) (snd x))"
      using Cons.prems(1) True by (simp add: op_time_def)
    note used = next_counter_used [OF _ assms(2) d Cons.prems(2), unfolded cls, OF assms(1)]
    have after: "limiter_step l s x k = Some (snd ?n)"
      using allow_result(2) [OF enf] True by (auto simp: limiter_step_def)
    then have "grants l (limiter_step l s x) k xs + used_today (Some (snd ?n)) d \<le> daily"
      using Cons.IH [of "limiter_step l s x"] Cons.prems(1) used(2) by simp
    then show ?thesis
      using used(1) allow_result(1) [OF enf] True by auto
  next
    case False
    then show ?thesis
      using Cons.prems Cons.IH [of "limiter_step l s x"] by (simp add: step_other)
  qed
qed simp

text \<open>The token bucket over a monotone clock.\<close>

lemma touch_tokens:
  assumes "0 < qps" and "ct_last_refill c \<le> tm_ns now"
  shows "ct_tokens (touch_counter qps now c) \<le> ct_tokens c +
      of_int qps * of_int (tm_ns now - ct_last_refill c) / of_int ns_per_second"
    and "ct_last_refill (touch_counter qps now c) = tm_ns now"
proof -
  let ?c = "reset_date_if_needed now c"
  have same: "ct_tokens ?c = ct_tokens c" "ct_last_refill ?c = ct_last_refill c"
    by (simp_all add: reset_date_if_needed_def)
  show "ct_last_refill (touch_counter qps now c) = tm_ns now"
    using assms(1) by (simp add: touch_counter_def Let_def)
  show "ct_tokens (touch_counter qps now c) \<le> ct_tokens c +
      of_int qps * of_int (tm_ns now - ct_last_refill c) / of_int ns_per_second"
    using assms same
    by (cases rule: refill_cases [OF assms(1), of now ?c])
      (auto simp: touch_counter_def Let_def min_le_iff_disj mult.commute)
qed

lemma grants_bucket:
  assumes "fst (for_class l (snd k)) = qps" and "0 < qps"
    and "sorted (map (\<lambda>x. tm_ns (op_time x)) (filter (\<lambda>x. request_key (snd x) = k) xs))"
    and "\<forall>x \<in> set xs. request_key (snd x) = k \<longrightarrow>
      ct_last_refill c \<le> tm_ns (op_time x) \<and> tm_ns (op_time x) \<le> t1"
    and "s k = Some c" and "ct_last_refill c \<le> t1"
    and "counter_ok qps (snd (for_class l (snd k))) c"
  shows "of_int (grants l s k xs) \<le> ct_tokens c + of_int qps * of_int (t1 - ct_last_refill c) / of_int ns_per_second"
  using assms(3-7)
proof (induction xs arbitrary: s c)
  case Nil
  then show ?case using assms(2) by (simp add: counter_ok_def ns_per_second_def)
next
  case (Cons x xs)
  let ?rate = "\<lambda>a b. of_int qps * of_int (b - a) / (of_int ns_per_second :: rat)"
  show ?case
  proof (cases "request_key (snd x) = k")
    case True
    then have cls: "rq_class (snd x) = snd k" by (auto simp: request_key_def)
    then have enf: "enforced l (rq_class (snd x))" using assms(1,2) by (simp add: enforced_def)
    let ?now = "op_time x"
    let ?daily = "snd (for_class l (snd k))"
    let ?c1 = "touch_counter qps ?now c"
    let ?ad = "admit qps ?daily ?now ?c1"
    have nxt: "next_counter l (fst x) (snd x) (Some c) = ?ad"
      by (simp add: next_counter_def Let_def cls assms(1) op_time_def)
    have after: "limiter_step l s x k = Some (snd ?ad)"
      using allow_result(2) [OF enf, of "fst x" s] True Cons.prems(3) nxt
      by (auto simp: limiter_step_def)
    have last: "ct_last_refill c \<le> tm_ns ?now" "tm_ns ?now \<le> t1"
      using Cons.prems(2) True by auto
    note touch = touch_tokens [OF assms(2) last(1)]
    have tok: "ct_last_refill (snd ?ad) = tm_ns ?now"
      "ct_tokens (snd ?ad) = ct_tokens ?c1 - (if fst (fst ?ad) = ReasonNone then 1 else 0)"
      using touch(2) assms(2) by (auto simp: admit_def)
    have "of_int (grants l (limiter_step l s x) k xs) \<le> ct_tokens (snd ?ad) + ?rate (tm_ns ?now) t1"
      unfolding tok(1) [symmetric]
    proof (rule Cons.IH)
      show "sorted (map (\<lambda>x. tm_ns (op_time x)) (filter (\<lambda>x. request_key (snd x) = k) xs))"
        using Cons.prems(1) by (auto split: if_splits)
      show "\<forall>x \<in> set xs. request_key (snd x) = k \<longrightarrow>
          ct_last_refill (snd ?ad) \<le> tm_ns (op_time x) \<and> tm_ns (op_time x) \<le> t1"
        using Cons.prems(1,2) True tok(1) by auto
      show "counter_ok qps ?daily (snd ?ad)"
        using Cons.prems(5) by (intro preserves)
    qed (use after tok(1) last in simp_all)
    moreover have "?rate (ct_last_refill c) (tm_ns ?now) + ?rate (tm_ns ?now) t1 = ?rate (ct_last_refill c) t1"
      by (simp add: algebra_simps add_divide_distrib [symmetric])
    moreover have "dc_allowed (fst (allow l (fst x) (snd x) s)) \<longleftrightarrow> fst (fst ?ad) = ReasonNone"
      using allow_result(1) [OF enf] True Cons.prems(3) nxt by auto
    ultimately show ?thesis using touch(1) tok(2) True by auto
  next
    case False
    then show ?thesis
      using Cons.prems Cons.IH [of c "limiter_step l s x"] by (simp add: step_other)
  qed
qed

text \<open>A key's grants depend on its own counter; a missing counter is a full one.\<close>

lemma next_counter_allow:
  assumes "s (request_key req) = s' (request_key req)"
  shows "dc_allowed (fst (allow l clock req s)) = dc_allowed (fst (allow l clock req s'))"
  using assms by (cases "enforced l (rq_class req)") (simp_all add: allow_on allow_off)

lemma grants_view: "s k = s' k \<Longrightarrow> grants l s k xs = grants l s' k xs"
proof (induction xs arbitrary: s s')
  case (Cons x xs)
  have "limiter_step l s x k = limiter_step l s' x k"
  proof (cases "request_key (snd x) = k")
    case True
    then show ?thesis
      using Cons.prems by (cases "enforced l (rq_class (snd x))") (auto simp: limiter_step_def allow_on allow_off)
  qed (simp add: step_other Cons.prems)
  then show ?case
    using Cons.IH [of "limiter_step l s x" "limiter_step l s' x"]
      next_counter_allow [of s "snd x" s' l "fst x"] Cons.prems by auto
qed simp

lemma next_counter_fresh:
  assumes "fst (for_class l (rq_class req)) = qps" and "0 < qps"
    and "tm_ns t \<le> tm_ns (request_time clock req)"
  shows "next_counter l clock req (Some (new_counter t qps)) = next_counter l clock req None"
proof -
  let ?now = "request_time clock req"
  have "touch_counter qps ?now (new_counter t qps) = touch_counter qps ?now (new_counter ?now qps)"
    using assms(2,3)
    by (auto simp: touch_counter_def reset_date_if_needed_def new_counter_def refill_def Let_def
        min_def not_le ns_per_second_def)
  then show ?thesis using assms(1) by (simp add: next_counter_def Let_def)
qed

lemma grants_fresh:
  assumes "fst (for_class l (snd k)) = qps" and "0 < qps"
    and "\<forall>x \<in> set xs. request_key (snd x) = k \<longrightarrow> tm_ns t \<le> tm_ns (op_time x)"
    and "s k = None"
  shows "grants l s k xs = grants l (s(k \<mapsto> new_counter t qps)) k xs"
  using assms(3,4)
proof (induction xs arbitrary: s)
  case (Cons x xs)
  let ?s' = "s(k \<mapsto> new_counter t qps)"
  show ?case
  proof (cases "request_key (snd x) = k")
    case True
    then have cls: "rq_class (snd x) = snd k" by (auto simp: request_key_def)
    then have enf: "enforced l (rq_class (snd x))" using assms(1,2) by (simp add: enforced_def)
    have same: "next_counter l (fst x) (snd x) (?s' (request_key (snd x)))
        = next_counter l (fst x) (snd x) (s (request_key (snd x)))"
      using next_counter_fresh [of l "snd x" qps t "fst x"] True Cons.prems cls assms(1,2)
      by (auto simp: op_time_def)
    then have "limiter_step l s x k = limiter_step l ?s' x k"
      using allow_result(2) [OF enf] True by (auto simp: limiter_step_def)
    then show ?thesis
      using grants_view [of "limiter_step l s x" k "limiter_step l ?s' x"] same
        allow_result(1) [OF enf, of "fst x"] by (simp del: fun_upd_apply)
  next
    case False
    have "grants l (limiter_step l ?s' x) k xs = grants l ((limiter_step l s x)(k \<mapsto> new_counter t qps)) k xs"
      using False by (intro grants_view) (simp add: step_other)
    then show ?thesis
      using False Cons.prems Cons.IH [of "limiter_step l s x"]
      by (simp add: step_other del: fun_upd_apply)
  qed
qed simp

text \<open>The retry time of a denial.\<close>

lemma local_date_after_retry:
  "local_date_key \<lparr>tm_ns = tm_ns t + retry_after_daily t, tm_offset = tm_offset t\<rparr> = local_date_key t + 1"
proof -
  have "tm_ns t + retry_after_daily t + tm_offset t = (local_date_key t + 1) * ns_per_day"
    by (simp add: retry_after_daily_def)
  then show ?thesis by (simp add: local_date_key_def ns_per_day_def ns_per_second_def)
qed

lemma tokens_after_retry:
  assumes "0 < qps" and "ct_tokens c < 1" and "tm_ns t2 = ct_last_refill c + retry_after_qps (ct_tokens c) qps"
  shows "1 \<le> ct_tokens (touch_counter qps t2 c)"
proof -
  define m where "m = (1 - ct_tokens c) / of_int qps"
  let ?miss = "m * 1000"
  let ?c = "reset_date_if_needed t2 c"
  have same: "ct_tokens ?c = ct_tokens c" "ct_last_refill ?c = ct_last_refill c"
    by (simp_all add: reset_date_if_needed_def)
  have retry: "retry_after_qps (ct_tokens c) qps = \<lceil>?miss\<rceil> * 1000000"
    using assms(1,2) by (simp add: retry_after_qps_def m_def)
  have "0 < ?miss" using assms(1,2) by (simp add: m_def)
  then have pos: "0 < \<lceil>?miss\<rceil>" by simp
  show ?thesis
  proof (cases rule: refill_cases [OF assms(1), of t2 ?c])
    case (3 e)
    have "e = of_int \<lceil>?miss\<rceil> / 1000"
      using 3(2) assms(3) retry same by (simp add: ns_per_second_def)
    moreover have "m * 1000 \<le> of_int \<lceil>m * 1000\<rceil>" by (rule le_of_int_ceiling)
    ultimately have "m \<le> e" by linarith
    then have "1 - ct_tokens c \<le> e * of_int qps"
      using assms(1) by (simp add: m_def pos_divide_le_eq)
    then show ?thesis
      using 3(4) same assms(1) by (simp add: touch_counter_def Let_def)
  qed (use assms(3) retry pos same in auto)
qed

lemma class_names:
  "class_user_turn \<noteq> class_mutating_tool" "class_user_turn \<noteq> class_read_expensive_tool"
  "class_user_turn \<noteq> class_ssh_exec" "class_user_turn \<noteq> class_llm"
  by (simp_all add: class_user_turn_def class_llm_def class_mutating_tool_def
      class_read_expensive_tool_def class_ssh_exec_def)

lemma or_default_pos: "0 < d \<Longrightarrow> 0 < or_default v d"
  by (simp add: or_default_def)

section \<open>Properties\<close>

text \<open>In every reachable state of the limiter each counter holds between zero and \<open>qps\<close> tokens,
  and its daily count lies between zero and the daily limit.\<close>

theorem limiter_counters_bounded:
  assumes "foldl (limiter_step l) Map.empty xs k = Some c"
    and "for_class l (snd k) = (qps, daily)"
  shows "0 \<le> ct_daily_count c \<and> (daily > 0 \<longrightarrow> ct_daily_count c \<le> daily) \<and>
     (qps > 0 \<longrightarrow> 0 \<le> ct_tokens c \<and> ct_tokens c \<le> of_int qps)"
proof -
  have "counter_ok (fst (for_class l (snd k))) (snd (for_class l (snd k))) c"
    using rl.inv_run [of l xs] assms(1) unfolding limiter_ok_def by blast
  then show ?thesis using assms(2) by (simp add: counter_ok_def)
qed

definition demo_request :: "int \<Rightarrow> rl_request" where
  "demo_request ns = \<lparr>rq_subject = ''t'', rq_class = class_mutating_tool, rq_action = [],
     rq_now = Some \<lparr>tm_ns = ns, tm_offset = 0\<rparr>\<rparr>"

definition demo_ops :: "int list \<Rightarrow> rl_op list" where
  "demo_ops = map (\<lambda>ns. (\<lparr>tm_ns = 0, tm_offset = 0\<rparr>, demo_request ns))"

lemmas rl_defs = demo_request_def demo_ops_def limiter_step_def allow_def request_time_def for_class_def
  class_mutating_tool_def class_read_expensive_tool_def class_ssh_exec_def class_llm_def class_user_turn_def
  default_limits_def request_key_def norm_subject_def touch_counter_def reset_date_if_needed_def
  refill_def new_counter_def local_date_key_def ns_per_day_def ns_per_second_def admit_def decision_of_def
  retry_after_qps_def op_time_def Let_def

theorem limiter_counters_bounded_witness:
  "\<exists>c. foldl (limiter_step default_limits) Map.empty (demo_ops [5]) (''t'', class_mutating_tool) = Some c \<and>
     0 \<le> ct_tokens c \<and> ct_daily_count c \<le> 50"
  using limiter_counters_bounded [of default_limits "demo_ops [5]" "(''t'', class_mutating_tool)" _ 1 50]
  by (auto simp: rl_defs)

text \<open>Tenants do not share budgets: the decision on a request after any history is the decision
  after the part of that history that has the same subject and class.\<close>

theorem limiter_isolates_keys:
  "fst (allow l clock req (foldl (limiter_step l) Map.empty xs)) =
   fst (allow l clock req (foldl (limiter_step l) Map.empty
     (filter (\<lambda>x. request_key (snd x) = request_key req) xs)))"
proof -
  have "foldl (limiter_step l) Map.empty xs (request_key req) =
      foldl (limiter_step l) Map.empty (filter (\<lambda>x. request_key (snd x) = request_key req) xs) (request_key req)"
    by (rule rl.view_run_filter) (simp_all add: rl.inv_init)
  then show ?thesis
    by (cases "enforced l (rq_class req)") (simp_all add: allow_on allow_off)
qed

text \<open>C33: the daily cap: over any interleaving of requests in which the requests of one key fall on
  one local day, that key is granted at most the daily limit of its class.\<close>

theorem daily_limit_holds:
  assumes "snd (for_class l (snd k)) = daily" and "0 < daily"
    and "\<forall>x \<in> set xs. request_key (snd x) = k \<longrightarrow> local_date_key (op_time x) = d"
  shows "grants l Map.empty k xs \<le> daily"
  using grants_daily [OF assms, of Map.empty] assms(2) by (simp add: used_today_def)

theorem daily_limit_holds_witness:
  "grants default_limits Map.empty (''t'', class_mutating_tool) (demo_ops [5, 2000000005]) \<le> 50 \<and>
   grants default_limits Map.empty (''t'', class_mutating_tool) (demo_ops [5, 2000000005]) = 2"
  using daily_limit_holds [of default_limits "(''t'', class_mutating_tool)" 50 "demo_ops [5, 2000000005]" 0]
  by (simp add: rl_defs)



text \<open>The retry time of a denial is enough: the same request made again at the end of
  \<open>RetryAfter\<close>, with no request of its key in between, is not denied for the same reason.\<close>

theorem retry_after_suffices:
  assumes "\<not> dc_allowed (fst (allow l clock req s))"
    and "request_key req2 = request_key req"
    and "rq_now req2 = Some \<lparr>tm_ns = tm_ns (request_time clock req) + dc_retry_after (fst (allow l clock req s)),
       tm_offset = tm_offset (request_time clock req)\<rparr>"
    and "s2 (request_key req) = snd (allow l clock req s) (request_key req)"
  shows "dc_reason (fst (allow l clock2 req2 s2)) \<noteq> dc_reason (fst (allow l clock req s))"
proof -
  have enf: "enforced l (rq_class req)"
    using assms(1) by (cases "enforced l (rq_class req)") (simp_all add: allow_off decision_of_def)
  have cls: "rq_class req2 = rq_class req" using assms(2) by (simp add: request_key_def)
  then have enf2: "enforced l (rq_class req2)" using enf by simp
  obtain qps daily where qd: "for_class l (rq_class req) = (qps, daily)" by (cases "for_class l (rq_class req)")
  let ?now = "request_time clock req"
  let ?c = "touch_counter qps ?now (case s (request_key req) of None \<Rightarrow> new_counter ?now qps | Some c \<Rightarrow> c)"
  let ?n = "next_counter l clock req (s (request_key req))"
  have n: "?n = admit qps daily ?now ?c"
    by (cases "s (request_key req)") (simp_all add: next_counter_def Let_def qd)
  have denied: "fst (fst ?n) \<noteq> ReasonNone" using assms(1) allow_result(1) [OF enf] by simp
  then have stored: "snd ?n = ?c" by (auto simp: n admit_def)
  have s2: "s2 (request_key req2) = Some ?c"
    using assms(2,4) allow_result(2) [OF enf] stored by simp
  let ?now2 = "request_time clock2 req2"
  have now2: "?now2 = \<lparr>tm_ns = tm_ns ?now + snd (fst ?n), tm_offset = tm_offset ?now\<rparr>"
    using assms(3) by (simp add: allow_on [OF enf] decision_of_def request_time_def)
  let ?c2 = "touch_counter qps ?now2 ?c"
  have n2: "dc_reason (fst (allow l clock2 req2 s2)) = fst (fst (admit qps daily ?now2 ?c2))"
    by (simp add: allow_on [OF enf2] decision_of_def next_counter_def Let_def cls qd s2)
  have n1: "dc_reason (fst (allow l clock req s)) = fst (fst ?n)"
    by (simp add: allow_on [OF enf] decision_of_def)
  show ?thesis
  proof (cases "daily > 0 \<and> daily \<le> ct_daily_count ?c")
    case True
    then have r: "fst ?n = (ReasonDailyExceeded, retry_after_daily ?now)" by (simp add: n admit_def)
    have "local_date_key ?now2 = local_date_key ?now + 1"
      using r local_date_after_retry by (simp add: now2)
    then have "ct_daily_count ?c2 = 0"
      by (simp add: touch_count used_today_def)
    then show ?thesis using True r n1 n2 by (auto simp: admit_def)
  next
    case False
    then have r: "fst ?n = (ReasonQPSExceeded, retry_after_qps (ct_tokens ?c) qps)"
      and low: "0 < qps" "ct_tokens ?c < 1"
      using denied by (auto simp: n admit_def split: if_splits)
    have "ct_last_refill ?c = tm_ns ?now" using low(1) by (simp add: touch_counter_def Let_def)
    then have "1 \<le> ct_tokens ?c2"
      using r low by (intro tokens_after_retry) (simp_all add: now2)
    then show ?thesis using low(1) r n1 n2 by (auto simp: admit_def)
  qed
qed

theorem retry_after_suffices_witness:
  "let r = allow default_limits \<lparr>tm_ns = 0, tm_offset = 0\<rparr> (demo_request 5)
             (foldl (limiter_step default_limits) Map.empty (demo_ops [5]))
   in \<not> dc_allowed (fst r) \<and> dc_retry_after (fst r) = 1000000000 \<and>
      dc_reason (fst (allow default_limits \<lparr>tm_ns = 0, tm_offset = 0\<rparr> (demo_request 1000000005) (snd r)))
        \<noteq> dc_reason (fst r)"
proof -
  let ?s = "foldl (limiter_step default_limits) Map.empty (demo_ops [5])"
  let ?r = "allow default_limits \<lparr>tm_ns = 0, tm_offset = 0\<rparr> (demo_request 5) ?s"
  have r: "\<not> dc_allowed (fst ?r)" "dc_retry_after (fst ?r) = 1000000000"
    by (simp_all add: rl_defs)
  have "dc_reason (fst (allow default_limits \<lparr>tm_ns = 0, tm_offset = 0\<rparr> (demo_request 1000000005) (snd ?r)))
      \<noteq> dc_reason (fst ?r)"
  proof (rule retry_after_suffices [OF r(1)])
    show "request_key (demo_request 1000000005) = request_key (demo_request 5)"
      by (simp add: demo_request_def request_key_def norm_subject_def)
    show "rq_now (demo_request 1000000005) =
        Some \<lparr>tm_ns = tm_ns (request_time \<lparr>tm_ns = 0, tm_offset = 0\<rparr> (demo_request 5)) + dc_retry_after (fst ?r),
          tm_offset = tm_offset (request_time \<lparr>tm_ns = 0, tm_offset = 0\<rparr> (demo_request 5))\<rparr>"
      unfolding r(2) by (simp add: demo_request_def request_time_def)
  qed (rule refl)
  with r show ?thesis unfolding Let_def by blast
qed

text \<open>After normalization every class but \<open>user_turn\<close> is limited in both dimensions, unknown
  classes included, and \<open>user_turn\<close> keeps exactly what the operator set: with both values unset
  it is always allowed and leaves the limiter's state alone.\<close>

theorem normalized_limits_enforced:
  "(c = class_user_turn \<or> 0 < fst (for_class (normalize_limits l) c) \<and> 0 < snd (for_class (normalize_limits l) c)) \<and>
   for_class (normalize_limits l) class_user_turn = (user_turn_qps l, user_turn_daily l) \<and>
   allow default_limits clock (req\<lparr>rq_class := class_user_turn\<rparr>) s =
     (decision_of (req\<lparr>rq_class := class_user_turn\<rparr>) (ReasonNone, 0), s)"
proof (intro conjI)
  show "c = class_user_turn \<or> 0 < fst (for_class (normalize_limits l) c) \<and>
      0 < snd (for_class (normalize_limits l) c)"
    by (simp add: for_class_def normalize_limits_def or_default_pos default_limits_def)
  show "for_class (normalize_limits l) class_user_turn = (user_turn_qps l, user_turn_daily l)"
    by (simp add: for_class_def normalize_limits_def class_names)
  show "allow default_limits clock (req\<lparr>rq_class := class_user_turn\<rparr>) s =
      (decision_of (req\<lparr>rq_class := class_user_turn\<rparr>) (ReasonNone, 0), s)"
    by (rule allow_off) (simp add: enforced_def for_class_def class_names default_limits_def)
qed

end
