(* ===== verification/SealedWrites.thy ===== *)
theory SealedWrites
  imports GatedWrites WorkflowGate
begin

text \<open>
  A workflow with an editable card: after an edit a range of its steps runs again and the card is shown
  anew. What holds when such a card is accepted unchanged, and an induction rule over the run loop that
  uses it.
\<close>

section \<open>Facts the steps of a range establish\<close>

text \<open>Steps of a range neither ask nor are skipped, and each that succeeds establishes the next fact.\<close>

definition establishes :: "'w env \<Rightarrow> string \<Rightarrow> (nat \<Rightarrow> 'r wctx \<Rightarrow> bool) \<Rightarrow> nat \<Rightarrow> 'r wstep \<Rightarrow> bool" where
  "establishes env name K i s \<longleftrightarrow> st_type s \<in> {StepToolCall, StepResolve} \<and> st_skip_if s = None \<and> plain s \<and>
     (\<forall>c ps c' ps'. K i c \<longrightarrow> p_one env name s c ps = (True, c', ps') \<longrightarrow> K (Suc i) c')"

lemma tool_establishes:
  assumes "establishes env name K i s" and "st_type s = StepToolCall" and "K i (s_ctx st)"
    and "fst (run_tool_step env s j tot st) \<noteq> ToolFailed"
  shows "K (Suc i) (s_ctx (snd (run_tool_step env s j tot st)))"
proof -
  have "p_one env name s (s_ctx st) (abs_state st) =
      (True, s_ctx (snd (run_tool_step env s j tot st)), abs_state (snd (run_tool_step env s j tot st)))"
    using assms(1,2,4) run_tool_step_obs [OF plain_plain_for, of s env j tot st]
    by (simp add: establishes_def p_one_def obs_tool_def)
  then show ?thesis using assms(1,3) unfolding establishes_def by blast
qed

lemma resolve_establishes:
  assumes "establishes env name K i s" and "st_type s = StepResolve" and "K i (s_ctx st)"
    and "fst (run_resolve_step env s j tot st) \<noteq> ToolFailed"
  shows "K (Suc i) (s_ctx (snd (run_resolve_step env s j tot st)))"
proof -
  have "p_one env name s (s_ctx st) (abs_state st) =
      (True, s_ctx (snd (run_resolve_step env s j tot st)), abs_state (snd (run_resolve_step env s j tot st)))"
    using assms(2,4) run_resolve_step_obs [of env s j tot st] by (simp add: p_one_def obs_tool_def)
  then show ?thesis using assms(1,3) unfolding establishes_def by blast
qed

lemma rerun_establishes:
  assumes "\<And>j. a \<le> j \<Longrightarrow> j < b \<Longrightarrow> establishes env name K j (def_steps def ! j)" and "K a (s_ctx st)"
    and "fst (fst (rerun_steps env tot (step_range def a b) st))" and "a \<le> b"
  shows "K b (s_ctx (snd (rerun_steps env tot (step_range def a b) st)))"
  using assms
proof (induction "b - a" arbitrary: a st)
  case 0
  then show ?case by (simp add: step_range_def)
next
  case (Suc n)
  let ?s = "def_steps def ! a"
  have "a < b" using Suc.hyps(2) by simp
  then have range: "step_range def a b = (a, ?s) # step_range def (Suc a) b"
    by (simp add: step_range_def upt_conv_Cons)
  have est: "establishes env name K a ?s" using Suc.prems(1) \<open>a < b\<close> by simp
  then have s: "st_type ?s \<in> {StepToolCall, StepResolve}" "st_skip_if ?s = None" by (simp_all add: establishes_def)
  define st1 where "st1 = (if st_type ?s = StepResolve then snd (run_resolve_step env ?s a tot st)
    else snd (run_tool_step env ?s a tot st))"
  have run: "rerun_steps env tot (step_range def a b) st = rerun_steps env tot (step_range def (Suc a) b) st1"
    and "K (Suc a) (s_ctx st1)"
    using s Suc.prems(2,3) tool_establishes [OF est, of st a tot] resolve_establishes [OF est, of st a tot]
    by (auto simp: range st1_def Let_def split: if_splits)
  with Suc.prems(1,3) \<open>a < b\<close> Suc.hyps show ?case by (auto intro!: Suc.hyps(1))
qed

section \<open>An editable card\<close>

text \<open>Its card and its form are computed from what the run has, and an edit runs the range again.\<close>

definition editable_card :: "(('r wctx \<Rightarrow> gmap res)) \<Rightarrow> 'r wstep \<Rightarrow> bool" where
  "editable_card f g \<longleftrightarrow> st_type g = StepConfirm \<and> st_build_args g = reads f \<and> st_submit_mode g = SubmitRevalidate \<and>
     (case st_build_form g of None \<Rightarrow> True | Some bf \<Rightarrow> \<exists>b. bf = reads b)"

text \<open>The card that was accepted last: what it was built from, and what its promotion made of that.\<close>

definition accepted_from :: "'r wstep \<Rightarrow> ('r wctx \<Rightarrow> gmap res) \<Rightarrow> 'r wctx \<Rightarrow> ('r, 'w) rstate \<Rightarrow> bool" where
  "accepted_from g f c st \<longleftrightarrow> (\<exists>a. f c = Inr a \<and> s_asks st \<noteq> [] \<and> al_args (last (s_asks st)) = a \<and> al_yes (last (s_asks st))) \<and>
     (case st_promote g of None \<Rightarrow> wc_pub (s_ctx st) = wc_pub c
      | Some p \<Rightarrow> fst (p c) = None \<and> wc_pub (s_ctx st) = snd (p c))"

lemma hook_reads_state: "run_hook (reads f) st = (f (s_ctx st), st)"
  by (simp add: run_hook_def reads_def upd_ctx_def)

lemma gate_pass_accepts:
  assumes "fst (gate_pass g i tot st)" and "f (s_ctx st) = Inr a" and "s_asks st \<noteq> []"
    and "al_args (last (s_asks st)) = a" and "al_yes (last (s_asks st))"
  shows "accepted_from g f (s_ctx st) (snd (gate_pass g i tot st))"
proof (cases "st_promote g")
  case None
  with assms show ?thesis by (simp add: gate_pass_def accepted_from_def Let_def)
next
  case (Some p)
  with assms show ?thesis
    by (simp add: gate_pass_def accepted_from_def Let_def p_hook_def gate_fail_def split: option.splits)
qed

lemma form_reads:
  assumes "editable_card f g"
  shows "snd (build_form env g st) = st"
  using assms by (auto simp: build_form_def editable_card_def hook_reads_state Let_def split: option.splits sum.splits)

lemma ask_plain_yes:
  assumes "fst (ask_plain env def i a st)"
  shows "s_asks (snd (ask_plain env def i a st)) = s_asks st @ [\<lparr>al_step = i, al_args = a, al_yes = True\<rparr>]"
  using assms by (auto simp: ask_plain_def split: option.splits prod.splits)

lemma confirm_loop_accepts:
  assumes "editable_card f g" and "K (s_ctx st)"
    and "\<And>st. fst (fst (revalidate_from env def g i tot st)) \<Longrightarrow> K (s_ctx (snd (revalidate_from env def g i tot st)))"
    and "fst (confirm_loop env def g i tot edits st)"
  shows "\<exists>c. K c \<and> accepted_from g f c (snd (confirm_loop env def g i tot edits st))"
  using assms
proof (induction env def g i tot edits st rule: confirm_loop.induct)
  case (1 env def g i tot edits st)
  have args: "run_hook (st_build_args g) st = (f (s_ctx st), st)"
    using "1.prems"(1) by (simp add: editable_card_def hook_reads_state)
  have mode: "st_submit_mode g = SubmitRevalidate" using "1.prems"(1) by (simp add: editable_card_def)
  note form = form_reads [OF "1.prems"(1)]
  let ?st1 = "\<lambda>a. emit g i tot StepConfirm Waiting [] (Some a) MsgNone st"
  show ?case
  proof (cases "f (s_ctx st)")
    case (Inl e)
    with "1.prems"(4) show ?thesis by (subst (asm) confirm_loop.simps) (simp add: args Let_def gate_fail_def)
  next
    case a: (Inr a)
    have pass: "\<exists>c. K c \<and> accepted_from g f c (snd (gate_pass g i tot s))"
      if "fst (gate_pass g i tot s)" "s_ctx s = s_ctx st" "s_asks s = s_asks st @ [\<lparr>al_step = i, al_args = a, al_yes = True\<rparr>]" for s
      using gate_pass_accepts [of g i tot s f a] that a "1.prems"(2) by auto
    show ?thesis
    proof (cases "fst (build_form env g st)")
      case None
      let ?rq = "ask_plain env def i a (?st1 a)"
      have loop: "confirm_loop env def g i tot edits st =
          (if fst ?rq then gate_pass g i tot (snd ?rq) else gate_cancelled g i tot (snd ?rq))"
        by (subst confirm_loop.simps) (simp add: args a Let_def None form)
      with "1.prems"(4) have "fst ?rq" by (auto simp: gate_cancelled_def split: if_splits)
      with loop pass [of "snd ?rq"] "1.prems"(4) show ?thesis by (simp add: ask_plain_yes ask_plain_obs)
    next
      case (Some af)
      obtain ask fm where af: "af = (ask, fm)" by (cases af)
      let ?rr = "ask_form ask def i a fm (?st1 a)"
      let ?ro = "\<lambda>ov. run_hook (ov (cr_overrides (fst ?rr))) (snd ?rr)"
      let ?rv = "\<lambda>ov. revalidate_from env def g i tot (snd (?ro ov))"
      let ?loop = "confirm_loop env def g i tot"
      have unf: "?loop edits st =
          (if \<not> cr_confirmed (fst ?rr) then gate_cancelled g i tot (snd ?rr)
           else if cr_overrides (fst ?rr) = [] then gate_pass g i tot (snd ?rr)
           else if max_confirm_edits < Suc edits then gate_fail g i tot MsgTooManyEdits (snd ?rr)
           else case validate_overrides (Some fm) (cr_overrides (fst ?rr)) of
             Some e \<Rightarrow> gate_fail g i tot (MsgOverridesInvalid e) (snd ?rr)
           | None \<Rightarrow> (case st_apply_overrides g of
                None \<Rightarrow> gate_fail g i tot MsgOverridesUnsupported (snd ?rr)
              | Some ov \<Rightarrow> (case fst (?ro ov) of
                   Some e \<Rightarrow> gate_fail g i tot (MsgOverridesRejected e) (snd (?ro ov))
                 | None \<Rightarrow> (case fst (?rv ov) of
                       (True, _) \<Rightarrow> ?loop (Suc edits) (snd (?rv ov))
                     | (False, Some m) \<Rightarrow> gate_fail g i tot m (snd (?rv ov))
                     | (False, None) \<Rightarrow> (False, snd (?rv ov))))))"
        by (subst confirm_loop.simps)
          (simp only: Let_def args a Some af form sum.case option.case prod.case fst_conv snd_conv gate_unchanged_def mode
            submit_mode.case submit_mode.distinct if_False)
      have fails: "\<not> fst (gate_fail g i tot m s)" "\<not> fst (gate_cancelled g i tot s)" for m and s :: "('a, 'b) rstate"
        by (simp_all add: gate_fail_def gate_cancelled_def)
      show ?thesis
      proof (cases "cr_overrides (fst ?rr) = []")
        case True
        with unf "1.prems"(4) have "cr_confirmed (fst ?rr)" "?loop edits st = gate_pass g i tot (snd ?rr)"
          by (auto simp: fails split: if_splits)
        with pass [of "snd ?rr"] "1.prems"(4) show ?thesis by simp
      next
        case False
        with unf "1.prems"(4) obtain ov where ov: "cr_confirmed (fst ?rr)" "\<not> max_confirm_edits < Suc edits"
          "validate_overrides (Some fm) (cr_overrides (fst ?rr)) = None" "st_apply_overrides g = Some ov" "fst (?ro ov) = None"
          "fst (fst (?rv ov))" "?loop edits st = ?loop (Suc edits) (snd (?rv ov))"
          by (auto simp: fails simp del: not_less split: if_splits option.splits bool.splits prod.splits)
        have l: "fst (?loop (Suc edits) (snd (?rv ov)))" using "1.prems"(4) ov(7) by simp
        have "\<exists>c. K c \<and> accepted_from g f c (snd (?loop (Suc edits) (snd (?rv ov))))"
          using ov(1-6) l False args a Some af mode "1.prems"(1-3) by (intro "1.IH") (auto simp: prod_eq_iff form simp del: run_hook_obs)
        then show ?thesis by (simp only: ov(7))
      qed
    qed
  qed
qed

section \<open>The run loop\<close>

lemma run_steps_rule:
  assumes one: "\<And>i st. i < length (def_steps def) \<Longrightarrow> J i st \<Longrightarrow>
      F (snd (run_one env def i tot (def_steps def ! i) st)) \<and>
      (fst (run_one env def i tot (def_steps def ! i) st) \<longrightarrow> J (Suc i) (snd (run_one env def i tot (def_steps def ! i) st)))"
    and skip: "\<And>i sk st. i < length (def_steps def) \<Longrightarrow> st_skip_if (def_steps def ! i) = Some sk \<Longrightarrow>
      (\<exists>p. sk = reads p) \<and> (J i st \<longrightarrow> J (Suc i) st)"
    and frame: "\<And>i st. J i st \<Longrightarrow> F st" "\<And>f st. F st \<Longrightarrow> F (upd_res f st)" "\<And>s i e ty m st. F st \<Longrightarrow> F (fail_stop s i tot ty e m st)"
    and start: "i \<le> length (def_steps def)" "J i st"
  shows "F (run_steps env def i tot (drop i (def_steps def)) st)"
  using start
proof (induction "length (def_steps def) - i" arbitrary: i st)
  case 0
  then show ?case using frame by (simp add: run_finished_def)
next
  case (Suc n)
  let ?s = "def_steps def ! i"
  have i: "i < length (def_steps def)" using Suc.hyps(2) by simp
  then have steps: "drop i (def_steps def) = ?s # drop (Suc i) (def_steps def)" by (simp add: Cons_nth_drop_Suc)
  have rec: "F (record_step_failure def ?s i t)" if "F t" for t using frame(2) that by (simp add: record_step_failure_def)
  have next_step: "F (run_steps env def (Suc i) tot (drop (Suc i) (def_steps def)) t)" if "J (Suc i) t" for t
    using Suc.hyps that i by (intro Suc.hyps(1)) auto
  note o = one [OF i Suc.prems(2)]
  have go: "F (let ro = run_one env def i tot ?s st in if fst ro then run_steps env def (Suc i) tot (drop (Suc i) (def_steps def)) (snd ro)
      else record_step_failure def ?s i (snd ro))"
    using o next_step rec by (simp add: Let_def)
  show ?case
  proof (cases "st_skip_if ?s")
    case None
    then show ?thesis using go frame(1) [OF Suc.prems(2)] frame(2) rec by (simp add: steps Let_def stop_at_def)
  next
    case (Some sk)
    then obtain p where p: "sk = reads p" "J (Suc i) st" using skip [OF i Some] Suc.prems(2) by blast
    show ?thesis
      using go frame(1) [OF Suc.prems(2)] frame(2,3) rec next_step [OF p(2)]
      by (auto simp: steps Some p(1) hook_reads_state Let_def stop_at_def split: sum.split bool.split)
  qed
qed

lemma run_workflow_rule:
  assumes "\<And>i st. i < length (def_steps def) \<Longrightarrow> J i st \<Longrightarrow>
      F (snd (run_one env def i (length (def_steps def)) (def_steps def ! i) st)) \<and>
      (fst (run_one env def i (length (def_steps def)) (def_steps def ! i) st) \<longrightarrow>
        J (Suc i) (snd (run_one env def i (length (def_steps def)) (def_steps def ! i) st)))"
    and "\<And>i sk st. i < length (def_steps def) \<Longrightarrow> st_skip_if (def_steps def ! i) = Some sk \<Longrightarrow>
      (\<exists>p. sk = reads p) \<and> (J i st \<longrightarrow> J (Suc i) st)"
    and "\<And>i st. J i st \<Longrightarrow> F st" "\<And>f st. F st \<Longrightarrow> F (upd_res f st)"
      "\<And>s i t e ty m st. F st \<Longrightarrow> F (fail_stop s i t ty e m st)"
    and "J 0 (init_state ref w now ps)"
  shows "F (run_workflow env def ref w now ps)"
  using run_steps_rule [of def J F env "length (def_steps def)" 0 "init_state ref w now ps"] assms
  by (simp add: run_workflow_def Let_def)

end
