(* ===== verification/CreateProps.thy ===== *)
theory CreateProps
  imports SealedWrites CreateInstance
begin

text \<open>
  The creation of an instance: what is created is what was checked, priced, shown and accepted, whatever
  the user edited before accepting.
\<close>

section \<open>The steps\<close>

abbreviation create_call :: string where "create_call \<equiv> ''CreateCompShareInstance''"

lemma create_steps:
  "length (def_steps create_instance_workflow) = 12"
  "def_name create_instance_workflow = ''CreateInstanceWorkflow''"
  "def_steps create_instance_workflow ! 0 = step_query_images False"
  "def_steps create_instance_workflow ! 1 = step_query_instance_types"
  "def_steps create_instance_workflow ! 2 = step_query_official_gpu_inventory"
  "def_steps create_instance_workflow ! 3 = step_query_pod_gpu_inventory"
  "def_steps create_instance_workflow ! 4 = step_resolve_gpu_inventory_snapshot"
  "def_steps create_instance_workflow ! 5 = step_resolve_create_draft"
  "def_steps create_instance_workflow ! 6 = step_check_capacity"
  "def_steps create_instance_workflow ! 7 = step_get_price"
  "def_steps create_instance_workflow ! 8 = step_resolve_create_confirmation"
  "def_steps create_instance_workflow ! 9 = step_confirm_create"
  "def_steps create_instance_workflow ! 10 = step_create_instance"
  "def_steps create_instance_workflow ! 11 = step_describe_instance"
  by (simp_all add: create_instance_workflow_def plain_definition_def nth_Cons')

lemmas create_step_defs = step_query_images_def step_query_instance_types_def step_query_official_gpu_inventory_def
  step_query_pod_gpu_inventory_def step_resolve_gpu_inventory_snapshot_def step_resolve_create_draft_def step_check_capacity_def
  step_get_price_def step_resolve_create_confirmation_def step_confirm_create_def step_create_instance_def step_describe_instance_def

lemma step_index: "i < 12 \<Longrightarrow> i \<in> {0, 1, 2, 3, 4, 5, 6, 7, 8, 9, 10, 11 :: nat}"
  by (simp add: less_Suc_eq numeral_eq_Suc)

lemma image_tool_reads: "fst (reads image_catalog_tool c) \<noteq> create_call"
  by (simp add: reads_def image_catalog_tool_def lookup_tool_def split: image_lookup.split)

lemma other_steps_quiet:
  assumes "i < 12" and "i \<notin> {9, 10}"
  shows "quiet create_call (def_steps create_instance_workflow ! i) \<and> plain (def_steps create_instance_workflow ! i) \<and>
    st_type (def_steps create_instance_workflow ! i) \<noteq> StepConfirm"
  using step_index [OF assms(1)] assms(2) image_tool_reads
  by (elim insertE emptyE)
    (simp_all only: create_steps, simp_all add: create_step_defs plain_def quiet_def tool_step_def resolve_step_def plain_step_def)

section \<open>What the steps from the draft to the confirmation establish\<close>

text \<open>The draft was resolved from what some context held, the platform has it in stock, and it was priced.\<close>

definition in_stock :: "'w env \<Rightarrow> create_draft \<Rightarrow> bool" where
  "in_stock env d \<longleftrightarrow> (\<exists>r. answered env ''CheckCompShareResourceCapacity'' (upstream_capacity_args d) r \<and>
     co_ok (check_exact_create_capacity d r))"

definition priced_at :: "'w env \<Rightarrow> create_draft \<Rightarrow> estimated_price option \<Rightarrow> bool" where
  "priced_at env d p \<longleftrightarrow> (\<exists>r. answered env ''GetCompShareInstanceUserPrice'' (upstream_price_args d) r \<and>
     p = extract_estimated_price r (ca_charge_type (cd_args d)))"

definition drafted :: "rctx \<Rightarrow> create_draft \<Rightarrow> bool" where
  "drafted c d \<longleftrightarrow> (\<exists>c0. materialize_create_draft c0 = Inr d) \<and> ctx_result c q_draft = draft_to_contract_map d"

definition offered :: "'w env \<Rightarrow> create_confirmation \<Rightarrow> bool" where
  "offered env s \<longleftrightarrow> (\<exists>c0. materialize_create_draft c0 = Inr (cc_execution s)) \<and> in_stock env (cc_execution s) \<and>
     priced_at env (cc_execution s) (cc_price s)"

fun stage :: "'w env \<Rightarrow> nat \<Rightarrow> rctx \<Rightarrow> bool" where
  "stage env i c \<longleftrightarrow>
     (if i \<le> 5 then True
      else if i = 6 then \<exists>d. drafted c d
      else if i = 7 then \<exists>d. drafted c d \<and> in_stock env d
      else if i = 8 then \<exists>d. drafted c d \<and> in_stock env d \<and>
        priced_at env d (extract_estimated_price (ctx_result c q_price) (ca_charge_type (cd_args d)))
      else \<exists>s. offered env s \<and> ctx_result c q_confirmation = confirmation_to_contract_map s)"

declare stage.simps [simp del]

lemma candidate_drafted [simp]: "drafted c d \<Longrightarrow> candidate_create_draft c = Inr d"
  by (auto simp: drafted_def candidate_create_draft_def parse_draft_map) (simp add: draft_to_contract_map_def)

lemma query_names:
  "q_capacity \<noteq> q_draft" "q_price \<noteq> q_draft" "q_draft \<noteq> q_capacity" "q_draft \<noteq> q_price" "q_draft \<noteq> q_confirmation" "q_price \<noteq> q_confirmation" "q_capacity \<noteq> q_price"
  by (simp_all add: q_draft_def q_capacity_def q_price_def q_confirmation_def)

lemma drafted_store [simp]: "n \<noteq> q_draft \<Longrightarrow> drafted (p_store n q c) d \<longleftrightarrow> drafted c d"
  by (simp add: drafted_def)

lemma establishes_resolve:
  assumes "\<And>c out. K i c \<Longrightarrow> f c = Inr out \<Longrightarrow> K (Suc i) (p_store n out c)"
  shows "establishes env name K i (resolve_step n (reads f))"
proof -
  have "st_type (resolve_step n (reads f)) = StepResolve" "st_skip_if (resolve_step n (reads f)) = None"
    "plain (resolve_step n (reads f))"
    by (simp_all add: resolve_step_def plain_step_def plain_def)
  then show ?thesis using assms unfolding establishes_def by (auto dest!: ran_resolve)
qed

lemma establishes_tool:
  assumes "\<And>c ps c' ps'. K i c \<Longrightarrow> p_one env name (tool_step n t b chk) c ps = (True, c', ps') \<Longrightarrow> K (Suc i) c'"
  shows "establishes env name K i (tool_step n t b chk)"
proof -
  have "st_type (tool_step n t b chk) = StepToolCall" "st_skip_if (tool_step n t b chk) = None" "plain (tool_step n t b chk)"
    by (simp_all add: tool_step_def plain_step_def plain_def)
  then show ?thesis using assms unfolding establishes_def by blast
qed

lemma stages:
  "stage env 5 c" "stage env 6 c \<longleftrightarrow> (\<exists>d. drafted c d)" "stage env 7 c \<longleftrightarrow> (\<exists>d. drafted c d \<and> in_stock env d)"
  "stage env 8 c \<longleftrightarrow> (\<exists>d. drafted c d \<and> in_stock env d \<and>
     priced_at env d (extract_estimated_price (ctx_result c q_price) (ca_charge_type (cd_args d))))"
  "stage env 9 c \<longleftrightarrow> (\<exists>s. offered env s \<and> ctx_result c q_confirmation = confirmation_to_contract_map s)"
  by (simp_all add: stage.simps)

lemma draft_establishes: "establishes env name (stage env) 5 step_resolve_create_draft"
  unfolding step_resolve_create_draft_def
proof (rule establishes_resolve)
  fix c out assume "resolve_create_draft c = Inr out"
  then obtain d where "materialize_create_draft c = Inr d" "out = draft_to_contract_map d"
    by (cases "materialize_create_draft c") (simp_all add: resolve_create_draft_def)
  then show "stage env (Suc 5) (p_store q_draft out c)" by (auto simp: stages drafted_def)
qed

lemma capacity_establishes: "establishes env name (stage env) 6 step_check_capacity"
  unfolding step_check_capacity_def
proof (rule establishes_tool)
  fix c ps c' and ps' :: "'a pstate"
  assume "stage env 6 c" and run: "p_one env name (tool_step q_capacity ''CheckCompShareResourceCapacity''
      (reads (of_draft upstream_capacity_args)) (Some check_create_capacity)) c ps = (True, c', ps')"
  then obtain d where d: "drafted c d" by (auto simp: stages)
  then have "p_hook (check_create_capacity q) c = ((check_exact_create_capacity d q, q), c)" for q
    by (simp add: p_hook_def check_create_capacity_def)
  with ran_tool [OF run] d show "stage env (Suc 6) c'"
    by (auto simp: stages of_draft_def in_stock_def query_names)
qed

lemma price_establishes: "establishes env name (stage env) 7 step_get_price"
  unfolding step_get_price_def
proof (rule establishes_tool)
  fix c ps c' and ps' :: "'a pstate"
  assume "stage env 7 c" and run: "p_one env name (tool_step q_price ''GetCompShareInstanceUserPrice''
      (reads (of_draft upstream_price_args)) None) c ps = (True, c', ps')"
  then obtain d where d: "drafted c d" "in_stock env d" by (auto simp: stages)
  from ran_plain_tool [OF run] d(1) obtain r where
    "answered env ''GetCompShareInstanceUserPrice'' (upstream_price_args d) r" "c' = p_store q_price r c"
    by (auto simp: of_draft_def)
  with d show "stage env (Suc 7) c'" by (auto simp: stages priced_at_def query_names intro!: exI [of _ d])
qed

lemma confirmation_establishes: "establishes env name (stage env) 8 step_resolve_create_confirmation"
  unfolding step_resolve_create_confirmation_def
proof (rule establishes_resolve)
  fix c out assume "stage env 8 c" and out: "materialize_create_confirmation c = Inr out"
  then obtain d where d: "drafted c d" "in_stock env d"
    "priced_at env d (extract_estimated_price (ctx_result c q_price) (ca_charge_type (cd_args d)))" by (auto simp: stages)
  let ?s = "\<lparr>cc_execution = d, cc_price = extract_estimated_price (ctx_result c q_price) (ca_charge_type (cd_args d))\<rparr>"
  from out d(1) have "out = confirmation_to_contract_map ?s" by (simp add: materialize_create_confirmation_def)
  moreover have "offered env ?s" using d by (auto simp: offered_def drafted_def)
  ultimately show "stage env (Suc 8) (p_store q_confirmation out c)" by (auto simp: stages)
qed

lemma range_establishes:
  assumes "5 \<le> j" and "j < 9"
  shows "establishes env name (stage env) j (def_steps create_instance_workflow ! j)"
proof -
  have "j \<in> {5, 6, 7, 8}" using assms by auto
  then show ?thesis
    by (elim insertE emptyE) (simp_all only: create_steps draft_establishes capacity_establishes price_establishes confirmation_establishes)
qed

section \<open>The card\<close>

lemma step_names:
  "index_of_step q_draft (def_steps create_instance_workflow) = Some 5"
  by (simp add: create_instance_workflow_def plain_definition_def create_step_defs tool_step_def resolve_step_def confirm_step_def
      plain_step_def q_draft_def q_capacity_def q_price_def q_confirmation_def q_images_def q_types_def q_official_inventory_def
      q_pod_inventory_def q_gpu_inventory_def)

lemma card_editable: "editable_card build_create_confirm_args step_confirm_create"
  by (auto simp: editable_card_def step_confirm_create_def confirm_step_def plain_step_def)

lemma revalidated_stage:
  assumes "fst (fst (revalidate_from env create_instance_workflow step_confirm_create 9 tot st))"
  shows "stage env 9 (s_ctx (snd (revalidate_from env create_instance_workflow step_confirm_create 9 tot st)))"
proof -
  have back_to: "st_revalidate_from step_confirm_create = q_draft" by (simp add: step_confirm_create_def)
  have q: "q_draft \<noteq> []" by (simp add: q_draft_def)
  have rerun: "stage env 9 (s_ctx (snd (rerun_steps env tot (step_range create_instance_workflow 5 9) s)))"
    if "fst (fst (rerun_steps env tot (step_range create_instance_workflow 5 9) s))" for s
    by (rule rerun_establishes [where name = "[]", OF range_establishes stages(1) that]) simp_all
  show ?thesis using assms rerun by (simp add: revalidate_from_def back_to q step_names)
qed

section \<open>The run\<close>

text \<open>The last card shows the execution and the price of a confirmation that was offered, and was accepted.\<close>

definition accepted_card :: "'w env \<Rightarrow> create_confirmation \<Rightarrow> (gmap \<times> bool) list \<Rightarrow> bool" where
  "accepted_card env s asks \<longleftrightarrow> offered env s \<and> asks \<noteq> [] \<and>
     (\<exists>cx price. cc_price s = Some price \<and> last asks = (create_card cx (cc_execution s) price, True))"

definition waiting :: "'w env \<Rightarrow> (reference_data, 'w) rstate \<Rightarrow> bool" where
  "waiting env st \<longleftrightarrow> sent create_call (abs_state st) = [] \<and>
     (\<exists>s. accepted_card env s (p_asks (abs_state st)) \<and> sealed_create_confirmation (s_ctx st) = Inr s)"

definition created_as_shown :: "'w env \<Rightarrow> (reference_data, 'w) rstate \<Rightarrow> bool" where
  "created_as_shown env st \<longleftrightarrow> sent create_call (abs_state st) = [] \<or>
     (\<exists>s. accepted_card env s (p_asks (abs_state st)) \<and>
       sent create_call (abs_state st) = [(create_call, upstream_create_args (cc_execution s))])"

fun creating :: "'w env \<Rightarrow> nat \<Rightarrow> (reference_data, 'w) rstate \<Rightarrow> bool" where
  "creating env i st \<longleftrightarrow>
     (if i \<le> 9 then sent create_call (abs_state st) = [] \<and> stage env i (s_ctx st)
      else if i = 10 then waiting env st else created_as_shown env st)"

declare creating.simps [simp del]

lemma stage_unseal [simp]: "stage env i (unseal c) = stage env i c"
  by (simp add: stage.simps drafted_def [abs_def])

lemma sent_abs: "sent t (abs_state st) = map (\<lambda>c. (cl_tool c, cl_args c)) (filter (\<lambda>c. cl_tool c = t) (s_calls st))"
  by (simp add: sent_def abs_state_def filter_map comp_def)

lemma extends_sent:
  assumes "extends dig I J st st'" and "\<And>i. (i, t) \<notin> I"
  shows "sent t (abs_state st') = sent t (abs_state st)"
proof -
  obtain cs where "s_calls st' = s_calls st @ cs" "\<forall>c \<in> set cs. (cl_step c, cl_tool c) \<in> I"
    using assms(1) unfolding extends_def by blast
  moreover from this(2) assms(2) have "filter (\<lambda>c. cl_tool c = t) cs = []" by (auto simp: filter_empty_conv)
  ultimately show ?thesis by (simp add: sent_abs)
qed

lemma gate_calls_no_create: "(i, create_call) \<notin> calls_before create_instance_workflow 9"
proof
  assume "(i, create_call) \<in> calls_before create_instance_workflow 9"
  then have i: "i < 9" "create_call \<in> step_tools (def_steps create_instance_workflow ! i)" "st_type (def_steps create_instance_workflow ! i) = StepToolCall"
    by (auto simp: calls_before_def)
  then show False using other_steps_quiet [of i] by (auto simp: quiet_def step_tools_def split: option.splits)
qed

lemma candidate_offered: "ctx_result c q_confirmation = confirmation_to_contract_map s \<Longrightarrow> candidate_create_confirmation c = Inr s"
  by (simp add: candidate_create_confirmation_def parse_confirmation_map) (simp add: confirmation_to_contract_map_def)

lemma sealed_promoted:
  assumes "wc_pub x = set_params (mput create_draft_key (GMap (confirmation_to_contract_map s)) ps) p"
  shows "sealed_create_confirmation (seal_ctx dig ''CreateInstanceWorkflow'' x) = Inr s"
proof -
  have "confirmation_to_contract_map s \<noteq> []" by (simp add: confirmation_to_contract_map_def)
  then show ?thesis using parse_confirmation_map [of s] assms
    by (simp add: sealed_create_confirmation_def seal_ctx_def seal_draft_def set_params_def mval_def mget_mput)
qed

lemma promoted:
  assumes "accepted_from step_confirm_create build_create_confirm_args c st" and "stage env 9 c"
  shows "\<exists>s. accepted_card env s (p_asks (abs_state st)) \<and>
    sealed_create_confirmation (seal_ctx dig ''CreateInstanceWorkflow'' (s_ctx st)) = Inr s"
proof -
  obtain s where s: "offered env s" "ctx_result c q_confirmation = confirmation_to_contract_map s" using assms(2) by (auto simp: stages)
  note cand = candidate_offered [OF s(2)]
  have step: "st_promote step_confirm_create = Some promote_create_draft" by (simp add: step_confirm_create_def)
  from assms(1) cand obtain price where card: "cc_price s = Some price" "s_asks st \<noteq> []"
    "al_args (last (s_asks st)) = create_card c (cc_execution s) price" "al_yes (last (s_asks st))"
    by (auto simp: accepted_from_def build_create_confirm_args_def split: option.splits)
  have "wc_pub (s_ctx st) = set_params (mput create_draft_key (GMap (confirmation_to_contract_map s)) (ctx_params c)) (wc_pub c)"
    using assms(1) cand by (simp add: accepted_from_def step promote_create_draft_def)
  from sealed_promoted [OF this] have "sealed_create_confirmation (seal_ctx dig ''CreateInstanceWorkflow'' (s_ctx st)) = Inr s" .
  moreover have "accepted_card env s (p_asks (abs_state st))"
    using s(1) card by (auto simp: accepted_card_def abs_state_def last_map)
  ultimately show ?thesis by blast
qed

lemma gate_creating:
  fixes tot :: nat
  assumes "creating env 9 st"
  defines "r \<equiv> run_one env create_instance_workflow 9 tot step_confirm_create st"
  shows "sent create_call (abs_state (snd r)) = [] \<and> (fst r \<longrightarrow> waiting env (snd r))"
proof -
  let ?wf = create_instance_workflow
  let ?rc = "confirm_loop env ?wf step_confirm_create 9 tot 0 (upd_ctx unseal st)"
  have ty: "st_type step_confirm_create = StepConfirm" by (simp add: step_confirm_create_def confirm_step_def plain_step_def)
  have st: "sent create_call (abs_state st) = []" "stage env 9 (s_ctx st)" using assms(1) by (simp_all add: creating.simps)
  have "extends (env_digest env) (calls_before ?wf 9) {9} (upd_ctx unseal st) (snd ?rc)"
    using confirm_loop_gate_run [of 0 env ?wf 9 "upd_ctx unseal st"] by (simp add: gate_run_def)
  from extends_sent [OF this gate_calls_no_create] st(1) have none: "sent create_call (abs_state (snd ?rc)) = []"
    by (simp add: sent_abs)
  have r: "r = (fst ?rc, if fst ?rc then upd_ctx (seal_ctx (env_digest env) ''CreateInstanceWorkflow'') (snd ?rc) else snd ?rc)"
    by (simp add: r_def run_one_def ty run_confirm_step_def Let_def create_steps)
  have "waiting env (snd r)" if yes: "fst ?rc"
  proof -
    have "stage env 9 (s_ctx (upd_ctx unseal st))" using st(2) by simp
    from confirm_loop_accepts [where K = "stage env 9", OF card_editable this revalidated_stage yes] obtain c where
      "stage env 9 c" "accepted_from step_confirm_create build_create_confirm_args c (snd ?rc)" by blast
    from promoted [OF this(2,1)] none show ?thesis by (simp add: r yes waiting_def)
  qed
  with none show ?thesis by (auto simp: r)
qed

lemma create_step_creating:
  assumes "creating env 10 st"
  shows "created_as_shown env (snd (run_one env create_instance_workflow 10 tot step_create_instance st))"
proof -
  let ?r = "run_one env create_instance_workflow 10 tot step_create_instance st"
  obtain s where s: "sent create_call (abs_state st) = []" "accepted_card env s (p_asks (abs_state st))"
    "sealed_create_confirmation (s_ctx st) = Inr s" using assms by (auto simp: creating.simps waiting_def)
  then have args: "create_args_from_sealed_draft (s_ctx st) = Inr (upstream_create_args (cc_execution s))"
    by (auto simp: create_args_from_sealed_draft_def accepted_card_def)
  have "plain step_create_instance" by (simp add: step_create_instance_def tool_step_def plain_step_def plain_def)
  from run_one_obs [OF plain_plain_for [OF this], of env create_instance_workflow 10 tot st] have
    "abs_state (snd ?r) = snd (snd (p_one env ''CreateInstanceWorkflow'' step_create_instance (s_ctx st) (abs_state st)))"
    by (simp add: obs_def prod_eq_iff create_steps)
  then have "abs_state (snd ?r) = abs_state st \<or>
      abs_state (snd ?r) = snd (p_call env create_call (upstream_create_args (cc_execution s)) (abs_state st))"
    by (auto simp: step_create_instance_def p_tool_once args Let_def split: sum.splits)
  moreover have "sent create_call (snd (p_call env create_call a ps)) = sent create_call ps @ [(create_call, a)]"
    "p_asks (snd (p_call env create_call a ps)) = p_asks ps" for a ps
    by (simp_all add: sent_def)
  ultimately show ?thesis using s(1,2) by (auto simp: created_as_shown_def)
qed

lemma quiet_run_one:
  assumes "quiet t s" and "plain s"
  shows "sent t (abs_state (snd (run_one env def i tot s st))) = sent t (abs_state st)"
    and "p_asks (abs_state (snd (run_one env def i tot s st))) = p_asks (abs_state st)"
  using quiet_one [OF assms(1), of env "def_name def" "s_ctx st" "abs_state st"] run_one_obs [OF plain_plain_for [OF assms(2)], of env def i tot st]
  by (simp_all add: obs_def prod_eq_iff)

lemma early_creating:
  fixes tot :: nat
  assumes "i < 9" and "creating env i st"
  defines "r \<equiv> run_one env create_instance_workflow i tot (def_steps create_instance_workflow ! i) st"
  shows "sent create_call (abs_state (snd r)) = [] \<and> (fst r \<longrightarrow> creating env (Suc i) (snd r))"
proof -
  let ?s = "def_steps create_instance_workflow ! i"
  have s: "quiet create_call ?s" "plain ?s" using other_steps_quiet [of i] assms(1) by auto
  have none: "sent create_call (abs_state (snd r)) = []"
    using assms(1,2) quiet_run_one(1) [OF s, of env create_instance_workflow i tot st] by (simp add: creating.simps r_def)
  have "stage env (Suc i) (s_ctx (snd r))" if yes: "fst r"
  proof (cases "5 \<le> i")
    case True
    have "p_one env ''CreateInstanceWorkflow'' ?s (s_ctx st) (abs_state st) = (True, s_ctx (snd r), abs_state (snd r))"
      using run_one_obs [OF plain_plain_for [OF s(2)], of env create_instance_workflow i tot st] yes by (simp add: obs_def r_def create_steps)
    then show ?thesis
      using range_establishes [OF True assms(1), of env "''CreateInstanceWorkflow''"] assms(1,2)
      unfolding establishes_def by (auto simp: creating.simps)
  qed (simp add: stage.simps)
  with none assms(1) show ?thesis by (simp add: creating.simps)
qed

lemma created_frame [simp]:
  "created_as_shown env (upd_res f st) = created_as_shown env st"
  "created_as_shown env (fail_stop s i t ty e m st) = created_as_shown env st"
  by (simp_all add: created_as_shown_def)

lemma run_creates_as_shown: "created_as_shown env (run_workflow env create_instance_workflow ref w now ps)"
proof (rule run_workflow_rule [where J = "creating env"])
  fix i and st :: "(reference_data, 'a) rstate" assume i: "i < length (def_steps create_instance_workflow)" and st: "creating env i st"
  let ?r = "run_one env create_instance_workflow i (length (def_steps create_instance_workflow)) (def_steps create_instance_workflow ! i) st"
  consider "i < 9" | "i = 9" | "i = 10" | "i = 11" using i by (fastforce simp: create_steps)
  then show "created_as_shown env (snd ?r) \<and> (fst ?r \<longrightarrow> creating env (Suc i) (snd ?r))"
  proof cases
    case 1
    then show ?thesis using early_creating [OF 1 st] by (auto simp: created_as_shown_def)
  next
    case 2
    then show ?thesis using gate_creating [of env st] st by (auto simp: created_as_shown_def creating.simps create_steps)
  next
    case 3
    then show ?thesis using create_step_creating [of env st] st by (simp add: creating.simps create_steps)
  next
    case 4
    with other_steps_quiet [of 11] have "quiet create_call (def_steps create_instance_workflow ! i)"
      "plain (def_steps create_instance_workflow ! i)" by simp_all
    then show ?thesis using st 4 by (simp add: creating.simps created_as_shown_def quiet_run_one)
  qed
next
  fix i sk and st :: "(reference_data, 'a) rstate"
  assume i: "i < length (def_steps create_instance_workflow)" and sk: "st_skip_if (def_steps create_instance_workflow ! i) = Some sk"
  have "i < 12" using i by (simp add: create_steps)
  from step_index [OF this] sk have "i = 3 \<and> sk = reads no_pod_selector"
    by (elim insertE emptyE)
      (simp_all only: create_steps, simp_all add: create_step_defs tool_step_def resolve_step_def confirm_step_def plain_step_def)
  then show "(\<exists>p. sk = reads p) \<and> (creating env i st \<longrightarrow> creating env (Suc i) st)" by (auto simp: creating.simps stage.simps)
next
  show "creating env 0 (init_state ref w now ps)" by (simp add: creating.simps stage.simps init_state_def sent_def abs_state_def)
qed (auto simp: creating.simps created_as_shown_def waiting_def split: if_splits)

text \<open>C5: an instance is created only as it was shown: when a run of the creation workflow calls
  CreateCompShareInstance, it calls it once, with the arguments of a draft and a price which the user accepted on the last
  card; the draft was resolved from what the run knew, the platform answered the stock question about this
  very draft with yes, and the price is the platform's answer about this very draft. Edits of the card,
  however many, do not break the tie.\<close>

theorem create_sends_what_was_shown:
  assumes "c \<in> set (s_calls (run_workflow env create_instance_workflow ref w now ps))" and "cl_tool c = ''CreateCompShareInstance''"
  shows "\<exists>c0 cx d price stock priced.
     materialize_create_draft c0 = Inr d \<and>
     answered env ''CheckCompShareResourceCapacity'' (upstream_capacity_args d) stock \<and> co_ok (check_exact_create_capacity d stock) \<and>
     answered env ''GetCompShareInstanceUserPrice'' (upstream_price_args d) priced \<and>
     extract_estimated_price priced (ca_charge_type (cd_args d)) = Some price \<and>
     last (map (\<lambda>x. (al_args x, al_yes x)) (s_asks (run_workflow env create_instance_workflow ref w now ps))) = (create_card cx d price, True) \<and>
     map cl_args (filter (\<lambda>c. cl_tool c = ''CreateCompShareInstance'')
       (s_calls (run_workflow env create_instance_workflow ref w now ps))) = [upstream_create_args d] \<and>
     cl_args c = upstream_create_args d"
proof -
  let ?st = "run_workflow env create_instance_workflow ref w now ps"
  have in_sent: "(create_call, cl_args c) \<in> set (sent create_call (abs_state ?st))" using assms by (auto simp: sent_abs)
  with run_creates_as_shown [of env ref w now ps] obtain s where s: "accepted_card env s (p_asks (abs_state ?st))"
    "sent create_call (abs_state ?st) = [(create_call, upstream_create_args (cc_execution s))]" by (auto simp: created_as_shown_def)
  have "map cl_args (filter (\<lambda>c. cl_tool c = create_call) (s_calls ?st)) = map snd (sent create_call (abs_state ?st))"
    by (simp add: sent_abs comp_def)
  then have log: "map cl_args (filter (\<lambda>c. cl_tool c = create_call) (s_calls ?st)) = [upstream_create_args (cc_execution s)]"
    "cl_args c = upstream_create_args (cc_execution s)" using s(2) in_sent by simp_all
  from s(1) obtain cx price where card: "cc_price s = Some price"
    "last (p_asks (abs_state ?st)) = (create_card cx (cc_execution s) price, True)" by (auto simp: accepted_card_def)
  from s(1) obtain c0 r q where tie: "materialize_create_draft c0 = Inr (cc_execution s)"
    "answered env ''CheckCompShareResourceCapacity'' (upstream_capacity_args (cc_execution s)) r"
    "co_ok (check_exact_create_capacity (cc_execution s) r)"
    "answered env ''GetCompShareInstanceUserPrice'' (upstream_price_args (cc_execution s)) q"
    "extract_estimated_price q (ca_charge_type (cd_args (cc_execution s))) = Some price"
    using card(1) by (auto simp: accepted_card_def offered_def in_stock_def priced_at_def)
  from card(2) have "last (map (\<lambda>x. (al_args x, al_yes x)) (s_asks ?st)) = (create_card cx (cc_execution s) price, True)"
    by (simp add: abs_state_def)
  with tie log show ?thesis by (intro exI conjI)
qed

section \<open>A market\<close>

definition demo_market :: "(string \<times> gmap) list" where
  "demo_market = [(''DescribeCompShareImages'', [(''ImageSet'', GList [GMap [(''CompShareImageId'', GStr ''i1''),
      (''Name'', GStr ''Ubuntu''), (''Status'', GStr ''Available'')]])]),
    (''DescribeAvailableCompShareInstanceTypes'', [(''AvailableInstanceTypes'', GList [GMap [(''Name'', GStr ''4090''),
      (''Zone'', GStr ''a''), (''Status'', GStr ''Normal''), (''MachineSizes'', GList [GMap [(''Gpu'', GFloat (Fin 1)),
        (''Collection'', GList [GMap [(''Cpu'', GFloat (Fin 16)), (''Memory'', GList [GFloat (Fin 64)])]])]])]])]),
    (''CheckCompShareResourceCapacity'', [(''Specs'', GList [GMap [(''Gpu'', GFloat (Fin 1)), (''Cpu'', GFloat (Fin 16)),
      (''Mem'', GFloat (Fin 64)), (''ResourceEnough'', GBool True)]])]),
    (''GetCompShareInstanceUserPrice'', [(''PriceDetails'', GList [GMap [(''ChargeType'', GStr ''Month''), (''Price'', GFloat (Fin 2))],
      GMap [(''ChargeType'', GStr ''Postpay''), (''Price'', GFloat (Fin 3))]])])]"

definition demo_zones :: reference_data where
  "demo_zones = \<lparr>rd_zones = Some (new_zone_snapshot True [\<lparr>zr_placement = \<lparr>zp_zone = ''a'', zp_region = ''r'', zp_zone_id = 7,
     zp_az_group = 0, zp_is_pod = False\<rparr>, zr_display = [], zr_disable_image_sync = False, zr_unsupported = []\<rparr>]), rd_images = None\<rparr>"

definition demo_wish :: gmap where
  "demo_wish = [(''GpuType'', GStr ''4090''), (''CompShareImageId'', GStr ''i1''), (''ChargeType'', GStr ''Month'')]"

text \<open>The steps of a run on a script, one at a time.\<close>

definition scripted_answer :: "(string \<times> gmap) list \<Rightarrow> string \<Rightarrow> gmap" where
  "scripted_answer T t = (case mget T t of Some r \<Rightarrow> r | None \<Rightarrow> [])"

definition goes_on :: "nat env \<Rightarrow> reference_data wstep \<Rightarrow> rctx \<Rightarrow> rctx \<Rightarrow> bool" where
  "goes_on env s c c' \<longleftrightarrow> (\<forall>ps. \<exists>ps'. p_step env ''CreateInstanceWorkflow'' s c ps = (True, c', ps'))"

lemma scripted_call:
  assumes "st_type s = StepToolCall" "st_skip_if s = None" "st_poll s = None" and "chosen s c = (t, c)"
    and "p_hook (st_build_args s) c = (Inr args, c)" and "seal_ok (scripted T) c"
    and "case st_check_result s of None \<Rightarrow> True
      | Some ch \<Rightarrow> \<exists>oc. p_hook (ch (scripted_answer T t)) c = ((oc, scripted_answer T t), c) \<and> co_ok oc"
  shows "p_step (scripted T) name s c ps = (True, p_store (st_name s) (scripted_answer T t) c, snd (p_call (scripted T) t args ps))"
proof -
  have "fst (p_call (scripted T) t args ps) = Inr (scripted_answer T t)"
    by (simp add: p_call_def scripted_def scripted_answer_def)
  then show ?thesis
    using assms by (auto simp: p_step_def p_one_def p_tool_def p_poll_once Let_def chosen_def split: option.splits)
qed

lemma scripted_goes_on:
  assumes "st_type s = StepToolCall" "st_skip_if s = None" "st_poll s = None" and "chosen s c = (t, c)"
    and "p_hook (st_build_args s) c = (Inr args, c)" and "seal_ok (scripted T) c"
    and "case st_check_result s of None \<Rightarrow> True
      | Some ch \<Rightarrow> \<exists>oc. p_hook (ch (scripted_answer T t)) c = ((oc, scripted_answer T t), c) \<and> co_ok oc"
  shows "goes_on (scripted T) s c (p_store (st_name s) (scripted_answer T t) c)"
  using scripted_call [OF assms] by (simp add: goes_on_def)

lemma resolve_goes_on: "f c = Inr out \<Longrightarrow> goes_on env (resolve_step n (reads f)) c (p_store n out c)"
  by (simp add: goes_on_def p_resolve_once)

lemma scripted_steps:
  "goes_on (scripted T) s c c' \<Longrightarrow> \<exists>ps'. p_steps (scripted T) ''CreateInstanceWorkflow'' (s # rest) c ps =
     p_steps (scripted T) ''CreateInstanceWorkflow'' rest c' ps'"
proof -
  assume "goes_on (scripted T) s c c'"
  then obtain ps' where "p_step (scripted T) ''CreateInstanceWorkflow'' s c ps = (True, c', ps')" unfolding goes_on_def by blast
  then show ?thesis by (intro exI [of _ ps']) (simp add: p_steps_Cons ctx_done_def scripted_def)
qed

definition goes_on_with :: "nat env \<Rightarrow> reference_data wstep \<Rightarrow> rctx \<Rightarrow> nat pstate \<Rightarrow> nat pstate \<Rightarrow> bool" where
  "goes_on_with env s c ps ps' \<longleftrightarrow> (\<exists>c'. p_step env ''CreateInstanceWorkflow'' s c ps = (True, c', ps'))"

lemma scripted_with:
  "goes_on_with (scripted T) s c ps ps' \<Longrightarrow> \<exists>c'. p_steps (scripted T) ''CreateInstanceWorkflow'' (s # rest) c ps =
     p_steps (scripted T) ''CreateInstanceWorkflow'' rest c' ps'"
  by (auto simp: goes_on_with_def p_steps_Cons ctx_done_def scripted_def)

fun goes_through :: "nat env \<Rightarrow> reference_data wstep list \<Rightarrow> rctx \<Rightarrow> rctx \<Rightarrow> bool" where
  "goes_through env [] c c' \<longleftrightarrow> c = c'"
| "goes_through env (s # ss) c c' \<longleftrightarrow> (\<exists>c1. goes_on env s c c1 \<and> goes_through env ss c1 c')"

lemma scripted_prefix:
  "goes_through (scripted T) ss c c' \<Longrightarrow> \<exists>ps'. p_steps (scripted T) ''CreateInstanceWorkflow'' (ss @ rest) c ps =
     p_steps (scripted T) ''CreateInstanceWorkflow'' rest c' ps'"
proof (induction ss arbitrary: c ps)
  case (Cons s ss)
  then obtain c1 where c1: "goes_on (scripted T) s c c1" "goes_through (scripted T) ss c1 c'" by auto
  from scripted_steps [OF c1(1), of "ss @ rest" ps] Cons.IH [OF c1(2)] show ?case by auto
qed auto

text \<open>What the run of the demo knows before the draft, and the draft and the price it arrives at.\<close>

definition demo_start :: rctx where "demo_start = new_context demo_zones demo_wish"

definition demo_asked :: rctx where
  "demo_asked = p_store q_official_inventory [] (p_store q_types (snd (demo_market ! 1)) (p_store q_images (snd (demo_market ! 0)) demo_start))"

definition demo_inventory :: gmap where
  "demo_inventory = [(''GpuInventory'', GMap [(''Exclusive'', GMap []), (''Spot'', GMap [])]),
     (''InventorySources'', GMap [(''official'', GMap [(''Attempted'', GBool True), (''Available'', GBool False), (''UpdateTime'', GInt64 0)]),
       (''pod'', GMap [(''Attempted'', GBool False), (''Available'', GBool False), (''UpdateTime'', GInt64 0)])]),
     (''SpotUnsupportedGpuTypes'', GStrs [])]"

definition demo_known :: rctx where "demo_known = p_store q_gpu_inventory demo_inventory demo_asked"

definition demo_draft :: create_draft where
  "demo_draft = \<lparr>cd_args = \<lparr>ca_zone = ''a'', ca_gpu_type = ''4090'', ca_gpu = Fin 1, ca_cpu = Fin 16, ca_memory = Fin (1024 * 64),
       ca_image_id = ''i1'', ca_charge_type = ''Month'', ca_machine_type = ''G'', ca_min_cpu_platform = ''Auto'',
       ca_login_mode = ''Password'', ca_disks = [], ca_name = []\<rparr>,
     cd_image = \<lparr>sg_id = ''i1'', sg_name = ''Ubuntu'', sg_source = ''platform''\<rparr>,
     cd_placement = \<lparr>zp_zone = ''a'', zp_region = ''r'', zp_zone_id = 7, zp_az_group = 0, zp_is_pod = False\<rparr>\<rparr>"

lemma demo_facts:
  "merge_gpu_inventory demo_asked = Inr demo_inventory" "materialize_create_draft demo_known = Inr demo_draft"
  "co_ok (check_exact_create_capacity demo_draft (scripted_answer demo_market ''CheckCompShareResourceCapacity''))"
  "extract_estimated_price (scripted_answer demo_market ''GetCompShareInstanceUserPrice'') ''Month'' \<noteq> None"
  "fst (reads image_catalog_tool demo_start) = ''DescribeCompShareImages''"
  "no_pod_selector demo_start = Inr True"
  by code_simp+

lemma demo_answers:
  "scripted_answer demo_market ''DescribeCompShareImages'' = snd (demo_market ! 0)"
  "scripted_answer demo_market ''DescribeAvailableCompShareInstanceTypes'' = snd (demo_market ! 1)"
  "scripted_answer demo_market ''DescribeCompShareGpuInventory'' = []"
  "query_images_args False demo_start = Inr [(''Limit'', GInt 100), (''CompShareImageId'', GStr ''i1'')]"
  "query_types_args (p_store q_images (snd (demo_market ! 0)) demo_start) = Inr []" "no_pod_selector demo_asked = Inr True"
  by code_simp+

lemma start_unsealed: "wc_sealed demo_start = None" "wc_sealed demo_asked = None" "wc_sealed demo_known = None"
  by (simp_all add: demo_start_def demo_asked_def demo_known_def new_context_def split: prod.split)

lemma demo_queries:
  "goes_through (scripted demo_market) (take 5 (def_steps create_instance_workflow)) demo_start demo_known"
proof -
  let ?e = "scripted demo_market"
  let ?c1 = "p_store q_images (snd (demo_market ! 0)) demo_start"
  let ?c2 = "p_store q_types (snd (demo_market ! 1)) ?c1"
  have s0: "goes_on ?e (step_query_images False) demo_start ?c1"
    using scripted_goes_on [of "step_query_images False" demo_start "''DescribeCompShareImages''" _ demo_market] demo_answers demo_facts(5)
    by (simp add: step_query_images_def chosen_def seal_ok_unsealed start_unsealed reads_def p_hook_def)
  have s1: "goes_on ?e step_query_instance_types ?c1 ?c2"
    using scripted_goes_on [of step_query_instance_types ?c1 "''DescribeAvailableCompShareInstanceTypes''" _ demo_market] demo_answers
    by (simp add: step_query_instance_types_def seal_ok_unsealed start_unsealed)
  have s2: "goes_on ?e step_query_official_gpu_inventory ?c2 demo_asked"
    using scripted_goes_on [of step_query_official_gpu_inventory ?c2 "''DescribeCompShareGpuInventory''" "with_identity ?c2 []" demo_market] demo_answers
    by (simp add: step_query_official_gpu_inventory_def chosen_def seal_ok_unsealed start_unsealed official_inventory_args_def demo_asked_def)
  have s3: "goes_on ?e step_query_pod_gpu_inventory demo_asked demo_asked"
    by (simp add: goes_on_def p_step_def step_query_pod_gpu_inventory_def demo_answers)
  have s4: "goes_on ?e step_resolve_gpu_inventory_snapshot demo_asked demo_known"
    using resolve_goes_on [of merge_gpu_inventory demo_asked demo_inventory] demo_facts(1)
    by (simp add: step_resolve_gpu_inventory_snapshot_def demo_known_def)
  have "take 5 (def_steps create_instance_workflow) = [step_query_images False, step_query_instance_types,
      step_query_official_gpu_inventory, step_query_pod_gpu_inventory, step_resolve_gpu_inventory_snapshot]"
    by (simp add: create_instance_workflow_def plain_definition_def)
  with s0 s1 s2 s3 s4 show ?thesis by auto
qed

text \<open>From a drafted, unsealed context on, a script whose stock answer is yes and whose price answer has a
  price leads to the creation.\<close>

lemma scripted_gate:
  assumes "ctx_result c q_confirmation = confirmation_to_contract_map s" and "cc_price s \<noteq> None"
  shows "\<exists>c'. goes_on (scripted T) step_confirm_create c c' \<and> sealed_create_confirmation c' = Inr s \<and> seal_ok (scripted T) c'"
proof -
  let ?c = "unseal c"
  let ?p = "?c\<lparr>wc_pub := snd (promote_create_draft ?c)\<rparr>"
  let ?r = "seal_ctx (env_digest (scripted T)) ''CreateInstanceWorkflow'' ?p"
  have cand: "candidate_create_confirmation ?c = Inr s" using assms(1) by (intro candidate_offered) simp
  have yes: "fst (p_ask (scripted T) n a ps)" for n a ps by (simp add: p_ask_def scripted_def)
  have st: "st_type step_confirm_create = StepConfirm" "st_skip_if step_confirm_create = None"
    "st_promote step_confirm_create = Some promote_create_draft" "st_build_args step_confirm_create = reads build_create_confirm_args"
    by (simp_all add: step_confirm_create_def confirm_step_def plain_step_def)
  have prom: "p_hook promote_create_draft ?c = (None, ?p)" by (simp add: p_hook_def promote_create_draft_def cand)
  obtain a where "build_create_confirm_args ?c = Inr a" using assms(2) by (auto simp: build_create_confirm_args_def cand)
  then have "goes_on (scripted T) step_confirm_create c ?r"
    by (simp add: goes_on_def p_step_def p_one_def p_confirm_def st Let_def yes prom)
  moreover have "wc_pub ?p = set_params (mput create_draft_key (GMap (confirmation_to_contract_map s)) (ctx_params ?c)) (wc_pub ?c)"
    by (simp add: promote_create_draft_def cand)
  ultimately show ?thesis using sealed_promoted seal_ok_sealed by blast
qed

lemma scripted_draft_to_gate:
  assumes draft: "materialize_create_draft c = Inr d" and free: "wc_sealed c = None"
    and stock: "co_ok (check_exact_create_capacity d (scripted_answer T ''CheckCompShareResourceCapacity''))"
    and price: "extract_estimated_price (scripted_answer T ''GetCompShareInstanceUserPrice'') (ca_charge_type (cd_args d)) \<noteq> None"
  shows "\<exists>c' s. goes_through (scripted T) [step_resolve_create_draft, step_check_capacity, step_get_price,
       step_resolve_create_confirmation, step_confirm_create] c c' \<and> sealed_create_confirmation c' = Inr s \<and>
     cc_price s \<noteq> None \<and> seal_ok (scripted T) c'"
proof -
  let ?e = "scripted T"
  let ?c6 = "p_store q_draft (draft_to_contract_map d) c"
  let ?c7 = "p_store q_capacity (scripted_answer T ''CheckCompShareResourceCapacity'') ?c6"
  let ?q = "scripted_answer T ''GetCompShareInstanceUserPrice''"
  let ?c8 = "p_store q_price ?q ?c7"
  let ?s = "\<lparr>cc_execution = d, cc_price = extract_estimated_price ?q (ca_charge_type (cd_args d))\<rparr>"
  let ?c9 = "p_store q_confirmation (confirmation_to_contract_map ?s) ?c8"
  have dr: "drafted ?c6 d" "drafted ?c7 d" "drafted ?c8 d" using draft by (auto simp: drafted_def query_names)
  note cand = dr [THEN candidate_drafted]
  have "goes_on ?e step_resolve_create_draft c ?c6"
    unfolding step_resolve_create_draft_def by (rule resolve_goes_on) (simp add: resolve_create_draft_def draft)
  moreover have "goes_on ?e step_check_capacity ?c6 ?c7"
    using scripted_goes_on [of step_check_capacity ?c6 "''CheckCompShareResourceCapacity''" "upstream_capacity_args d" T] stock
    by (simp add: step_check_capacity_def seal_ok_unsealed free of_draft_def cand p_hook_def [of "check_create_capacity _"] check_create_capacity_def)
  moreover have "goes_on ?e step_get_price ?c7 ?c8"
    using scripted_goes_on [of step_get_price ?c7 "''GetCompShareInstanceUserPrice''" "upstream_price_args d" T]
    by (simp add: step_get_price_def seal_ok_unsealed free of_draft_def cand)
  moreover have "goes_on ?e step_resolve_create_confirmation ?c8 ?c9"
    unfolding step_resolve_create_confirmation_def by (rule resolve_goes_on) (simp add: materialize_create_confirmation_def cand)
  moreover obtain c' where "goes_on ?e step_confirm_create ?c9 c'" "sealed_create_confirmation c' = Inr ?s" "seal_ok ?e c'"
    using scripted_gate [of ?c9 ?s T] price by auto
  ultimately show ?thesis using price by (intro exI [of _ c'] exI [of _ ?s]) auto
qed

lemma demo_created: "''CreateCompShareInstance'' \<in> set (scripted_calls demo_market create_instance_workflow demo_zones demo_wish)"
proof -
  let ?e = "scripted demo_market" and ?n = "''CreateInstanceWorkflow''"
  let ?mid = "[step_resolve_create_draft, step_check_capacity, step_get_price, step_resolve_create_confirmation, step_confirm_create]"
  have "extract_estimated_price (scripted_answer demo_market ''GetCompShareInstanceUserPrice'') (ca_charge_type (cd_args demo_draft)) \<noteq> None"
    using demo_facts(4) by (simp add: demo_draft_def)
  from scripted_draft_to_gate [OF demo_facts(2) start_unsealed(3) demo_facts(3) this] obtain c s where
    mid: "goes_through ?e ?mid demo_known c" and s: "sealed_create_confirmation c = Inr s" "cc_price s \<noteq> None" "seal_ok ?e c" by blast
  have steps: "def_steps create_instance_workflow =
      take 5 (def_steps create_instance_workflow) @ ?mid @ [step_create_instance, step_describe_instance]"
    by (simp add: create_instance_workflow_def plain_definition_def)
  let ?p0 = "\<lparr>p_world = 0, p_now = 0, p_calls = [], p_asks = []\<rparr>"
  from scripted_prefix [OF demo_queries] scripted_prefix [OF mid] obtain ps where
    run: "p_steps ?e ?n (def_steps create_instance_workflow) demo_start ?p0 = p_steps ?e ?n [step_create_instance, step_describe_instance] c ps"
    by (metis steps)
  have "create_args_from_sealed_draft c = Inr (upstream_create_args (cc_execution s))"
    using s by (auto simp: create_args_from_sealed_draft_def)
  then have "p_step ?e ?n step_create_instance c ps = (True, p_store q_create (scripted_answer demo_market create_call) c,
      snd (p_call ?e create_call (upstream_create_args (cc_execution s)) ps))"
    using scripted_call [of step_create_instance c create_call "upstream_create_args (cc_execution s)" demo_market ?n ps] s(3)
    by (simp add: step_create_instance_def)
  then have one: "goes_on_with ?e step_create_instance c ps (snd (p_call ?e create_call (upstream_create_args (cc_execution s)) ps))"
    by (auto simp: goes_on_with_def)
  have quiet: "list_all (quiet create_call) [step_describe_instance]" by (simp add: step_describe_instance_def)
  from one obtain c1 where "p_steps ?e ?n [step_create_instance, step_describe_instance] c ps =
      p_steps ?e ?n [step_describe_instance] c1 (snd (p_call ?e create_call (upstream_create_args (cc_execution s)) ps))"
    using scripted_with [of demo_market step_create_instance c ps] by blast
  then have "sent create_call (snd (snd (p_steps ?e ?n [step_create_instance, step_describe_instance] c ps))) \<noteq> []"
    using quiet_rest [OF quiet, of ?e ?n c1] by (simp only:) (simp add: sent_def)
  with run have "sent create_call (snd (snd (protocol ?e create_instance_workflow demo_zones 0 0 demo_wish))) \<noteq> []"
    by (simp add: protocol_def demo_start_def create_steps)
  then show ?thesis by (auto simp: scripted_calls_def sent_def filter_empty_conv image_iff) force
qed

lemma market_run:
  "obs_run (run_workflow (scripted demo_market) create_instance_workflow demo_zones 0 0 demo_wish) =
     protocol (scripted demo_market) create_instance_workflow demo_zones 0 0 demo_wish"
  by (rule run_workflow_obs)
    (simp add: create_instance_workflow_def plain_definition_def create_step_defs plain_for_def scripted_def tool_step_def
      resolve_step_def confirm_step_def plain_step_def)

theorem create_sends_what_was_shown_witness:
  "\<exists>d. map cl_args (filter (\<lambda>c. cl_tool c = ''CreateCompShareInstance'')
     (s_calls (run_workflow (scripted demo_market) create_instance_workflow demo_zones 0 0 demo_wish))) = [upstream_create_args d]"
proof -
  let ?st = "run_workflow (scripted demo_market) create_instance_workflow demo_zones 0 0 demo_wish"
  have "''CreateCompShareInstance'' \<in> set (map fst (p_calls (abs_state ?st)))"
    using market_run demo_created by (simp add: scripted_calls_def obs_run_def prod_eq_iff)
  then obtain c where "c \<in> set (s_calls ?st)" "cl_tool c = ''CreateCompShareInstance''" by (auto simp: abs_state_def)
  from create_sends_what_was_shown [OF this] show ?thesis by (elim exE conjE) (rule exI)
qed

end
