(* ===== verification/Spec2Isabelle.thy ===== *)
theory Spec2Isabelle
  imports WorkflowProps InstanceProtocols PortProps BillingProps DiskProps ScheduleProps RegistryProps EntityProps ActionResolverProps SafeExecutorProps ConfirmBroker
    RateLimit CreateProps
begin

text \<open>
  A verification development of the CompShare agent (Go, \<open>src/internal\<close>): a conversational
  agent that operates GPU cloud instances. A language model proposes actions; the Go program
  decides what may happen. The development models the parts that decide.

  How the parts interact. An HTTP request leases the session's engine from the pool, passes
  the rate limiter, and lets the model call tools. A read goes through the guarded executor.
  A proposed write is adjudicated by the action resolver against the catalogs; when it is
  ready it becomes a workflow: the engine runs its steps, asks the user at the confirmation
  gates through the broker, seals what was confirmed, and calls the guarded executor as an
  internal origin.

  \<^bold>\<open>Theories.\<close>
  \<^item> \<open>Prelude\<close>: Go's dynamic values (\<open>any\<close>), Go maps as association lists, and the interfaces
    \<open>go_map\<close>, \<open>component\<close>, \<open>keyed_component\<close> with their interpretations. \<open>GoText\<close>: the string
    and number functions of Go's library the source uses, on byte strings; \<open>GoFmt\<close>: how Go prints
    numbers and values. \<open>Platform\<close>:
    \<open>platform/instance_id.go\<close>.
  \<^item> The workflow engine. \<open>Seal\<close>: \<open>workflow/execution_seal.go\<close>. \<open>ConfirmForm\<close>, \<open>WorkflowTypes\<close>:
    \<open>workflow/types.go\<close>, \<open>batch_call.go\<close>, \<open>missing_slot_error.go\<close>. \<open>WorkflowEngine\<close>,
    \<open>WorkflowRun\<close>: \<open>workflow/engine.go\<close>, one definition per method, over a state that also logs
    every tool call and every card. \<open>WorkflowFacts\<close>, \<open>WorkflowGate\<close>, \<open>WorkflowLimits\<close>: what each
    runner does to the state and the logs, and the invariant of a run; \<open>WorkflowProps\<close>: its
    consequences. \<open>WorkflowProtocol\<close>: the abstract protocol of a run and the refinement lemma
    that the engine implements it.
  \<^item> The workflows. \<open>WorkflowSteps\<close>: what they share (\<open>workflow/instance_shape.go\<close>, \<open>region.go\<close>,
    \<open>execution_contract.go\<close> and the helpers of \<open>stop_instance.go\<close>, \<open>resize_disk.go\<close>).
    \<open>InstanceWorkflows\<close>: stop, reboot, rename, start and the cancellation of a scheduled stop.
    \<open>PortWorkflow\<close>: \<open>update_instance_ports.go\<close>. \<open>DiskWorkflows\<close>: \<open>create_disk.go\<close>,
    \<open>resize_disk.go\<close>, \<open>reset_password.go\<close>. \<open>BillingWorkflows\<close>: \<open>switch_charge_type.go\<close>,
    \<open>resize_instance.go\<close>. \<open>ScheduleWorkflow\<close>: \<open>scheduler.go\<close>, over \<open>GoTime\<close>, the calendar, the
    parsers and the saturating arithmetic of Go's \<open>time\<close>. \<open>CatalogWorkflows\<close>:
    \<open>net_optimizer.go\<close>, \<open>cfs.go\<close>, \<open>clone_custom_image.go\<close>. \<open>ImageWorkflows\<close>:
    \<open>create_custom_image.go\<close>, \<open>reinstall_instance.go\<close>. The creation of an instance:
    \<open>CreateDraft\<close>: \<open>create_draft.go\<close>, \<open>create_instance_price.go\<close>, what is sealed; \<open>GpuInventory\<close>:
    \<open>deployment/gpu_inventory.go\<close>; \<open>CreateImages\<close>: \<open>deployment/image_taxonomy.go\<close>,
    \<open>create_instance_placement.go\<close> and the image decision; \<open>CreateInstance\<close>: \<open>create_instance.go\<close>,
    \<open>create_instance_form_options.go\<close>, \<open>create_instance_readback.go\<close>. \<open>Registry\<close>: \<open>registry.go\<close>, the table of all
    of them. \<open>InstanceProtocols\<close>, \<open>PortProps\<close>: what a run of a workflow has checked before it
    writes, through the protocol. \<open>GatedWrites\<close>: the general lemma on workflows that query, show
    one card and write once; \<open>BillingProps\<close>, \<open>DiskProps\<close>, \<open>ScheduleProps\<close>: its consequences for
    those workflows. \<open>SealedWrites\<close>: what holds when a card that may be edited, and is then computed
    anew, is accepted; \<open>CreateProps\<close>: its consequence for the creation. \<open>RegistryProps\<close>: what holds of every registered workflow.
  \<^item> The resolver. \<open>Catalogs\<close>: \<open>deployment/zone_catalog.go\<close>, \<open>image_catalog.go\<close>. \<open>ImageResolve\<close>:
    \<open>deployment/image_resolve.go\<close>. \<open>ActionResolver\<close>, \<open>ActionResolverProps\<close>: \<open>actionresolver/\<close>.
  \<^item> \<open>Planner\<close>: what a creation or a resize asks the platform and reads of its answers
    (\<open>deployment/planner.go\<close>, \<open>disks.go\<close>, \<open>workflow/capacity_specs.go\<close>).
  \<^item> The entity registry. \<open>EntityRegistry\<close>, \<open>EntityProps\<close>: \<open>entity/\<close>, what the session has seen of the
    account, how a mention resolves and when a miss may be called an absence.
  \<^item> The executor. \<open>Security\<close>: \<open>security/levels.go\<close>; \<open>ToolPolicy\<close>: \<open>tools/policies.go\<close>; \<open>Zones\<close>:
    \<open>zones/catalog.go\<close>; \<open>SafeExecutor\<close>, \<open>SafeExecutorFacts\<close>, \<open>SafeExecutorProps\<close>:
    \<open>tools/safe_executor.go\<close>.
  \<^item> The server side. \<open>RateLimit\<close>: \<open>governance/ratelimit.go\<close>; \<open>Pool\<close>: \<open>agentpool/pool.go\<close>;
    \<open>ConfirmBroker\<close>: \<open>httpapi/confirm_broker.go\<close>.

  \<^bold>\<open>Parameters.\<close> The external executor, the confirmation callback and the context's deadline are
  the environment of a run (\<open>env\<close>), a state machine over a world of any type; the digest of the
  seal, the generator of confirmation ids and the callbacks of a workflow definition are
  arguments of the definitions that use them. What the code relies on (an injective id
  generator, a monotone clock, a digest without collisions) is a named hypothesis where it is
  needed.

  \<^bold>\<open>Bounds and fuel.\<close> No definition takes fuel. The poll loop ends because a wait advances the
  clock by at least one nanosecond towards a deadline fixed when it starts; the confirmation loop
  because the number of edits is capped (\<open>max_confirm_edits\<close>); eviction because each round drops an
  entry. Time is a number of nanoseconds.

  \<^bold>\<open>Conventions.\<close> A Go string is a byte string. The source's Chinese step names, card keys and
  sentences are English glosses: the program compares the names and keys for equality only and
  never inspects a sentence, and distinct names have distinct glosses. A \<open>float64\<close> is an exact
  rational, an infinity or NaN: rounding is not modelled, so a property that depends on it is not
  stated. A deep copy is the identity, since HOL values are not shared.

  \<^bold>\<open>Not modelled.\<close> The conversation engine around the language model and its prompts, the
  read-only projections and the renderings of API answers, the HTTP, SSE, WebSocket and chat
  transports, SQL, retrieval, logging, configuration and the signed HTTP client: input and output
  or text generation. The guided form of the creation and the guardrails are program logic that is left for later.
\<close>

end
